(* ===== verification/Prelude.thy ===== *)
theory Prelude
  imports Main "HOL-Library.Word" "HOL-Library.Signed_Division"
begin

text \<open>
  The vocabulary every component shares: Go's machine integers as signed words, Go strings as byte
  lists with the library functions the program calls on them (\<^verbatim>\<open>strings.TrimSpace\<close>,
  \<^verbatim>\<open>ToUpper\<close>, \<^verbatim>\<open>ToLower\<close>), instants, identifiers, unrendered messages and the
  result type. The \<open>named_theorems\<close> collections carry the automation of the later theories:
  \<open>go_arith\<close> moves signed words to the integers, \<open>go_result\<close> inverts successful
  computations, and \<open>go_eval\<close> holds the definitions a concrete run has to unfold.
\<close>

named_theorems go_arith \<open>signed machine arithmetic, moved to the integers\<close>
named_theorems go_result \<open>inversion of successful and failed results\<close>
named_theorems go_eval \<open>definitions unfolded when a concrete run is evaluated\<close>

section \<open>Machine integers\<close>

type_synonym int64 = "64 word"
type_synonym int32 = "32 word"

text \<open>\<^verbatim>\<open>math.MaxInt64\<close> and \<^verbatim>\<open>math.MinInt64\<close>.\<close>

abbreviation (input) MaxInt64 :: int64 where
  "MaxInt64 \<equiv> 9223372036854775807"

abbreviation (input) MinInt64 :: int64 where
  "MinInt64 \<equiv> 9223372036854775808"

text \<open>Go's integer division truncates towards zero; the caller has checked the divisor.\<close>

definition quot64 :: "int64 \<Rightarrow> int64 \<Rightarrow> int64" where
  "quot64 a b = word_of_int (sint a sdiv sint b)"

definition rem64 :: "int64 \<Rightarrow> int64 \<Rightarrow> int64" where
  "rem64 a b = word_of_int (sint a smod sint b)"

lemma sint64_bounds [go_arith]:
  fixes a :: int64
  shows "- 9223372036854775808 \<le> sint a" and "sint a \<le> 9223372036854775807"
  using sint_greater_eq [of a] sint_less [of a] by simp_all

lemma sless64_iff [go_arith]: "(a <s b) = (sint a < sint (b :: int64))"
  by (simp add: word_sless_alt)

lemma sle64_iff [go_arith]: "(a \<le>s b) = (sint a \<le> sint (b :: int64))"
  by (simp add: word_sle_eq)

lemma sint64_of_int:
  "sint (word_of_int k :: int64) = (k + 9223372036854775808) mod 18446744073709551616 - 9223372036854775808"
  by (simp add: sint_sbintrunc' signed_take_bit_eq_take_bit_shift take_bit_eq_mod)

lemma sint64_of_int_id [go_arith]:
  "- 9223372036854775808 \<le> k \<Longrightarrow> k \<le> 9223372036854775807 \<Longrightarrow> sint (word_of_int k :: int64) = k"
  by (simp add: sint64_of_int)

lemma sint64_add:
  "sint (a + b :: int64) =
    (sint a + sint b + 9223372036854775808) mod 18446744073709551616 - 9223372036854775808"
  by (simp add: sint_word_ariths signed_take_bit_eq_take_bit_shift take_bit_eq_mod)

lemma sint64_mult:
  "sint (a * b :: int64) =
    (sint a * sint b + 9223372036854775808) mod 18446744073709551616 - 9223372036854775808"
  by (simp add: sint_word_ariths signed_take_bit_eq_take_bit_shift take_bit_eq_mod)

lemma sint64_uminus:
  "sint (- a :: int64) = (- sint a + 9223372036854775808) mod 18446744073709551616 - 9223372036854775808"
  by (simp add: sint_word_ariths signed_take_bit_eq_take_bit_shift take_bit_eq_mod)

lemma wrap64_id:
  "- 9223372036854775808 \<le> (k :: int) \<Longrightarrow> k \<le> 9223372036854775807 \<Longrightarrow>
   (k + 9223372036854775808) mod 18446744073709551616 - 9223372036854775808 = k"
  by simp

lemma sint64_eq_iff: "(a = b) = (sint a = sint (b :: int64))"
  by (auto intro: signed_word_eqI)

section \<open>Identifiers and instants\<close>

text \<open>
  \<^verbatim>\<open>uuid.UUID\<close> is sixteen bytes compared as an unsigned big-endian value, and
  \<^verbatim>\<open>uuid.Nil\<close> is zero. An instant is a number of microseconds since the zero
  \<^verbatim>\<open>time.Time\<close> (1 January of year 1, UTC): microseconds are the resolution of the
  \<^verbatim>\<open>timestamptz\<close> columns, and \<^verbatim>\<open>Truncate\<close> rounds down from that zero.
\<close>

type_synonym uuid = "128 word"
type_synonym time = int
type_synonym duration = int

abbreviation (input) nil_uuid :: uuid where
  "nil_uuid \<equiv> 0"

abbreviation (input) zero_time :: time where
  "zero_time \<equiv> 0"

definition second :: duration where
  "second = 1000000"

definition day :: duration where
  "day = 86400000000"

definition truncate_to :: "duration \<Rightarrow> time \<Rightarrow> time" where
  "truncate_to d t = t - t mod d"

lemma truncate_to_le: "0 < d \<Longrightarrow> truncate_to d t \<le> t"
  by (simp add: truncate_to_def)

lemma truncate_to_idem [simp]: "truncate_to d (truncate_to d t) = truncate_to d t"
  by (simp add: truncate_to_def minus_mod_eq_mult_div)

lemma truncate_to_dvd [simp]: "d dvd truncate_to d t"
  by (simp add: truncate_to_def minus_mod_eq_mult_div)

lemma truncate_to_gap: "0 < d \<Longrightarrow> t - truncate_to d t < d"
  by (simp add: truncate_to_def)

lemma truncate_to_mono:
  assumes "0 < d" "a \<le> b"
  shows "truncate_to d a \<le> truncate_to d b"
proof -
  have "d * (a div d) \<le> d * (b div d)" using assms by (simp add: zdiv_mono1)
  then show ?thesis by (simp only: truncate_to_def minus_mod_eq_mult_div)
qed

lemma day_pos [simp]: "0 < day" and second_pos [simp]: "0 < second"
  by (simp_all add: day_def second_def)

section \<open>Strings\<close>

text \<open>
  A Go string is a byte sequence, here a list of (8-bit) characters, so \<^verbatim>\<open>len\<close> is
  \<^const>\<open>length\<close>. \<^verbatim>\<open>strings.TrimSpace\<close> removes the UTF-8 encodings of the Unicode
  white space characters from both ends; \<open>go_spaces\<close> lists those encodings.
\<close>

definition go_spaces :: "string list" where
  "go_spaces =
    [[CHR 0x09], [CHR 0x0A], [CHR 0x0B], [CHR 0x0C], [CHR 0x0D], [CHR 0x20],
     [CHR 0xC2, CHR 0x85], [CHR 0xC2, CHR 0xA0], [CHR 0xE1, CHR 0x9A, CHR 0x80],
     [CHR 0xE2, CHR 0x80, CHR 0x80], [CHR 0xE2, CHR 0x80, CHR 0x81], [CHR 0xE2, CHR 0x80, CHR 0x82],
     [CHR 0xE2, CHR 0x80, CHR 0x83], [CHR 0xE2, CHR 0x80, CHR 0x84], [CHR 0xE2, CHR 0x80, CHR 0x85],
     [CHR 0xE2, CHR 0x80, CHR 0x86], [CHR 0xE2, CHR 0x80, CHR 0x87], [CHR 0xE2, CHR 0x80, CHR 0x88],
     [CHR 0xE2, CHR 0x80, CHR 0x89], [CHR 0xE2, CHR 0x80, CHR 0x8A], [CHR 0xE2, CHR 0x80, CHR 0xA8],
     [CHR 0xE2, CHR 0x80, CHR 0xA9], [CHR 0xE2, CHR 0x80, CHR 0xAF], [CHR 0xE2, CHR 0x81, CHR 0x9F],
     [CHR 0xE3, CHR 0x80, CHR 0x80]]"

definition match_prefix :: "string list \<Rightarrow> string \<Rightarrow> nat" where
  "match_prefix ps s =
    (case List.find (\<lambda>p. p \<noteq> [] \<and> take (length p) s = p) ps of None \<Rightarrow> 0 | Some p \<Rightarrow> length p)"

lemma match_prefix_0_iff:
  "match_prefix ps s = 0 \<longleftrightarrow> (\<forall>p \<in> set ps. p \<noteq> [] \<longrightarrow> take (length p) s \<noteq> p)"
proof (cases "List.find (\<lambda>p. p \<noteq> [] \<and> take (length p) s = p) ps")
  case None
  then have "\<forall>p \<in> set ps. p \<noteq> [] \<longrightarrow> take (length p) s \<noteq> p" by (auto simp: find_None_iff)
  with None show ?thesis by (simp add: match_prefix_def)
next
  case (Some p)
  then have "p \<in> set ps" "p \<noteq> []" "take (length p) s = p"
    by (auto simp: find_Some_iff)
  with Some show ?thesis by (auto simp: match_prefix_def)
qed

lemma match_prefix_pos: "match_prefix ps s \<noteq> 0 \<Longrightarrow> s \<noteq> []"
  by (auto simp: match_prefix_0_iff)

lemma match_prefix_take: "match_prefix ps s = 0 \<Longrightarrow> match_prefix ps (take k s) = 0"
  unfolding match_prefix_0_iff by (metis length_take min.absorb_iff1 min.cobounded2 take_take)

function strip_left :: "string list \<Rightarrow> string \<Rightarrow> string" where
  "strip_left ps s = (if match_prefix ps s = 0 then s else strip_left ps (drop (match_prefix ps s) s))"
  by pat_completeness auto
termination
  by (relation "measure (\<lambda>(ps, s). length s)") (use match_prefix_pos in \<open>auto simp: length_greater_0_conv\<close>)

declare strip_left.simps [simp del]

lemma match_prefix_strip_left [simp]: "match_prefix ps (strip_left ps s) = 0"
  by (induction ps s rule: strip_left.induct) (subst strip_left.simps, simp)

lemma strip_left_id: "match_prefix ps s = 0 \<Longrightarrow> strip_left ps s = s"
  by (simp add: strip_left.simps)

lemma strip_left_suffix: "\<exists>n. strip_left ps s = drop n s"
proof (induction ps s rule: strip_left.induct)
  case (1 ps s)
  show ?case
  proof (cases "match_prefix ps s = 0")
    case True
    then have "strip_left ps s = drop 0 s" by (simp add: strip_left_id)
    then show ?thesis by blast
  next
    case False
    with 1 obtain n where "strip_left ps (drop (match_prefix ps s) s) = drop (n + match_prefix ps s) s"
      by auto
    with False show ?thesis by (metis strip_left.simps)
  qed
qed

definition TrimSpace :: "string \<Rightarrow> string" where
  "TrimSpace s = rev (strip_left (map rev go_spaces) (rev (strip_left go_spaces s)))"

lemma trim_prefix: "\<exists>n. rev (strip_left ps (rev s)) = take n s"
proof -
  obtain n where "strip_left ps (rev s) = drop n (rev s)" using strip_left_suffix by blast
  then have "rev (strip_left ps (rev s)) = take (length s - n) s" by (simp add: rev_drop)
  then show ?thesis by blast
qed

lemma TrimSpace_length: "length (TrimSpace s) \<le> length s"
proof -
  obtain n where l: "strip_left go_spaces s = drop n s" using strip_left_suffix by blast
  obtain m where "TrimSpace s = take m (strip_left go_spaces s)"
    using trim_prefix by (metis TrimSpace_def)
  with l show ?thesis by simp
qed

lemma TrimSpace_idem [simp]: "TrimSpace (TrimSpace s) = TrimSpace s"
proof -
  obtain m where m: "TrimSpace s = take m (strip_left go_spaces s)"
    using trim_prefix by (metis TrimSpace_def)
  have "match_prefix go_spaces (TrimSpace s) = 0"
    by (simp add: m match_prefix_take)
  then have "strip_left go_spaces (TrimSpace s) = TrimSpace s" by (rule strip_left_id)
  then show ?thesis by (simp add: TrimSpace_def strip_left_id)
qed

lemma TrimSpace_Nil [simp]: "TrimSpace [] = []"
  using TrimSpace_length [of "[]"] by simp

text \<open>
  \<^verbatim>\<open>strings.ToUpper\<close> and \<^verbatim>\<open>ToLower\<close> map ASCII letters directly; any other string goes
  through Go's Unicode tables, which are the parameter \<open>u\<close> of the two functions.
\<close>

definition is_ascii :: "string \<Rightarrow> bool" where
  "is_ascii s = list_all (\<lambda>c. of_char c < (128 :: nat)) s"

definition upper_char :: "char \<Rightarrow> char" where
  "upper_char c = (if 97 \<le> (of_char c :: nat) \<and> of_char c \<le> (122 :: nat)
    then char_of (of_char c - 32 :: nat) else c)"

definition lower_char :: "char \<Rightarrow> char" where
  "lower_char c = (if 65 \<le> (of_char c :: nat) \<and> of_char c \<le> (90 :: nat)
    then char_of (of_char c + 32 :: nat) else c)"

definition ToUpper :: "(string \<Rightarrow> string) \<Rightarrow> string \<Rightarrow> string" where
  "ToUpper u s = (if is_ascii s then map upper_char s else u s)"

definition ToLower :: "(string \<Rightarrow> string) \<Rightarrow> string \<Rightarrow> string" where
  "ToLower u s = (if is_ascii s then map lower_char s else u s)"

text \<open>
  The length of \<^verbatim>\<open>[]rune(s)\<close>: the decoder takes the well-formed UTF-8 sequence at the front, and a
  byte that starts none counts as one (replacement) rune of its own.
\<close>

definition byte_in :: "nat \<Rightarrow> nat \<Rightarrow> string \<Rightarrow> nat \<Rightarrow> bool" where
  "byte_in lo hi s i = (i < length s \<and> lo \<le> of_char (s ! i) \<and> of_char (s ! i) \<le> hi)"

definition rune_width :: "string \<Rightarrow> nat" where
  "rune_width s =
    (let cont = byte_in 0x80 0xBF s in
     if byte_in 0xC2 0xDF s 0 \<and> cont 1 then 2
     else if byte_in 0xE0 0xE0 s 0 \<and> byte_in 0xA0 0xBF s 1 \<and> cont 2 then 3
     else if byte_in 0xED 0xED s 0 \<and> byte_in 0x80 0x9F s 1 \<and> cont 2 then 3
     else if (byte_in 0xE1 0xEC s 0 \<or> byte_in 0xEE 0xEF s 0) \<and> cont 1 \<and> cont 2 then 3
     else if byte_in 0xF0 0xF0 s 0 \<and> byte_in 0x90 0xBF s 1 \<and> cont 2 \<and> cont 3 then 4
     else if byte_in 0xF1 0xF3 s 0 \<and> cont 1 \<and> cont 2 \<and> cont 3 then 4
     else if byte_in 0xF4 0xF4 s 0 \<and> byte_in 0x80 0x8F s 1 \<and> cont 2 \<and> cont 3 then 4
     else 1)"

lemma rune_width_pos: "0 < rune_width s"
  by (simp add: rune_width_def Let_def)

function rune_count :: "string \<Rightarrow> nat" where
  "rune_count s = (if s = [] then 0 else Suc (rune_count (drop (rune_width s) s)))"
  by pat_completeness auto
termination
  by (relation "measure length") (use rune_width_pos in auto)

declare rune_count.simps [simp del]

lemma rune_count_0_iff [simp]: "rune_count s = 0 \<longleftrightarrow> s = []"
  by (simp add: rune_count.simps [of s])

lemma rune_count_le: "rune_count s \<le> length s"
proof (induction s rule: rune_count.induct)
  case (1 s)
  show ?case
  proof (cases "s = []")
    case False
    then have "rune_count s = Suc (rune_count (drop (rune_width s) s))" by (simp add: rune_count.simps [of s])
    also have "\<dots> \<le> Suc (length s - rune_width s)" using 1 False by simp
    also have "\<dots> \<le> length s" using rune_width_pos [of s] False by (cases s) auto
    finally show ?thesis .
  qed (simp add: rune_count.simps)
qed

text \<open>On ASCII text a rune is a byte.\<close>

lemma rune_width_ascii: "(of_char (hd s) :: nat) < 128 \<Longrightarrow> s \<noteq> [] \<Longrightarrow> rune_width s = 1"
  by (cases s) (simp_all add: rune_width_def byte_in_def Let_def)

lemma rune_count_ascii: "is_ascii s \<Longrightarrow> rune_count s = length s"
proof (induction s)
  case (Cons c s)
  then have "rune_width (c # s) = 1" by (intro rune_width_ascii) (simp_all add: is_ascii_def)
  then show ?case using Cons by (simp add: rune_count.simps [of "c # s"] is_ascii_def)
qed simp

text \<open>
  A message built by \<^verbatim>\<open>fmt.Sprintf\<close> or \<^verbatim>\<open>fmt.Errorf\<close> is kept as its format and its
  arguments; nothing in the program branches on the rendered text.
\<close>

datatype msg = Text string | Fmt string "string list"

section \<open>Results\<close>

text \<open>A Go \<^verbatim>\<open>(T, error)\<close> pair is a sum: \<open>Inl\<close> the error, \<open>Inr\<close> the value.\<close>

type_synonym ('e, 'a) res = "'e + 'a"

definition bind_res :: "('e, 'a) res \<Rightarrow> ('a \<Rightarrow> ('e, 'b) res) \<Rightarrow> ('e, 'b) res" where
  "bind_res r f = (case r of Inl e \<Rightarrow> Inl e | Inr x \<Rightarrow> f x)"

lemma bind_res_simps [simp]:
  "bind_res (Inl e) f = Inl e"
  "bind_res (Inr x) f = f x"
  by (simp_all add: bind_res_def)

lemma bind_res_Inr [go_result]: "bind_res r f = Inr y \<longleftrightarrow> (\<exists>x. r = Inr x \<and> f x = Inr y)"
  by (simp add: bind_res_def split: sum.splits)

lemma bind_res_Inl [go_result]:
  "bind_res r f = Inl e \<longleftrightarrow> r = Inl e \<or> (\<exists>x. r = Inr x \<and> f x = Inl e)"
  by (auto simp: bind_res_def split: sum.splits)

text \<open>\<^verbatim>\<open>if cond { return err }\<close>: the early return that every guard of the program is.\<close>

definition fail_if :: "bool \<Rightarrow> 'e \<Rightarrow> ('e, unit) res" where
  "fail_if c e = (if c then Inl e else Inr ())"

lemma fail_if_simps [simp]:
  "fail_if True e = Inl e"
  "fail_if False e = Inr ()"
  by (simp_all add: fail_if_def)

lemma fail_if_Inr [go_result]: "fail_if c e = Inr u \<longleftrightarrow> \<not> c"
  by (simp add: fail_if_def)

lemma fail_if_Inl [go_result]: "fail_if c e = Inl e' \<longleftrightarrow> c \<and> e' = e"
  by (auto simp: fail_if_def)

end
