(* ===== verification/Errors.thy ===== *)
theory Errors
  imports Prelude
begin

text \<open>
  The error vocabulary (\<^verbatim>\<open>internal/domain/shared/errors.go\<close> and the sentinels the other
  packages declare). An \<^verbatim>\<open>error\<close> value is a \<open>datatype\<close> with one constructor per concrete
  error type of the program; \<open>errors_is\<close> is \<^verbatim>\<open>errors.Is\<close>, following the
  \<^verbatim>\<open>Unwrap\<close> method of each type. The \<^verbatim>\<open>Validator\<close> accumulates field errors.
\<close>

text \<open>Sentinels, one per \<^verbatim>\<open>errors.New\<close> variable.\<close>

datatype sentinel =
    ErrNotFound | ErrConflict | ErrValidation | ErrForbidden | ErrTenantMismatch
  | ErrNoTenantContext | ErrStaleWrite
  | ErrPolicyViolation | ErrAlreadyMaterialised | ErrDuplicateDelivery | ErrStaleEvent
  | ErrCredentials | ErrTokenReuse | ErrExportTooLarge | ErrStorageDisabled
  | ErrTokenInvalid | ErrTokenExpired | ErrPasswordMismatch
  | ErrSignatureMissing | ErrSignatureInvalid | ErrSignatureExpired
  | ErrGatewayUnavailable | ErrGatewayRejected | ErrGatewayNotFound
  | ErrStorageNotFound | ErrStorageUnavailable | ErrNoSubject

record FieldError =
  Field :: string
  Detail :: msg

text \<open>\<^verbatim>\<open>pgconn.PgError\<close>: the SQLSTATE, the constraint and the message of a database refusal.\<close>

record PgError =
  Code :: string
  ConstraintName :: string
  Message :: string

text \<open>\<^verbatim>\<open>ErrPlanLimit\<close> of \<^verbatim>\<open>service/org_service.go\<close>.\<close>

record PlanLimit =
  Singular :: string
  Plural :: string
  pl_Limit :: int
  pl_Current :: int
  pl_Plan :: string

datatype err =
    Sentinel sentinel
  | Wrap sentinel msg
  | FieldErr FieldError
  | FieldErrs "FieldError list"
  | TransitionError string string string
  | AuthorizationError string msg
  | ErrPlanLimit PlanLimit
  | NoRows
  | PgErr PgError
  | Opaque msg

text \<open>
  \<^verbatim>\<open>errors.Is\<close>. \<^verbatim>\<open>FieldError\<close> and \<^verbatim>\<open>FieldErrors\<close> unwrap to \<^verbatim>\<open>ErrValidation\<close>,
  \<^verbatim>\<open>TransitionError\<close> to \<^verbatim>\<open>ErrConflict\<close>, \<^verbatim>\<open>AuthorizationError\<close> to \<^verbatim>\<open>ErrForbidden\<close>.
\<close>

fun errors_is :: "err \<Rightarrow> sentinel \<Rightarrow> bool" where
  "errors_is (Sentinel s) t = (s = t)"
| "errors_is (Wrap s m) t = (s = t)"
| "errors_is (FieldErr f) t = (t = ErrValidation)"
| "errors_is (FieldErrs fs) t = (t = ErrValidation)"
| "errors_is (TransitionError st action reason) t = (t = ErrConflict)"
| "errors_is (AuthorizationError action reason) t = (t = ErrForbidden)"
| "errors_is (ErrPlanLimit p) t = False"
| "errors_is NoRows t = False"
| "errors_is (PgErr p) t = False"
| "errors_is (Opaque m) t = False"

lemma errors_is_unique: "errors_is e s \<Longrightarrow> errors_is e t \<Longrightarrow> s = t"
  by (cases e) auto

section \<open>The validator\<close>

type_synonym Validator = "FieldError list"

definition Add :: "Validator \<Rightarrow> string \<Rightarrow> msg \<Rightarrow> Validator" where
  "Add v field detail = v @ [\<lparr>Field = field, Detail = detail\<rparr>]"

definition Err :: "Validator \<Rightarrow> (err, unit) res" where
  "Err v = (if v = [] then Inr () else Inl (FieldErrs v))"

definition add_if :: "bool \<Rightarrow> string \<Rightarrow> string \<Rightarrow> Validator \<Rightarrow> Validator" where
  "add_if c field detail v = (if c then Add v field (Text detail) else v)"

lemma Err_Inr [go_result]: "Err v = Inr u \<longleftrightarrow> v = []"
  by (simp add: Err_def)

lemma Err_Inl [go_result]: "Err v = Inl e \<longleftrightarrow> v \<noteq> [] \<and> e = FieldErrs v"
  by (auto simp: Err_def)

lemma Err_Nil [simp]: "Err [] = Inr ()"
  by (simp add: Err_def)

lemma add_if_Nil [simp, go_result]: "add_if c f d v = [] \<longleftrightarrow> \<not> c \<and> v = []"
  by (simp add: add_if_def Add_def)

lemma add_if_False [simp]: "add_if False f d v = v"
  by (simp add: add_if_def)

lemma add_if_True [simp]: "add_if True f d v = v @ [\<lparr>Field = f, Detail = Text d\<rparr>]"
  by (simp add: add_if_def Add_def)

text \<open>A failed validation is always a validation error, whatever the fields.\<close>

lemma Err_is_validation: "Err v = Inl e \<Longrightarrow> errors_is e ErrValidation"
  by (auto simp: go_result)

end
