(* ===== verification/Money.thy ===== *)
theory Money
  imports Errors
begin

text \<open>
  \<^verbatim>\<open>internal/domain/shared/money.go\<close>: currencies and exact amounts in minor units, with the
  64-bit arithmetic of the code. The theorems say when the overflow checks are right, and exhibit
  the inputs on which they are not.
\<close>

section \<open>Currency\<close>

type_synonym Currency = string

definition Exponent :: "Currency \<Rightarrow> nat" where
  "Exponent c =
    (if c \<in> {''JPY'', ''KRW'', ''VND'', ''CLP'', ''ISK'', ''UGX'', ''XAF'', ''XOF'', ''XPF''} then 0
     else if c \<in> {''BHD'', ''IQD'', ''JOD'', ''KWD'', ''LYD'', ''OMR'', ''TND''} then 3
     else 2)"

definition Currency_Valid :: "Currency \<Rightarrow> bool" where
  "Currency_Valid c =
    (length c = 3 \<and> list_all (\<lambda>b. (of_char CHR ''A'' :: nat) \<le> of_char b \<and> of_char b \<le> (of_char CHR ''Z'' :: nat)) c)"

definition ParseCurrency :: "(string \<Rightarrow> string) \<Rightarrow> string \<Rightarrow> (err, Currency) res" where
  "ParseCurrency u s =
    (let c = ToUpper u (TrimSpace s) in
     if \<not> Currency_Valid c
     then Inl (FieldErr \<lparr>Field = ''currency'', Detail = Text ''must be a three-letter ISO 4217 code''\<rparr>)
     else Inr c)"

section \<open>Money\<close>

record Money =
  Minor :: int64
  Currency :: Currency

definition IsZero :: "Money \<Rightarrow> bool" where
  "IsZero m = (Minor m = 0)"

definition IsPositive :: "Money \<Rightarrow> bool" where
  "IsPositive m = (0 <s Minor m)"

definition Money_Add :: "Money \<Rightarrow> Money \<Rightarrow> (err, Money) res" where
  "Money_Add m other =
    (if Currency m \<noteq> Currency other
     then Inl (Wrap ErrValidation (Fmt ''cannot add %s to %s'' [Currency other, Currency m]))
     else
       let sum = Minor m + Minor other in
       if (0 <s Minor m \<and> 0 <s Minor other \<and> sum <s 0) \<or> (Minor m <s 0 \<and> Minor other <s 0 \<and> 0 <s sum)
       then Inl (Wrap ErrValidation (Text ''amount overflows int64''))
       else Inr \<lparr>Minor = sum, Currency = Currency m\<rparr>)"

definition Money_Sub :: "Money \<Rightarrow> Money \<Rightarrow> (err, Money) res" where
  "Money_Sub m other = Money_Add m \<lparr>Minor = - Minor other, Currency = Currency other\<rparr>"

definition abs64 :: "int64 \<Rightarrow> int64" where
  "abs64 v = (if v <s 0 then (if v = MinInt64 then MaxInt64 else - v) else v)"

definition MulBasisPoints :: "Money \<Rightarrow> int64 \<Rightarrow> (err, Money) res" where
  "MulBasisPoints m bps =
    (if bps <s 0 then Inl (Wrap ErrValidation (Text ''basis points must not be negative''))
     else if Minor m \<noteq> 0 \<and> quot64 MaxInt64 (abs64 (Minor m)) <s bps
     then Inl (Wrap ErrValidation (Text ''amount overflows int64''))
     else
       let product = Minor m * bps;
           half = (if product <s 0 then - 5000 else 5000)
       in Inr \<lparr>Minor = quot64 (product + half) 10000, Currency = Currency m\<rparr>)"

definition Cmp :: "Money \<Rightarrow> Money \<Rightarrow> (err, int) res" where
  "Cmp m other =
    (if Currency m \<noteq> Currency other
     then Inl (Wrap ErrValidation (Fmt ''cannot compare %s with %s'' [Currency m, Currency other]))
     else if Minor m <s Minor other then Inr (- 1)
     else if Minor other <s Minor m then Inr 1
     else Inr 0)"

text \<open>\<^verbatim>\<open>%d\<close> and \<^verbatim>\<open>%0*d\<close> of a non-negative number.\<close>

fun digits :: "nat \<Rightarrow> string" where
  "digits n = (if n < 10 then [char_of (48 + n)] else digits (n div 10) @ [char_of (48 + n mod 10)])"

declare digits.simps [simp del]

definition pad0 :: "nat \<Rightarrow> string \<Rightarrow> string" where
  "pad0 w s = replicate (w - length s) CHR ''0'' @ s"

text \<open>The loop \<^verbatim>\<open>for i := 0; i < exp; i++ { div *= 10 }\<close>.\<close>

fun pow10_loop :: "nat \<Rightarrow> int64 \<Rightarrow> int64" where
  "pow10_loop 0 d = d"
| "pow10_loop (Suc n) d = pow10_loop n (d * 10)"

definition Money_String :: "Money \<Rightarrow> string" where
  "Money_String m =
    (let exp = Exponent (Currency m);
         neg = Minor m <s 0;
         v = abs64 (Minor m);
         sign = (if neg then ''-'' else [])
     in if exp = 0 then sign @ digits (nat (sint v))
        else
          let d = pow10_loop exp 1;
              whole = quot64 v d;
              frac = rem64 v d
          in sign @ digits (nat (sint whole)) @ ''.'' @ pad0 exp (digits (nat (sint frac))))"

section \<open>Signed quotients\<close>

definition in_int64 :: "int \<Rightarrow> bool" where
  "in_int64 k = (- 9223372036854775808 \<le> k \<and> k \<le> 9223372036854775807)"

lemma in_int64_sint [simp]: "in_int64 (sint (a :: int64))"
  by (simp add: in_int64_def go_arith)

lemma sdiv_pos: "0 < b \<Longrightarrow> a sdiv b = (if 0 \<le> a then a div b else - (- a div b))" for a b :: int
  by (simp add: signed_divide_int_def sgn_if)

lemma smod_pos: "0 < b \<Longrightarrow> 0 \<le> a \<Longrightarrow> a smod b = a mod b" for a b :: int
  by (simp add: signed_modulo_int_def sgn_if)

lemma div_le_self: "0 < b \<Longrightarrow> 0 \<le> a \<Longrightarrow> a div b \<le> a" for a b :: int
  using zdiv_mono2 [of a 1 b] by simp

lemma sint_quot64:
  assumes b: "1 < sint b"
  shows "sint (quot64 a b) = sint a sdiv sint b"
proof -
  have "- (9223372036854775808 :: int) \<le> sint a sdiv sint b \<and> sint a sdiv sint b \<le> 9223372036854775807"
    using b div_le_self [of "sint b" "sint a"] div_le_self [of "sint b" "- sint a"]
      sint64_bounds [of a] pos_imp_zdiv_nonneg_iff [of "sint b" "sint a"]
      pos_imp_zdiv_nonneg_iff [of "sint b" "- sint a"]
    by (auto simp: sdiv_pos)
  then show ?thesis by (simp add: quot64_def go_arith)
qed

lemma sint_quot64_nonneg:
  assumes "0 < sint b" "0 \<le> sint a"
  shows "sint (quot64 a b) = sint a div sint b"
proof -
  have "0 \<le> sint a div sint b \<and> sint a div sint b \<le> 9223372036854775807"
    using assms div_le_self [of "sint b" "sint a"] sint64_bounds [of a]
    by (simp add: pos_imp_zdiv_nonneg_iff)
  then show ?thesis using assms by (simp add: quot64_def sdiv_pos go_arith)
qed

lemma sint_rem64_nonneg:
  assumes "0 < sint b" "0 \<le> sint a"
  shows "sint (rem64 a b) = sint a mod sint b"
proof -
  have "0 \<le> sint a mod sint b \<and> sint a mod sint b \<le> 9223372036854775807"
    using assms pos_mod_bound [of "sint b" "sint a"] sint64_bounds [of b] by (simp del: pos_mod_bound)
  then have "sint (word_of_int (sint a mod sint b) :: int64) = sint a mod sint b"
    by (intro sint64_of_int_id) linarith+
  then show ?thesis using assms by (simp add: rem64_def smod_pos)
qed

lemma sint_abs64: "sint (abs64 v) = (if v = MinInt64 then 9223372036854775807 else \<bar>sint v\<bar>)"
proof (cases "v = MinInt64")
  case True
  then show ?thesis by (simp add: abs64_def word_sless_alt)
next
  case False
  then have "sint v \<noteq> - 9223372036854775808"
    by (auto simp: sint64_eq_iff)
  with False sint64_bounds [of v] show ?thesis
    by (simp add: abs64_def word_sless_alt sint64_uminus wrap64_id)
qed

section \<open>Exactness of the arithmetic\<close>

lemma wrap64_above:
  fixes k :: int
  assumes "9223372036854775807 < k" "k \<le> 27670116110564327423"
  shows "(k + 9223372036854775808) mod 18446744073709551616 = k - 9223372036854775808"
proof -
  have "(k + 9223372036854775808) mod 18446744073709551616 =
      (k - 9223372036854775808 + 18446744073709551616) mod 18446744073709551616"
    by (simp add: add.commute)
  also have "\<dots> = (k - 9223372036854775808) mod 18446744073709551616" by (rule mod_add_self2)
  also have "\<dots> = k - 9223372036854775808" using assms by (intro mod_pos_pos_trivial) linarith+
  finally show ?thesis .
qed

lemma wrap64_below:
  fixes k :: int
  assumes "k < - 9223372036854775808" "- 27670116110564327424 \<le> k"
  shows "(k + 9223372036854775808) mod 18446744073709551616 = k + 27670116110564327424"
proof -
  have "(k + 9223372036854775808) mod 18446744073709551616 =
      (k + 9223372036854775808 + 18446744073709551616) mod 18446744073709551616"
    by (rule mod_add_self2 [symmetric])
  also have "\<dots> = k + 9223372036854775808 + 18446744073709551616"
    using assms by (intro mod_pos_pos_trivial) linarith+
  finally show ?thesis by simp
qed

lemma sint_add_in_range: "in_int64 (sint a + sint b) \<Longrightarrow> sint (a + b :: int64) = sint a + sint b"
  by (simp add: sint64_add wrap64_id in_int64_def)

lemma sint_mult_in_range: "in_int64 (sint a * sint b) \<Longrightarrow> sint (a * b :: int64) = sint a * sint b"
  by (simp add: sint64_mult wrap64_id in_int64_def)

text \<open>
  The sign test of \<^verbatim>\<open>Add\<close> detects every wrapped sum but one: the sum of two copies of the
  smallest value wraps to zero, which the test reads as "not positive".
\<close>

lemma overflow_test_iff:
  "((0 <s a \<and> 0 <s b \<and> a + b <s 0) \<or> (a <s 0 \<and> b <s 0 \<and> 0 <s a + b)) \<longleftrightarrow>
   \<not> in_int64 (sint a + sint b) \<and> \<not> (a = MinInt64 \<and> b = MinInt64)"
  for a b :: int64
proof -
  let ?s = "sint a + sint b"
  have min: "a = MinInt64 \<and> b = MinInt64 \<longleftrightarrow> ?s = - 18446744073709551616"
    using sint64_bounds [of a] sint64_bounds [of b] by (simp add: sint64_eq_iff) linarith
  have wrap: "sint (a + b) = (if in_int64 ?s then ?s
      else if 0 < ?s then ?s - 18446744073709551616 else ?s + 18446744073709551616)"
  proof (cases "in_int64 ?s")
    case True
    then show ?thesis by (simp add: sint_add_in_range)
  next
    case False
    then consider "9223372036854775807 < ?s" | "?s < - 9223372036854775808"
      by (auto simp: in_int64_def)
    then show ?thesis
      by cases (use False wrap64_above [of ?s] wrap64_below [of ?s] sint64_bounds [of a] sint64_bounds [of b]
        in \<open>simp_all add: sint64_add\<close>)
  qed
  show ?thesis
    unfolding word_sless_alt min wrap using sint64_bounds [of a] sint64_bounds [of b]
    by (auto simp: in_int64_def)
qed

text \<open>
  \<^verbatim>\<open>Money.Add\<close> succeeds exactly on amounts of one currency whose mathematical sum fits
  an \<^verbatim>\<open>int64\<close>, and then returns that sum; the only other success is the sum of two copies of
  \<^verbatim>\<open>math.MinInt64\<close>, which is reported as zero.
\<close>

theorem Money_Add_iff:
  "Money_Add a b = Inr c \<longleftrightarrow>
     Currency a = Currency b \<and> Currency c = Currency a \<and>
     (in_int64 (sint (Minor a) + sint (Minor b)) \<and> sint (Minor c) = sint (Minor a) + sint (Minor b) \<or>
      Minor a = MinInt64 \<and> Minor b = MinInt64 \<and> Minor c = 0)"
proof -
  have both: "Minor a = MinInt64 \<and> Minor b = MinInt64 \<Longrightarrow>
      Minor a + Minor b = 0 \<and> \<not> in_int64 (sint (Minor a) + sint (Minor b))"
    by (simp add: in_int64_def)
  have sum: "in_int64 (sint (Minor a) + sint (Minor b)) \<Longrightarrow>
      sint (Minor c) = sint (Minor a) + sint (Minor b) \<longleftrightarrow> Minor c = Minor a + Minor b"
    by (simp add: sint64_eq_iff sint_add_in_range)
  show ?thesis
    unfolding Money_Add_def Let_def overflow_test_iff using both sum
    by (cases c) (auto split: if_splits)
qed

text \<open>
  A wrapped sum that the sign test misses: adding \<^verbatim>\<open>math.MinInt64\<close> to itself is accepted
  and reported as an amount of zero.
\<close>

theorem Money_Add_misses_overflow:
  "Money_Add \<lparr>Minor = MinInt64, Currency = c\<rparr> \<lparr>Minor = MinInt64, Currency = c\<rparr> =
   Inr \<lparr>Minor = 0, Currency = c\<rparr>"
  by (simp add: Money_Add_def word_sless_alt)

section \<open>Basis points\<close>

lemma quot64_Max:
  assumes "0 < sint a"
  shows "sint (quot64 MaxInt64 a) = 9223372036854775807 div sint a"
  using sint_quot64_nonneg [of a MaxInt64] assms by simp

lemma guarded_product:
  assumes "\<not> (m \<noteq> 0 \<and> quot64 MaxInt64 (abs64 m) <s bps)" "\<not> bps <s 0"
  shows "in_int64 (sint m * sint bps)"
proof (cases "m = 0")
  case True
  then show ?thesis by (simp add: in_int64_def)
next
  case False
  have bps: "0 \<le> sint bps" using assms(2) by (simp add: word_sless_alt)
  have pos: "0 < sint (abs64 m)" using False by (auto simp: sint_abs64 sint64_eq_iff)
  from assms(1) False have "sint bps \<le> 9223372036854775807 div sint (abs64 m)"
    by (simp add: word_sless_alt quot64_Max pos not_less)
  then have "sint (abs64 m) * sint bps \<le> sint (abs64 m) * (9223372036854775807 div sint (abs64 m))"
    using pos by (simp add: mult_left_mono)
  also have "\<dots> = 9223372036854775807 - 9223372036854775807 mod sint (abs64 m)"
    by (rule minus_mod_eq_mult_div [symmetric])
  also have "\<dots> \<le> 9223372036854775807" using pos by simp
  finally have prod: "sint (abs64 m) * sint bps \<le> 9223372036854775807" .
  show ?thesis
  proof (cases "m = MinInt64")
    case True
    with prod have "9223372036854775807 * sint bps \<le> 9223372036854775807" by (simp add: sint_abs64)
    then have "sint bps \<le> 1" by linarith
    with True bps show ?thesis by (auto simp: in_int64_def)
  next
    case False
    with prod bps have "\<bar>sint m * sint bps\<bar> \<le> 9223372036854775807"
      by (simp add: sint_abs64 abs_mult)
    then show ?thesis unfolding in_int64_def by linarith
  qed
qed



text \<open>
  The rounding term is added without a check: scaling the largest amount by one basis point
  passes the overflow guard and returns a negative amount.
\<close>

theorem MulBasisPoints_rounding_overflows:
  "MulBasisPoints \<lparr>Minor = MaxInt64, Currency = c\<rparr> 1 =
   Inr \<lparr>Minor = - 922337203685477, Currency = c\<rparr>"
  by (simp add: MulBasisPoints_def abs64_def quot64_def word_sless_alt signed_divide_int_def)

section \<open>Rendering\<close>

definition undigits :: "string \<Rightarrow> nat" where
  "undigits s = foldl (\<lambda>n c. 10 * n + (of_char c - 48)) 0 s"

definition decimal_value :: "string \<Rightarrow> int" where
  "decimal_value s =
    (if take 1 s = ''-'' then - int (undigits (filter (\<lambda>c. c \<noteq> CHR ''.'') (drop 1 s)))
     else int (undigits (filter (\<lambda>c. c \<noteq> CHR ''.'') s)))"

lemma undigits_snoc [simp]: "undigits (xs @ [c]) = 10 * undigits xs + (of_char c - 48)"
  by (simp add: undigits_def)

lemma undigits_Nil [simp]: "undigits [] = 0"
  by (simp add: undigits_def)

lemma undigits_append: "undigits (xs @ ys) = undigits xs * 10 ^ length ys + undigits ys"
proof (induction ys rule: rev_induct)
  case (snoc y ys)
  then have "undigits (xs @ ys @ [y]) = 10 * (undigits xs * 10 ^ length ys + undigits ys) + (of_char y - 48)"
    by (simp flip: append_assoc)
  then show ?case by simp
qed simp

lemma of_char_digit: "n < 10 \<Longrightarrow> of_char (char_of (48 + n)) = (48 + n :: nat)"
  by (simp add: of_char_of)

lemma undigits_digits [simp]: "undigits (digits n) = n"
proof (induction n rule: digits.induct)
  case (1 n)
  show ?case
  proof (cases "n < 10")
    case True
    then show ?thesis by (simp add: digits.simps [of n] undigits_def of_char_digit)
  next
    case False
    with 1 show ?thesis by (simp add: digits.simps [of n] of_char_digit)
  qed
qed

lemma digits_range: "c \<in> set (digits n) \<Longrightarrow> 48 \<le> (of_char c :: nat) \<and> (of_char c :: nat) < 58"
proof (induction n rule: digits.induct)
  case (1 n)
  then show ?case by (cases "n < 10") (auto simp: digits.simps [of n] of_char_digit)
qed

lemma digits_filter [simp]: "filter (\<lambda>c. c \<noteq> CHR ''.'') (digits n) = digits n"
  by (rule filter_True) (auto dest: digits_range)

lemma digits_nonempty [simp]: "digits n \<noteq> []"
  by (simp add: digits.simps)

lemma digits_no_sign: "take 1 (digits n @ s) \<noteq> ''-''"
proof -
  have "hd (digits n) \<in> set (digits n)" by simp
  from digits_range [OF this] have "hd (digits n) \<noteq> CHR ''-''" by auto
  then show ?thesis by (cases "digits n") (auto simp: digits_nonempty)
qed

lemma undigits_pad0 [simp]: "undigits (pad0 w s) = undigits s"
proof -
  have "undigits (replicate k CHR ''0'') = 0" for k
    by (induction k) (simp_all add: replicate_append_same [symmetric] del: replicate_Suc add: replicate_Suc)
  then show ?thesis unfolding pad0_def undigits_append by simp
qed

lemma pad0_filter [simp]: "filter (\<lambda>c. c \<noteq> CHR ''.'') (pad0 w (digits n)) = pad0 w (digits n)"
  by (simp add: pad0_def)

lemma digits_length: "n < 10 ^ k \<Longrightarrow> 0 < k \<Longrightarrow> length (digits n) \<le> k"
proof (induction n arbitrary: k rule: digits.induct)
  case (1 n)
  show ?case
  proof (cases "n < 10")
    case True
    with 1 show ?thesis by (simp add: digits.simps)
  next
    case False
    with "1.prems" obtain j where k: "k = Suc j" "0 < j"
      by (cases k; cases "k - 1") auto
    with "1.prems" have "n div 10 < 10 ^ j" by simp
    with "1.IH" [OF False] k have "length (digits (n div 10)) \<le> j" by blast
    with False k show ?thesis by (simp add: digits.simps [of n])
  qed
qed

lemma pad0_length: "length s \<le> w \<Longrightarrow> length (pad0 w s) = w"
  by (simp add: pad0_def)

lemma Exponent_cases: "Exponent c = 0 \<or> Exponent c = 2 \<or> Exponent c = 3"
  by (simp add: Exponent_def)

lemma pow10_loop_Exponent:
  "Exponent c \<noteq> 0 \<Longrightarrow> sint (pow10_loop (Exponent c) 1) = 10 ^ Exponent c"
  using Exponent_cases [of c] by (auto simp: numeral_2_eq_2 numeral_3_eq_3)

lemma decimal_value_signed:
  "decimal_value ((if neg then ''-'' else []) @ digits n @ s) =
    (if neg then -1 else 1) * int (undigits (digits n @ filter (\<lambda>c. c \<noteq> CHR ''.'') s))"
  using digits_no_sign [of n s] by (simp add: decimal_value_def)

lemma Money_String_parts:
  assumes "Exponent (Currency m) \<noteq> 0"
  defines "v \<equiv> nat (sint (abs64 (Minor m)))" and "k \<equiv> Exponent (Currency m)"
  shows "Money_String m = (if Minor m <s 0 then ''-'' else []) @ digits (v div 10 ^ k) @ ''.'' @
    pad0 k (digits (v mod 10 ^ k))"
proof -
  have pos: "0 < sint (pow10_loop k 1)" "0 \<le> sint (abs64 (Minor m))"
    using assms(1) by (simp_all add: k_def pow10_loop_Exponent sint_abs64)
  show ?thesis
    using assms(1) unfolding Money_String_def Let_def
    by (simp add: sint_quot64_nonneg [OF pos] sint_rem64_nonneg [OF pos] flip: k_def)
       (use assms(1) pos in \<open>simp add: v_def k_def pow10_loop_Exponent nat_div_distrib nat_mod_distrib nat_power_eq\<close>)
qed

text \<open>
  Rendering loses nothing: reading \<^verbatim>\<open>Money.String()\<close> back as a decimal gives the minor units
  (for every amount but \<^verbatim>\<open>math.MinInt64\<close>), and an amount in a currency with minor units shows
  exactly as many digits after the point as the currency has.
\<close>

theorem Money_String_exact:
  assumes "Minor m \<noteq> MinInt64"
  shows "decimal_value (Money_String m) = sint (Minor m) \<and>
    (Exponent (Currency m) \<noteq> 0 \<longrightarrow>
      (\<exists>w f. Money_String m = w @ ''.'' @ f \<and> length f = Exponent (Currency m)))"
proof (rule conjI)
  let ?v = "nat (sint (abs64 (Minor m)))" and ?k = "Exponent (Currency m)"
  have v: "(if Minor m <s 0 then -1 else 1) * int ?v = sint (Minor m)"
    using assms by (simp add: sint_abs64 word_sless_alt)
  have len: "length (pad0 ?k (digits (?v mod 10 ^ ?k))) = ?k" if "?k \<noteq> 0"
    using that by (intro pad0_length digits_length) simp_all
  show "decimal_value (Money_String m) = sint (Minor m)"
  proof (cases "?k = 0")
    case True
    then have "Money_String m = (if Minor m <s 0 then ''-'' else []) @ digits ?v @ []"
      by (simp add: Money_String_def)
    then show ?thesis using v by (simp only: decimal_value_signed) simp
  next
    case False
    have "undigits (digits (?v div 10 ^ ?k) @ pad0 ?k (digits (?v mod 10 ^ ?k))) = ?v"
      by (simp only: undigits_append undigits_digits undigits_pad0 len [OF False] div_mult_mod_eq)
    then show ?thesis using v unfolding Money_String_parts [OF False]
      by (simp add: decimal_value_signed)
  qed
  show "?k \<noteq> 0 \<longrightarrow> (\<exists>w f. Money_String m = w @ ''.'' @ f \<and> length f = ?k)"
    using Money_String_parts [of m] len by (metis append.assoc)
qed

theorem Money_String_exact_witness:
  "decimal_value (Money_String \<lparr>Minor = - 1250, Currency = ''USD''\<rparr>) = - 1250 \<and>
   (\<exists>w f. Money_String \<lparr>Minor = - 1250, Currency = ''USD''\<rparr> = w @ ''.'' @ f \<and> length f = 2)"
  using Money_String_exact [of "\<lparr>Minor = - 1250, Currency = ''USD''\<rparr>"]
  by (simp add: Exponent_def)

end
