(* ===== verification/Tenant.thy ===== *)
theory Tenant
  imports Money
begin

text \<open>
  \<^verbatim>\<open>internal/domain/tenant\<close>: roles, the permission matrix, organisations, memberships and the
  \<^verbatim>\<open>Actor\<close> every authorisation decision is made about. Go's string enumerations are datatypes
  with one constructor per constant and one for every other string the type admits; the conversion
  \<^verbatim>\<open>Role(s)\<close> is \<open>role_of\<close>.
\<close>

section \<open>Roles (\<^verbatim>\<open>role.go\<close>)\<close>

datatype Role =
    RoleOwner | RoleAdmin | RoleFinance | RoleManager | RoleMember | RoleViewer | RoleOther string

fun role_str :: "Role \<Rightarrow> string" where
  "role_str RoleOwner = ''owner''"
| "role_str RoleAdmin = ''admin''"
| "role_str RoleFinance = ''finance''"
| "role_str RoleManager = ''manager''"
| "role_str RoleMember = ''member''"
| "role_str RoleViewer = ''viewer''"
| "role_str (RoleOther s) = s"

definition AllRoles :: "Role list" where
  "AllRoles = [RoleOwner, RoleAdmin, RoleFinance, RoleManager, RoleMember, RoleViewer]"

definition role_of :: "string \<Rightarrow> Role" where
  "role_of s = (case List.find (\<lambda>r. role_str r = s) AllRoles of Some r \<Rightarrow> r | None \<Rightarrow> RoleOther s)"

fun Role_Valid :: "Role \<Rightarrow> bool" where
  "Role_Valid (RoleOther s) = False"
| "Role_Valid r = True"

text \<open>The \<^verbatim>\<open>for i, candidate := range AllRoles\<close> loop, with its fall-through result.\<close>

fun rank_from :: "nat \<Rightarrow> Role list \<Rightarrow> Role \<Rightarrow> nat" where
  "rank_from i [] r = length AllRoles"
| "rank_from i (c # cs) r = (if c = r then i else rank_from (Suc i) cs r)"

definition Rank :: "Role \<Rightarrow> nat" where
  "Rank r = rank_from 0 AllRoles r"

definition OutranksStrictly :: "Role \<Rightarrow> Role \<Rightarrow> bool" where
  "OutranksStrictly r other = (Rank r < Rank other)"

definition ParseRole :: "string \<Rightarrow> (err, Role) res" where
  "ParseRole s =
    (let role = role_of s in
     if \<not> Role_Valid role
     then Inl (FieldErr \<lparr>Field = ''role'', Detail = Fmt ''%q is not a known role'' [s]\<rparr>)
     else Inr role)"

datatype Permission =
    PermExpenseCreate | PermExpenseSubmit | PermExpenseApprove | PermExpensePay
  | PermExpenseReadOwn | PermExpenseReadTeam | PermExpenseReadAll | PermExpenseDeleteOwn
  | PermDepartmentManage | PermBudgetManage | PermMemberManage | PermVendorSubManage
  | PermReportExport | PermBillingManage | PermTenantManage | PermAuditRead

fun perm_str :: "Permission \<Rightarrow> string" where
  "perm_str PermExpenseCreate = ''expense:create''"
| "perm_str PermExpenseSubmit = ''expense:submit''"
| "perm_str PermExpenseApprove = ''expense:approve''"
| "perm_str PermExpensePay = ''expense:pay''"
| "perm_str PermExpenseReadOwn = ''expense:read:own''"
| "perm_str PermExpenseReadTeam = ''expense:read:team''"
| "perm_str PermExpenseReadAll = ''expense:read:all''"
| "perm_str PermExpenseDeleteOwn = ''expense:delete:own''"
| "perm_str PermDepartmentManage = ''department:manage''"
| "perm_str PermBudgetManage = ''budget:manage''"
| "perm_str PermMemberManage = ''member:manage''"
| "perm_str PermVendorSubManage = ''vendor_sub:manage''"
| "perm_str PermReportExport = ''report:export''"
| "perm_str PermBillingManage = ''billing:manage''"
| "perm_str PermTenantManage = ''tenant:manage''"
| "perm_str PermAuditRead = ''audit:read''"

fun permissions :: "Role \<Rightarrow> Permission list" where
  "permissions RoleOwner =
    [PermExpenseCreate, PermExpenseSubmit, PermExpenseApprove, PermExpensePay,
     PermExpenseReadOwn, PermExpenseReadTeam, PermExpenseReadAll, PermExpenseDeleteOwn,
     PermDepartmentManage, PermBudgetManage, PermMemberManage, PermVendorSubManage,
     PermReportExport, PermBillingManage, PermTenantManage, PermAuditRead]"
| "permissions RoleAdmin =
    [PermExpenseCreate, PermExpenseSubmit, PermExpenseApprove,
     PermExpenseReadOwn, PermExpenseReadTeam, PermExpenseReadAll, PermExpenseDeleteOwn,
     PermDepartmentManage, PermBudgetManage, PermMemberManage, PermVendorSubManage,
     PermReportExport, PermTenantManage, PermAuditRead]"
| "permissions RoleFinance =
    [PermExpenseCreate, PermExpenseSubmit, PermExpensePay,
     PermExpenseReadOwn, PermExpenseReadTeam, PermExpenseReadAll, PermExpenseDeleteOwn,
     PermBudgetManage, PermVendorSubManage, PermReportExport, PermAuditRead]"
| "permissions RoleManager =
    [PermExpenseCreate, PermExpenseSubmit, PermExpenseApprove,
     PermExpenseReadOwn, PermExpenseReadTeam, PermExpenseDeleteOwn,
     PermReportExport]"
| "permissions RoleMember =
    [PermExpenseCreate, PermExpenseSubmit, PermExpenseReadOwn, PermExpenseDeleteOwn]"
| "permissions RoleViewer = [PermExpenseReadOwn, PermExpenseReadTeam]"
| "permissions (RoleOther s) = []"

definition Role_Allows :: "Role \<Rightarrow> Permission \<Rightarrow> bool" where
  "Role_Allows r p = (p \<in> set (permissions r))"

definition DefaultManagerApprovalLimitMinor :: int64 where
  "DefaultManagerApprovalLimitMinor = 500000"

definition UnlimitedApprovalLimitMinor :: int64 where
  "UnlimitedApprovalLimitMinor = - 1"

fun DefaultApprovalLimitMinor :: "Role \<Rightarrow> int64" where
  "DefaultApprovalLimitMinor RoleOwner = UnlimitedApprovalLimitMinor"
| "DefaultApprovalLimitMinor RoleAdmin = UnlimitedApprovalLimitMinor"
| "DefaultApprovalLimitMinor RoleManager = DefaultManagerApprovalLimitMinor"
| "DefaultApprovalLimitMinor _ = 0"

section \<open>Organisations, memberships and actors (\<^verbatim>\<open>tenant.go\<close>)\<close>

datatype TenantStatus = TenantActive | TenantSuspended | TenantCancelled | TenantStatusOther string

datatype MembershipStatus =
  MembershipInvited | MembershipActive | MembershipSuspended | MembershipStatusOther string

record Tenant =
  t_ID :: uuid
  t_Slug :: string
  t_Name :: string
  t_Status :: TenantStatus
  t_DefaultCurrency :: Currency
  t_BillingCustomerRef :: "string option"
  t_CreatedAt :: time
  t_UpdatedAt :: time

record Membership =
  m_ID :: uuid
  m_TenantID :: uuid
  m_UserID :: uuid
  m_Role :: Role
  m_Status :: MembershipStatus
  m_ApprovalLimitMinor :: "int64 option"
  m_DepartmentID :: "uuid option"
  m_InvitedBy :: "uuid option"
  m_CreatedAt :: time
  m_UpdatedAt :: time

record Actor =
  a_TenantID :: uuid
  a_UserID :: uuid
  a_MembershipID :: uuid
  a_Role :: Role
  a_Status :: MembershipStatus
  a_DepartmentID :: "uuid option"
  a_ApprovalLimitMinor :: "int64 option"
  a_TenantStatus :: TenantStatus

definition is_lower :: "char \<Rightarrow> bool" where
  "is_lower c = ((of_char CHR ''a'' :: nat) \<le> of_char c \<and> of_char c \<le> (of_char CHR ''z'' :: nat))"

definition is_digit :: "char \<Rightarrow> bool" where
  "is_digit c = ((of_char CHR ''0'' :: nat) \<le> of_char c \<and> of_char c \<le> (of_char CHR ''9'' :: nat))"

definition validSlug :: "string \<Rightarrow> bool" where
  "validSlug s =
    (if length s < 3 \<or> length s > 40 then False
     else if \<not> list_all (\<lambda>c. is_lower c \<or> is_digit c \<or> c = CHR ''-'') s then False
     else s ! 0 \<noteq> CHR ''-'' \<and> s ! (length s - 1) \<noteq> CHR ''-'')"

text \<open>\<^verbatim>\<open>(t *Tenant) Validate\<close> normalises in place; the result pairs the error with the new value.\<close>

definition Tenant_Validate :: "(string \<Rightarrow> string) \<Rightarrow> Tenant \<Rightarrow> (err, unit) res \<times> Tenant" where
  "Tenant_Validate u t0 =
    (let t = t0\<lparr>t_Slug := ToLower u (TrimSpace (t_Slug t0)), t_Name := TrimSpace (t_Name t0)\<rparr>;
         v1 = add_if (\<not> validSlug (t_Slug t)) ''slug''
           ''must be 3-40 characters of lowercase letters, digits or hyphens, not starting or ending with a hyphen'' [];
         v2 = add_if (length (t_Name t) = 0 \<or> length (t_Name t) > 200) ''name''
           ''must be between 1 and 200 characters'' v1;
         v3 = add_if (\<not> Currency_Valid (t_DefaultCurrency t)) ''default_currency''
           ''must be a three-letter ISO 4217 code'' v2
     in (Err v3, t))"

definition IsOperational :: "Tenant \<Rightarrow> bool" where
  "IsOperational t = (t_Status t = TenantActive)"

definition Active :: "Actor \<Rightarrow> bool" where
  "Active a = (a_Status a = MembershipActive \<and> a_TenantStatus a = TenantActive)"

definition Can :: "Actor \<Rightarrow> Permission \<Rightarrow> bool" where
  "Can a p = (if \<not> Active a then False else Role_Allows (a_Role a) p)"

definition ApprovalCeilingMinor :: "Actor \<Rightarrow> int64" where
  "ApprovalCeilingMinor a =
    (case a_ApprovalLimitMinor a of Some l \<Rightarrow> l | None \<Rightarrow> DefaultApprovalLimitMinor (a_Role a))"

definition WithinApprovalLimit :: "Actor \<Rightarrow> Money \<Rightarrow> bool" where
  "WithinApprovalLimit a amount =
    (let ceiling = ApprovalCeilingMinor a in
     if ceiling <s 0 then True else Minor amount \<le>s ceiling)"

definition GovernsDepartment :: "Actor \<Rightarrow> uuid option \<Rightarrow> bool" where
  "GovernsDepartment a department =
    (case a_DepartmentID a of
       None \<Rightarrow> True
     | Some own \<Rightarrow> (case department of None \<Rightarrow> False | Some d \<Rightarrow> own = d))"

definition SameMembership :: "Actor \<Rightarrow> uuid \<Rightarrow> bool" where
  "SameMembership a i = (a_MembershipID a = i)"

section \<open>The matrix\<close>

lemma Role_Allows_code [go_eval]: "Role_Allows r p = List.member (permissions r) p"
  by (simp add: Role_Allows_def)

lemma role_of_str [simp]: "Role_Valid r \<Longrightarrow> role_of (role_str r) = r"
  by (cases r) (simp_all add: role_of_def AllRoles_def)

lemma role_str_of [simp]: "role_str (role_of s) = s"
  by (auto simp: role_of_def find_Some_iff split: option.splits)

lemma ParseRole_Inr [go_result]: "ParseRole s = Inr r \<longleftrightarrow> Role_Valid r \<and> role_str r = s"
  by (auto simp: ParseRole_def Let_def split: if_splits)

lemma Role_Allows_active: "Can a p \<Longrightarrow> Active a \<and> Role_Allows (a_Role a) p"
  by (simp add: Can_def split: if_splits)

lemma Rank_simps [simp]:
  "Rank RoleOwner = 0" "Rank RoleAdmin = 1" "Rank RoleFinance = 2" "Rank RoleManager = 3"
  "Rank RoleMember = 4" "Rank RoleViewer = 5" "Rank (RoleOther s) = 6"
  by (simp_all add: Rank_def AllRoles_def)

text \<open>
  Approval and settlement are separated by role: every role that can both approve and pay is
  the owner, so for every other role a claim needs two people. (The matrix comment claims that no
  role at all holds both.)
\<close>

theorem approve_and_pay_only_owner:
  "Role_Allows r PermExpenseApprove \<and> Role_Allows r PermExpensePay \<longleftrightarrow> r = RoleOwner"
  by (cases r) (simp_all add: Role_Allows_def)

text \<open>
  The matrix is not monotone in seniority: a viewer may read a team's claims while a member, who
  strictly outranks the viewer, may not.
\<close>

theorem matrix_not_monotone:
  "OutranksStrictly RoleMember RoleViewer \<and> Role_Allows RoleViewer PermExpenseReadTeam \<and>
   \<not> Role_Allows RoleMember PermExpenseReadTeam"
  by (simp add: OutranksStrictly_def Role_Allows_def)

text \<open>
  Administering members is only ever granted to the owner and to admins, and the owner is the one
  role nobody outranks.
\<close>

lemma member_manage_roles: "Role_Allows r PermMemberManage \<longleftrightarrow> r = RoleOwner \<or> r = RoleAdmin"
  by (cases r) (simp_all add: Role_Allows_def)

lemma owner_not_outranked: "\<not> OutranksStrictly r RoleOwner"
  by (simp add: OutranksStrictly_def)

lemma read_all_implies_own: "Role_Allows r PermExpenseReadAll \<Longrightarrow> Role_Allows r PermExpenseReadOwn"
  by (cases r) (simp_all add: Role_Allows_def)

section \<open>Validation against the database's own patterns\<close>

text \<open>
  \<^verbatim>\<open>tenants_slug_format_chk\<close> of migration 00002 is the regular expression
  \<^verbatim>\<open>^[a-z0-9](?:[a-z0-9-]{1,38}[a-z0-9])$\<close>, read here as a decomposition of the string.
\<close>

definition slug_pattern :: "string \<Rightarrow> bool" where
  "slug_pattern s = (\<exists>a m b. s = a # m @ [b] \<and> (is_lower a \<or> is_digit a) \<and> (is_lower b \<or> is_digit b) \<and>
     1 \<le> length m \<and> length m \<le> 38 \<and> (\<forall>c \<in> set m. is_lower c \<or> is_digit c \<or> c = CHR ''-''))"

lemma hyphen_not_alnum [simp]: "\<not> is_lower CHR ''-''" "\<not> is_digit CHR ''-''"
  by (simp_all add: is_lower_def is_digit_def)

lemma split_ends: "2 \<le> length s \<Longrightarrow> \<exists>a m b. s = a # m @ [b]"
  by (metis One_nat_def Suc_1 Suc_le_length_iff append_butlast_last_id length_Suc_conv_rev
      list.distinct(1) list.size(3) not_less_eq_eq zero_order(1))

text \<open>
  \<^verbatim>\<open>validSlug\<close> accepts exactly the slugs the database's \<^verbatim>\<open>CHECK\<close> constraint accepts, so a
  validated slug is never refused by \<^verbatim>\<open>tenants_slug_format_chk\<close>.
\<close>

theorem validSlug_eq_check: "validSlug s = slug_pattern s"
proof
  assume v: "validSlug s"
  then have len: "3 \<le> length s" "length s \<le> 40"
    and ok: "\<forall>c \<in> set s. is_lower c \<or> is_digit c \<or> c = CHR ''-''"
    and ends: "s ! 0 \<noteq> CHR ''-''" "s ! (length s - 1) \<noteq> CHR ''-''"
    by (auto simp: validSlug_def list_all_iff split: if_splits)
  from len obtain a m b where s: "s = a # m @ [b]" using split_ends [of s] by auto
  with ends have "a \<noteq> CHR ''-''" "b \<noteq> CHR ''-''" by (simp_all add: nth_append)
  with s len ok show "slug_pattern s" unfolding slug_pattern_def by force
next
  assume "slug_pattern s"
  then obtain a m b where s: "s = a # m @ [b]" and ab: "is_lower a \<or> is_digit a" "is_lower b \<or> is_digit b"
    and m: "1 \<le> length m" "length m \<le> 38" "\<forall>c \<in> set m. is_lower c \<or> is_digit c \<or> c = CHR ''-''"
    unfolding slug_pattern_def by (elim exE conjE) (rule that)
  have "a \<noteq> CHR ''-''" "b \<noteq> CHR ''-''" using ab by auto
  with s m ab show "validSlug s"
    by (auto simp: validSlug_def list_all_iff nth_append)
qed

lemma Tenant_Validate_ok:
  assumes "Tenant_Validate u t = (Inr (), t')"
  shows "validSlug (t_Slug t')" "1 \<le> length (t_Name t')" "length (t_Name t') \<le> 200"
    "Currency_Valid (t_DefaultCurrency t')" "TrimSpace (t_Name t') = t_Name t'"
  using assms by (auto simp: Tenant_Validate_def Let_def go_result Suc_le_eq)

section \<open>Approval limits\<close>

text \<open>
  The approval ceiling is a threshold: an actor who may decide on an amount may decide on every
  smaller one, whatever the role and the override.
\<close>

theorem WithinApprovalLimit_downward:
  assumes "WithinApprovalLimit a big" and "Minor small \<le>s Minor big"
  shows "WithinApprovalLimit a small"
  using assms by (auto simp: WithinApprovalLimit_def Let_def go_arith split: if_splits)

theorem WithinApprovalLimit_downward_witness:
  "WithinApprovalLimit \<lparr>a_TenantID = 1, a_UserID = 2, a_MembershipID = 3, a_Role = RoleManager,
      a_Status = MembershipActive, a_DepartmentID = None, a_ApprovalLimitMinor = None,
      a_TenantStatus = TenantActive\<rparr> \<lparr>Minor = 100, Currency = ''USD''\<rparr>"
  by (rule WithinApprovalLimit_downward [where big = "\<lparr>Minor = 500000, Currency = ''USD''\<rparr>"])
     (simp_all add: WithinApprovalLimit_def ApprovalCeilingMinor_def DefaultManagerApprovalLimitMinor_def
       word_sle_eq word_sless_alt)

end
