(* ===== verification/Expense.thy ===== *)
theory Expense
  imports Tenant
begin

text \<open>
  \<^verbatim>\<open>internal/domain/expense\<close>: the claim, its draft, the append-only event and the finite state
  machine that governs its life (\<^verbatim>\<open>status.go\<close>, \<^verbatim>\<open>expense.go\<close>, \<^verbatim>\<open>statemachine.go\<close>).
  A method with a pointer receiver returns its result together with the new value of the receiver.
  The theorems are in \<open>Expense_Props\<close>.
\<close>

section \<open>Statuses and actions (\<^verbatim>\<open>status.go\<close>)\<close>

datatype Status =
    StatusDraft | StatusPendingApproval | StatusApproved | StatusRejected | StatusPaid
  | StatusOther string

fun status_str :: "Status \<Rightarrow> string" where
  "status_str StatusDraft = ''draft''"
| "status_str StatusPendingApproval = ''pending_approval''"
| "status_str StatusApproved = ''approved''"
| "status_str StatusRejected = ''rejected''"
| "status_str StatusPaid = ''paid''"
| "status_str (StatusOther s) = s"

definition AllStatuses :: "Status list" where
  "AllStatuses = [StatusDraft, StatusPendingApproval, StatusApproved, StatusRejected, StatusPaid]"

definition status_of :: "string \<Rightarrow> Status" where
  "status_of s = (case List.find (\<lambda>x. status_str x = s) AllStatuses of Some x \<Rightarrow> x | None \<Rightarrow> StatusOther s)"

fun Status_Valid :: "Status \<Rightarrow> bool" where
  "Status_Valid (StatusOther s) = False"
| "Status_Valid s = True"

definition Terminal :: "Status \<Rightarrow> bool" where
  "Terminal s = (s = StatusPaid)"

definition Editable :: "Status \<Rightarrow> bool" where
  "Editable s = (s = StatusDraft)"

definition CountsAgainstBudget :: "Status \<Rightarrow> bool" where
  "CountsAgainstBudget s = (s = StatusApproved \<or> s = StatusPaid)"

definition ParseStatus :: "string \<Rightarrow> (err, Status) res" where
  "ParseStatus s =
    (let status = status_of s in
     if \<not> Status_Valid status
     then Inl (FieldErr \<lparr>Field = ''status'', Detail = Fmt ''%q is not a known expense status'' [s]\<rparr>)
     else Inr status)"

datatype Action =
    ActionSubmit | ActionApprove | ActionReject | ActionWithdraw | ActionRevise | ActionPay
  | ActionOther string

fun action_str :: "Action \<Rightarrow> string" where
  "action_str ActionSubmit = ''submit''"
| "action_str ActionApprove = ''approve''"
| "action_str ActionReject = ''reject''"
| "action_str ActionWithdraw = ''withdraw''"
| "action_str ActionRevise = ''revise''"
| "action_str ActionPay = ''pay''"
| "action_str (ActionOther s) = s"

definition AllActions :: "Action list" where
  "AllActions = [ActionSubmit, ActionApprove, ActionReject, ActionWithdraw, ActionRevise, ActionPay]"

fun Action_Valid :: "Action \<Rightarrow> bool" where
  "Action_Valid (ActionOther s) = False"
| "Action_Valid a = True"

datatype EventAction =
    EventCreated | EventUpdated | EventSubmitted | EventApproved | EventRejected
  | EventWithdrawn | EventRevised | EventPaid

section \<open>The claim (\<^verbatim>\<open>expense.go\<close>)\<close>

datatype Category =
    CategoryTravel | CategoryMeals | CategoryAccommodation | CategorySoftware | CategoryHardware
  | CategoryMarketing | CategoryTraining | CategoryOffice | CategoryContractor | CategoryOther
  | CategoryUnknown string

definition AllCategories :: "Category list" where
  "AllCategories =
    [CategoryTravel, CategoryMeals, CategoryAccommodation, CategorySoftware, CategoryHardware,
     CategoryMarketing, CategoryTraining, CategoryOffice, CategoryContractor, CategoryOther]"

definition Category_Valid :: "Category \<Rightarrow> bool" where
  "Category_Valid c = List.member AllCategories c"

record Expense =
  e_ID :: uuid
  e_TenantID :: uuid
  e_SubmitterID :: uuid
  e_DepartmentID :: "uuid option"
  e_Status :: Status
  e_Category :: Category
  e_Amount :: Money
  e_Merchant :: string
  e_Description :: "string option"
  e_SpentAt :: time
  e_SubmittedAt :: "time option"
  e_DecidedAt :: "time option"
  e_DecidedBy :: "uuid option"
  e_DecisionNote :: "string option"
  e_PaidAt :: "time option"
  e_PaymentRef :: "string option"
  e_Revision :: int32
  e_Version :: int32
  e_SourceSubscriptionID :: "uuid option"
  e_CreatedAt :: time
  e_UpdatedAt :: time

record Draft =
  d_DepartmentID :: "uuid option"
  d_Category :: Category
  d_Amount :: Money
  d_Merchant :: string
  d_Description :: "string option"
  d_SpentAt :: time

record Event =
  ev_TenantID :: uuid
  ev_ExpenseID :: uuid
  ev_Action :: EventAction
  ev_FromStatus :: "Status option"
  ev_ToStatus :: Status
  ev_ActorID :: "uuid option"
  ev_Reason :: "string option"
  ev_Amount :: Money
  ev_Revision :: int32
  ev_Metadata :: "(string \<times> string) list"
  ev_OccurredAt :: time

definition maxFutureSkew :: duration where
  "maxFutureSkew = day"

text \<open>Trimming an optional text, a blank one becoming absent.\<close>

definition trim_opt :: "string option \<Rightarrow> string option" where
  "trim_opt s = (case s of None \<Rightarrow> None | Some x \<Rightarrow> (if TrimSpace x = [] then None else Some (TrimSpace x)))"

definition Draft_validate :: "Draft \<Rightarrow> time \<Rightarrow> (err, unit) res \<times> Draft" where
  "Draft_validate d0 now =
    (let d = d0\<lparr>d_Merchant := TrimSpace (d_Merchant d0), d_Description := trim_opt (d_Description d0)\<rparr>;
         n = length (d_Merchant d);
         v1 = add_if (n = 0 \<or> n > 200) ''merchant'' ''must be between 1 and 200 characters'' [];
         v2 = add_if (case d_Description d of None \<Rightarrow> False | Some s \<Rightarrow> length s > 4000)
                ''description'' ''must be at most 4000 characters'' v1;
         v3 = add_if (\<not> Category_Valid (d_Category d)) ''category'' ''is not a known category'' v2;
         v4 = add_if (\<not> Currency_Valid (Currency (d_Amount d))) ''currency''
                ''must be a three-letter ISO 4217 code'' v3;
         v5 = add_if (\<not> IsPositive (d_Amount d)) ''amount_minor'' ''must be greater than zero'' v4;
         v6 = (if d_SpentAt d = zero_time then Add v5 ''spent_at'' (Text ''is required'')
               else add_if (now + maxFutureSkew < d_SpentAt d) ''spent_at''
                      ''must not be in the future'' v5)
     in (Err v6, d))"

text \<open>\<^verbatim>\<open>New\<close>; the random identifier \<^verbatim>\<open>uuid.New()\<close> is the parameter \<open>newID\<close>.\<close>

definition New :: "uuid \<Rightarrow> uuid \<Rightarrow> uuid \<Rightarrow> Draft \<Rightarrow> time \<Rightarrow> (err, Expense \<times> Event) res" where
  "New newID tenantID submitterID d0 now =
    (case Draft_validate d0 now of
       (Inl e, d) \<Rightarrow> Inl e
     | (Inr _, d) \<Rightarrow>
         let e = \<lparr>e_ID = newID, e_TenantID = tenantID, e_SubmitterID = submitterID,
                  e_DepartmentID = d_DepartmentID d, e_Status = StatusDraft, e_Category = d_Category d,
                  e_Amount = d_Amount d, e_Merchant = d_Merchant d, e_Description = d_Description d,
                  e_SpentAt = truncate_to day (d_SpentAt d),
                  e_SubmittedAt = None, e_DecidedAt = None, e_DecidedBy = None, e_DecisionNote = None,
                  e_PaidAt = None, e_PaymentRef = None, e_Revision = 1, e_Version = 1,
                  e_SourceSubscriptionID = None, e_CreatedAt = now, e_UpdatedAt = now\<rparr>
         in Inr (e, \<lparr>ev_TenantID = tenantID, ev_ExpenseID = e_ID e, ev_Action = EventCreated,
                     ev_FromStatus = None, ev_ToStatus = StatusDraft, ev_ActorID = Some submitterID,
                     ev_Reason = None, ev_Amount = e_Amount e, ev_Revision = e_Revision e,
                     ev_Metadata = [], ev_OccurredAt = now\<rparr>))"

definition Edit :: "Expense \<Rightarrow> Draft \<Rightarrow> uuid \<Rightarrow> time \<Rightarrow> (err, Event) res \<times> Expense" where
  "Edit e d0 actorMembershipID now =
    (if \<not> Editable (e_Status e)
     then (Inl (TransitionError (status_str (e_Status e)) ''edit''
                  ''only a draft may be edited; submit a revision instead''), e)
     else
       case Draft_validate d0 now of
         (Inl er, d) \<Rightarrow> (Inl er, e)
       | (Inr _, d) \<Rightarrow>
           let e' = e\<lparr>e_DepartmentID := d_DepartmentID d, e_Category := d_Category d,
                      e_Amount := d_Amount d, e_Merchant := d_Merchant d,
                      e_Description := d_Description d, e_SpentAt := truncate_to day (d_SpentAt d),
                      e_UpdatedAt := now, e_Version := e_Version e + 1\<rparr>
           in (Inr \<lparr>ev_TenantID = e_TenantID e', ev_ExpenseID = e_ID e', ev_Action = EventUpdated,
                    ev_FromStatus = Some (e_Status e'), ev_ToStatus = e_Status e',
                    ev_ActorID = Some actorMembershipID, ev_Reason = None, ev_Amount = e_Amount e',
                    ev_Revision = e_Revision e', ev_Metadata = [], ev_OccurredAt = now\<rparr>, e'))"

section \<open>The state machine (\<^verbatim>\<open>statemachine.go\<close>)\<close>

record Command =
  c_Action :: Action
  c_Actor :: Actor
  c_Reason :: "string option"
  c_PaymentRef :: "string option"

record transition =
  tr_From :: Status
  tr_Action :: Action
  tr_To :: Status
  tr_Permission :: Permission
  tr_Event :: EventAction
  MustBeSubmitter :: bool
  MustNotBeSubmitter :: bool
  MustNotBeDecider :: bool
  WithinLimit :: bool
  WithinDepartmentScope :: bool
  RequiresReason :: bool
  RequiresPaymentRef :: bool
  BumpsRevision :: bool

text \<open>The zero value of the Go struct literal, on which each row sets its own fields.\<close>

definition edge :: "Status \<Rightarrow> Action \<Rightarrow> Status \<Rightarrow> Permission \<Rightarrow> EventAction \<Rightarrow> transition" where
  "edge f a t p ev =
    \<lparr>tr_From = f, tr_Action = a, tr_To = t, tr_Permission = p, tr_Event = ev,
     MustBeSubmitter = False, MustNotBeSubmitter = False, MustNotBeDecider = False,
     WithinLimit = False, WithinDepartmentScope = False, RequiresReason = False,
     RequiresPaymentRef = False, BumpsRevision = False\<rparr>"

definition transitions :: "transition list" where
  "transitions =
    [(edge StatusDraft ActionSubmit StatusPendingApproval PermExpenseSubmit EventSubmitted)
       \<lparr>MustBeSubmitter := True\<rparr>,
     (edge StatusPendingApproval ActionApprove StatusApproved PermExpenseApprove EventApproved)
       \<lparr>MustNotBeSubmitter := True, WithinLimit := True, WithinDepartmentScope := True\<rparr>,
     (edge StatusPendingApproval ActionReject StatusRejected PermExpenseApprove EventRejected)
       \<lparr>MustNotBeSubmitter := True, WithinLimit := True, WithinDepartmentScope := True,
        RequiresReason := True\<rparr>,
     (edge StatusPendingApproval ActionWithdraw StatusDraft PermExpenseSubmit EventWithdrawn)
       \<lparr>MustBeSubmitter := True\<rparr>,
     (edge StatusRejected ActionRevise StatusDraft PermExpenseCreate EventRevised)
       \<lparr>MustBeSubmitter := True, BumpsRevision := True\<rparr>,
     (edge StatusApproved ActionPay StatusPaid PermExpensePay EventPaid)
       \<lparr>MustNotBeSubmitter := True, MustNotBeDecider := True, RequiresPaymentRef := True\<rparr>]"

type_synonym edge_index = "Status \<times> Action \<rightharpoonup> transition"
type_synonym action_permission = "Action \<rightharpoonup> Permission"

text \<open>The package's \<^verbatim>\<open>init()\<close>: \<open>Inl\<close> is the panic at process start.\<close>

fun init_index :: "transition list \<Rightarrow> edge_index \<Rightarrow> action_permission
    \<Rightarrow> (msg, edge_index \<times> action_permission) res" where
  "init_index [] ix ap = Inr (ix, ap)"
| "init_index (t # ts) ix ap =
    (if ix (tr_From t, tr_Action t) \<noteq> None
     then Inl (Fmt ''expense: duplicate transition %s/%s'' [status_str (tr_From t), action_str (tr_Action t)])
     else case ap (tr_Action t) of
       Some existing \<Rightarrow>
         (if existing \<noteq> tr_Permission t
          then Inl (Fmt ''expense: action %s requires %s in one transition and %s in another''
                 [action_str (tr_Action t), perm_str existing, perm_str (tr_Permission t)])
          else init_index ts (ix((tr_From t, tr_Action t) \<mapsto> t)) (ap(tr_Action t \<mapsto> tr_Permission t)))
     | None \<Rightarrow> init_index ts (ix((tr_From t, tr_Action t) \<mapsto> t)) (ap(tr_Action t \<mapsto> tr_Permission t)))"

definition index :: edge_index where
  "index = (case init_index transitions Map.empty Map.empty of Inr (ix, ap) \<Rightarrow> ix | Inl m \<Rightarrow> Map.empty)"

definition actionPermission :: action_permission where
  "actionPermission = (case init_index transitions Map.empty Map.empty of Inr (ix, ap) \<Rightarrow> ap | Inl m \<Rightarrow> Map.empty)"

definition blank :: "string option \<Rightarrow> bool" where
  "blank s = (case s of None \<Rightarrow> True | Some x \<Rightarrow> TrimSpace x = [])"

definition trimmed :: "string option \<Rightarrow> string option" where
  "trimmed s = (if blank s then None else map_option TrimSpace s)"

definition suggest :: "Status \<Rightarrow> Action \<Rightarrow> string" where
  "suggest st action =
    (if st = StatusRejected \<and> action = ActionSubmit
     then ''revise it into a new draft first, so the approver can see it changed''
     else if st = StatusPaid then ''a settled claim is final; file a compensating claim instead''
     else if st = StatusApproved \<and> action = ActionReject
     then ''an approval is not reversible; file a compensating claim instead''
     else if st = StatusDraft \<and> (action = ActionApprove \<or> action = ActionReject)
     then ''it has not been submitted for approval yet''
     else [])"

definition checkGuards :: "Expense \<Rightarrow> transition \<Rightarrow> Command \<Rightarrow> (err, unit) res" where
  "checkGuards e t cmd =
    (let actor = c_Actor cmd; act = action_str (tr_Action t) in
     if MustBeSubmitter t \<and> \<not> SameMembership actor (e_SubmitterID e)
     then Inl (AuthorizationError act (Text (''only the person who filed a claim may '' @ act @ '' it'')))
     else if MustNotBeSubmitter t \<and> SameMembership actor (e_SubmitterID e)
     then Inl (AuthorizationError act (Text (''you cannot '' @ act @ '' your own claim'')))
     else if MustNotBeDecider t \<and> (case e_DecidedBy e of None \<Rightarrow> False | Some d \<Rightarrow> SameMembership actor d)
     then Inl (AuthorizationError act (Text ''the approver of a claim may not also settle it''))
     else if WithinDepartmentScope t \<and> \<not> GovernsDepartment actor (e_DepartmentID e)
     then Inl (AuthorizationError act (Text ''this claim belongs to another department''))
     else if WithinLimit t \<and> \<not> WithinApprovalLimit actor (e_Amount e)
     then Inl (AuthorizationError act
            (Fmt ''claim of %s exceeds your approval limit; escalate to a tenant-wide approver''
              [Money_String (e_Amount e)]))
     else
       Err (add_if (case c_PaymentRef cmd of None \<Rightarrow> False | Some r \<Rightarrow> length r > 200)
              ''payment_ref'' ''must be at most 200 characters''
           (add_if (case c_Reason cmd of None \<Rightarrow> False | Some r \<Rightarrow> length r > 2000)
              ''reason'' ''must be at most 2000 characters''
           (add_if (RequiresPaymentRef t \<and> blank (c_PaymentRef cmd))
              ''payment_ref'' ''is required when settling a claim''
           (add_if (RequiresReason t \<and> blank (c_Reason cmd))
              ''reason'' ''is required when rejecting a claim'' [])))))"

definition commit :: "Expense \<Rightarrow> transition \<Rightarrow> Command \<Rightarrow> time \<Rightarrow> Event \<times> Expense" where
  "commit e t cmd now =
    (let fromS = e_Status e;
         actorID = a_MembershipID (c_Actor cmd);
         e1 = e\<lparr>e_Status := tr_To t, e_Version := e_Version e + 1, e_UpdatedAt := now\<rparr>;
         e2 = (case tr_Action t of
                 ActionSubmit \<Rightarrow> e1\<lparr>e_SubmittedAt := Some now\<rparr>
               | ActionApprove \<Rightarrow>
                   e1\<lparr>e_DecidedAt := Some now, e_DecidedBy := Some actorID,
                      e_DecisionNote := trimmed (c_Reason cmd)\<rparr>
               | ActionReject \<Rightarrow>
                   e1\<lparr>e_DecidedAt := Some now, e_DecidedBy := Some actorID,
                      e_DecisionNote := trimmed (c_Reason cmd)\<rparr>
               | ActionWithdraw \<Rightarrow>
                   e1\<lparr>e_SubmittedAt := None, e_DecidedAt := None, e_DecidedBy := None,
                      e_DecisionNote := None,
                      e_Revision := (if BumpsRevision t then e_Revision e1 + 1 else e_Revision e1)\<rparr>
               | ActionRevise \<Rightarrow>
                   e1\<lparr>e_SubmittedAt := None, e_DecidedAt := None, e_DecidedBy := None,
                      e_DecisionNote := None,
                      e_Revision := (if BumpsRevision t then e_Revision e1 + 1 else e_Revision e1)\<rparr>
               | ActionPay \<Rightarrow> e1\<lparr>e_PaidAt := Some now, e_PaymentRef := trimmed (c_PaymentRef cmd)\<rparr>
               | ActionOther s \<Rightarrow> e1)
     in (\<lparr>ev_TenantID = e_TenantID e2, ev_ExpenseID = e_ID e2, ev_Action = tr_Event t,
          ev_FromStatus = Some fromS, ev_ToStatus = tr_To t, ev_ActorID = Some actorID,
          ev_Reason = trimmed (c_Reason cmd), ev_Amount = e_Amount e2, ev_Revision = e_Revision e2,
          ev_Metadata = [], ev_OccurredAt = now\<rparr>, e2))"

definition Apply :: "Expense \<Rightarrow> Command \<Rightarrow> time \<Rightarrow> (err, Event) res \<times> Expense" where
  "Apply e cmd now =
    (let actor = c_Actor cmd; action = c_Action cmd in
     if \<not> Action_Valid action
     then (Inl (FieldErr \<lparr>Field = ''action'', Detail = Fmt ''%q is not a known action'' [action_str action]\<rparr>), e)
     else if a_TenantID actor \<noteq> e_TenantID e then (Inl (Sentinel ErrTenantMismatch), e)
     else if \<not> Active actor
     then (Inl (AuthorizationError (action_str action) (Text ''membership is not active'')), e)
     else
       let refused = (case actionPermission action of None \<Rightarrow> None
              | Some perm \<Rightarrow> if \<not> Can actor perm then Some perm else None) in
       case refused of
         Some perm \<Rightarrow>
           (Inl (AuthorizationError (action_str action)
              (Fmt ''role %s does not carry %s'' [role_str (a_Role actor), perm_str perm])), e)
       | None \<Rightarrow>
           (case index (e_Status e, action) of
              None \<Rightarrow>
                (Inl (TransitionError (status_str (e_Status e)) (action_str action)
                   (suggest (e_Status e) action)), e)
            | Some t \<Rightarrow>
                (case checkGuards e t cmd of
                   Inl er \<Rightarrow> (Inl er, e)
                 | Inr _ \<Rightarrow> (let (ev, e') = commit e t cmd now in (Inr ev, e')))))"

definition CanApply :: "Expense \<Rightarrow> Command \<Rightarrow> time \<Rightarrow> (err, unit) res" where
  "CanApply e cmd now = (case fst (Apply e cmd now) of Inl er \<Rightarrow> Inl er | Inr ev \<Rightarrow> Inr ())"

definition AllowedActions :: "Expense \<Rightarrow> Actor \<Rightarrow> time \<Rightarrow> Action list" where
  "AllowedActions e actor now =
    filter (\<lambda>a. CanApply e \<lparr>c_Action = a, c_Actor = actor, c_Reason = Some ''probe'',
                            c_PaymentRef = Some ''probe''\<rparr> now = Inr ()) AllActions"

end
