(* ===== verification/Calendar.thy ===== *)
theory Calendar
  imports Prelude
begin

text \<open>
  The civil calendar behind \<^verbatim>\<open>time.Time.Date\<close> and \<^verbatim>\<open>time.Time.AddDate\<close>: the proleptic
  Gregorian calendar on day numbers, day 0 being 1 January of year 1. \<open>days_of_civil\<close> accepts a
  day beyond the end of the month, which is how \<^verbatim>\<open>time.Date\<close> normalises overflow.
\<close>

definition is_leap :: "int \<Rightarrow> bool" where
  "is_leap y = (y mod 4 = 0 \<and> (y mod 100 \<noteq> 0 \<or> y mod 400 = 0))"

definition days_before_year :: "int \<Rightarrow> int" where
  "days_before_year y = 365 * (y - 1) + (y - 1) div 4 - (y - 1) div 100 + (y - 1) div 400"

definition month_lengths :: "int \<Rightarrow> int list" where
  "month_lengths y = [31, if is_leap y then 29 else 28, 31, 30, 31, 30, 31, 31, 30, 31, 30, 31]"

text \<open>Months are counted from 0 inside the calendar and from 1 outside, as \<^verbatim>\<open>time.Month\<close> is.\<close>

definition month_length :: "int \<Rightarrow> nat \<Rightarrow> int" where
  "month_length y m = month_lengths y ! (m - 1)"

definition days_before_month :: "int \<Rightarrow> nat \<Rightarrow> int" where
  "days_before_month y m = sum_list (take (m - 1) (month_lengths y))"

definition days_of_civil :: "int \<Rightarrow> nat \<Rightarrow> int \<Rightarrow> int" where
  "days_of_civil y m d = days_before_year y + days_before_month y m + (d - 1)"

fun find_month :: "int list \<Rightarrow> nat \<Rightarrow> int \<Rightarrow> nat \<times> int" where
  "find_month [] i r = (i, r)"
| "find_month (l # ls) i r = (if r < l then (i, r) else find_month ls (Suc i) (r - l))"

definition year_split :: "int \<Rightarrow> int \<times> int" where
  "year_split n =
    (let c = n div 146097; r = n mod 146097;
         a = min 3 (r div 36524); r1 = r - 36524 * a;
         b = r1 div 1461; r2 = r1 mod 1461;
         e = min 3 (r2 div 365); r3 = r2 - 365 * e
     in (400 * c + 100 * a + 4 * b + e + 1, r3))"

definition civil :: "int \<Rightarrow> int \<times> nat \<times> int" where
  "civil n =
    (let (y, r) = year_split n; (i, d) = find_month (month_lengths y) 0 r in (y, i + 1, d + 1))"

definition valid_date :: "int \<Rightarrow> nat \<Rightarrow> int \<Rightarrow> bool" where
  "valid_date y m d = (1 \<le> m \<and> m \<le> 12 \<and> 1 \<le> d \<and> d \<le> month_length y m)"

text \<open>\<^verbatim>\<open>t.AddDate(years, months, days)\<close>: the clock time of the day is kept.\<close>

definition AddDate :: "time \<Rightarrow> int \<Rightarrow> int \<Rightarrow> int \<Rightarrow> time" where
  "AddDate t years months days =
    (let (y, m, d) = civil (t div day);
         m0 = int m - 1 + months
     in days_of_civil (y + years + m0 div 12) (nat (m0 mod 12) + 1) (d + days) * day + t mod day)"

section \<open>Years\<close>

definition year_length :: "int \<Rightarrow> int" where
  "year_length y = (if is_leap y then 366 else 365)"

lemma leap_count:
  "(R \<Longrightarrow> Q) \<Longrightarrow> (Q \<Longrightarrow> P) \<Longrightarrow> (if P \<and> (\<not> Q \<or> R) then 366 else 365 :: int) =
    365 + (if P then 1 else 0) - (if Q then 1 else 0) + (if R then 1 else 0)"
  by (cases P; cases Q; cases R) simp_all

lemma year_sum:
  "l = 365 + a - b + c \<Longrightarrow> p = p' + a \<Longrightarrow> q = q' + b \<Longrightarrow> r = r' + c \<Longrightarrow>
    365 * y + p - q + r = 365 * (y - 1) + p' - q' + r' + (l :: int)"
  by simp

lemma days_before_year_Suc: "days_before_year (y + 1) = days_before_year y + year_length y"
proof -
  have d: "y div k = (y - 1) div k + (if y mod k = 0 then 1 else 0)" if "1 < k" for k :: int
  proof (cases "y mod k = 0")
    case True
    then obtain q where "y = k * q" by (auto simp: mod_eq_0_iff_dvd)
    moreover have "(k * q - 1) div k = q - 1"
      using that by (intro int_div_pos_eq [where r = "k - 1"]) (simp_all add: algebra_simps)
    ultimately show ?thesis using that True by simp
  next
    case False
    have "0 \<le> y mod k" "y mod k < k" using that by simp_all
    with False have "0 \<le> y mod k - 1" "y mod k - 1 < k" by auto
    then have "(y - 1) div k = y div k"
      by (intro int_div_pos_eq [where r = "y mod k - 1"]) (simp_all add: algebra_simps)
    with False show ?thesis by simp
  qed
  have "y mod 400 = 0 \<Longrightarrow> y mod 100 = 0"
    unfolding mod_eq_0_iff_dvd by (rule dvd_trans [of 100 400]) simp_all
  moreover have "y mod 100 = 0 \<Longrightarrow> y mod 4 = 0"
    unfolding mod_eq_0_iff_dvd by (rule dvd_trans [of 4 100]) simp_all
  ultimately have "year_length y = 365 + (if y mod 4 = 0 then 1 else 0) - (if y mod 100 = 0 then 1 else 0)
      + (if y mod 400 = 0 then 1 else 0)"
    unfolding year_length_def is_leap_def by (intro leap_count)
  moreover have "y div 4 = (y - 1) div 4 + (if y mod 4 = 0 then 1 else 0)"
    "y div 100 = (y - 1) div 100 + (if y mod 100 = 0 then 1 else 0)"
    "y div 400 = (y - 1) div 400 + (if y mod 400 = 0 then 1 else 0)"
    by (rule d, simp)+
  ultimately show ?thesis unfolding days_before_year_def add_diff_cancel_right' by (rule year_sum)
qed

lemma year_length_bounds: "365 \<le> year_length y" "year_length y \<le> 366"
  by (simp_all add: year_length_def)

lemma days_before_year_mono: "y \<le> z \<Longrightarrow> days_before_year y \<le> days_before_year z"
proof (induction z rule: int_ge_induct)
  case (step z)
  then show ?case using days_before_year_Suc [of z] year_length_bounds [of z] by simp
qed simp

lemma div_facts: "0 < k \<Longrightarrow> n = k * (n div k) + n mod k \<and> 0 \<le> n mod k \<and> n mod k < k" for n k :: int
  by simp

lemma year_split_bounds:
  assumes "year_split n = (y, r)"
  shows "n = days_before_year y + r" "0 \<le> r" "r < year_length y"
proof -
  define c where "c = n div 146097"
  define k where "k = n mod 146097"
  define a where "a = min 3 (k div 36524)"
  define r1 where "r1 = k - 36524 * a"
  define b where "b = r1 div 1461"
  define r2 where "r2 = r1 mod 1461"
  define e where "e = min 3 (r2 div 365)"
  have y: "y = 400 * c + 100 * a + 4 * b + e + 1" and r: "r = r2 - 365 * e"
    using assms unfolding year_split_def Let_def c_def k_def a_def r1_def b_def r2_def e_def by simp_all
  have k: "0 \<le> k" "k < 146097" "n = 146097 * c + k" by (simp_all add: k_def c_def)
  have a: "0 \<le> a" "a \<le> 3" "0 \<le> r1" "r1 < 36525" "a < 3 \<longrightarrow> r1 < 36524"
    unfolding r1_def a_def using k div_facts [of 36524 k] by (auto simp: min_def)
  have b: "0 \<le> b" "b \<le> 24" "r1 = 1461 * b + r2" "0 \<le> r2" "r2 < 1461"
    unfolding b_def r2_def using a div_facts [of 1461 r1] by (auto simp del: pos_mod_bound pos_mod_sign)
  have e: "0 \<le> e" "e \<le> 3" "0 \<le> r" "r < 366" "e < 3 \<longrightarrow> r < 365"
    unfolding r e_def using b div_facts [of 365 r2] by (auto simp: min_def)
  have q: "(y - 1) div 4 = 100 * c + 25 * a + b" "(y - 1) div 100 = 4 * c + a" "(y - 1) div 400 = c"
    using y a b e by (auto intro!: int_div_pos_eq)
  show n: "n = days_before_year y + r"
    unfolding days_before_year_def q using k(3) r1_def b(3) r y by simp
  show "0 \<le> r" by (rule e)
  show "r < year_length y"
  proof (cases "r < 365")
    case False
    then have full: "e = 3" "r = 365" using e by auto
    then have r2: "r2 = 1460" using r by simp
    have "b < 24 \<or> a = 3" using a(2,5) b r2 by linarith
    moreover have y4: "y = 4 * (100 * c + 25 * a + b + 1)" using y full by simp
    moreover have "b < 24 \<Longrightarrow> y mod 100 \<noteq> 0"
    proof -
      assume "b < 24"
      moreover have "y = 4 * (b + 1) + 100 * (4 * c + a)" using y full by simp
      ultimately have "y mod 100 = 4 * (b + 1)" using b(1) by (simp only: mod_mult_self2) (simp add: mod_pos_pos_trivial)
      with b(1) show ?thesis by simp
    qed
    moreover have "a = 3 \<Longrightarrow> \<not> b < 24 \<Longrightarrow> y mod 400 = 0"
    proof -
      assume "a = 3" "\<not> b < 24"
      with b(2) y full have "y = 400 * (c + 1)" by simp
      then show ?thesis by simp
    qed
    ultimately have "is_leap y" unfolding is_leap_def by (metis mod_mult_self1_is_0)
    then show ?thesis using full by (simp add: year_length_def)
  next
    case True
    then show ?thesis using year_length_bounds [of y] by linarith
  qed
qed

lemma year_unique:
  assumes "days_before_year y \<le> n" "n < days_before_year (y + 1)"
    "days_before_year z \<le> n" "n < days_before_year (z + 1)"
  shows "y = z"
proof (rule ccontr)
  assume "y \<noteq> z"
  then consider "y + 1 \<le> z" | "z + 1 \<le> y" by linarith
  then show False by cases (use assms days_before_year_mono in \<open>fastforce+\<close>)
qed

section \<open>Months\<close>

lemma find_month_ok:
  assumes "find_month ls i r = (j, d)" "0 \<le> r" "r < sum_list ls"
  shows "i \<le> j \<and> j < i + length ls \<and> 0 \<le> d \<and> d < ls ! (j - i) \<and> r = sum_list (take (j - i) ls) + d"
  using assms
proof (induction ls i r rule: find_month.induct)
  case (2 l ls i r)
  show ?case
  proof (cases "r < l")
    case False
    with 2 have "Suc i \<le> j \<and> j < Suc i + length ls \<and> 0 \<le> d \<and> d < ls ! (j - Suc i) \<and>
        r - l = sum_list (take (j - Suc i) ls) + d" by simp
    moreover from this have "j - i = Suc (j - Suc i)" by arith
    ultimately show ?thesis by simp
  qed (use 2 in auto)
qed simp

lemma find_month_take:
  assumes "k < length ls" "0 \<le> d" "d < ls ! k" "\<forall>l \<in> set ls. 0 < (l :: int)"
  shows "find_month ls i (sum_list (take k ls) + d) = (i + k, d)"
  using assms
proof (induction ls arbitrary: i k)
  case (Cons l ls)
  show ?case
  proof (cases k)
    case (Suc k')
    have "0 \<le> sum_list (take k' ls)" using Cons.prems(4)
      by (intro sum_list_nonneg) (auto dest!: in_set_takeD intro: less_imp_le)
    with Cons Suc show ?thesis by (auto simp: add.assoc)
  qed (use Cons in simp)
qed simp

lemma month_lengths_sum: "sum_list (month_lengths y) = year_length y"
  by (simp add: month_lengths_def year_length_def)

lemma month_lengths_pos: "\<forall>l \<in> set (month_lengths y). 0 < l"
  by (simp add: month_lengths_def)

lemma length_month_lengths [simp]: "length (month_lengths y) = 12"
  by (simp add: month_lengths_def)

text \<open>Reading a day number as a date and writing the date back is the identity, both ways.\<close>

lemma days_of_civil_civil:
  assumes "civil n = (y, m, d)"
  shows "days_of_civil y m d = n" "valid_date y m d"
proof -
  obtain r where s: "year_split n = (y, r)" and f: "find_month (month_lengths y) 0 r = (m - 1, d - 1)" and m: "1 \<le> m"
    using assms by (auto simp: civil_def Let_def split: prod.splits)
  note ys = year_split_bounds [OF s]
  from find_month_ok [OF f] ys
  have "m - 1 < 12 \<and> 0 \<le> d - 1 \<and> d - 1 < month_lengths y ! (m - 1) \<and>
      r = sum_list (take (m - 1) (month_lengths y)) + (d - 1)"
    by (simp add: month_lengths_sum)
  then show "days_of_civil y m d = n" "valid_date y m d"
    using ys m by (auto simp: days_of_civil_def days_before_month_def valid_date_def month_length_def)
qed

lemma day_in_year:
  assumes "valid_date y m d"
  shows "0 \<le> days_before_month y m + (d - 1)" "days_before_month y m + (d - 1) < year_length y"
proof -
  have m: "m - 1 < length (month_lengths y)" using assms by (auto simp: valid_date_def)
  have nn: "0 \<le> sum_list (take k (month_lengths y))" "0 \<le> sum_list (drop k (month_lengths y))" for k
    using month_lengths_pos [of y] by (auto intro!: sum_list_nonneg dest!: in_set_takeD in_set_dropD intro: less_imp_le)
  have "sum_list (month_lengths y) =
      sum_list (take (m - 1) (month_lengths y) @ month_lengths y ! (m - 1) # drop m (month_lengths y))"
    using id_take_nth_drop [OF m] assms by (simp add: valid_date_def)
  then have "year_length y = days_before_month y m + month_length y m + sum_list (drop m (month_lengths y))"
    by (simp only: month_lengths_sum days_before_month_def month_length_def sum_list_append) simp
  then show "0 \<le> days_before_month y m + (d - 1)" "days_before_month y m + (d - 1) < year_length y"
    using assms nn(1) [of "m - 1"] nn(2) [of m] unfolding valid_date_def days_before_month_def by linarith+
qed

lemma civil_days_of_civil:
  assumes v: "valid_date y m d"
  shows "civil (days_of_civil y m d) = (y, m, d)"
proof -
  let ?n = "days_of_civil y m d"
  obtain y' r where s: "year_split ?n = (y', r)" by fastforce
  note ys = year_split_bounds [OF s] and dy = day_in_year [OF v]
  have "y' = y"
    by (rule year_unique [of _ ?n]) (use ys dy in \<open>auto simp: days_before_year_Suc days_of_civil_def\<close>)
  with ys have r: "r = sum_list (take (m - 1) (month_lengths y)) + (d - 1)"
    by (simp add: days_of_civil_def days_before_month_def)
  have "find_month (month_lengths y) 0 r = (0 + (m - 1), d - 1)"
    unfolding r by (rule find_month_take) (use v month_lengths_pos in \<open>auto simp: valid_date_def month_length_def\<close>)
  then show ?thesis using s \<open>y' = y\<close> v by (simp add: civil_def valid_date_def)
qed

section \<open>Adding months and years\<close>

lemma days_before_month_Suc:
  assumes "1 \<le> m" "m < 12"
  shows "days_before_month y (Suc m) = days_before_month y m + month_length y m"
proof -
  have "take m (month_lengths y) = take (m - 1) (month_lengths y) @ [month_lengths y ! (m - 1)]"
    using assms take_Suc_conv_app_nth [of "m - 1" "month_lengths y"] by simp
  then show ?thesis by (simp add: days_before_month_def month_length_def)
qed

lemma days_before_month_12: "days_before_month y 12 + 31 = year_length y"
  by (simp add: days_before_month_def year_length_def month_lengths_def)

lemma AddDate_civil:
  assumes "civil (t div day) = (y, m, d)"
  shows "AddDate t years months days =
    days_of_civil (y + years + (int m - 1 + months) div 12) (nat ((int m - 1 + months) mod 12) + 1) (d + days) * day
      + t mod day"
  by (simp add: AddDate_def assms Let_def)

lemma AddDate_months_1:
  assumes "civil (t div day) = (y, m, d)"
  shows "AddDate t 0 1 0 = t + month_length y m * day"
proof -
  have v: "valid_date y m d" and n: "days_of_civil y m d = t div day"
    using days_of_civil_civil [OF assms] by simp_all
  then consider "m < 12" "1 \<le> m" | "m = 12" by (auto simp: valid_date_def le_less)
  then have "AddDate t 0 1 0 = (days_of_civil y m d + month_length y m) * day + t mod day"
  proof cases
    case 1
    then have "(int m - 1 + 1) div 12 = 0" "nat ((int m - 1 + 1) mod 12) + 1 = Suc m" by simp_all
    then show ?thesis using 1 by (simp add: AddDate_civil [OF assms] days_of_civil_def days_before_month_Suc)
  next
    case 2
    then show ?thesis using days_before_month_12 [of y]
      by (simp add: AddDate_civil [OF assms] days_of_civil_def days_before_year_Suc month_length_def
          month_lengths_def days_before_month_def)
  qed
  then show ?thesis unfolding n by (simp add: algebra_simps)
qed

lemma AddDate_days: "AddDate t 0 0 n = t + n * day"
proof -
  obtain y m d where c: "civil (t div day) = (y, m, d)" by (metis surj_pair)
  have v: "valid_date y m d" and e: "days_of_civil y m d = t div day"
    using days_of_civil_civil [OF c] by simp_all
  have "(int m - 1) div 12 = 0" "nat ((int m - 1) mod 12) + 1 = m" using v by (auto simp: valid_date_def)
  then have "AddDate t 0 0 n = days_of_civil y m (d + n) * day + t mod day"
    by (simp only: AddDate_civil [OF c] add_0_right)
  also have "\<dots> = (days_of_civil y m d + n) * day + t mod day" by (simp add: days_of_civil_def)
  finally have "AddDate t 0 0 n = (days_of_civil y m d + n) * day + t mod day" .
  then show ?thesis unfolding e by (simp add: algebra_simps)
qed

lemma month_length_bounds: "1 \<le> m \<Longrightarrow> m \<le> 12 \<Longrightarrow> 28 \<le> month_length y m \<and> month_length y m \<le> 31"
proof -
  assume "1 \<le> m" "m \<le> 12"
  moreover have "\<forall>l \<in> set (month_lengths y). 28 \<le> l \<and> l \<le> 31" by (simp add: month_lengths_def)
  ultimately show ?thesis unfolding month_length_def by (simp add: nth_mem)
qed

text \<open>Adding months to a date whose day exists in the target month keeps the day of the month.\<close>

lemma AddDate_keeps_day:
  fixes years months :: int
  assumes "civil (t div day) = (y, m, d)" "d \<le> 28"
  defines "k \<equiv> int m - 1 + months"
  shows "civil (AddDate t years months 0 div day) = (y + years + k div 12, nat (k mod 12) + 1, d)"
proof -
  have "1 \<le> d" using days_of_civil_civil(2) [OF assms(1)] by (simp add: valid_date_def)
  moreover have "nat (k mod 12) \<le> 11" by simp
  ultimately have "valid_date (y + years + k div 12) (nat (k mod 12) + 1) d"
    using assms(2) month_length_bounds [of "nat (k mod 12) + 1" "y + years + k div 12"]
    unfolding valid_date_def by linarith
  moreover have "AddDate t years months 0 div day = days_of_civil (y + years + k div 12) (nat (k mod 12) + 1) d"
    using day_pos by (simp only: AddDate_civil [OF assms(1)] k_def add_0_right div_mult_self3 less_imp_neq
        not_sym mod_div_trivial)
  ultimately show ?thesis by (simp add: civil_days_of_civil)
qed

lemma AddDate_year_1:
  assumes "civil (t div day) = (y, m, d)"
  shows "t + 365 * day \<le> AddDate t 1 0 0 \<and> AddDate t 1 0 0 \<le> t + 366 * day"
proof -
  have v: "valid_date y m d" and e: "days_of_civil y m d = t div day"
    using days_of_civil_civil [OF assms] by simp_all
  have i: "(int m - 1) div 12 = 0" "nat ((int m - 1) mod 12) + 1 = m" using v by (auto simp: valid_date_def)
  define g where "g = year_length y + days_before_month (y + 1) m - days_before_month y m"
  have "AddDate t 1 0 0 = days_of_civil (y + 1) m d * day + t mod day"
    by (simp only: AddDate_civil [OF assms] add_0_right i)
  also have "\<dots> = (days_of_civil y m d + g) * day + t mod day"
    by (simp add: days_of_civil_def days_before_year_Suc g_def)
  finally have "AddDate t 1 0 0 = (days_of_civil y m d + g) * day + t mod day" .
  then have "AddDate t 1 0 0 = t + g * day" unfolding e by (simp add: algebra_simps)
  moreover have "365 \<le> g \<and> g \<le> 366"
  proof -
    have "\<not> (is_leap y \<and> is_leap (y + 1))" unfolding is_leap_def by presburger
    moreover have "m - 1 \<in> {0, 1, 2, 3, 4, 5, 6, 7, 8, 9, 10, 11}" using v
      unfolding valid_date_def insert_iff empty_iff by presburger
    ultimately show ?thesis
      by (auto simp: g_def days_before_month_def month_lengths_def year_length_def numeral_eq_Suc)
  qed
  ultimately show ?thesis by simp
qed

text \<open>The day number of the first of a month, months being counted from the start of year 0.\<close>

definition month_start :: "int \<Rightarrow> int" where
  "month_start k = days_of_civil (k div 12) (nat (k mod 12) + 1) 1"

lemma month_start_at: "i < 12 \<Longrightarrow> month_start (12 * y + int i) = days_of_civil y (Suc i) 1"
  by (simp add: month_start_def)

lemma month_start_Suc: "28 \<le> month_start (k + 1) - month_start k \<and> month_start (k + 1) - month_start k \<le> 31"
proof -
  define y where "y = k div 12"
  define i where "i = nat (k mod 12)"
  have k: "k = 12 * y + int i" and i: "i < 12" by (simp_all add: y_def i_def nat_less_iff)
  show ?thesis
  proof (cases "i < 11")
    case True
    have "month_start (k + 1) = days_of_civil y (Suc (Suc i)) 1" "month_start k = days_of_civil y (Suc i) 1"
      using month_start_at [of "Suc i" y] month_start_at [of i y] True by (simp_all add: k ac_simps)
    then show ?thesis using True month_length_bounds [of "Suc i" y] days_before_month_Suc [of "Suc i" y]
      by (simp add: days_of_civil_def)
  next
    case False
    then have "i = 11" using i by simp
    then have k11: "k = 12 * y + 11" using k by simp
    have "month_start k = days_of_civil y 12 1" "month_start (k + 1) = days_of_civil (y + 1) 1 1"
      unfolding month_start_def k11 by (simp_all add: add.commute)
    then show ?thesis using days_before_month_12 [of y] days_before_year_Suc [of y]
      by (simp add: days_of_civil_def days_before_month_def)
  qed
qed

lemma AddDate_months:
  assumes c: "civil (t div day) = (y, m, d)"
  defines "k \<equiv> 12 * y + int m - 1"
  shows "AddDate t 0 n 0 = t + (month_start (k + n) - month_start k) * day"
proof -
  have v: "valid_date y m d" and e: "days_of_civil y m d = t div day"
    using days_of_civil_civil [OF c] by simp_all
  have ms: "month_start j = days_of_civil (j div 12) (nat (j mod 12) + 1) x - (x - 1)" for j x
    by (simp add: month_start_def days_of_civil_def)
  have kn: "k + n = int m - 1 + n + y * 12" by (simp add: k_def)
  have "month_start (k + n) = days_of_civil (y + (int m - 1 + n) div 12) (nat ((int m - 1 + n) mod 12) + 1) d - (d - 1)"
    unfolding ms [of _ d] kn by (simp add: add.commute)
  moreover have "month_start (12 * y + int (m - 1)) = days_of_civil y (Suc (m - 1)) 1"
    using v by (intro month_start_at) (auto simp: valid_date_def)
  then have "month_start k = days_of_civil y m d - (d - 1)"
    using v by (simp add: k_def valid_date_def of_nat_diff days_of_civil_def algebra_simps)
  ultimately have "days_of_civil (y + (int m - 1 + n) div 12) (nat ((int m - 1 + n) mod 12) + 1) d =
      t div day + (month_start (k + n) - month_start k)" unfolding e [symmetric] by simp
  then have "AddDate t 0 n 0 = (t div day + (month_start (k + n) - month_start k)) * day + t mod day"
    by (simp only: AddDate_civil [OF c] add_0_right)
  then show ?thesis by (simp add: algebra_simps)
qed

lemma AddDate_quarter: "t + 84 * day \<le> AddDate t 0 3 0 \<and> AddDate t 0 3 0 \<le> t + 93 * day"
proof -
  obtain y m d where c: "civil (t div day) = (y, m, d)" by (metis surj_pair)
  define k where "k = 12 * y + int m - 1"
  have "84 \<le> month_start (k + 3) - month_start k \<and> month_start (k + 3) - month_start k \<le> 93"
    using month_start_Suc [of k] month_start_Suc [of "k + 1"] month_start_Suc [of "k + 2"]
    by (simp add: add.commute)
  then show ?thesis unfolding AddDate_months [OF c] k_def [symmetric] using day_pos by simp
qed

lemma AddDate_month: "t + 28 * day \<le> AddDate t 0 1 0 \<and> AddDate t 0 1 0 \<le> t + 31 * day"
proof -
  obtain y m d where c: "civil (t div day) = (y, m, d)" by (metis surj_pair)
  show ?thesis
    using days_of_civil_civil(2) [OF c] month_length_bounds [of m y] day_pos
    by (simp add: AddDate_months_1 [OF c] valid_date_def)
qed

lemma AddDate_year: "t + 365 * day \<le> AddDate t 1 0 0 \<and> AddDate t 1 0 0 \<le> t + 366 * day"
  using AddDate_year_1 by (metis surj_pair)

end
