(* ===== verification/Org.thy ===== *)
theory Org
  imports Tenant Calendar
begin

text \<open>
  \<^verbatim>\<open>internal/domain/org/org.go\<close> and the calendar and budget arithmetic of
  \<^verbatim>\<open>internal/repository/postgres/budget_repo.go\<close>: departments, budget envelopes, vendor
  subscriptions, the advance of a charge date and the consumption of an envelope.
\<close>

section \<open>Departments\<close>

record Department =
  dp_ID :: uuid
  dp_TenantID :: uuid
  dp_Name :: string
  dp_ParentID :: "uuid option"
  dp_HeadUserID :: "uuid option"
  dp_ArchivedAt :: "time option"
  dp_CreatedAt :: time
  dp_UpdatedAt :: time

record DepartmentDraft =
  dd_Name :: string
  dd_ParentID :: "uuid option"
  dd_HeadUserID :: "uuid option"

definition DepartmentDraft_Validate :: "DepartmentDraft \<Rightarrow> (err, unit) res \<times> DepartmentDraft" where
  "DepartmentDraft_Validate d0 =
    (let d = d0\<lparr>dd_Name := TrimSpace (dd_Name d0)\<rparr>;
         n = rune_count (dd_Name d)
     in (Err (add_if (n = 0 \<or> n > 120) ''name'' ''must be between 1 and 120 characters'' []), d))"

definition Archived :: "Department \<Rightarrow> bool" where
  "Archived d = (dp_ArchivedAt d \<noteq> None)"

section \<open>Budgets\<close>

record Budget =
  b_ID :: uuid
  b_TenantID :: uuid
  b_DepartmentID :: "uuid option"
  b_PeriodStart :: time
  b_PeriodEnd :: time
  b_Amount :: Money
  b_AlertThresholdBps :: int32
  b_CreatedAt :: time
  b_UpdatedAt :: time

record BudgetDraft =
  bd_DepartmentID :: "uuid option"
  bd_PeriodStart :: time
  bd_PeriodEnd :: time
  bd_Amount :: Money
  bd_AlertThresholdBps :: int32

definition DefaultAlertThresholdBps :: int32 where
  "DefaultAlertThresholdBps = 8000"

definition MaxBudgetPeriodDays :: int where
  "MaxBudgetPeriodDays = 366 * 2"

definition BudgetDraft_Validate :: "BudgetDraft \<Rightarrow> time \<Rightarrow> (err, unit) res \<times> BudgetDraft" where
  "BudgetDraft_Validate d0 now =
    (let d1 = (if bd_AlertThresholdBps d0 = 0 then d0\<lparr>bd_AlertThresholdBps := DefaultAlertThresholdBps\<rparr> else d0);
         d = d1\<lparr>bd_PeriodStart := truncate_to day (bd_PeriodStart d1),
                bd_PeriodEnd := truncate_to day (bd_PeriodEnd d1)\<rparr>;
         v1 = (if bd_PeriodStart d = zero_time then Add [] ''period_start'' (Text ''is required'')
               else if bd_PeriodEnd d = zero_time then Add [] ''period_end'' (Text ''is required'')
               else if bd_PeriodEnd d < bd_PeriodStart d
               then Add [] ''period_end'' (Text ''must not be before the start of the period'')
               else if MaxBudgetPeriodDays * day < bd_PeriodEnd d - bd_PeriodStart d
               then Add [] ''period_end'' (Fmt ''must be at most %d days after the start'' [''732''])
               else []);
         v2 = add_if (\<not> Currency_Valid (Currency (bd_Amount d))) ''currency''
                ''must be a three-letter ISO 4217 code'' v1;
         v3 = add_if (\<not> IsPositive (bd_Amount d)) ''amount_minor'' ''must be greater than zero'' v2;
         v4 = add_if (bd_AlertThresholdBps d <s 1 \<or> 10000 <s bd_AlertThresholdBps d) ''alert_threshold_bps''
                ''must be between 1 and 10000 basis points'' v3
     in (Err v4, d))"

section \<open>Vendor subscriptions\<close>

datatype Cadence = CadenceWeekly | CadenceMonthly | CadenceQuarterly | CadenceAnnual | CadenceOther string

fun cadence_str :: "Cadence \<Rightarrow> string" where
  "cadence_str CadenceWeekly = ''weekly''"
| "cadence_str CadenceMonthly = ''monthly''"
| "cadence_str CadenceQuarterly = ''quarterly''"
| "cadence_str CadenceAnnual = ''annual''"
| "cadence_str (CadenceOther s) = s"

definition AllCadences :: "Cadence list" where
  "AllCadences = [CadenceWeekly, CadenceMonthly, CadenceQuarterly, CadenceAnnual]"

definition Cadence_Valid :: "Cadence \<Rightarrow> bool" where
  "Cadence_Valid c = (c \<in> set AllCadences)"

datatype VendorStatus = VendorActive | VendorPaused | VendorCancelled | VendorStatusOther string

fun VendorStatus_Valid :: "VendorStatus \<Rightarrow> bool" where
  "VendorStatus_Valid (VendorStatusOther s) = False"
| "VendorStatus_Valid st = True"

record VendorSubscription =
  vs_ID :: uuid
  vs_TenantID :: uuid
  vs_Vendor :: string
  vs_PlanName :: "string option"
  vs_DepartmentID :: "uuid option"
  vs_OwnerID :: "uuid option"
  vs_Amount :: Money
  vs_Cadence :: Cadence
  vs_Status :: VendorStatus
  vs_NextChargeOn :: time
  vs_LastGeneratedOn :: "time option"
  vs_AutoCreateExpense :: bool
  vs_CancelledAt :: "time option"
  vs_CreatedAt :: time
  vs_UpdatedAt :: time

record VendorSubscriptionDraft =
  vd_Vendor :: string
  vd_PlanName :: "string option"
  vd_DepartmentID :: "uuid option"
  vd_OwnerID :: "uuid option"
  vd_Amount :: Money
  vd_Cadence :: Cadence
  vd_NextChargeOn :: time
  vd_AutoCreateExpense :: bool

definition VendorDraft_Validate ::
    "VendorSubscriptionDraft \<Rightarrow> time \<Rightarrow> (err, unit) res \<times> VendorSubscriptionDraft" where
  "VendorDraft_Validate d0 now =
    (let d1 = d0\<lparr>vd_Vendor := TrimSpace (vd_Vendor d0),
                 vd_PlanName := (case vd_PlanName d0 of None \<Rightarrow> None
                   | Some p \<Rightarrow> (if TrimSpace p = [] then None else Some (TrimSpace p)))\<rparr>;
         n = rune_count (vd_Vendor d1);
         v1 = add_if (n = 0 \<or> n > 200) ''vendor'' ''must be between 1 and 200 characters'' [];
         v2 = add_if (\<not> Cadence_Valid (vd_Cadence d1)) ''cadence''
                ''must be one of weekly, monthly, quarterly or annual'' v1;
         v3 = add_if (\<not> Currency_Valid (Currency (vd_Amount d1))) ''currency''
                ''must be a three-letter ISO 4217 code'' v2;
         v4 = add_if (\<not> IsPositive (vd_Amount d1)) ''amount_minor'' ''must be greater than zero'' v3;
         d = d1\<lparr>vd_NextChargeOn := truncate_to day (vd_NextChargeOn d1)\<rparr>;
         v5 = (if vd_NextChargeOn d = zero_time then Add v4 ''next_charge_on'' (Text ''is required'')
               else add_if (vd_NextChargeOn d < truncate_to day now) ''next_charge_on''
                      ''must not be in the past'' v4)
     in (Err v5, d))"

definition AnnualisedMinor :: "VendorSubscription \<Rightarrow> int64" where
  "AnnualisedMinor s =
    (case vs_Cadence s of
       CadenceWeekly \<Rightarrow> Minor (vs_Amount s) * 52
     | CadenceMonthly \<Rightarrow> Minor (vs_Amount s) * 12
     | CadenceQuarterly \<Rightarrow> Minor (vs_Amount s) * 4
     | CadenceAnnual \<Rightarrow> Minor (vs_Amount s)
     | CadenceOther c \<Rightarrow> 0)"

definition NextChargeDate :: "time \<Rightarrow> Cadence \<Rightarrow> time" where
  "NextChargeDate from cadence =
    (case cadence of
       CadenceWeekly \<Rightarrow> AddDate from 0 0 7
     | CadenceMonthly \<Rightarrow> AddDate from 0 1 0
     | CadenceQuarterly \<Rightarrow> AddDate from 0 3 0
     | CadenceAnnual \<Rightarrow> AddDate from 1 0 0
     | CadenceOther c \<Rightarrow> AddDate from 0 1 0)"

section \<open>Consumption of an envelope\<close>

record Consumption =
  co_BudgetID :: uuid
  co_DepartmentID :: "uuid option"
  co_DepartmentName :: "string option"
  co_PeriodStart :: time
  co_PeriodEnd :: time
  co_Budget :: Money
  co_Consumed :: Money
  co_ClaimCount :: int
  co_AlertThresholdBps :: int32

definition Remaining :: "Consumption \<Rightarrow> Money" where
  "Remaining c = \<lparr>Minor = Minor (co_Budget c) - Minor (co_Consumed c), Currency = Currency (co_Budget c)\<rparr>"

definition UsageBps :: "Consumption \<Rightarrow> int64" where
  "UsageBps c =
    (if Minor (co_Budget c) = 0 then 0
     else quot64 (Minor (co_Consumed c) * 10000) (Minor (co_Budget c)))"

definition BreachesThreshold :: "Consumption \<Rightarrow> bool" where
  "BreachesThreshold c = ((scast (co_AlertThresholdBps c) :: int64) \<le>s UsageBps c)"

section \<open>Properties\<close>

lemma day_neq_0 [simp]: "day \<noteq> 0"
  by (simp add: day_def)

lemma DepartmentDraft_Validate_ok:
  assumes "DepartmentDraft_Validate d0 = (Inr (), d)"
  shows "TrimSpace (dd_Name d) = dd_Name d" "dd_Name d \<noteq> []" "rune_count (dd_Name d) \<le> 120"
    "dd_ParentID d = dd_ParentID d0" "dd_HeadUserID d = dd_HeadUserID d0"
  using assms by (auto simp: DepartmentDraft_Validate_def Let_def go_result)

lemma BudgetDraft_Validate_ok:
  assumes "BudgetDraft_Validate d0 now = (Inr (), d)"
  shows "bd_PeriodStart d \<le> bd_PeriodEnd d" "bd_PeriodEnd d \<le> bd_PeriodStart d + 732 * day"
    "day dvd bd_PeriodStart d" "day dvd bd_PeriodEnd d"
    "Currency_Valid (Currency (bd_Amount d))" "IsPositive (bd_Amount d)"
    "1 \<le>s bd_AlertThresholdBps d" "bd_AlertThresholdBps d \<le>s 10000"
    "bd_DepartmentID d = bd_DepartmentID d0" "bd_Amount d = bd_Amount d0"
  using assms
  by (auto simp: BudgetDraft_Validate_def Let_def go_result Add_def MaxBudgetPeriodDays_def not_less
      word_sless_alt word_sle_eq split: if_splits)

lemma VendorDraft_Validate_ok:
  assumes "VendorDraft_Validate d0 now = (Inr (), d)"
  shows "TrimSpace (vd_Vendor d) = vd_Vendor d" "vd_Vendor d \<noteq> []" "rune_count (vd_Vendor d) \<le> 200"
    "Cadence_Valid (vd_Cadence d)" "Currency_Valid (Currency (vd_Amount d))" "IsPositive (vd_Amount d)"
    "day dvd vd_NextChargeOn d" "truncate_to day now \<le> vd_NextChargeOn d"
    "vd_DepartmentID d = vd_DepartmentID d0" "vd_OwnerID d = vd_OwnerID d0"
  using assms
  by (auto simp: VendorDraft_Validate_def Let_def go_result Add_def not_less split: if_splits)

text \<open>
  A validated envelope passes every \<^verbatim>\<open>CHECK\<close> of the budgets table: whole days, the end not
  before the start and at most two years after it, a three-letter currency, a positive amount and a
  threshold between 1 and 10000 basis points, where an omitted threshold has become 8000.
\<close>

theorem BudgetDraft_valid_row:
  assumes "BudgetDraft_Validate d0 now = (Inr (), d)"
  shows "bd_PeriodStart d \<le> bd_PeriodEnd d \<and> bd_PeriodEnd d \<le> bd_PeriodStart d + 732 * day \<and>
    day dvd bd_PeriodStart d \<and> day dvd bd_PeriodEnd d \<and> Currency_Valid (Currency (bd_Amount d)) \<and>
    IsPositive (bd_Amount d) \<and> 1 \<le>s bd_AlertThresholdBps d \<and> bd_AlertThresholdBps d \<le>s 10000 \<and>
    (bd_AlertThresholdBps d0 = 0 \<longrightarrow> bd_AlertThresholdBps d = 8000)"
  using BudgetDraft_Validate_ok [OF assms] assms
  by (auto simp: BudgetDraft_Validate_def DefaultAlertThresholdBps_def Let_def split: if_splits)

definition demo_budget :: BudgetDraft where
  "demo_budget = \<lparr>bd_DepartmentID = None, bd_PeriodStart = 100 * day, bd_PeriodEnd = 190 * day + 5,
     bd_Amount = \<lparr>Minor = 900000, Currency = ''EUR''\<rparr>, bd_AlertThresholdBps = 0\<rparr>"

theorem BudgetDraft_valid_row_witness:
  "bd_AlertThresholdBps (snd (BudgetDraft_Validate demo_budget 0)) = 8000 \<and>
   day dvd bd_PeriodEnd (snd (BudgetDraft_Validate demo_budget 0))"
proof -
  have "BudgetDraft_Validate demo_budget 0 = (Inr (), snd (BudgetDraft_Validate demo_budget 0))"
    by (simp add: BudgetDraft_Validate_def demo_budget_def DefaultAlertThresholdBps_def Let_def truncate_to_def
        day_def MaxBudgetPeriodDays_def Currency_Valid_def IsPositive_def word_sless_alt)
  from BudgetDraft_valid_row [OF this] show ?thesis by (simp add: demo_budget_def)
qed

text \<open>
  A charge date always moves forward: by a week, by the length of the month charged, by three
  months or by a year, so the sweep cannot be asked to file the same charge date again.
\<close>

theorem NextChargeDate_advances:
  "from + 7 * day \<le> NextChargeDate from cadence \<and> NextChargeDate from cadence \<le> from + 366 * day"
  using AddDate_month [of "from"] AddDate_quarter [of "from"] AddDate_year [of "from"] day_pos
  by (cases cadence) (auto simp: NextChargeDate_def AddDate_days)

text \<open>
  A charge on one of the first 28 days of a month recurs on the same day of the month: of the next
  month, of the third month after, or of the same month a year later.
\<close>

theorem NextChargeDate_keeps_day:
  assumes "civil (from div day) = (y, m, d)" "d \<le> 28"
  shows "civil (NextChargeDate from CadenceMonthly div day) = (y + int m div 12, m mod 12 + 1, d) \<and>
    civil (NextChargeDate from CadenceQuarterly div day) = (y + (int m + 2) div 12, (m + 2) mod 12 + 1, d) \<and>
    civil (NextChargeDate from CadenceAnnual div day) = (y + 1, m, d)"
proof -
  note keep = AddDate_keeps_day [OF assms]
  have m: "1 \<le> m" "m \<le> 12" using days_of_civil_civil(2) [OF assms(1)] by (simp_all add: valid_date_def)
  have "civil (AddDate from 0 1 0 div day) = (y + int m div 12, m mod 12 + 1, d)"
    using keep [of 0 1] by (simp add: nat_mod_as_int)
  moreover have "civil (AddDate from 0 3 0 div day) = (y + (int m + 2) div 12, nat ((int m + 2) mod 12) + 1, d)"
    using keep [of 0 3] by (simp add: add.commute)
  moreover have "nat ((int m + 2) mod 12) = (m + 2) mod 12"
    by (simp only: nat_mod_as_int) (simp add: add.commute)
  moreover have "civil (AddDate from 1 0 0 div day) = (y + 1, m, d)"
  proof -
    have "(int m - 1) div 12 = 0" "nat ((int m - 1) mod 12) + 1 = m" using m by auto
    then show ?thesis using keep [of 1 0] by (simp only: add_0_right)
  qed
  ultimately show ?thesis by (simp add: NextChargeDate_def)
qed

lemma new_year_2025 [simp]: "civil 739253 = (2025, 1, 3)" "civil 739281 = (2025, 1, 31)" "civil 739312 = (2025, 3, 3)"
  by (simp_all add: civil_def year_split_def month_lengths_def is_leap_def)

theorem NextChargeDate_keeps_day_witness:
  "civil (NextChargeDate (739253 * day) CadenceMonthly div day) = (2025, 2, 3) \<and>
   civil (NextChargeDate (739253 * day) CadenceAnnual div day) = (2026, 1, 3)"
  using NextChargeDate_keeps_day [of "739253 * day" 2025 1 3] by simp

text \<open>
  A monthly charge dated the last day of January skips February altogether: it is next charged in
  March, where the comment promises that no month is skipped.
\<close>

theorem monthly_charge_skips_february:
  "civil (NextChargeDate (days_of_civil 2025 1 31 * day) CadenceMonthly div day) = (2025, 3, 3)"
proof -
  have "days_of_civil 2025 1 31 = 739281"
    by (simp add: days_of_civil_def days_before_year_def days_before_month_def)
  moreover have "NextChargeDate (739281 * day) CadenceMonthly = 739312 * day"
    by (simp add: NextChargeDate_def AddDate_months_1 [of _ 2025 1 31] month_length_def month_lengths_def)
  ultimately show ?thesis by simp
qed

section \<open>Usage of an envelope\<close>

lemma le_div_iff_mult: "0 < b \<Longrightarrow> k \<le> x div b \<longleftrightarrow> k * b \<le> x" for k x b :: int
proof
  assume b: "0 < b" and "k \<le> x div b"
  then have "k * b \<le> x div b * b" by simp
  also have "\<dots> \<le> x" using b div_mult_mod_eq [of x b] pos_mod_sign [of b x] by linarith
  finally show "k * b \<le> x" .
qed (use zdiv_mono1 [of "k * b" x b] in simp)

text \<open>
  The usage of an envelope is exact as long as the consumption, times ten thousand, fits 64 bits:
  it is the whole number of basis points, so an alert is raised exactly when the consumption has
  reached the threshold's share of the envelope.
\<close>

theorem usage_threshold_exact:
  assumes "0 <s Minor (co_Budget c)" "0 \<le>s Minor (co_Consumed c)"
    and "sint (Minor (co_Consumed c)) \<le> 922337203685477" and "0 <s co_AlertThresholdBps c"
  shows "sint (UsageBps c) = sint (Minor (co_Consumed c)) * 10000 div sint (Minor (co_Budget c)) \<and>
    (BreachesThreshold c \<longleftrightarrow>
      sint (co_AlertThresholdBps c) * sint (Minor (co_Budget c)) \<le> sint (Minor (co_Consumed c)) * 10000)"
proof -
  let ?b = "sint (Minor (co_Budget c))" and ?x = "sint (Minor (co_Consumed c))"
  have b: "0 < ?b" and x: "0 \<le> ?x" using assms(1,2) by (simp_all add: word_sless_alt word_sle_eq)
  have "sint (Minor (co_Consumed c) * 10000) = ?x * 10000"
    using sint_mult_in_range [of "Minor (co_Consumed c)" 10000] x assms(3) by (simp add: in_int64_def)
  then have u: "sint (UsageBps c) = ?x * 10000 div ?b"
    using b x by (simp add: UsageBps_def sint_quot64_nonneg)
  have "sint (scast (co_AlertThresholdBps c) :: int64) = sint (co_AlertThresholdBps c)"
    by (simp add: sint_up_scast is_up)
  then have "BreachesThreshold c \<longleftrightarrow> sint (co_AlertThresholdBps c) \<le> ?x * 10000 div ?b"
    by (simp add: BreachesThreshold_def word_sle_eq u)
  with u b show ?thesis by (simp add: le_div_iff_mult)
qed

theorem usage_threshold_exact_witness:
  "BreachesThreshold \<lparr>co_BudgetID = 1, co_DepartmentID = None, co_DepartmentName = None, co_PeriodStart = 0,
     co_PeriodEnd = day, co_Budget = \<lparr>Minor = 1000, Currency = ''EUR''\<rparr>,
     co_Consumed = \<lparr>Minor = 800, Currency = ''EUR''\<rparr>, co_ClaimCount = 2, co_AlertThresholdBps = 8000\<rparr>"
  by (rule iffD2 [OF conjunct2 [OF usage_threshold_exact]]) (simp_all add: word_sless_alt word_sle_eq)

text \<open>
  Beyond that bound the multiplication wraps: an envelope whose consumption is ten times the budget
  is reported with a negative usage and raises no alert.
\<close>

theorem usage_wraps:
  "\<exists>c. 0 <s Minor (co_Budget c) \<and> sint (Minor (co_Consumed c)) = 10 * sint (Minor (co_Budget c)) \<and>
     UsageBps c <s 0 \<and> \<not> BreachesThreshold c \<and> co_AlertThresholdBps c = 8000"
proof (intro exI conjI)
  let ?c = "\<lparr>co_BudgetID = 1, co_DepartmentID = None, co_DepartmentName = None, co_PeriodStart = 0,
     co_PeriodEnd = day, co_Budget = \<lparr>Minor = 100000000000000, Currency = ''VND''\<rparr>,
     co_Consumed = \<lparr>Minor = 1000000000000000, Currency = ''VND''\<rparr>, co_ClaimCount = 2,
     co_AlertThresholdBps = 8000\<rparr>"
  have "UsageBps ?c = - 84467"
    by (simp add: UsageBps_def quot64_def sdiv_pos)
  then show "UsageBps ?c <s 0" "\<not> BreachesThreshold ?c"
    by (simp_all add: BreachesThreshold_def word_sless_alt word_sle_eq)
qed (simp_all add: word_sless_alt)

end
