(* ===== verification/Entitlement.thy ===== *)
theory Entitlement
  imports Errors
begin

text \<open>
  \<^verbatim>\<open>internal/domain/billing/entitlement.go\<close>: plans, subscription status and what an
  organisation may use. The plan table is a function from plan codes to rows, the feature sets of the
  code are lists. The theorems say that losing a subscription never takes away reading and exporting,
  and that the effective limits grow with the plan.
\<close>

section \<open>Plans and status\<close>

datatype PlanCode = PlanFree | PlanStarter | PlanGrowth | PlanEnterprise | PlanOther string

fun plan_str :: "PlanCode \<Rightarrow> string" where
  "plan_str PlanFree = ''free''"
| "plan_str PlanStarter = ''starter''"
| "plan_str PlanGrowth = ''growth''"
| "plan_str PlanEnterprise = ''enterprise''"
| "plan_str (PlanOther s) = s"

definition AllPlans :: "PlanCode list" where
  "AllPlans = [PlanFree, PlanStarter, PlanGrowth, PlanEnterprise]"

definition plan_of :: "string \<Rightarrow> PlanCode" where
  "plan_of s = (case List.find (\<lambda>p. plan_str p = s) AllPlans of Some p \<Rightarrow> p | None \<Rightarrow> PlanOther s)"

datatype SubStatus =
    SubIncomplete | SubIncompleteExpired | SubTrialing | SubActive | SubPastDue | SubCanceled
  | SubUnpaid | SubPaused | SubOther string

fun sub_str :: "SubStatus \<Rightarrow> string" where
  "sub_str SubIncomplete = ''incomplete''"
| "sub_str SubIncompleteExpired = ''incomplete_expired''"
| "sub_str SubTrialing = ''trialing''"
| "sub_str SubActive = ''active''"
| "sub_str SubPastDue = ''past_due''"
| "sub_str SubCanceled = ''canceled''"
| "sub_str SubUnpaid = ''unpaid''"
| "sub_str SubPaused = ''paused''"
| "sub_str (SubOther s) = s"

definition AllSubStatuses :: "SubStatus list" where
  "AllSubStatuses = [SubIncomplete, SubIncompleteExpired, SubTrialing, SubActive, SubPastDue,
     SubCanceled, SubUnpaid, SubPaused]"

definition sub_status_of :: "string \<Rightarrow> SubStatus" where
  "sub_status_of s = (case List.find (\<lambda>p. sub_str p = s) AllSubStatuses of Some p \<Rightarrow> p | None \<Rightarrow> SubOther s)"

definition IsLive :: "SubStatus \<Rightarrow> bool" where
  "IsLive s = (s = SubTrialing \<or> s = SubActive \<or> s = SubPastDue)"

datatype Feature =
    FeatureStreamingExport | FeatureScheduledReports | FeatureVendorSubTracking
  | FeatureDepartmentBudgets | FeatureApprovalChains | FeatureAuditExport | FeatureAPIAccess | FeatureSSO

record Limits =
  l_Seats :: int
  l_Departments :: int
  l_VendorSubscriptions :: int
  l_ExportRows :: int

definition Unlimited :: int where
  "Unlimited = - 1"

definition Within :: "int \<Rightarrow> int \<Rightarrow> bool" where
  "Within limit count = (limit = Unlimited \<or> count \<le> limit)"

record plan =
  p_Limits :: Limits
  p_Features :: "Feature list"

fun plans :: "PlanCode \<rightharpoonup> plan" where
  "plans PlanFree = Some
    \<lparr>p_Limits = \<lparr>l_Seats = 3, l_Departments = 1, l_VendorSubscriptions = 5, l_ExportRows = 1000\<rparr>,
     p_Features = [FeatureStreamingExport]\<rparr>"
| "plans PlanStarter = Some
    \<lparr>p_Limits = \<lparr>l_Seats = 10, l_Departments = 5, l_VendorSubscriptions = 50, l_ExportRows = 25000\<rparr>,
     p_Features = [FeatureStreamingExport, FeatureVendorSubTracking, FeatureDepartmentBudgets]\<rparr>"
| "plans PlanGrowth = Some
    \<lparr>p_Limits = \<lparr>l_Seats = 50, l_Departments = 25, l_VendorSubscriptions = 500, l_ExportRows = 250000\<rparr>,
     p_Features = [FeatureStreamingExport, FeatureVendorSubTracking, FeatureDepartmentBudgets,
       FeatureScheduledReports, FeatureApprovalChains, FeatureAuditExport, FeatureAPIAccess]\<rparr>"
| "plans PlanEnterprise = Some
    \<lparr>p_Limits = \<lparr>l_Seats = Unlimited, l_Departments = Unlimited, l_VendorSubscriptions = Unlimited,
       l_ExportRows = Unlimited\<rparr>,
     p_Features = [FeatureStreamingExport, FeatureVendorSubTracking, FeatureDepartmentBudgets,
       FeatureScheduledReports, FeatureApprovalChains, FeatureAuditExport, FeatureAPIAccess, FeatureSSO]\<rparr>"
| "plans (PlanOther s) = None"

text \<open>Go's map lookup yields the zero value for a missing key.\<close>

definition zero_plan :: plan where
  "zero_plan = \<lparr>p_Limits = \<lparr>l_Seats = 0, l_Departments = 0, l_VendorSubscriptions = 0, l_ExportRows = 0\<rparr>,
     p_Features = []\<rparr>"

definition plan_row :: "PlanCode \<Rightarrow> plan" where
  "plan_row p = (case plans p of Some r \<Rightarrow> r | None \<Rightarrow> zero_plan)"

section \<open>Entitlements\<close>

record Entitlement =
  en_Plan :: PlanCode
  en_Status :: SubStatus
  en_Seats :: int
  en_CurrentPeriodEnd :: time
  en_CancelAtPeriodEnd :: bool
  en_TrialEnd :: "time option"
  en_Known :: bool

definition FreeEntitlement :: Entitlement where
  "FreeEntitlement =
    \<lparr>en_Plan = PlanFree, en_Status = SubCanceled, en_Seats = l_Seats (p_Limits (plan_row PlanFree)),
     en_CurrentPeriodEnd = zero_time, en_CancelAtPeriodEnd = False, en_TrialEnd = None, en_Known = False\<rparr>"

definition EffectivePlan :: "Entitlement \<Rightarrow> PlanCode" where
  "EffectivePlan e =
    (if \<not> en_Known e \<or> \<not> IsLive (en_Status e) then PlanFree
     else case plans (en_Plan e) of None \<Rightarrow> PlanStarter | Some _ \<Rightarrow> en_Plan e)"

definition Allows :: "Entitlement \<Rightarrow> Feature \<Rightarrow> bool" where
  "Allows e f = (f \<in> set (p_Features (plan_row (EffectivePlan e))))"

definition Entitlement_Limits :: "Entitlement \<Rightarrow> Limits" where
  "Entitlement_Limits e =
    (let l = p_Limits (plan_row (EffectivePlan e));
         l1 = (if IsLive (en_Status e) \<and> en_Seats e > 0 \<and> l_Seats l \<noteq> Unlimited \<and> en_Seats e < l_Seats l
               then l\<lparr>l_Seats := en_Seats e\<rparr> else l)
     in if IsLive (en_Status e) \<and> en_Seats e > 0 \<and> l_Seats l1 = Unlimited
        then l1\<lparr>l_Seats := en_Seats e\<rparr> else l1)"

definition InGracePeriod :: "Entitlement \<Rightarrow> bool" where
  "InGracePeriod e = (en_Status e = SubPastDue)"

definition NeedsCheckout :: "Entitlement \<Rightarrow> bool" where
  "NeedsCheckout e = (\<not> en_Known e)"

section \<open>Properties\<close>

lemma plan_of_str [simp]: "plans p \<noteq> None \<Longrightarrow> plan_of (plan_str p) = p"
  by (cases p) (simp_all add: plan_of_def AllPlans_def)

lemma EffectivePlan_known: "EffectivePlan e \<in> set AllPlans"
  by (cases "en_Plan e") (simp_all add: EffectivePlan_def AllPlans_def)

lemma Within_mono: "Within limit m \<Longrightarrow> n \<le> m \<Longrightarrow> Within limit n"
  by (auto simp: Within_def)

text \<open>
  Nobody loses their records to a billing problem: whatever the subscription says, even an unknown
  plan or a lapsed one, streaming export is allowed, at least one seat, one department and a thousand
  export rows remain, and the limits are never the zero row of a missing plan.
\<close>

theorem lapsed_keeps_export:
  "Allows e FeatureStreamingExport \<and> Within (l_ExportRows (Entitlement_Limits e)) 1000 \<and>
   Within (l_Departments (Entitlement_Limits e)) 1 \<and> Within (l_Seats (Entitlement_Limits e)) 1"
  using EffectivePlan_known [of e]
  by (auto simp: Allows_def Entitlement_Limits_def Let_def plan_row_def AllPlans_def Within_def Unlimited_def)

text \<open>
  The effective seat limit: for a live subscription with a purchased seat count it is the smaller
  of the purchase and the plan's ceiling, where an unlimited ceiling never binds; otherwise it is the
  plan's own ceiling. No other limit depends on the seats.
\<close>

theorem effective_seats:
  "l_Seats (Entitlement_Limits e) =
    (let c = l_Seats (p_Limits (plan_row (EffectivePlan e))) in
     if IsLive (en_Status e) \<and> 0 < en_Seats e then (if c = Unlimited then en_Seats e else min (en_Seats e) c)
     else c) \<and>
   (Entitlement_Limits e)\<lparr>l_Seats := 0\<rparr> = (p_Limits (plan_row (EffectivePlan e)))\<lparr>l_Seats := 0\<rparr>"
  using EffectivePlan_known [of e]
  by (auto simp: Entitlement_Limits_def Let_def plan_row_def AllPlans_def Unlimited_def)

text \<open>The plans in the order of the price list; an unknown code is priced as the starter plan.\<close>

definition tier :: "PlanCode \<Rightarrow> nat" where
  "tier p = (case p of PlanFree \<Rightarrow> 0 | PlanStarter \<Rightarrow> 1 | PlanGrowth \<Rightarrow> 2 | PlanEnterprise \<Rightarrow> 3 | PlanOther s \<Rightarrow> 1)"

text \<open>
  The tiers are ordered: moving a live subscription up the list of plans with the same purchased
  seats never removes a feature and never tightens a limit.
\<close>

theorem plans_monotone:
  assumes "tier p \<le> tier q" and "en_Known e" "IsLive (en_Status e)"
  defines "lo \<equiv> e\<lparr>en_Plan := p\<rparr>" and "hi \<equiv> e\<lparr>en_Plan := q\<rparr>"
  shows "(Allows lo f \<longrightarrow> Allows hi f) \<and>
    (Within (l_Seats (Entitlement_Limits lo)) n \<longrightarrow> Within (l_Seats (Entitlement_Limits hi)) n) \<and>
    (Within (l_Departments (Entitlement_Limits lo)) n \<longrightarrow> Within (l_Departments (Entitlement_Limits hi)) n) \<and>
    (Within (l_VendorSubscriptions (Entitlement_Limits lo)) n \<longrightarrow>
       Within (l_VendorSubscriptions (Entitlement_Limits hi)) n) \<and>
    (Within (l_ExportRows (Entitlement_Limits lo)) n \<longrightarrow> Within (l_ExportRows (Entitlement_Limits hi)) n)"
proof -
  have lo: "EffectivePlan lo = (case p of PlanOther s \<Rightarrow> PlanStarter | _ \<Rightarrow> p)"
    and hi: "EffectivePlan hi = (case q of PlanOther s \<Rightarrow> PlanStarter | _ \<Rightarrow> q)"
    using assms by (cases p; simp add: EffectivePlan_def; fail | cases q; simp add: EffectivePlan_def)+
  have st: "IsLive (en_Status lo)" "IsLive (en_Status hi)" "en_Seats lo = en_Seats hi"
    using assms by simp_all
  show ?thesis
    using assms(1) st
    by (cases p; cases q)
       (auto simp: Allows_def Entitlement_Limits_def Let_def lo hi plan_row_def Within_def Unlimited_def tier_def)
qed

theorem plans_monotone_witness:
  "Within (l_Departments (Entitlement_Limits (FreeEntitlement\<lparr>en_Known := True, en_Status := SubActive,
     en_Plan := PlanGrowth\<rparr>))) 5"
  using plans_monotone [of PlanStarter PlanGrowth "FreeEntitlement\<lparr>en_Known := True, en_Status := SubActive\<rparr>"
      FeatureSSO 5]
  by (simp add: tier_def FreeEntitlement_def IsLive_def Entitlement_Limits_def EffectivePlan_def plan_row_def
      Within_def Let_def Unlimited_def)

end
