(* ===== verification/Database.thy ===== *)
theory Database
  imports Expense Org Entitlement "HOL-Library.List_Lexorder"
begin

text \<open>
  The database as the program uses it: its tables as lists of rows in insertion order, the transaction
  runner of \<^verbatim>\<open>internal/platform/postgres/tx.go\<close>, and the translation of database refusals in
  \<^verbatim>\<open>internal/repository/postgres/errors.go\<close>. The work of a transaction has type \<open>'a tx\<close>:
  it either fails, and then nothing it did is kept, or returns a value and the new database. A service
  call is an \<open>'a act\<close>: a sequence of committed transactions, whose effects stay even when a later one
  fails.

  The constraints of the tables are those of \<^verbatim>\<open>db/migrations\<close>; a refused statement is the
  \<^verbatim>\<open>pgconn.PgError\<close> with the SQLSTATE and the constraint PostgreSQL reports, row-level policies
  first, then \<^verbatim>\<open>CHECK\<close>s in the order of their names, unique indexes, and foreign keys last.
  What the database decides by itself (its clock, the rows other sessions have locked, its collation)
  are fields of the runtime record.
\<close>

section \<open>Tables\<close>

record User =
  u_ID :: uuid
  u_Email :: string
  u_PasswordHash :: "string option"
  u_FullName :: "string option"
  u_CreatedAt :: time
  u_DeletedAt :: "time option"

record Attachment =
  at_ID :: uuid
  at_TenantID :: uuid
  at_ExpenseID :: uuid
  at_ObjectKey :: string
  at_Filename :: string
  at_ContentType :: string
  at_SizeBytes :: int64
  at_Checksum :: string
  at_UploadedBy :: uuid
  at_CreatedAt :: time

record TenantSubscription =
  ts_TenantID :: uuid
  ts_GatewaySubscriptionID :: string
  ts_GatewayCustomerRef :: string
  ts_PlanCode :: string
  ts_Status :: string
  ts_Seats :: int32
  ts_CurrentPeriodStart :: time
  ts_CurrentPeriodEnd :: time
  ts_CancelAtPeriodEnd :: bool
  ts_TrialEnd :: "time option"
  ts_LastEventID :: "string option"
  ts_LastEventAt :: "time option"
  ts_UpdatedAt :: time

datatype BillingEventStatus = BEProcessing | BESucceeded | BEFailed | BESkipped

record BillingEvent =
  be_EventID :: string
  be_TenantID :: "uuid option"
  be_EventType :: string
  be_Status :: BillingEventStatus
  be_Attempts :: int32
  be_Payload :: string
  be_ErrorDetail :: "err option"
  be_ReceivedAt :: time
  be_ProcessedAt :: "time option"

record RefreshToken =
  rt_ID :: uuid
  rt_UserID :: uuid
  rt_TokenHash :: string
  rt_FamilyID :: uuid
  rt_IssuedAt :: time
  rt_ExpiresAt :: time
  rt_UsedAt :: "time option"
  rt_RevokedAt :: "time option"

record db =
  tenants :: "Tenant list"
  users :: "User list"
  memberships :: "Membership list"
  departments :: "Department list"
  budgets :: "Budget list"
  expenses :: "Expense list"
  attachments :: "Attachment list"
  events :: "(nat \<times> Event) list"
  next_event :: nat
  vendor_subs :: "VendorSubscription list"
  tenant_subs :: "TenantSubscription list"
  billing_events :: "BillingEvent list"
  refresh_tokens :: "RefreshToken list"

section \<open>Transactions\<close>

type_synonym 'a tx = "db \<Rightarrow> (err, 'a \<times> db) res"
type_synonym 'a act = "db \<Rightarrow> (err, 'a) res \<times> db"

definition ret :: "'a \<Rightarrow> 'a tx" where
  "ret x = (\<lambda>d. Inr (x, d))"

definition bind_tx :: "'a tx \<Rightarrow> ('a \<Rightarrow> 'b tx) \<Rightarrow> 'b tx" where
  "bind_tx m f = (\<lambda>d. case m d of Inl e \<Rightarrow> Inl e | Inr (x, d') \<Rightarrow> f x d')"

definition lift_res :: "(err, 'a) res \<Rightarrow> 'a tx" where
  "lift_res r = (\<lambda>d. case r of Inl e \<Rightarrow> Inl e | Inr x \<Rightarrow> Inr (x, d))"

text \<open>\<^verbatim>\<open>if cond { return err }\<close> inside a transaction.\<close>

definition reject_if :: "bool \<Rightarrow> err \<Rightarrow> unit tx" where
  "reject_if c e = lift_res (fail_if c e)"

definition asks :: "(db \<Rightarrow> 'a) \<Rightarrow> 'a tx" where
  "asks f = (\<lambda>d. Inr (f d, d))"

text \<open>The error of a step, inspected instead of returned; the database is as before the step.\<close>

definition try_tx :: "'a tx \<Rightarrow> (err, 'a) res tx" where
  "try_tx m = (\<lambda>d. case m d of Inl e \<Rightarrow> Inr (Inl e, d) | Inr (x, d') \<Rightarrow> Inr (Inr x, d'))"

definition map_err :: "(err \<Rightarrow> err) \<Rightarrow> 'a tx \<Rightarrow> 'a tx" where
  "map_err f m = (\<lambda>d. case m d of Inl e \<Rightarrow> Inl (f e) | Inr r \<Rightarrow> Inr r)"

definition commit_tx :: "'a tx \<Rightarrow> 'a act" where
  "commit_tx m = (\<lambda>d. case m d of Inl e \<Rightarrow> (Inl e, d) | Inr (x, d') \<Rightarrow> (Inr x, d'))"

definition ret_act :: "'a \<Rightarrow> 'a act" where
  "ret_act x = (\<lambda>d. (Inr x, d))"

definition fail_act :: "err \<Rightarrow> 'a act" where
  "fail_act e = (\<lambda>d. (Inl e, d))"

definition bind_act :: "'a act \<Rightarrow> ('a \<Rightarrow> 'b act) \<Rightarrow> 'b act" where
  "bind_act m f = (\<lambda>d. case m d of (Inl e, d') \<Rightarrow> (Inl e, d') | (Inr x, d') \<Rightarrow> f x d')"

text \<open>A call whose error the code inspects instead of returning.\<close>

definition try_act :: "'a act \<Rightarrow> (err, 'a) res act" where
  "try_act m = (\<lambda>d. case m d of (r, d') \<Rightarrow> (Inr r, d'))"

text \<open>A pure check between the transactions of a call.\<close>

definition lift_act :: "(err, 'a) res \<Rightarrow> 'a act" where
  "lift_act r = (\<lambda>d. (r, d))"

text \<open>
  \<^verbatim>\<open>TenantConn\<close> with the session settings \<^verbatim>\<open>bindSession\<close> installs and the transaction's
  \<^verbatim>\<open>now()\<close>.
\<close>

record TenantConn =
  tc_tenantID :: uuid
  tc_actorID :: uuid
  tc_readOnly :: bool
  tc_system :: bool
  tc_now :: time
  tc_locked :: "uuid \<Rightarrow> bool"
  tc_lower :: "string \<Rightarrow> string"
  tc_collate :: "string \<Rightarrow> nat list"

record Binding =
  bi_TenantID :: uuid
  bi_ActorID :: uuid
  bi_ReadOnly :: bool

text \<open>
  What one call finds around it: the service's clock (\<^verbatim>\<open>time.Now\<close>), the database's clock, rows
  locked by other sessions, the collation's \<^verbatim>\<open>lower\<close> and sort keys, fresh identifiers, the failure (if any) of
  each attempt before its commit, whether the caller has gone, and the result of the check after the
  commit.
\<close>

record Runtime =
  clock :: time
  db_clock :: time
  locked_rows :: "uuid \<Rightarrow> bool"
  collation_lower :: "string \<Rightarrow> string"
  collation_key :: "string \<Rightarrow> nat list"
  fresh_id :: "nat \<Rightarrow> uuid"
  tx_fault :: "nat \<Rightarrow> err option"
  tx_cancelled :: "nat \<Rightarrow> bool"
  verify_reset :: "err option"

definition MaxSerializationRetries :: nat where
  "MaxSerializationRetries = 3"

fun isRetryable :: "err \<Rightarrow> bool" where
  "isRetryable (PgErr p) = (Code p = ''40001'' \<or> Code p = ''40P01'')"
| "isRetryable _ = False"

definition bindSession :: "Runtime \<Rightarrow> Binding \<Rightarrow> bool \<Rightarrow> TenantConn" where
  "bindSession env b system =
    \<lparr>tc_tenantID = bi_TenantID b, tc_actorID = bi_ActorID b, tc_readOnly = bi_ReadOnly b,
     tc_system = system, tc_now = db_clock env, tc_locked = locked_rows env, tc_lower = collation_lower env,
     tc_collate = collation_key env\<rparr>"

definition attemptTx :: "Runtime \<Rightarrow> nat \<Rightarrow> Binding \<Rightarrow> bool \<Rightarrow> (TenantConn \<Rightarrow> 'a tx) \<Rightarrow> 'a act" where
  "attemptTx env attempt b system fn d =
    (case tx_fault env attempt of
       Some e \<Rightarrow> (Inl e, d)
     | None \<Rightarrow>
         (case fn (bindSession env b system) d of
            Inl e \<Rightarrow> (Inl e, d)
          | Inr (x, d') \<Rightarrow>
              (case verify_reset env of None \<Rightarrow> (Inr x, d') | Some e \<Rightarrow> (Inl e, d'))))"

fun runTx_loop :: "nat \<Rightarrow> nat \<Rightarrow> Runtime \<Rightarrow> Binding \<Rightarrow> bool \<Rightarrow> (TenantConn \<Rightarrow> 'a tx) \<Rightarrow> 'a act" where
  "runTx_loop 0 attempt env b system fn d =
    (Inl (Opaque (Fmt ''transaction failed after %d attempts: %w'' [''3''])), d)"
| "runTx_loop (Suc n) attempt env b system fn d =
    (case attemptTx env attempt b system fn d of
       (Inr x, d') \<Rightarrow> (Inr x, d')
     | (Inl e, d') \<Rightarrow>
         (if \<not> isRetryable e then (Inl e, d')
          else if tx_cancelled env attempt then (Inl e, d')
          else runTx_loop n (attempt + 1) env b system fn d'))"

definition runTx :: "Runtime \<Rightarrow> Binding \<Rightarrow> bool \<Rightarrow> (TenantConn \<Rightarrow> 'a tx) \<Rightarrow> 'a act" where
  "runTx env b system fn = runTx_loop MaxSerializationRetries 1 env b system fn"

definition WithTenantTx :: "Runtime \<Rightarrow> Binding \<Rightarrow> (TenantConn \<Rightarrow> 'a tx) \<Rightarrow> 'a act" where
  "WithTenantTx env b fn d =
    (if bi_TenantID b = nil_uuid
     then (Inl (Wrap ErrNoTenantContext (Text ''WithTenantTx called with the nil tenant id'')), d)
     else runTx env b False fn d)"

definition WithSystemTx :: "Runtime \<Rightarrow> Binding \<Rightarrow> (TenantConn \<Rightarrow> 'a tx) \<Rightarrow> 'a act" where
  "WithSystemTx env b fn = runTx env b True fn"

section \<open>Statements\<close>

text \<open>The restrictive policy \<^verbatim>\<open>tenant_isolation\<close> of migration 00006.\<close>

definition rls :: "TenantConn \<Rightarrow> uuid \<Rightarrow> bool" where
  "rls tc t = (tc_system tc \<or> (tc_tenantID tc \<noteq> nil_uuid \<and> t = tc_tenantID tc))"

definition pg :: "string \<Rightarrow> string \<Rightarrow> err" where
  "pg code name = PgErr \<lparr>Code = code, ConstraintName = name, Message = []\<rparr>"

definition policy_error :: err where
  "policy_error = PgErr \<lparr>Code = ''42501'', ConstraintName = [],
     Message = ''new row violates row-level security policy''\<rparr>"

definition writable :: "TenantConn \<Rightarrow> unit tx" where
  "writable tc = reject_if (tc_readOnly tc) (pg ''25006'' [])"

text \<open>The first failing constraint of a list, in the order PostgreSQL checks them.\<close>

fun first_failing :: "(string \<times> bool) list \<Rightarrow> string option" where
  "first_failing [] = None"
| "first_failing ((name, ok) # cs) = (if ok then first_failing cs else Some name)"

definition constraints :: "string \<Rightarrow> (string \<times> bool) list \<Rightarrow> unit tx" where
  "constraints code cs = lift_res (case first_failing cs of None \<Rightarrow> Inr () | Some n \<Rightarrow> Inl (pg code n))"

definition one_row :: "'r list \<Rightarrow> (err, 'r) res" where
  "one_row rs = (case rs of [] \<Rightarrow> Inl NoRows | r # _ \<Rightarrow> Inr r)"

definition update_rows :: "('r \<Rightarrow> bool) \<Rightarrow> ('r \<Rightarrow> 'r) \<Rightarrow> 'r list \<Rightarrow> 'r list" where
  "update_rows P f rs = map (\<lambda>r. if P r then f r else r) rs"

text \<open>A nullable composite foreign key: satisfied by NULL, or by a row of the same tenant.\<close>

definition fk_opt :: "('k \<Rightarrow> bool) \<Rightarrow> 'k option \<Rightarrow> bool" where
  "fk_opt ok v = (case v of None \<Rightarrow> True | Some k \<Rightarrow> ok k)"

definition has_tenant :: "db \<Rightarrow> uuid \<Rightarrow> bool" where
  "has_tenant d t = (\<exists>r \<in> set (tenants d). t_ID r = t)"

definition has_user :: "db \<Rightarrow> uuid \<Rightarrow> bool" where
  "has_user d u = (\<exists>r \<in> set (users d). u_ID r = u)"

definition has_member :: "db \<Rightarrow> uuid \<Rightarrow> uuid \<Rightarrow> bool" where
  "has_member d t m = (\<exists>r \<in> set (memberships d). m_ID r = m \<and> m_TenantID r = t)"

definition has_department :: "db \<Rightarrow> uuid \<Rightarrow> uuid \<Rightarrow> bool" where
  "has_department d t i = (\<exists>r \<in> set (departments d). dp_ID r = i \<and> dp_TenantID r = t)"

definition has_expense :: "db \<Rightarrow> uuid \<Rightarrow> uuid \<Rightarrow> bool" where
  "has_expense d t i = (\<exists>r \<in> set (expenses d). e_ID r = i \<and> e_TenantID r = t)"

definition has_vendor_sub :: "db \<Rightarrow> uuid \<Rightarrow> uuid \<Rightarrow> bool" where
  "has_vendor_sub d t i = (\<exists>r \<in> set (vendor_subs d). vs_ID r = i \<and> vs_TenantID r = t)"

text \<open>\<^verbatim>\<open>btrim\<close> of spaces and \<^verbatim>\<open>char_length\<close>, for the length constraints.\<close>

definition btrim :: "string \<Rightarrow> string" where
  "btrim s = rev (dropWhile (\<lambda>c. c = CHR '' '') (rev (dropWhile (\<lambda>c. c = CHR '' '') s)))"

definition btrim_len_between :: "nat \<Rightarrow> nat \<Rightarrow> string \<Rightarrow> bool" where
  "btrim_len_between lo hi s = (lo \<le> rune_count (btrim s) \<and> rune_count (btrim s) \<le> hi)"

section \<open>Translation of refusals (\<^verbatim>\<open>errors.go\<close>)\<close>

definition constraintErrors :: "(string \<times> FieldError) list" where
  "constraintErrors =
    [(''users_email_live_key'', \<lparr>Field = ''email'', Detail = Text ''is already registered''\<rparr>),
     (''tenants_slug_key'', \<lparr>Field = ''slug'', Detail = Text ''is already taken''\<rparr>),
     (''tenants_slug_format_chk'', \<lparr>Field = ''slug'', Detail = Text ''must be lowercase letters, digits or hyphens''\<rparr>),
     (''memberships_tenant_user_key'', \<lparr>Field = ''user_id'', Detail = Text ''is already a member of this organisation''\<rparr>),
     (''memberships_single_owner_key'', \<lparr>Field = ''role'',
        Detail = Text ''an organisation may have only one owner; transfer ownership instead''\<rparr>),
     (''departments_tenant_name_live_key'', \<lparr>Field = ''name'', Detail = Text ''a department with this name already exists''\<rparr>),
     (''budgets_no_overlap'', \<lparr>Field = ''period_start'', Detail = Text ''overlaps an existing budget for this department''\<rparr>),
     (''budgets_period_chk'', \<lparr>Field = ''period_end'', Detail = Text ''must not be before the start of the period''\<rparr>),
     (''expenses_amount_chk'', \<lparr>Field = ''amount_minor'', Detail = Text ''must be greater than zero''\<rparr>),
     (''expenses_spent_at_chk'', \<lparr>Field = ''spent_at'', Detail = Text ''must not be in the future''\<rparr>),
     (''expenses_status_timestamps_chk'', \<lparr>Field = ''status'', Detail = Text ''the claim's timestamps do not match its status''\<rparr>),
     (''expenses_recurring_once_per_charge_key'', \<lparr>Field = ''source_subscription_id'', Detail = Text ''a claim for this charge already exists''\<rparr>),
     (''expense_attachments_size_chk'', \<lparr>Field = ''size_bytes'', Detail = Text ''must be between 1 byte and 25 MiB''\<rparr>),
     (''tenant_subscriptions_gateway_id_key'', \<lparr>Field = ''gateway_subscription_id'',
        Detail = Text ''is already linked to another organisation''\<rparr>)]"

definition HasPrefix :: "string \<Rightarrow> string \<Rightarrow> bool" where
  "HasPrefix s p = (take (length p) s = p)"

definition TrimPrefix :: "string \<Rightarrow> string \<Rightarrow> string" where
  "TrimPrefix s p = (if HasPrefix s p then drop (length p) s else s)"

definition TrimSuffix :: "string \<Rightarrow> string \<Rightarrow> string" where
  "TrimSuffix s p = rev (TrimPrefix (rev s) (rev p))"

fun contains_at :: "string \<Rightarrow> string \<Rightarrow> bool" where
  "contains_at [] p = (p = [])"
| "contains_at (c # s) p = (HasPrefix (c # s) p \<or> contains_at s p)"

definition fkField :: "string \<Rightarrow> string" where
  "fkField constraint =
    (let name = TrimSuffix constraint ''_fk'' in
     case List.find (HasPrefix name)
       [''expenses_'', ''expense_attachments_'', ''expense_events_'', ''memberships_'',
        ''departments_'', ''budgets_'', ''vendor_subscriptions_'', ''tenant_subscriptions_''] of
       Some table \<Rightarrow> TrimPrefix name table
     | None \<Rightarrow> (if name = [] then ''request'' else name))"

definition constraint_error :: "sentinel \<Rightarrow> PgError \<Rightarrow> err" where
  "constraint_error s p =
    (case map_of constraintErrors (ConstraintName p) of
       Some fe \<Rightarrow> FieldErr fe
     | None \<Rightarrow> Wrap s (Text (ConstraintName p)))"

definition translate :: "err \<Rightarrow> err" where
  "translate e =
    (case e of
       NoRows \<Rightarrow> Sentinel ErrNotFound
     | PgErr p \<Rightarrow>
         (if Code p = ''23505'' then constraint_error ErrConflict p
          else if Code p = ''23P01'' then constraint_error ErrConflict p
          else if Code p = ''23514'' then constraint_error ErrValidation p
          else if Code p = ''23503''
          then FieldErr \<lparr>Field = fkField (ConstraintName p),
                         Detail = Text ''does not refer to anything in this organisation''\<rparr>
          else if Code p = ''42501''
          then (if contains_at (Message p) ''row-level security''
                then Wrap ErrPolicyViolation (Text (Message p))
                else Opaque (Fmt ''database privileges are misconfigured: %s'' [Message p]))
          else if Code p = ''55P03''
          then Wrap ErrConflict (Text ''the claim is being changed by someone else'')
          else if Code p = ''22P02'' then Wrap ErrValidation (Text (Message p))
          else if Code p = ''25006''
          then Opaque (Fmt ''write attempted in a read-only transaction: %s'' [Message p])
          else e)
     | _ \<Rightarrow> e)"

text \<open>
  A statement run on the pool is a transaction of its own, without a binding and without retries; a
  failure of the connection reaches the caller through \<open>translate\<close> like any other.
\<close>

definition pool_conn :: "Runtime \<Rightarrow> TenantConn" where
  "pool_conn env = bindSession env \<lparr>bi_TenantID = nil_uuid, bi_ActorID = nil_uuid, bi_ReadOnly = False\<rparr> False"

definition on_pool :: "Runtime \<Rightarrow> (TenantConn \<Rightarrow> 'a tx) \<Rightarrow> 'a act" where
  "on_pool env stmt d =
    (case tx_fault env 1 of
       Some e \<Rightarrow> (Inl (translate e), d)
     | None \<Rightarrow> commit_tx (stmt (pool_conn env)) d)"

section \<open>Effects of transactions\<close>

lemma bind_tx_Inr [go_result]:
  "bind_tx m f d = Inr (y, d'') \<longleftrightarrow> (\<exists>x d'. m d = Inr (x, d') \<and> f x d' = Inr (y, d''))"
  by (auto simp: bind_tx_def split: sum.splits)

lemma bind_tx_Inl [go_result]:
  "bind_tx m f d = Inl e \<longleftrightarrow> m d = Inl e \<or> (\<exists>x d'. m d = Inr (x, d') \<and> f x d' = Inl e)"
  by (auto simp: bind_tx_def split: sum.splits)

lemma ret_Inr [go_result]: "ret x d = Inr (y, d') \<longleftrightarrow> y = x \<and> d' = d"
  by (auto simp: ret_def)

lemma ret_simp [simp]: "ret x d = Inr (x, d)"
  by (simp add: ret_def)

lemma lift_res_Inr [go_result]: "lift_res r d = Inr (x, d') \<longleftrightarrow> r = Inr x \<and> d' = d"
  by (auto simp: lift_res_def split: sum.splits)

lemma lift_res_Inl [go_result]: "lift_res r d = Inl e \<longleftrightarrow> r = Inl e"
  by (auto simp: lift_res_def split: sum.splits)

lemma reject_if_Inr [go_result]: "reject_if c e d = Inr (x, d') \<longleftrightarrow> \<not> c \<and> d' = d"
  by (auto simp: reject_if_def go_result)

lemma reject_if_Inl [go_result]: "reject_if c e d = Inl e' \<longleftrightarrow> c \<and> e' = e"
  by (auto simp: reject_if_def go_result)

lemma asks_simp [simp]: "asks f d = Inr (f d, d)"
  by (simp add: asks_def)

lemma try_tx_Inr [go_result]:
  "try_tx m d = Inr (r, d') \<longleftrightarrow>
    (case m d of Inl e \<Rightarrow> r = Inl e \<and> d' = d | Inr (x, d'') \<Rightarrow> r = Inr x \<and> d' = d'')"
  by (auto simp: try_tx_def split: sum.splits)

lemma map_err_Inr [go_result]: "map_err f m d = Inr r \<longleftrightarrow> m d = Inr r"
  by (auto simp: map_err_def split: sum.splits)

lemma map_err_Inl [go_result]: "map_err f m d = Inl e \<longleftrightarrow> (\<exists>e'. m d = Inl e' \<and> e = f e')"
  by (auto simp: map_err_def split: sum.splits)

lemma writable_Inr [go_result]: "writable tc d = Inr (x, d') \<longleftrightarrow> \<not> tc_readOnly tc \<and> d' = d"
  by (simp add: writable_def go_result)

lemma constraints_Inr [go_result]: "constraints code cs d = Inr (x, d') \<longleftrightarrow> first_failing cs = None \<and> d' = d"
  by (auto simp: constraints_def go_result split: option.splits)

lemma constraints_Inl [go_result]:
  "constraints code cs d = Inl e \<longleftrightarrow> (\<exists>n. first_failing cs = Some n \<and> e = pg code n)"
  by (auto simp: constraints_def go_result split: option.splits)

lemma first_failing_None: "first_failing cs = None \<longleftrightarrow> (\<forall>(n, ok) \<in> set cs. ok)"
  by (induction cs rule: first_failing.induct) auto

declare first_failing.simps [simp del]

lemma filter_ConsD: "filter P rs = r # rest \<Longrightarrow> r \<in> set rs \<and> P r"
  by (auto simp: filter_eq_Cons_iff)

lemma one_row_Inr [go_result]: "one_row rs = Inr r \<longleftrightarrow> (\<exists>rest. rs = r # rest)"
  by (auto simp: one_row_def split: list.splits)

lemma one_row_Inl [go_result]: "one_row rs = Inl e \<longleftrightarrow> rs = [] \<and> e = NoRows"
  by (auto simp: one_row_def split: list.splits)

lemma bindSession_simps [simp]:
  "tc_tenantID (bindSession env b sys) = bi_TenantID b"
  "tc_actorID (bindSession env b sys) = bi_ActorID b"
  "tc_readOnly (bindSession env b sys) = bi_ReadOnly b"
  "tc_system (bindSession env b sys) = sys"
  "tc_now (bindSession env b sys) = db_clock env"
  "tc_locked (bindSession env b sys) = locked_rows env"
  "tc_lower (bindSession env b sys) = collation_lower env"
  "tc_collate (bindSession env b sys) = collation_key env"
  by (simp_all add: bindSession_def)

text \<open>
  A transaction (or a call) keeps a relation between the database before and after, whatever it
  returns. For a reflexive and transitive relation this composes, which is how invariants and frame
  conditions are carried through every service call.
\<close>

definition keeps :: "(db \<Rightarrow> db \<Rightarrow> bool) \<Rightarrow> 'a tx \<Rightarrow> bool" where
  "keeps R m = (\<forall>d x d'. m d = Inr (x, d') \<longrightarrow> R d d')"

definition keeps_act :: "(db \<Rightarrow> db \<Rightarrow> bool) \<Rightarrow> 'a act \<Rightarrow> bool" where
  "keeps_act R a = (\<forall>d. R d (snd (a d)))"

locale effect_relation =
  fixes R :: "db \<Rightarrow> db \<Rightarrow> bool"
  assumes effect_refl: "R d d"
    and effect_trans: "R a b \<Longrightarrow> R b c \<Longrightarrow> R a c"
begin

lemma keeps_ret: "keeps R (ret x)"
  by (simp add: keeps_def go_result effect_refl)

lemma keeps_lift: "keeps R (lift_res r)"
  by (auto simp: keeps_def go_result effect_refl)

lemma keeps_reject: "keeps R (reject_if c e)"
  by (auto simp: keeps_def go_result effect_refl)

lemma keeps_asks: "keeps R (asks f)"
  by (auto simp: keeps_def effect_refl)

lemma keeps_writable: "keeps R (writable tc)"
  by (auto simp: keeps_def go_result effect_refl)

lemma keeps_constraints: "keeps R (constraints code cs)"
  by (auto simp: keeps_def go_result effect_refl)

lemma keeps_bind: "keeps R m \<Longrightarrow> (\<And>x. keeps R (f x)) \<Longrightarrow> keeps R (bind_tx m f)"
  unfolding keeps_def go_result using effect_trans by blast

lemma keeps_try: "keeps R m \<Longrightarrow> keeps R (try_tx m)"
  by (auto simp: keeps_def go_result effect_refl split: sum.splits)

lemma keeps_map_err: "keeps R m \<Longrightarrow> keeps R (map_err f m)"
  by (simp add: keeps_def go_result)

lemma keeps_if: "keeps R m \<Longrightarrow> keeps R n \<Longrightarrow> keeps R (if c then m else n)"
  by simp

lemma keeps_commit: "keeps R m \<Longrightarrow> keeps_act R (commit_tx m)"
  by (auto simp: keeps_def keeps_act_def commit_tx_def effect_refl split: sum.splits)

lemma keeps_act_ret: "keeps_act R (ret_act x)"
  by (simp add: keeps_act_def ret_act_def effect_refl)

lemma keeps_act_fail: "keeps_act R (fail_act e)"
  by (simp add: keeps_act_def fail_act_def effect_refl)

lemma keeps_act_lift: "keeps_act R (lift_act r)"
  by (simp add: keeps_act_def lift_act_def effect_refl)

lemma keeps_act_bind: "keeps_act R m \<Longrightarrow> (\<And>x. keeps_act R (f x)) \<Longrightarrow> keeps_act R (bind_act m f)"
proof -
  assume m: "keeps_act R m" and f: "\<And>x. keeps_act R (f x)"
  have "R d (snd (bind_act m f d))" for d
  proof -
    obtain r d' where md: "m d = (r, d')" by fastforce
    then have step: "R d d'" using m by (metis keeps_act_def snd_conv)
    show ?thesis
    proof (cases r)
      case (Inr x)
      then show ?thesis using md f [of x] effect_trans [OF step] by (simp add: bind_act_def keeps_act_def)
    qed (use md step in \<open>simp add: bind_act_def\<close>)
  qed
  then show ?thesis by (simp add: keeps_act_def)
qed

lemma keeps_act_try: "keeps_act R m \<Longrightarrow> keeps_act R (try_act m)"
  by (simp add: keeps_act_def try_act_def split_beta)

lemma attemptTx_keeps:
  "keeps R (fn (bindSession env b sys)) \<Longrightarrow> R d (snd (attemptTx env i b sys fn d))"
  by (auto simp: keeps_def attemptTx_def effect_refl split: option.splits sum.splits)

lemma runTx_loop_keeps:
  assumes fn: "keeps R (fn (bindSession env b sys))"
  shows "R d (snd (runTx_loop n i env b sys fn d))"
proof (induction n arbitrary: i d)
  case (Suc n)
  obtain r d' where a: "attemptTx env i b sys fn d = (r, d')" by fastforce
  with attemptTx_keeps [where fn = fn, OF fn, of d i] have step: "R d d'" by simp
  show ?case
    using a step Suc.IH [of d' "i + 1"] effect_trans [OF step] by (cases r) auto
qed (simp add: effect_refl)

lemma keeps_WithTenantTx:
  assumes "keeps R (fn (bindSession env b False))"
  shows "keeps_act R (WithTenantTx env b fn)"
  using runTx_loop_keeps [where fn = fn, OF assms] by (simp add: keeps_act_def WithTenantTx_def runTx_def effect_refl)

lemma keeps_WithSystemTx:
  assumes "keeps R (fn (bindSession env b True))"
  shows "keeps_act R (WithSystemTx env b fn)"
  using runTx_loop_keeps [where fn = fn, OF assms] by (simp add: keeps_act_def WithSystemTx_def runTx_def)

lemma keeps_on_pool: "keeps R (stmt (pool_conn env)) \<Longrightarrow> keeps_act R (on_pool env stmt)"
  using keeps_commit by (auto simp: keeps_act_def on_pool_def effect_refl split: option.splits)

lemmas keeps_intros = keeps_ret keeps_lift keeps_reject keeps_asks keeps_writable keeps_constraints
  keeps_bind keeps_try keeps_map_err keeps_act_ret keeps_act_fail keeps_act_lift keeps_act_bind keeps_act_try
  keeps_WithTenantTx keeps_WithSystemTx keeps_on_pool

end

text \<open>An invariant is the relation "if it held before, it holds after".\<close>

definition invariant_effect :: "(db \<Rightarrow> bool) \<Rightarrow> db \<Rightarrow> db \<Rightarrow> bool" where
  "invariant_effect I d d' = (I d \<longrightarrow> I d')"

interpretation inv_effect: effect_relation "invariant_effect I" for I
  by unfold_locales (auto simp: invariant_effect_def)

text \<open>
  What a call bound to one organisation must leave alone: every row of every other organisation, and
  the tables that belong to none.
\<close>

definition others :: "uuid \<Rightarrow> db \<Rightarrow> db" where
  "others t d =
    d\<lparr>tenants := filter (\<lambda>r. t_ID r \<noteq> t) (tenants d),
      memberships := filter (\<lambda>r. m_TenantID r \<noteq> t) (memberships d),
      departments := filter (\<lambda>r. dp_TenantID r \<noteq> t) (departments d),
      budgets := filter (\<lambda>r. b_TenantID r \<noteq> t) (budgets d),
      expenses := filter (\<lambda>r. e_TenantID r \<noteq> t) (expenses d),
      attachments := filter (\<lambda>r. at_TenantID r \<noteq> t) (attachments d),
      events := filter (\<lambda>r. ev_TenantID (snd r) \<noteq> t) (events d),
      next_event := 0,
      vendor_subs := filter (\<lambda>r. vs_TenantID r \<noteq> t) (vendor_subs d),
      tenant_subs := filter (\<lambda>r. ts_TenantID r \<noteq> t) (tenant_subs d)\<rparr>"

definition frame_effect :: "uuid \<Rightarrow> db \<Rightarrow> db \<Rightarrow> bool" where
  "frame_effect t d d' = (others t d' = others t d)"

interpretation frame: effect_relation "frame_effect t" for t
  by unfold_locales (auto simp: frame_effect_def)

lemma update_rows_mem: "r \<in> set (update_rows P f rs) \<longleftrightarrow> (\<exists>x \<in> set rs. r = (if P x then f x else x))"
  by (auto simp: update_rows_def)

lemma map_update_rows: "(\<And>r. k (f r) = k r) \<Longrightarrow> map k (update_rows P f rs) = map k rs"
  by (simp add: update_rows_def)

lemma image_update_rows: "(\<And>r. k (f r) = k r) \<Longrightarrow> k ` set (update_rows P f rs) = k ` set rs"
  by (metis map_update_rows list.set_map)

lemma filter_update_rows:
  assumes "\<And>r. P r \<Longrightarrow> key r = t" "\<And>r. P r \<Longrightarrow> key (f r) = t"
  shows "filter (\<lambda>r. key r \<noteq> t) (update_rows P f rs) = filter (\<lambda>r. key r \<noteq> t) rs"
  using assms by (induction rs) (auto simp: update_rows_def)

lemma filter_delete_rows:
  assumes "\<And>r. P r \<Longrightarrow> key r = t"
  shows "filter (\<lambda>r. key r \<noteq> t) (filter (\<lambda>r. \<not> P r) rs) = filter (\<lambda>r. key r \<noteq> t) rs"
  using assms by (induction rs) auto

lemma runTx_cases:
  assumes "verify_reset env = None" "runTx env b system fn d = (r, d')"
  obtains (failed) e where "r = Inl e" "d' = d"
  | (committed) x where "r = Inr x" "fn (bindSession env b system) d = Inr (x, d')"
proof -
  have "(\<exists>e. r = Inl e \<and> d' = d) \<or> (\<exists>x. r = Inr x \<and> fn (bindSession env b system) d = Inr (x, d'))"
    if "runTx_loop n i env b system fn d = (r, d')" for n i
    using that
  proof (induction n arbitrary: i)
    case (Suc n)
    obtain q d1 where a: "attemptTx env i b system fn d = (q, d1)" by fastforce
    then have "(\<exists>e. q = Inl e \<and> d1 = d) \<or> (\<exists>x. q = Inr x \<and> fn (bindSession env b system) d = Inr (x, d1))"
      using assms(1) by (auto simp: attemptTx_def split: option.splits sum.splits)
    then show ?case using a Suc by (auto split: if_splits)
  qed auto
  with assms(2) failed committed show ?thesis unfolding runTx_def by blast
qed

text \<open>Whether one of the three attempts gets as far as running the work.\<close>

fun attempt_reached :: "nat \<Rightarrow> nat \<Rightarrow> Runtime \<Rightarrow> bool" where
  "attempt_reached 0 i env = False"
| "attempt_reached (Suc n) i env =
    (case tx_fault env i of
       None \<Rightarrow> True
     | Some e \<Rightarrow> isRetryable e \<and> \<not> tx_cancelled env i \<and> attempt_reached n (i + 1) env)"

definition runs :: "Runtime \<Rightarrow> bool" where
  "runs env = (verify_reset env = None \<and> attempt_reached MaxSerializationRetries 1 env)"

lemma runs_no_fault: "verify_reset env = None \<Longrightarrow> (\<And>i. tx_fault env i = None) \<Longrightarrow> runs env"
  by (simp add: runs_def MaxSerializationRetries_def numeral_3_eq_3)

lemma runTx_loop_Inr:
  assumes "verify_reset env = None"
  shows "runTx_loop n i env b system fn d = (Inr x, d') \<longleftrightarrow>
    attempt_reached n i env \<and> fn (bindSession env b system) d = Inr (x, d')"
proof (induction n arbitrary: i)
  case (Suc n)
  show ?case
  proof (cases "fn (bindSession env b system) d")
    case (Inl e)
    then show ?thesis using Suc.IH [of "i + 1"] by (auto simp: attemptTx_def split: option.splits)
  next
    case (Inr r)
    then show ?thesis using Suc.IH [of "i + 1"] assms by (cases r) (auto simp: attemptTx_def split: option.splits)
  qed
qed simp

lemma runTx_Inr:
  assumes "verify_reset env = None"
  shows "runTx env b system fn d = (Inr x, d') \<longleftrightarrow> runs env \<and> fn (bindSession env b system) d = Inr (x, d')"
  using runTx_loop_Inr [OF assms] assms by (simp add: runTx_def runs_def)

lemma runTx_runs:
  assumes "runs env" "fn (bindSession env b system) d = Inr (x, d')"
  shows "runTx env b system fn d = (Inr x, d')"
  using assms runTx_Inr by (metis runs_def)

text \<open>An error of the work that is not transient is returned as it is, and nothing is kept.\<close>

lemma runTx_loop_Inl:
  assumes "fn (bindSession env b system) d = Inl e" "\<not> isRetryable e" "attempt_reached n i env"
  shows "runTx_loop n i env b system fn d = (Inl e, d)"
  using assms(3) by (induction n arbitrary: i) (use assms(1,2) in \<open>auto simp: attemptTx_def split: option.splits\<close>)

lemma runTx_refuses:
  assumes "runs env" "fn (bindSession env b system) d = Inl e" "\<not> isRetryable e"
  shows "runTx env b system fn d = (Inl e, d)"
  using assms by (simp add: runTx_def runs_def runTx_loop_Inl)

lemma on_pool_Inr [go_result]:
  "on_pool env stmt d = (Inr x, d') \<longleftrightarrow> tx_fault env 1 = None \<and> stmt (pool_conn env) d = Inr (x, d')"
  by (auto simp: on_pool_def commit_tx_def split: option.splits sum.splits)

lemma on_pool_Inl [go_result]:
  "on_pool env stmt d = (Inl e, d') \<longleftrightarrow>
    d' = d \<and> ((\<exists>f. tx_fault env 1 = Some f \<and> e = translate f) \<or> tx_fault env 1 = None \<and> stmt (pool_conn env) d = Inl e)"
  by (auto simp: on_pool_def commit_tx_def split: option.splits sum.splits)

lemma bind_act_Inr [go_result]:
  "bind_act m f d = (Inr y, d'') \<longleftrightarrow> (\<exists>x d'. m d = (Inr x, d') \<and> f x d' = (Inr y, d''))"
  by (auto simp: bind_act_def split: prod.splits sum.splits)

lemma bind_act_Inl [go_result]:
  "bind_act m f d = (Inl e, d'') \<longleftrightarrow> m d = (Inl e, d'') \<or> (\<exists>x d'. m d = (Inr x, d') \<and> f x d' = (Inl e, d''))"
  by (auto simp: bind_act_def split: prod.splits sum.splits)

lemma ret_act_simps [go_result]: "ret_act x d = (Inr y, d') \<longleftrightarrow> y = x \<and> d' = d" "ret_act x d \<noteq> (Inl e, d')"
  "fail_act e' d = (Inl e, d') \<longleftrightarrow> e = e' \<and> d' = d" "fail_act e' d \<noteq> (Inr y, d')"
  by (auto simp: ret_act_def fail_act_def)

lemma try_act_simps [go_result]: "try_act m d = (Inr r, d') \<longleftrightarrow> m d = (r, d')" "try_act m d \<noteq> (Inl e, d')"
  by (auto simp: try_act_def split: prod.splits)

lemma lift_act_simp [go_result]: "lift_act r d = (q, d') \<longleftrightarrow> r = q \<and> d' = d"
  by (auto simp: lift_act_def)

lemma runTx_never:
  assumes "\<And>x d'. fn (bindSession env b system) d \<noteq> Inr (x, d')"
  shows "\<exists>e. runTx env b system fn d = (Inl e, d)"
proof -
  have "\<exists>e. runTx_loop n i env b system fn d = (Inl e, d)" for n i
  proof (induction n arbitrary: i)
    case (Suc n)
    obtain e0 where "fn (bindSession env b system) d = Inl e0"
      using assms by (cases "fn (bindSession env b system) d") auto
    then obtain e where "attemptTx env i b system fn d = (Inl e, d)"
      by (cases "tx_fault env i") (simp_all add: attemptTx_def)
    then show ?case using Suc.IH [of "i + 1"] by simp
  qed simp
  then show ?thesis by (simp add: runTx_def)
qed


definition demo_env :: Runtime where
  "demo_env = \<lparr>clock = 100 * day, db_clock = 100 * day, locked_rows = (\<lambda>_. False), collation_lower = (\<lambda>s. s), collation_key = map of_char,
     fresh_id = (\<lambda>i. of_nat (1000 + i)), tx_fault = (\<lambda>_. None), tx_cancelled = (\<lambda>_. False),
     verify_reset = None\<rparr>"

definition empty_db :: db where
  "empty_db = \<lparr>tenants = [], users = [], memberships = [], departments = [], budgets = [], expenses = [],
     attachments = [], events = [], next_event = 0, vendor_subs = [], tenant_subs = [], billing_events = [],
     refresh_tokens = []\<rparr>"

definition no_binding :: Binding where
  "no_binding = \<lparr>bi_TenantID = nil_uuid, bi_ActorID = nil_uuid, bi_ReadOnly = False\<rparr>"


text \<open>
  Transient failures are retried: if one of the three attempts is free of failures and every attempt
  before it failed with a serialization failure or a deadlock while the caller was still there, the
  work is done and its result returned.
\<close>

theorem runTx_retries:
  assumes "verify_reset env = None" and "fn (bindSession env b system) d = Inr (x, d')"
    and "k < 3" "tx_fault env (Suc k) = None"
    and "\<forall>j<k. \<exists>e. tx_fault env (Suc j) = Some e \<and> isRetryable e \<and> \<not> tx_cancelled env (Suc j)"
  shows "runTx env b system fn d = (Inr x, d')"
proof -
  have good: "attemptTx env (Suc k) b system fn d = (Inr x, d')"
    using assms by (simp add: attemptTx_def)
  have bad: "\<exists>e. attemptTx env (Suc j) b system fn d = (Inl e, d) \<and> isRetryable e \<and> \<not> tx_cancelled env (Suc j)"
    if "j < k" for j using assms(5) that by (auto simp: attemptTx_def)
  have "k = 0 \<or> k = 1 \<or> k = 2" using assms(3) by auto
  then show ?thesis
    using good bad [of 0] bad [of 1]
    by (auto simp: runTx_def MaxSerializationRetries_def numeral_3_eq_3 numeral_2_eq_2)
qed

theorem runTx_retries_witness:
  "runTx (demo_env\<lparr>tx_fault := (\<lambda>i. if i = 1 then Some (pg ''40001'' []) else None)\<rparr>) no_binding True
     (\<lambda>tc. ret (7 :: nat)) empty_db = (Inr 7, empty_db)"
  by (rule runTx_retries [of _ _ _ _ _ _ _ 1]) (auto simp: demo_env_def pg_def)

end
