(* ===== verification/Tenancy_Repo.thy ===== *)
theory Tenancy_Repo
  imports Database
begin

text \<open>
  \<^verbatim>\<open>internal/repository/postgres/tenancy_repo.go\<close> with \<^verbatim>\<open>db/queries/tenancy.sql\<close> and
  migrations 00002, 00003 and 00006: users, organisations, memberships, refresh tokens and the
  recipients of notifications. Users and refresh tokens are global tables, reached through the pool.
\<close>

section \<open>Identity\<close>

text \<open>\<^verbatim>\<open>users_email_format_chk\<close>: one \<^verbatim>\<open>@\<close>, no white space, and a dot inside the domain.\<close>

definition is_space :: "char \<Rightarrow> bool" where
  "is_space c = ((of_char c :: nat) = 32 \<or> 9 \<le> (of_char c :: nat) \<and> of_char c \<le> (13 :: nat))"

definition email_format :: "string \<Rightarrow> bool" where
  "email_format s =
    (let l = takeWhile (\<lambda>c. c \<noteq> CHR ''@'') s; d = drop (Suc (length l)) s in
     l \<noteq> [] \<and> length l < length s \<and> list_all (\<lambda>c. \<not> is_space c) l \<and>
     list_all (\<lambda>c. \<not> is_space c \<and> c \<noteq> CHR ''@'') d \<and>
     list_ex (\<lambda>i. d ! i = CHR ''.'') [1..<length d - 1])"

definition same_email :: "TenantConn \<Rightarrow> string \<Rightarrow> User \<Rightarrow> bool" where
  "same_email tc email u = (tc_lower tc (u_Email u) = tc_lower tc email \<and> u_DeletedAt u = None)"

definition Q_CreateUser :: "uuid \<Rightarrow> string \<Rightarrow> string option \<Rightarrow> string option \<Rightarrow> TenantConn \<Rightarrow> User tx" where
  "Q_CreateUser newID email hash fullName tc =
     (bind_tx (writable tc) (\<lambda>_.
      bind_tx (constraints ''23514''
        [(''users_email_format_chk'', email_format email),
         (''users_email_len_chk'', 3 \<le> rune_count email \<and> rune_count email \<le> 320)]) (\<lambda>_.
      bind_tx (asks (\<lambda>d. d)) (\<lambda>d.
      bind_tx (constraints ''23505''
        [(''users_pkey'', \<not> has_user d newID),
         (''users_email_live_key'', \<forall>u \<in> set (users d). \<not> same_email tc email u)]) (\<lambda>_ d.
      let u = \<lparr>u_ID = newID, u_Email = email, u_PasswordHash = hash, u_FullName = fullName,
               u_CreatedAt = tc_now tc, u_DeletedAt = None\<rparr>
      in Inr (u, d\<lparr>users := users d @ [u]\<rparr>))))))"

definition CreateUser :: "uuid \<Rightarrow> string \<Rightarrow> string option \<Rightarrow> string option \<Rightarrow> TenantConn \<Rightarrow> User tx" where
  "CreateUser newID email hash fullName tc = map_err translate (Q_CreateUser newID email hash fullName tc)"

definition Q_GetUserByEmail :: "string \<Rightarrow> TenantConn \<Rightarrow> User tx" where
  "Q_GetUserByEmail email tc = bind_tx (asks (\<lambda>d. filter (same_email tc email) (users d))) (\<lambda>rs. lift_res (one_row rs))"

definition GetUserByEmail :: "string \<Rightarrow> TenantConn \<Rightarrow> User tx" where
  "GetUserByEmail email tc = map_err translate (Q_GetUserByEmail email tc)"

definition live_user :: "uuid \<Rightarrow> User \<Rightarrow> bool" where
  "live_user i u = (u_ID u = i \<and> u_DeletedAt u = None)"

definition Q_GetUserByID :: "uuid \<Rightarrow> TenantConn \<Rightarrow> User tx" where
  "Q_GetUserByID i tc = bind_tx (asks (\<lambda>d. filter (live_user i) (users d))) (\<lambda>rs. lift_res (one_row rs))"

definition GetUserByID :: "uuid \<Rightarrow> TenantConn \<Rightarrow> User tx" where
  "GetUserByID i tc = map_err translate (Q_GetUserByID i tc)"

definition Q_UpdateUserPassword :: "uuid \<Rightarrow> string \<Rightarrow> TenantConn \<Rightarrow> nat tx" where
  "Q_UpdateUserPassword i hash tc =
    bind_tx (writable tc) (\<lambda>_ d.
      Inr (length (filter (live_user i) (users d)),
           d\<lparr>users := update_rows (live_user i) (\<lambda>u. u\<lparr>u_PasswordHash := Some hash\<rparr>) (users d)\<rparr>))"

definition SetUserPassword :: "uuid \<Rightarrow> string \<Rightarrow> TenantConn \<Rightarrow> unit tx" where
  "SetUserPassword i hash tc =
    bind_tx (map_err translate (Q_UpdateUserPassword i hash tc)) (\<lambda>n.
    reject_if (n = 0) (Sentinel ErrNotFound))"

section \<open>Actors and memberships\<close>

definition Q_ResolveActor :: "TenantConn \<Rightarrow> uuid \<Rightarrow> Actor tx" where
  "Q_ResolveActor tc userID =
      (bind_tx (asks (\<lambda>d. concat (map (\<lambda>m.
          map (\<lambda>t. \<lparr>a_TenantID = m_TenantID m, a_UserID = m_UserID m, a_MembershipID = m_ID m, a_Role = m_Role m,
                    a_Status = m_Status m, a_DepartmentID = m_DepartmentID m,
                    a_ApprovalLimitMinor = m_ApprovalLimitMinor m, a_TenantStatus = t_Status t\<rparr>)
            (filter (\<lambda>t. t_ID t = m_TenantID m \<and> rls tc (t_ID t)) (tenants d)))
          (filter (\<lambda>m. m_TenantID m = tc_tenantID tc \<and> m_UserID m = userID \<and> rls tc (m_TenantID m)) (memberships d)))))
        (\<lambda>rs. lift_res (one_row rs)))"

definition ResolveActor :: "TenantConn \<Rightarrow> uuid \<Rightarrow> Actor tx" where
  "ResolveActor tc userID = map_err translate (Q_ResolveActor tc userID)"

record TenantMembership =
  tm_MembershipID :: uuid
  tm_TenantID :: uuid
  tm_Slug :: string
  tm_Name :: string
  tm_Role :: Role
  tm_Status :: MembershipStatus
  tm_TenantStatus :: TenantStatus

definition ListMembershipsForUser :: "TenantConn \<Rightarrow> uuid \<Rightarrow> TenantMembership list tx" where
  "ListMembershipsForUser tc userID =
    asks (\<lambda>d. sort_key (\<lambda>r. tc_collate tc (tm_Name r))
      (concat (map (\<lambda>m.
          map (\<lambda>t. \<lparr>tm_MembershipID = m_ID m, tm_TenantID = t_ID t, tm_Slug = t_Slug t, tm_Name = t_Name t,
                    tm_Role = m_Role m, tm_Status = m_Status m, tm_TenantStatus = t_Status t\<rparr>)
            (filter (\<lambda>t. t_ID t = m_TenantID m \<and> rls tc (t_ID t)) (tenants d)))
          (filter (\<lambda>m. m_UserID m = userID \<and> m_Status m \<noteq> MembershipSuspended \<and> rls tc (m_TenantID m))
            (memberships d)))))"

definition ListTenantsForUser :: "Runtime \<Rightarrow> uuid \<Rightarrow> TenantMembership list act" where
  "ListTenantsForUser env userID =
    WithSystemTx env (no_binding\<lparr>bi_ReadOnly := True\<rparr>)
      (\<lambda>tc. map_err translate (ListMembershipsForUser tc userID))"

fun member_status_enum :: "MembershipStatus \<Rightarrow> bool" where
  "member_status_enum (MembershipStatusOther s) = False"
| "member_status_enum st = True"

definition member_checks :: "TenantConn \<Rightarrow> Membership \<Rightarrow> unit tx" where
  "member_checks tc r =
    bind_tx (reject_if (\<not> (Role_Valid (m_Role r) \<and> member_status_enum (m_Status r))) (pg ''22P02'' [])) (\<lambda>_.
    bind_tx (reject_if (\<not> rls tc (m_TenantID r)) policy_error) (\<lambda>_.
    constraints ''23514''
      [(''memberships_approval_limit_chk'', fk_opt (\<lambda>l. 0 <s l) (m_ApprovalLimitMinor r))]))"

definition other_owner :: "Membership \<Rightarrow> Membership \<Rightarrow> bool" where
  "other_owner r x = (m_Role r = RoleOwner \<and> m_Role x = RoleOwner \<and> m_TenantID x = m_TenantID r \<and> m_ID x \<noteq> m_ID r)"

definition CreateMembership :: "TenantConn \<Rightarrow> Membership \<Rightarrow> Membership tx" where
  "CreateMembership tc r =
    bind_tx (writable tc) (\<lambda>_.
    bind_tx (member_checks tc r) (\<lambda>_.
    bind_tx (asks (\<lambda>d. d)) (\<lambda>d.
    bind_tx (constraints ''23505''
      [(''memberships_pkey'', \<forall>x \<in> set (memberships d). m_ID x \<noteq> m_ID r),
       (''memberships_tenant_user_key'',
          \<forall>x \<in> set (memberships d). \<not> (m_TenantID x = m_TenantID r \<and> m_UserID x = m_UserID r)),
       (''memberships_single_owner_key'', \<forall>x \<in> set (memberships d). \<not> other_owner r x)]) (\<lambda>_.
    bind_tx (constraints ''23503''
      [(''memberships_tenant_id_fkey'', has_tenant d (m_TenantID r)),
       (''memberships_user_id_fkey'', has_user d (m_UserID r)),
       (''memberships_invited_by_fkey'', fk_opt (has_user d) (m_InvitedBy r)),
       (''memberships_department_fk'', fk_opt (has_department d (m_TenantID r)) (m_DepartmentID r))]) (\<lambda>_ d.
    Inr (r, d\<lparr>memberships := memberships d @ [r]\<rparr>))))))"

definition CreateTenant :: "TenantConn \<Rightarrow> Tenant \<Rightarrow> Tenant tx" where
  "CreateTenant tc r =
    bind_tx (writable tc) (\<lambda>_.
    bind_tx (reject_if (\<not> tc_system tc) policy_error) (\<lambda>_.
    bind_tx (constraints ''23514''
      [(''tenants_currency_chk'', Currency_Valid (t_DefaultCurrency r)),
       (''tenants_name_len_chk'', btrim_len_between 1 200 (t_Name r)),
       (''tenants_slug_format_chk'', validSlug (t_Slug r))]) (\<lambda>_.
    bind_tx (asks (\<lambda>d. d)) (\<lambda>d.
    bind_tx (constraints ''23505''
      [(''tenants_pkey'', \<not> has_tenant d (t_ID r)),
       (''tenants_slug_key'', \<forall>x \<in> set (tenants d). tc_lower tc (t_Slug x) \<noteq> tc_lower tc (t_Slug r))]) (\<lambda>_ d.
    Inr (r, d\<lparr>tenants := tenants d @ [r]\<rparr>))))))"

text \<open>
  The identifiers of the new rows are the column default \<^verbatim>\<open>gen_random_uuid()\<close>, here the first two
  fresh ones; the organisation and its owner are one transaction.
\<close>

definition CreateTenantWithOwner :: "Runtime \<Rightarrow> Tenant \<Rightarrow> uuid \<Rightarrow> (Tenant \<times> Membership) act" where
  "CreateTenantWithOwner env t ownerUserID =
    WithSystemTx env no_binding (\<lambda>tc.
      bind_tx (map_err translate (CreateTenant tc
        \<lparr>t_ID = fresh_id env 0, t_Slug = t_Slug t, t_Name = t_Name t, t_Status = TenantActive,
         t_DefaultCurrency = t_DefaultCurrency t, t_BillingCustomerRef = None,
         t_CreatedAt = tc_now tc, t_UpdatedAt = tc_now tc\<rparr>)) (\<lambda>created.
      bind_tx (map_err translate (CreateMembership tc
        \<lparr>m_ID = fresh_id env 1, m_TenantID = t_ID created, m_UserID = ownerUserID, m_Role = RoleOwner,
         m_Status = MembershipActive, m_ApprovalLimitMinor = None, m_DepartmentID = None, m_InvitedBy = None,
         m_CreatedAt = tc_now tc, m_UpdatedAt = tc_now tc\<rparr>)) (\<lambda>m.
      ret (created, m))))"

definition Repo_InviteMember ::
    "TenantConn \<Rightarrow> uuid \<Rightarrow> uuid \<Rightarrow> Role \<Rightarrow> uuid option \<Rightarrow> int64 option \<Rightarrow> uuid \<Rightarrow> Membership tx" where
  "Repo_InviteMember tc newID userID role departmentID approvalLimit invitedByUserID =
    map_err translate (CreateMembership tc
      \<lparr>m_ID = newID, m_TenantID = tc_tenantID tc, m_UserID = userID, m_Role = role,
       m_Status = MembershipInvited, m_ApprovalLimitMinor = approvalLimit, m_DepartmentID = departmentID,
       m_InvitedBy = Some invitedByUserID, m_CreatedAt = tc_now tc, m_UpdatedAt = tc_now tc\<rparr>)"

record MemberRecord =
  mr_Membership :: Membership
  mr_Email :: string
  mr_FullName :: "string option"
  mr_DepartmentName :: "string option"

definition department_name :: "TenantConn \<Rightarrow> db \<Rightarrow> uuid \<Rightarrow> uuid option \<Rightarrow> string option" where
  "department_name tc d t i =
    (case i of None \<Rightarrow> None
     | Some k \<Rightarrow> map_option dp_Name
         (List.find (\<lambda>r. dp_ID r = k \<and> dp_TenantID r = t \<and> rls tc (dp_TenantID r)) (departments d)))"

definition Q_ListMemberships :: "TenantConn \<Rightarrow> MemberRecord list tx" where
  "Q_ListMemberships tc =
    asks (\<lambda>d. sort_key (\<lambda>r. tc_collate tc (tc_lower tc (mr_Email r)))
      (concat (map (\<lambda>m.
          map (\<lambda>u. \<lparr>mr_Membership = m, mr_Email = u_Email u, mr_FullName = u_FullName u,
                    mr_DepartmentName = department_name tc d (m_TenantID m) (m_DepartmentID m)\<rparr>)
            (filter (\<lambda>u. u_ID u = m_UserID m) (users d)))
          (filter (\<lambda>m. m_TenantID m = tc_tenantID tc \<and> rls tc (m_TenantID m)) (memberships d)))))"

definition Repo_ListMembers :: "TenantConn \<Rightarrow> MemberRecord list tx" where
  "Repo_ListMembers tc = map_err translate (Q_ListMemberships tc)"

definition member_row :: "TenantConn \<Rightarrow> uuid \<Rightarrow> Membership \<Rightarrow> bool" where
  "member_row tc i m = (m_TenantID m = tc_tenantID tc \<and> m_ID m = i \<and> rls tc (m_TenantID m))"

definition Q_GetMembership :: "TenantConn \<Rightarrow> uuid \<Rightarrow> Membership tx" where
  "Q_GetMembership tc i = bind_tx (asks (\<lambda>d. filter (member_row tc i) (memberships d))) (\<lambda>rs. lift_res (one_row rs))"

definition GetMember :: "TenantConn \<Rightarrow> uuid \<Rightarrow> Membership tx" where
  "GetMember tc i = map_err translate (Q_GetMembership tc i)"

definition Q_UpdateMembership ::
    "TenantConn \<Rightarrow> uuid \<Rightarrow> Role \<Rightarrow> MembershipStatus \<Rightarrow> uuid option \<Rightarrow> int64 option \<Rightarrow> Membership tx" where
  "Q_UpdateMembership tc i role status departmentID approvalLimit =
    (let f = (\<lambda>m. m\<lparr>m_Role := role, m_Status := status, m_ApprovalLimitMinor := approvalLimit,
                   m_DepartmentID := departmentID, m_UpdatedAt := tc_now tc\<rparr>) in
      (bind_tx (writable tc) (\<lambda>_.
       bind_tx (asks (\<lambda>d. filter (member_row tc i) (memberships d))) (\<lambda>rs.
       bind_tx (lift_res (one_row rs)) (\<lambda>old.
       bind_tx (member_checks tc (f old)) (\<lambda>_.
       bind_tx (asks (\<lambda>d. d)) (\<lambda>d.
       bind_tx (constraints ''23505''
         [(''memberships_single_owner_key'', \<forall>x \<in> set (memberships d). \<not> other_owner (f old) x)]) (\<lambda>_.
       bind_tx (constraints ''23503''
         [(''memberships_department_fk'', departmentID = m_DepartmentID old \<or>
             fk_opt (has_department d (m_TenantID old)) departmentID)]) (\<lambda>_ d.
       Inr (f old, d\<lparr>memberships := update_rows (member_row tc i) f (memberships d)\<rparr>))))))))))"

definition Repo_UpdateMember ::
    "TenantConn \<Rightarrow> uuid \<Rightarrow> Role \<Rightarrow> MembershipStatus \<Rightarrow> uuid option \<Rightarrow> int64 option \<Rightarrow> Membership tx" where
  "Repo_UpdateMember tc i role status departmentID approvalLimit =
    map_err translate (Q_UpdateMembership tc i role status departmentID approvalLimit)"

section \<open>Organisations\<close>

definition own_tenant :: "TenantConn \<Rightarrow> Tenant \<Rightarrow> bool" where
  "own_tenant tc t = (t_ID t = tc_tenantID tc \<and> rls tc (t_ID t))"

definition Q_GetTenant :: "TenantConn \<Rightarrow> Tenant tx" where
  "Q_GetTenant tc = bind_tx (asks (\<lambda>d. filter (own_tenant tc) (tenants d))) (\<lambda>rs. lift_res (one_row rs))"

definition GetTenant :: "TenantConn \<Rightarrow> Tenant tx" where
  "GetTenant tc = map_err translate (Q_GetTenant tc)"

definition Q_UpdateTenant :: "TenantConn \<Rightarrow> string \<Rightarrow> Currency \<Rightarrow> Tenant tx" where
  "Q_UpdateTenant tc name cur =
    (let f = (\<lambda>t. t\<lparr>t_Name := name, t_DefaultCurrency := cur, t_UpdatedAt := tc_now tc\<rparr>) in
      (bind_tx (writable tc) (\<lambda>_.
       bind_tx (asks (\<lambda>d. filter (own_tenant tc) (tenants d))) (\<lambda>rs.
       bind_tx (lift_res (one_row rs)) (\<lambda>old.
       bind_tx (constraints ''23514''
         [(''tenants_currency_chk'', Currency_Valid cur),
          (''tenants_name_len_chk'', btrim_len_between 1 200 name),
          (''tenants_slug_format_chk'', validSlug (t_Slug old))]) (\<lambda>_ d.
       Inr (f old, d\<lparr>tenants := update_rows (own_tenant tc) f (tenants d)\<rparr>)))))))"

definition UpdateTenant :: "TenantConn \<Rightarrow> string \<Rightarrow> Currency \<Rightarrow> Tenant tx" where
  "UpdateTenant tc name cur = map_err translate (Q_UpdateTenant tc name cur)"

section \<open>Refresh tokens\<close>

definition Q_CreateRefreshToken :: "uuid \<Rightarrow> uuid \<Rightarrow> uuid \<Rightarrow> string \<Rightarrow> time \<Rightarrow> TenantConn \<Rightarrow> RefreshToken tx" where
  "Q_CreateRefreshToken newID userID familyID digest expiresAt tc =
     (bind_tx (writable tc) (\<lambda>_.
      bind_tx (constraints ''23514''
        [(''refresh_tokens_expiry_chk'', tc_now tc < expiresAt),
         (''refresh_tokens_hash_len_chk'', length digest = 32)]) (\<lambda>_.
      bind_tx (asks (\<lambda>d. d)) (\<lambda>d.
      bind_tx (constraints ''23505''
        [(''refresh_tokens_pkey'', \<forall>x \<in> set (refresh_tokens d). rt_ID x \<noteq> newID),
         (''refresh_tokens_token_hash_key'', \<forall>x \<in> set (refresh_tokens d). rt_TokenHash x \<noteq> digest)]) (\<lambda>_.
      bind_tx (constraints ''23503'' [(''refresh_tokens_user_id_fkey'', has_user d userID)]) (\<lambda>_ d.
      let r = \<lparr>rt_ID = newID, rt_UserID = userID, rt_TokenHash = digest, rt_FamilyID = familyID,
               rt_IssuedAt = tc_now tc, rt_ExpiresAt = expiresAt, rt_UsedAt = None, rt_RevokedAt = None\<rparr>
      in Inr (r, d\<lparr>refresh_tokens := refresh_tokens d @ [r]\<rparr>)))))))"

definition StoreRefreshToken :: "uuid \<Rightarrow> uuid \<Rightarrow> uuid \<Rightarrow> string \<Rightarrow> time \<Rightarrow> TenantConn \<Rightarrow> RefreshToken tx" where
  "StoreRefreshToken newID userID familyID digest expiresAt tc =
    map_err translate (Q_CreateRefreshToken newID userID familyID digest expiresAt tc)"

definition Q_GetRefreshTokenByHash :: "string \<Rightarrow> TenantConn \<Rightarrow> RefreshToken tx" where
  "Q_GetRefreshTokenByHash digest tc =
    bind_tx (asks (\<lambda>d. filter (\<lambda>r. rt_TokenHash r = digest) (refresh_tokens d))) (\<lambda>rs. lift_res (one_row rs))"

definition FindRefreshToken :: "string \<Rightarrow> TenantConn \<Rightarrow> RefreshToken tx" where
  "FindRefreshToken digest tc = map_err translate (Q_GetRefreshTokenByHash digest tc)"

text \<open>\<^verbatim>\<open>UPDATE ... WHERE used_at IS NULL AND revoked_at IS NULL\<close>, and whether one row was hit.\<close>

definition Q_MarkRefreshTokenUsed :: "uuid \<Rightarrow> TenantConn \<Rightarrow> nat tx" where
  "Q_MarkRefreshTokenUsed i tc =
    bind_tx (writable tc) (\<lambda>_ d.
      let P = (\<lambda>r. rt_ID r = i \<and> rt_UsedAt r = None \<and> rt_RevokedAt r = None) in
      Inr (length (filter P (refresh_tokens d)),
           d\<lparr>refresh_tokens := update_rows P (\<lambda>r. r\<lparr>rt_UsedAt := Some (tc_now tc)\<rparr>) (refresh_tokens d)\<rparr>))"

definition ConsumeRefreshToken :: "uuid \<Rightarrow> TenantConn \<Rightarrow> bool tx" where
  "ConsumeRefreshToken i tc = bind_tx (map_err translate (Q_MarkRefreshTokenUsed i tc)) (\<lambda>n. ret (n = 1))"

definition revoke_where :: "(RefreshToken \<Rightarrow> bool) \<Rightarrow> TenantConn \<Rightarrow> nat tx" where
  "revoke_where P tc =
    bind_tx (writable tc) (\<lambda>_ d.
      let Q = (\<lambda>r. P r \<and> rt_RevokedAt r = None) in
      Inr (length (filter Q (refresh_tokens d)),
           d\<lparr>refresh_tokens := update_rows Q (\<lambda>r. r\<lparr>rt_RevokedAt := Some (tc_now tc)\<rparr>) (refresh_tokens d)\<rparr>))"

definition Q_RevokeRefreshTokenFamily :: "uuid \<Rightarrow> TenantConn \<Rightarrow> nat tx" where
  "Q_RevokeRefreshTokenFamily familyID tc = revoke_where (\<lambda>r. rt_FamilyID r = familyID) tc"

definition Q_RevokeAllRefreshTokensForUser :: "uuid \<Rightarrow> TenantConn \<Rightarrow> nat tx" where
  "Q_RevokeAllRefreshTokensForUser userID tc = revoke_where (\<lambda>r. rt_UserID r = userID) tc"

definition RevokeRefreshFamily :: "uuid \<Rightarrow> TenantConn \<Rightarrow> unit tx" where
  "RevokeRefreshFamily familyID tc =
    map_err translate (bind_tx (Q_RevokeRefreshTokenFamily familyID tc) (\<lambda>_. ret ()))"

definition RevokeAllSessions :: "uuid \<Rightarrow> TenantConn \<Rightarrow> nat tx" where
  "RevokeAllSessions userID tc = map_err translate (Q_RevokeAllRefreshTokensForUser userID tc)"

definition Q_DeleteExpiredRefreshTokens :: "duration \<Rightarrow> TenantConn \<Rightarrow> nat tx" where
  "Q_DeleteExpiredRefreshTokens grace tc =
    bind_tx (writable tc) (\<lambda>_ d.
      let P = (\<lambda>r. rt_ExpiresAt r < tc_now tc - grace) in
      Inr (length (filter P (refresh_tokens d)),
           d\<lparr>refresh_tokens := filter (\<lambda>r. \<not> P r) (refresh_tokens d)\<rparr>))"

definition PurgeExpiredRefreshTokens :: "duration \<Rightarrow> TenantConn \<Rightarrow> nat tx" where
  "PurgeExpiredRefreshTokens grace tc = map_err translate (Q_DeleteExpiredRefreshTokens grace tc)"

section \<open>Recipients\<close>

record Contact =
  ct_Email :: string
  ct_FullName :: "string option"
  ct_MembershipID :: uuid
  ct_Role :: Role

definition contacts_where :: "TenantConn \<Rightarrow> (Membership \<Rightarrow> bool) \<Rightarrow> Contact list tx" where
  "contacts_where tc P =
    asks (\<lambda>d. sort_key (\<lambda>c. tc_collate tc (tc_lower tc (ct_Email c)))
      (concat (map (\<lambda>m.
          map (\<lambda>u. \<lparr>ct_Email = u_Email u, ct_FullName = u_FullName u, ct_MembershipID = m_ID m, ct_Role = m_Role m\<rparr>)
            (filter (\<lambda>u. u_ID u = m_UserID m \<and> u_DeletedAt u = None) (users d)))
          (filter (\<lambda>m. m_TenantID m = tc_tenantID tc \<and> rls tc (m_TenantID m) \<and> P m) (memberships d)))))"

definition Q_ListApprovers :: "TenantConn \<Rightarrow> uuid option \<Rightarrow> Contact list tx" where
  "Q_ListApprovers tc departmentID =
    contacts_where tc (\<lambda>m. m_Status m = MembershipActive \<and>
      (m_Role m = RoleOwner \<or> m_Role m = RoleAdmin \<or> m_Role m = RoleManager) \<and>
      (m_DepartmentID m = None \<or> departmentID = None \<or> m_DepartmentID m = departmentID))"

definition Approvers :: "TenantConn \<Rightarrow> uuid option \<Rightarrow> Contact list tx" where
  "Approvers tc departmentID = map_err translate (Q_ListApprovers tc departmentID)"

definition Q_ListFinance :: "TenantConn \<Rightarrow> Contact list tx" where
  "Q_ListFinance tc =
    contacts_where tc (\<lambda>m. m_Status m = MembershipActive \<and> (m_Role m = RoleOwner \<or> m_Role m = RoleFinance))"

definition Finance :: "TenantConn \<Rightarrow> Contact list tx" where
  "Finance tc = map_err translate (Q_ListFinance tc)"

definition Q_GetMemberContact :: "TenantConn \<Rightarrow> uuid \<Rightarrow> Contact tx" where
  "Q_GetMemberContact tc membershipID =
    bind_tx (contacts_where tc (\<lambda>m. m_ID m = membershipID)) (\<lambda>cs. lift_res (one_row cs))"

text \<open>\<^verbatim>\<open>Contact\<close> leaves the role at its zero value.\<close>

definition Repo_Contact :: "TenantConn \<Rightarrow> uuid \<Rightarrow> Contact tx" where
  "Repo_Contact tc membershipID =
    bind_tx (map_err translate (Q_GetMemberContact tc membershipID)) (\<lambda>c. ret (c\<lparr>ct_Role := RoleOther []\<rparr>))"

end
