(* ===== verification/Scope.thy ===== *)
theory Scope
  imports Tenancy_Repo
begin

text \<open>
  \<^verbatim>\<open>internal/service/scope.go\<close>: every call of a tenant-scoped service opens a transaction bound to
  the organisation of the token, resolves the caller there and refuses an inactive one before the work
  starts.
\<close>

record Subject =
  sub_UserID :: uuid
  sub_TenantID :: uuid
  sub_Email :: string
  sub_TokenID :: string

definition inactiveReason :: "Actor \<Rightarrow> string" where
  "inactiveReason a =
    (if a_TenantStatus a = TenantSuspended
     then ''this organisation is suspended; an active subscription is required''
     else if a_TenantStatus a = TenantCancelled then ''this organisation has been closed''
     else if a_Status a = MembershipInvited then ''your invitation has not been accepted yet''
     else if a_Status a = MembershipSuspended then ''your membership has been suspended''
     else ''your membership is not active'')"

definition Scope_body :: "Subject \<Rightarrow> (TenantConn \<Rightarrow> Actor \<Rightarrow> 'a tx) \<Rightarrow> TenantConn \<Rightarrow> 'a tx" where
  "Scope_body subject work tc =
    bind_tx (map_err (\<lambda>err. if err = Sentinel ErrNotFound
        then Wrap ErrForbidden (Text ''no membership in this organisation'') else err)
      (ResolveActor tc (sub_UserID subject))) (\<lambda>actor.
    bind_tx (reject_if (\<not> Active actor) (Wrap ErrForbidden (Text (inactiveReason actor)))) (\<lambda>_.
    bind_tx (reject_if (a_TenantID actor \<noteq> tc_tenantID tc)
      (Wrap ErrTenantMismatch
        (Text ''resolved actor belongs to a different tenant than the session binding''))) (\<lambda>_.
    work tc actor)))"

definition Scope_run :: "Runtime \<Rightarrow> Subject \<Rightarrow> Binding \<Rightarrow> (TenantConn \<Rightarrow> Actor \<Rightarrow> 'a tx) \<Rightarrow> 'a act" where
  "Scope_run env subject b work =
    (if sub_TenantID subject = nil_uuid
     then fail_act (Wrap ErrNoTenantContext (Text ''the token carried no tenant''))
     else WithTenantTx env b (Scope_body subject work))"

definition Scope_Read :: "Runtime \<Rightarrow> Subject \<Rightarrow> (TenantConn \<Rightarrow> Actor \<Rightarrow> 'a tx) \<Rightarrow> 'a act" where
  "Scope_Read env subject work =
    Scope_run env subject (no_binding\<lparr>bi_TenantID := sub_TenantID subject, bi_ReadOnly := True\<rparr>) work"

definition Scope_Write :: "Runtime \<Rightarrow> Subject \<Rightarrow> (TenantConn \<Rightarrow> Actor \<Rightarrow> 'a tx) \<Rightarrow> 'a act" where
  "Scope_Write env subject work =
    Scope_run env subject (no_binding\<lparr>bi_TenantID := sub_TenantID subject\<rparr>) work"

text \<open>The isolation level of a snapshot is beyond a single transaction's view; it reads like \<^verbatim>\<open>Read\<close>.\<close>

definition Scope_Snapshot :: "Runtime \<Rightarrow> Subject \<Rightarrow> (TenantConn \<Rightarrow> Actor \<Rightarrow> 'a tx) \<Rightarrow> 'a act" where
  "Scope_Snapshot env subject work =
    Scope_run env subject (no_binding\<lparr>bi_TenantID := sub_TenantID subject, bi_ReadOnly := True\<rparr>) work"

definition Require :: "Actor \<Rightarrow> Permission \<Rightarrow> (err, unit) res" where
  "Require actor p =
    fail_if (\<not> Can actor p)
      (Wrap ErrForbidden (Fmt ''role %s does not carry %s'' [role_str (a_Role actor), perm_str p]))"

section \<open>Resolution\<close>

lemma Require_Inr [go_result]: "Require actor p = Inr u \<longleftrightarrow> Can actor p"
  by (simp add: Require_def go_result)

text \<open>The actor a transaction resolves is a member row and its organisation's row.\<close>

definition resolves :: "db \<Rightarrow> uuid \<Rightarrow> uuid \<Rightarrow> Actor \<Rightarrow> bool" where
  "resolves d t u a =
    (\<exists>m \<in> set (memberships d). \<exists>org \<in> set (tenants d).
       m_TenantID m = t \<and> m_UserID m = u \<and> t_ID org = t \<and>
       a = \<lparr>a_TenantID = t, a_UserID = u, a_MembershipID = m_ID m, a_Role = m_Role m, a_Status = m_Status m,
            a_DepartmentID = m_DepartmentID m, a_ApprovalLimitMinor = m_ApprovalLimitMinor m,
            a_TenantStatus = t_Status org\<rparr>)"

lemma ResolveActor_Inr:
  assumes "ResolveActor tc u d = Inr (a, d')"
  shows "d' = d \<and> resolves d (tc_tenantID tc) u a"
proof -
  from assms obtain rest where d: "d' = d" and rs: "concat (map (\<lambda>m.
          map (\<lambda>t. \<lparr>a_TenantID = m_TenantID m, a_UserID = m_UserID m, a_MembershipID = m_ID m, a_Role = m_Role m,
                    a_Status = m_Status m, a_DepartmentID = m_DepartmentID m,
                    a_ApprovalLimitMinor = m_ApprovalLimitMinor m, a_TenantStatus = t_Status t\<rparr>)
            (filter (\<lambda>t. t_ID t = m_TenantID m \<and> rls tc (t_ID t)) (tenants d)))
          (filter (\<lambda>m. m_TenantID m = tc_tenantID tc \<and> m_UserID m = u \<and> rls tc (m_TenantID m)) (memberships d)))
      = a # rest" (is "?rs = _")
    by (auto simp: ResolveActor_def Q_ResolveActor_def go_result)
  have "a \<in> set ?rs" unfolding rs by simp
  then show ?thesis using d by (auto simp: resolves_def)
qed

lemma Scope_body_Inr:
  assumes "Scope_body subject work tc d = Inr (x, d')"
  obtains a where "resolves d (tc_tenantID tc) (sub_UserID subject) a" "Active a"
    "a_TenantID a = tc_tenantID tc" "work tc a d = Inr (x, d')"
  using assms by (auto simp: Scope_body_def go_result dest!: ResolveActor_Inr)

text \<open>
  A write through the scope either changes nothing or is the work of one active member of the
  organisation named in the token, run in a transaction bound to that organisation.
\<close>

lemma Scope_run_cases:
  assumes "verify_reset env = None" "Scope_run env subject b work d = (r, d')"
    "bi_TenantID b = sub_TenantID subject"
  obtains (refused) e where "r = Inl e" "d' = d"
  | (completed) x a where "r = Inr x" "sub_TenantID subject \<noteq> nil_uuid"
      "resolves d (sub_TenantID subject) (sub_UserID subject) a" "Active a" "a_TenantID a = sub_TenantID subject"
      "work (bindSession env b False) a d = Inr (x, d')"
proof (cases "sub_TenantID subject = nil_uuid")
  case True
  with assms(2) show ?thesis by (intro refused) (auto simp: Scope_run_def fail_act_def)
next
  case False
  with assms have rt: "runTx env b False (Scope_body subject work) d = (r, d')"
    by (simp add: Scope_run_def WithTenantTx_def)
  show ?thesis
  proof (rule runTx_cases [OF assms(1) rt])
    fix e assume "r = Inl e" "d' = d"
    then show ?thesis by (rule refused)
  next
    fix x assume r: "r = Inr x" and body: "Scope_body subject work (bindSession env b False) d = Inr (x, d')"
    from Scope_body_Inr [OF body] show ?thesis using r False assms(3)
      by (metis completed bindSession_simps(1))
  qed
qed

text \<open>What a call through the scope answers, in terms of the actor it resolves.\<close>

definition acts_as :: "db \<Rightarrow> Subject \<Rightarrow> TenantConn \<Rightarrow> Actor \<Rightarrow> bool" where
  "acts_as d subject tc a = (ResolveActor tc (sub_UserID subject) d = Inr (a, d) \<and> Active a \<and> a_TenantID a = tc_tenantID tc)"

lemma Scope_body_iff:
  "Scope_body subject work tc d = Inr (x, d') \<longleftrightarrow> (\<exists>a. acts_as d subject tc a \<and> work tc a d = Inr (x, d'))"
  by (auto simp: Scope_body_def go_result acts_as_def dest: ResolveActor_Inr)

lemma acts_as_unique: "acts_as d subject tc a \<Longrightarrow> acts_as d subject tc b \<Longrightarrow> a = b"
  by (simp add: acts_as_def)

lemma acts_as_resolves: "acts_as d subject tc a \<Longrightarrow> resolves d (tc_tenantID tc) (sub_UserID subject) a"
  using ResolveActor_Inr by (auto simp: acts_as_def)

lemma Scope_body_Inl:
  assumes "acts_as d subject tc a" "work tc a d = Inl e"
  shows "Scope_body subject work tc d = Inl e"
  using assms by (auto simp: Scope_body_def go_result acts_as_def bind_tx_def map_err_def reject_if_def lift_res_def fail_if_def)

lemma Scope_run_Inr:
  assumes "verify_reset env = None" "bi_TenantID b = sub_TenantID subject"
  shows "Scope_run env subject b work d = (Inr x, d') \<longleftrightarrow>
    sub_TenantID subject \<noteq> nil_uuid \<and> runs env \<and>
    (\<exists>a. acts_as d subject (bindSession env b False) a \<and> work (bindSession env b False) a d = Inr (x, d'))"
  using assms by (auto simp: Scope_run_def fail_act_def WithTenantTx_def runTx_Inr Scope_body_iff)

lemma Scope_run_Inl:
  assumes "runs env" "bi_TenantID b = sub_TenantID subject" "sub_TenantID subject \<noteq> nil_uuid"
    "acts_as d subject (bindSession env b False) a" "work (bindSession env b False) a d = Inl e" "\<not> isRetryable e"
  shows "Scope_run env subject b work d = (Inl e, d)"
  using assms by (simp add: Scope_run_def WithTenantTx_def runTx_refuses Scope_body_Inl)

text \<open>The connections the three entry points open.\<close>

definition read_conn :: "Runtime \<Rightarrow> Subject \<Rightarrow> TenantConn" where
  "read_conn env subject =
    bindSession env (no_binding\<lparr>bi_TenantID := sub_TenantID subject, bi_ReadOnly := True\<rparr>) False"

definition write_conn :: "Runtime \<Rightarrow> Subject \<Rightarrow> TenantConn" where
  "write_conn env subject = bindSession env (no_binding\<lparr>bi_TenantID := sub_TenantID subject\<rparr>) False"

lemma conn_simps [simp]:
  "tc_tenantID (read_conn env subject) = sub_TenantID subject" "tc_readOnly (read_conn env subject)"
  "\<not> tc_system (read_conn env subject)" "tc_now (read_conn env subject) = db_clock env"
  "tc_tenantID (write_conn env subject) = sub_TenantID subject" "\<not> tc_readOnly (write_conn env subject)"
  "\<not> tc_system (write_conn env subject)" "tc_now (write_conn env subject) = db_clock env"
  "tc_locked (write_conn env subject) = locked_rows env"
  by (simp_all add: read_conn_def write_conn_def no_binding_def)

lemma Scope_Read_Inr:
  assumes "verify_reset env = None"
  shows "Scope_Read env subject work d = (Inr x, d') \<longleftrightarrow>
    sub_TenantID subject \<noteq> nil_uuid \<and> runs env \<and>
    (\<exists>a. acts_as d subject (read_conn env subject) a \<and> work (read_conn env subject) a d = Inr (x, d'))"
  using assms by (simp add: Scope_Read_def Scope_run_Inr read_conn_def)

lemma Scope_Write_Inr:
  assumes "verify_reset env = None"
  shows "Scope_Write env subject work d = (Inr x, d') \<longleftrightarrow>
    sub_TenantID subject \<noteq> nil_uuid \<and> runs env \<and>
    (\<exists>a. acts_as d subject (write_conn env subject) a \<and> work (write_conn env subject) a d = Inr (x, d'))"
  using assms by (simp add: Scope_Write_def Scope_run_Inr write_conn_def)

lemma Scope_Write_Inl:
  assumes "runs env" "sub_TenantID subject \<noteq> nil_uuid" "acts_as d subject (write_conn env subject) a"
    "work (write_conn env subject) a d = Inl e" "\<not> isRetryable e"
  shows "Scope_Write env subject work d = (Inl e, d)"
  using assms by (simp add: Scope_Write_def Scope_run_Inl write_conn_def)

lemma Scope_Write_never:
  assumes "\<And>a x d'. work (write_conn env subject) a d \<noteq> Inr (x, d')"
  shows "\<exists>e. Scope_Write env subject work d = (Inl e, d)"
proof (cases "sub_TenantID subject = nil_uuid")
  case False
  have "\<exists>e. runTx env (no_binding\<lparr>bi_TenantID := sub_TenantID subject\<rparr>) False (Scope_body subject work) d = (Inl e, d)"
    by (rule runTx_never) (use assms in \<open>auto simp: Scope_body_iff write_conn_def\<close>)
  with False show ?thesis by (simp add: Scope_Write_def Scope_run_def WithTenantTx_def)
qed (simp add: Scope_Write_def Scope_run_def fail_act_def)

text \<open>A failed call through the scope leaves the database as it found it.\<close>

lemma Scope_Write_failed:
  assumes "verify_reset env = None" "Scope_Write env subject work d = (Inl e, d')"
  shows "d' = d"
  using assms(1) assms(2) [unfolded Scope_Write_def] by (rule Scope_run_cases) simp_all

context effect_relation
begin

lemma keeps_ResolveActor: "keeps R (ResolveActor tc u)"
  unfolding ResolveActor_def Q_ResolveActor_def by (intro keeps_intros)

lemma keeps_Scope_run:
  assumes "\<And>actor. keeps R (work (bindSession env b False) actor)"
  shows "keeps_act R (Scope_run env subject b work)"
  unfolding Scope_run_def Scope_body_def
  by (auto intro!: keeps_intros keeps_ResolveActor assms)

lemma keeps_Scope_Write:
  assumes "\<And>tc actor. tc_tenantID tc = sub_TenantID subject \<Longrightarrow> \<not> tc_system tc \<Longrightarrow> keeps R (work tc actor)"
  shows "keeps_act R (Scope_Write env subject work)"
  unfolding Scope_Write_def by (intro keeps_Scope_run assms) simp_all

lemma keeps_Scope_Read:
  assumes "\<And>tc actor. tc_tenantID tc = sub_TenantID subject \<Longrightarrow> \<not> tc_system tc \<Longrightarrow> tc_readOnly tc \<Longrightarrow>
      keeps R (work tc actor)"
  shows "keeps_act R (Scope_Read env subject work)"
  unfolding Scope_Read_def by (intro keeps_Scope_run assms) simp_all

end

end
