(* ===== verification/Encoding.thy ===== *)
theory Encoding
  imports Prelude
begin

text \<open>
  The byte encodings of Go's standard library the program uses: \<^verbatim>\<open>encoding/hex\<close>, and the padded
  standard and the unpadded URL alphabet of \<^verbatim>\<open>encoding/base64\<close>. The base64 decoder skips line
  breaks and ignores the bits a short last group leaves over.
\<close>

section \<open>Hexadecimal\<close>

definition hex_digit :: "nat \<Rightarrow> char" where
  "hex_digit n = (if n < 10 then char_of (48 + n) else char_of (87 + n))"

definition hex_value :: "char \<Rightarrow> nat option" where
  "hex_value c =
    (let n = of_char c in
     if 48 \<le> n \<and> n < 58 then Some (n - 48)
     else if 97 \<le> n \<and> n < 103 then Some (n - 87)
     else if 65 \<le> n \<and> n < 71 then Some (n - 55)
     else None)"

fun EncodeToString :: "string \<Rightarrow> string" where
  "EncodeToString [] = []"
| "EncodeToString (c # s) = hex_digit (of_char c div 16) # hex_digit (of_char c mod 16) # EncodeToString s"

fun DecodeString :: "string \<Rightarrow> string option" where
  "DecodeString [] = Some []"
| "DecodeString [c] = None"
| "DecodeString (a # b # s) =
    (case (hex_value a, hex_value b, DecodeString s) of
       (Some x, Some y, Some rest) \<Rightarrow> Some (char_of (16 * x + y) # rest)
     | _ \<Rightarrow> None)"

lemma hex_value_digit [simp]: "n < 16 \<Longrightarrow> hex_value (hex_digit n) = Some n"
  by (auto simp: hex_value_def hex_digit_def Let_def)

lemma of_char_less [simp]: "(of_char c :: nat) < 256"
  by (metis char_of_eq_iff nat_of_char_less_256 of_char_of)

section \<open>Base64\<close>

text \<open>The two alphabets differ in their last two letters.\<close>

record Alphabet =
  al_62 :: char
  al_63 :: char
  al_padded :: bool

definition StdEncoding :: Alphabet where
  "StdEncoding = \<lparr>al_62 = CHR ''+'', al_63 = CHR ''/'', al_padded = True\<rparr>"

definition RawURLEncoding :: Alphabet where
  "RawURLEncoding = \<lparr>al_62 = CHR ''-'', al_63 = CHR ''_'', al_padded = False\<rparr>"

definition b64_digit :: "Alphabet \<Rightarrow> nat \<Rightarrow> char" where
  "b64_digit al n =
    (if n < 26 then char_of (65 + n) else if n < 52 then char_of (71 + n) else if n < 62 then char_of (n - 4)
     else if n = 62 then al_62 al else al_63 al)"

definition b64_value :: "Alphabet \<Rightarrow> char \<Rightarrow> nat option" where
  "b64_value al c =
    (let n = of_char c in
     if 65 \<le> n \<and> n < 91 then Some (n - 65)
     else if 97 \<le> n \<and> n < 123 then Some (n - 71)
     else if 48 \<le> n \<and> n < 58 then Some (n + 4)
     else if c = al_62 al then Some 62
     else if c = al_63 al then Some 63
     else None)"

definition b64_pad :: "Alphabet \<Rightarrow> nat \<Rightarrow> string" where
  "b64_pad al n = (if al_padded al then replicate n CHR ''='' else [])"

fun b64_encode :: "Alphabet \<Rightarrow> string \<Rightarrow> string" where
  "b64_encode al [] = []"
| "b64_encode al [a] =
    (let x = of_char a in map (b64_digit al) [x div 4, x mod 4 * 16] @ b64_pad al 2)"
| "b64_encode al [a, b] =
    (let x = of_char a; y = of_char b in map (b64_digit al) [x div 4, x mod 4 * 16 + y div 16, y mod 16 * 4] @ b64_pad al 1)"
| "b64_encode al (a # b # c # s) =
    (let x = of_char a; y = of_char b; z = of_char c in
     map (b64_digit al) [x div 4, x mod 4 * 16 + y div 16, y mod 16 * 4 + z div 64, z mod 64] @ b64_encode al s)"

text \<open>The bytes of a group of two, three or four digits; the last group may be short.\<close>

definition group2 :: "Alphabet \<Rightarrow> char \<Rightarrow> char \<Rightarrow> string option" where
  "group2 al a b =
    (case (b64_value al a, b64_value al b) of
       (Some v, Some w) \<Rightarrow> Some [char_of (v * 4 + w div 16)]
     | _ \<Rightarrow> None)"

definition group3 :: "Alphabet \<Rightarrow> char \<Rightarrow> char \<Rightarrow> char \<Rightarrow> string option" where
  "group3 al a b c =
    (case (b64_value al a, b64_value al b, b64_value al c) of
       (Some v, Some w, Some x) \<Rightarrow> Some [char_of (v * 4 + w div 16), char_of (w mod 16 * 16 + x div 4)]
     | _ \<Rightarrow> None)"

definition group4 :: "Alphabet \<Rightarrow> char \<Rightarrow> char \<Rightarrow> char \<Rightarrow> char \<Rightarrow> string option" where
  "group4 al a b c d =
    (case (b64_value al a, b64_value al b, b64_value al c, b64_value al d) of
       (Some v, Some w, Some x, Some y) \<Rightarrow>
         Some [char_of (v * 4 + w div 16), char_of (w mod 16 * 16 + x div 4), char_of (x mod 4 * 64 + y)]
     | _ \<Rightarrow> None)"

fun b64_groups :: "Alphabet \<Rightarrow> string \<Rightarrow> string option" where
  "b64_groups al [] = Some []"
| "b64_groups al [a] = None"
| "b64_groups al [a, b] = (if al_padded al then None else group2 al a b)"
| "b64_groups al [a, b, c] = (if al_padded al then None else group3 al a b c)"
| "b64_groups al (a # b # c # d # s) =
    (if al_padded al \<and> c = CHR ''='' then (if d = CHR ''='' \<and> s = [] then group2 al a b else None)
     else if al_padded al \<and> d = CHR ''='' then (if s = [] then group3 al a b c else None)
     else case (group4 al a b c d, b64_groups al s) of
       (Some bytes, Some rest) \<Rightarrow> Some (bytes @ rest)
     | _ \<Rightarrow> None)"

definition b64_decode :: "Alphabet \<Rightarrow> string \<Rightarrow> string option" where
  "b64_decode al s = b64_groups al (filter (\<lambda>c. c \<noteq> CHR 0x0D \<and> c \<noteq> CHR 0x0A) s)"

text \<open>
  What an alphabet needs for decoding to invert encoding: its last two letters are neither letters nor
  digits nor line breaks nor the padding sign, and differ.
\<close>

definition plain_sign :: "char \<Rightarrow> bool" where
  "plain_sign c = (c \<in> {CHR ''+'', CHR ''/'', CHR ''-'', CHR ''_''})"

definition alphabet_ok :: "Alphabet \<Rightarrow> bool" where
  "alphabet_ok al = (plain_sign (al_62 al) \<and> plain_sign (al_63 al) \<and> al_62 al \<noteq> al_63 al)"

lemma alphabets_ok [simp]: "alphabet_ok StdEncoding" "alphabet_ok RawURLEncoding"
  by (simp_all add: alphabet_ok_def plain_sign_def StdEncoding_def RawURLEncoding_def)

lemma b64_value_sign: "plain_sign c \<Longrightarrow> b64_value al c = (if c = al_62 al then Some 62 else if c = al_63 al then Some 63 else None)"
  unfolding plain_sign_def insert_iff empty_iff by (elim disjE FalseE) (simp_all add: b64_value_def)

lemma b64_value_digit:
  assumes "alphabet_ok al" "n < 64"
  shows "b64_value al (b64_digit al n) = Some n"
proof -
  consider "n < 62" | "n = 62" | "n = 63" using assms(2) by linarith
  then show ?thesis
  proof cases
    case 1
    then show ?thesis by (auto simp: b64_value_def b64_digit_def Let_def)
  next
    case 2
    with assms(1) show ?thesis by (simp add: b64_value_sign b64_digit_def alphabet_ok_def)
  next
    case 3
    with assms(1) show ?thesis by (auto simp: b64_value_sign b64_digit_def alphabet_ok_def)
  qed
qed

lemma b64_digit_plain:
  assumes "alphabet_ok al" "n < 64"
  shows "b64_digit al n \<notin> {CHR ''='', CHR 0x0D, CHR 0x0A}"
proof -
  have "b64_value al c = None" if "c \<in> {CHR ''='', CHR 0x0D, CHR 0x0A}" for c
    using that assms(1) unfolding insert_iff empty_iff alphabet_ok_def plain_sign_def
    by (elim disjE FalseE conjE) (simp_all add: b64_value_def)
  with b64_value_digit [OF assms] show ?thesis by force
qed

lemma sextets:
  fixes x y z :: nat
  assumes "x < 256" "y < 256" "z < 256"
  shows "x div 4 < 64" "x mod 4 * 16 < 64" "x mod 4 * 16 + y div 16 < 64" "y mod 16 * 4 < 64" "y mod 16 * 4 + z div 64 < 64" "z mod 64 < 64"
  using assms by (linarith, simp, linarith, simp, linarith, simp)

lemma octets:
  fixes x y z :: nat
  assumes "x < 256" "y < 256" "z < 256"
  shows "x div 4 * 4 + x mod 4 * 16 div 16 = x" "x div 4 * 4 + (x mod 4 * 16 + y div 16) div 16 = x"
    "(x mod 4 * 16 + y div 16) mod 16 * 16 + y mod 16 * 4 div 4 = y"
    "(x mod 4 * 16 + y div 16) mod 16 * 16 + (y mod 16 * 4 + z div 64) div 4 = y"
    "(y mod 16 * 4 + z div 64) mod 4 * 64 + z mod 64 = z"
  using assms by simp_all

lemma octet_parts: "(y :: nat) < 256 \<Longrightarrow> y div 16 mod 16 * 16 + y mod 16 = y"
  by simp

lemma b64_groups_encode: "alphabet_ok al \<Longrightarrow> b64_groups al (b64_encode al s) = Some s"
proof (induction al s rule: b64_encode.induct)
  case (2 al a)
  then show ?case
    using b64_digit_plain [of al] sextets [of "of_char a" 0 0] octets(1) [of "of_char a" 0 0]
    by (simp add: Let_def b64_pad_def group2_def b64_value_digit numeral_2_eq_2)
next
  case (3 al a b)
  then show ?case
    using b64_digit_plain [of al] sextets [of "of_char a" "of_char b" 0] octets [of "of_char a" "of_char b" 0]
    by (simp add: Let_def b64_pad_def group3_def b64_value_digit)
next
  case (4 al a b c s)
  then show ?case
    using b64_digit_plain [of al] sextets [of "of_char a" "of_char b" "of_char c"] octets [of "of_char a" "of_char b" "of_char c"]
    by (simp add: Let_def group4_def b64_value_digit octet_parts)
qed simp

lemma b64_encode_plain:
  "alphabet_ok al \<Longrightarrow> c \<in> set (b64_encode al s) \<Longrightarrow> c \<noteq> CHR 0x0D \<and> c \<noteq> CHR 0x0A"
proof (induction al s rule: b64_encode.induct)
  case (2 al a)
  then show ?case using b64_digit_plain [of al] sextets [of "of_char a" 0 0] by (auto simp: Let_def b64_pad_def)
next
  case (3 al a b)
  then show ?case using b64_digit_plain [of al] sextets [of "of_char a" "of_char b" 0] by (auto simp: Let_def b64_pad_def)
next
  case (4 al a b c s)
  then show ?case using b64_digit_plain [of al] sextets [of "of_char a" "of_char b" "of_char c"] by (auto simp: Let_def)
qed simp

lemma b64_decode_encode [simp]: "alphabet_ok al \<Longrightarrow> b64_decode al (b64_encode al s) = Some s"
  using b64_encode_plain [of al] by (simp add: b64_decode_def b64_groups_encode)

end
