(* ===== verification/Paging.thy ===== *)
theory Paging
  imports Errors Encoding "HOL-Library.Product_Lexorder"
begin

text \<open>
  \<^verbatim>\<open>internal/domain/shared/page.go\<close>: page sizes, cursors and pages. The token of a cursor is the
  base64 of a time in the RFC 3339 layout and the text form of a UUID; the last two are the fields of a
  \<open>Codec\<close>, and \<open>codec_ok\<close> states what is documented of them.
\<close>

definition DefaultPageSize :: int where
  "DefaultPageSize = 25"

definition MaxPageSize :: int where
  "MaxPageSize = 200"

record Cursor =
  cu_SpentAt :: time
  cu_ID :: uuid

record Codec =
  rfc3339 :: "time \<Rightarrow> string"
  rfc3339_parse :: "string \<Rightarrow> time option"
  uuid_text :: "uuid \<Rightarrow> string"
  uuid_parse :: "string \<Rightarrow> uuid option"

text \<open>
  An RFC 3339 rendering carries whole seconds, reads back as the
  instant without its fraction and contains no bar; a UUID's text reads back.
\<close>

definition codec_ok :: "Codec \<Rightarrow> bool" where
  "codec_ok c =
    ((\<forall>t. rfc3339_parse c (rfc3339 c t) = Some (truncate_to second t)) \<and>
     (\<forall>t. CHR ''|'' \<notin> set (rfc3339 c t)) \<and>
     (\<forall>i. uuid_parse c (uuid_text c i) = Some i))"

definition Cursor_Encode :: "Codec \<Rightarrow> Cursor \<Rightarrow> string" where
  "Cursor_Encode c cu = b64_encode RawURLEncoding (rfc3339 c (cu_SpentAt cu) @ ''|'' @ uuid_text c (cu_ID cu))"

text \<open>\<^verbatim>\<open>strings.SplitN(s, "|", 2)\<close>: \<open>None\<close> when there is no bar.\<close>

definition split_bar :: "string \<Rightarrow> (string \<times> string) option" where
  "split_bar s =
    (case dropWhile (\<lambda>ch. ch \<noteq> CHR ''|'') s of
       [] \<Rightarrow> None
     | bar # rest \<Rightarrow> Some (takeWhile (\<lambda>ch. ch \<noteq> CHR ''|'') s, rest))"

definition DecodeCursor :: "Codec \<Rightarrow> string \<Rightarrow> (err, Cursor) res" where
  "DecodeCursor c token =
    (let bad = FieldErr \<lparr>Field = ''cursor'', Detail = Text ''is not a valid pagination cursor''\<rparr> in
     case b64_decode RawURLEncoding token of
       None \<Rightarrow> Inl bad
     | Some raw \<Rightarrow>
         (case split_bar raw of
            None \<Rightarrow> Inl bad
          | Some (p0, p1) \<Rightarrow>
              (case rfc3339_parse c p0 of
                 None \<Rightarrow> Inl bad
               | Some ts \<Rightarrow>
                   (case uuid_parse c p1 of
                      None \<Rightarrow> Inl bad
                    | Some i \<Rightarrow> Inr \<lparr>cu_SpentAt = ts, cu_ID = i\<rparr>))))"

record 'a Page =
  Items :: "'a list"
  NextCursor :: string
  HasMore :: bool

definition NewPage :: "Codec \<Rightarrow> 'a list \<Rightarrow> int \<Rightarrow> ('a \<Rightarrow> Cursor) \<Rightarrow> 'a Page" where
  "NewPage c rows limit0 cursorOf =
    (let limit = (if limit0 \<le> 0 then DefaultPageSize else limit0) in
     if int (length rows) \<le> limit then \<lparr>Items = rows, NextCursor = [], HasMore = False\<rparr>
     else
       let items = take (nat limit) rows
       in \<lparr>Items = items, NextCursor = Cursor_Encode c (cursorOf (items ! (length items - 1))), HasMore = True\<rparr>)"

definition ClampLimit :: "int \<Rightarrow> int" where
  "ClampLimit n = (if n \<le> 0 then DefaultPageSize else if n > MaxPageSize then MaxPageSize else n)"

section \<open>Cursors\<close>

lemma ClampLimit_range: "1 \<le> ClampLimit n \<and> ClampLimit n \<le> 200"
  by (simp add: ClampLimit_def DefaultPageSize_def MaxPageSize_def)

lemma split_bar_append: "CHR ''|'' \<notin> set p \<Longrightarrow> split_bar (p @ CHR ''|'' # q) = Some (p, q)"
  by (induction p) (auto simp: split_bar_def split: list.splits)

lemma DecodeCursor_Encode:
  assumes "codec_ok c"
  shows "DecodeCursor c (Cursor_Encode c cu) = Inr (cu\<lparr>cu_SpentAt := truncate_to second (cu_SpentAt cu)\<rparr>)"
  using assms split_bar_append [of "rfc3339 c (cu_SpentAt cu)" "uuid_text c (cu_ID cu)"]
  by (simp add: codec_ok_def DecodeCursor_def Cursor_Encode_def)

text \<open>
  A cursor survives its token up to the fraction of a second: what the next request decodes is the
  position of the last row with its time rounded down to the second, and the token round-trips exactly
  when the time is a whole second.
\<close>

theorem cursor_roundtrip:
  assumes "codec_ok c"
  shows "DecodeCursor c (Cursor_Encode c cu) = Inr (cu\<lparr>cu_SpentAt := truncate_to second (cu_SpentAt cu)\<rparr>) \<and>
    (DecodeCursor c (Cursor_Encode c cu) = Inr cu \<longleftrightarrow> second dvd cu_SpentAt cu)"
proof -
  have "cu\<lparr>cu_SpentAt := truncate_to second (cu_SpentAt cu)\<rparr> = cu \<longleftrightarrow> truncate_to second (cu_SpentAt cu) = cu_SpentAt cu"
    by (cases cu) simp
  also have "\<dots> \<longleftrightarrow> second dvd cu_SpentAt cu" by (simp add: truncate_to_def mod_eq_0_iff_dvd)
  finally show ?thesis by (simp add: DecodeCursor_Encode [OF assms])
qed

text \<open>A codec with these properties: numbers in unary, signs first.\<close>

definition unary :: "int \<Rightarrow> string" where
  "unary n = (if n < 0 then ''-'' else []) @ replicate (nat \<bar>n\<bar>) CHR ''1''"

definition unary_parse :: "string \<Rightarrow> int" where
  "unary_parse s = (case s of CHR ''-'' # r \<Rightarrow> - int (length r) | _ \<Rightarrow> int (length s))"

lemma unary_parse_unary [simp]: "unary_parse (unary n) = n"
  by (cases "nat \<bar>n\<bar>") (auto simp: unary_def unary_parse_def)

lemma bar_unary [simp]: "CHR ''|'' \<notin> set (unary n)"
  by (auto simp: unary_def)

definition demo_codec :: Codec where
  "demo_codec = \<lparr>rfc3339 = (\<lambda>t. unary (t div second)),
     rfc3339_parse = (\<lambda>s. Some (unary_parse s * second)), uuid_text = (\<lambda>i. unary (uint i)),
     uuid_parse = (\<lambda>s. Some (word_of_int (unary_parse s)))\<rparr>"

lemma demo_codec_ok: "codec_ok demo_codec"
  by (simp add: codec_ok_def demo_codec_def truncate_to_def minus_mod_eq_div_mult)

theorem cursor_roundtrip_witness:
  "DecodeCursor demo_codec (Cursor_Encode demo_codec \<lparr>cu_SpentAt = 3 * day, cu_ID = 7\<rparr>) =
   Inr \<lparr>cu_SpentAt = 3 * day, cu_ID = 7\<rparr>"
  using cursor_roundtrip [OF demo_codec_ok, of "\<lparr>cu_SpentAt = 3 * day, cu_ID = 7\<rparr>"]
  by (simp add: day_def second_def truncate_to_def)

section \<open>Keyset pagination\<close>

text \<open>
  A listing sorted by a key that no two rows share, read page by page: each request selects the rows
  that come after the cursor, one more than the page size, and answers a page. \<open>follow\<close> is the
  client that decodes each page's token and asks again, with a bound on the number of requests;
  \<open>before\<close> orders the keys the way the listing is sorted.
\<close>

definition select_after :: "('k \<Rightarrow> 'k \<Rightarrow> bool) \<Rightarrow> ('a \<Rightarrow> 'k) \<Rightarrow> 'k option \<Rightarrow> int \<Rightarrow> 'a list \<Rightarrow> 'a list" where
  "select_after before key cur limit rows =
    take (nat limit) (filter (\<lambda>r. case cur of None \<Rightarrow> True | Some k \<Rightarrow> before k (key r)) rows)"

fun follow :: "nat \<Rightarrow> Codec \<Rightarrow> (Cursor option \<Rightarrow> 'a Page) \<Rightarrow> Cursor option \<Rightarrow> 'a list" where
  "follow 0 c fetch cur = []"
| "follow (Suc fuel) c fetch cur =
    (let page = fetch cur in
     if \<not> HasMore page then Items page
     else case DecodeCursor c (NextCursor page) of
            Inl e \<Rightarrow> Items page
          | Inr cu \<Rightarrow> Items page @ follow fuel c fetch (Some cu))"

locale keyset =
  fixes key :: "'a \<Rightarrow> 'k" and before :: "'k \<Rightarrow> 'k \<Rightarrow> bool"
    and cursorOf :: "'a \<Rightarrow> Cursor" and key_of :: "Cursor \<Rightarrow> 'k"
  assumes before_irrefl: "\<not> before k k"
    and before_trans: "before k l \<Longrightarrow> before l m \<Longrightarrow> before k m"
    and key_of_cursor: "key_of (cursorOf r) = key r"
begin

lemma filter_after_sorted:
  assumes "sorted_wrt (\<lambda>x y. before (key x) (key y)) (xs @ x # ys)"
  shows "filter (\<lambda>r. before (key x) (key r)) (xs @ x # ys) = ys"
proof -
  have "\<not> before (key x) (key z)" if "z \<in> set xs" for z
    using assms that before_trans [of "key x" "key z" "key x"] before_irrefl by (auto simp: sorted_wrt_append)
  then have "filter (\<lambda>r. before (key x) (key r)) xs = []" by (auto simp: filter_empty_conv)
  moreover have "filter (\<lambda>r. before (key x) (key r)) ys = ys" using assms by (auto simp: sorted_wrt_append filter_id_conv)
  ultimately show ?thesis by (simp add: before_irrefl)
qed

text \<open>
  If every token decodes to the cursor it was made from and every answer is the page after the
  cursor, following the tokens reads each row once, in order.
\<close>

lemma follow_suffix:
  assumes n: "0 < n"
    and fetch: "\<And>cur. fetch cur = NewPage c (select_after before key (map_option key_of cur) (n + 1) rows) n cursorOf"
    and codec: "\<And>r. r \<in> set rows \<Longrightarrow> DecodeCursor c (Cursor_Encode c (cursorOf r)) = Inr (cursorOf r)"
    and sorted: "sorted_wrt (\<lambda>x y. before (key x) (key y)) rows"
    and split: "rows = xs @ ys" "length ys < fuel"
    and cur: "cur = (if xs = [] then None else Some (cursorOf (last xs)))"
  shows "follow fuel c fetch cur = ys"
  using split cur
proof (induction fuel arbitrary: xs ys cur)
  case (Suc fuel)
  have after: "filter (\<lambda>r. case map_option key_of cur of None \<Rightarrow> True | Some k \<Rightarrow> before k (key r)) rows = ys"
  proof (cases xs rule: rev_cases)
    case (snoc zs z)
    then show ?thesis using Suc.prems sorted filter_after_sorted [of zs z ys] by (simp add: key_of_cursor)
  qed (use Suc.prems in simp)
  define p where "p = take (nat n) ys"
  have got: "fetch cur = NewPage c (take (nat (n + 1)) ys) n cursorOf"
    using fetch after by (simp add: select_after_def)
  show ?case
  proof (cases "int (length ys) \<le> n")
    case True
    then show ?thesis using n by (simp add: got NewPage_def)
  next
    case False
    have p: "p \<noteq> []" "p @ drop (nat n) ys = ys" "length p = nat n" "take (nat n) (take (nat (n + 1)) ys) = p"
      using False n by (auto simp: p_def)
    have page: "fetch cur = \<lparr>Items = p, NextCursor = Cursor_Encode c (cursorOf (last p)), HasMore = True\<rparr>"
      using False n p by (simp add: got NewPage_def last_conv_nth Let_def)
    have "last p \<in> set rows" using p(1) Suc.prems(1) by (metis UnCI last_in_set p_def set_append set_take_subset subsetD)
    moreover have "follow fuel c fetch (Some (cursorOf (last p))) = drop (nat n) ys"
      using Suc.prems p False n by (intro Suc.IH [of "xs @ p"]) auto
    ultimately show ?thesis using p(2) by (simp add: page codec)
  qed
qed simp

lemma follow_all:
  assumes "0 < n"
    and "\<And>cur. fetch cur = NewPage c (select_after before key (map_option key_of cur) (n + 1) rows) n cursorOf"
    and "\<And>r. r \<in> set rows \<Longrightarrow> DecodeCursor c (Cursor_Encode c (cursorOf r)) = Inr (cursorOf r)"
    and "sorted_wrt (\<lambda>x y. before (key x) (key y)) rows" "length rows < fuel"
  shows "follow fuel c fetch None = rows"
  using follow_suffix [of n fetch c rows "[]" rows fuel None] assms by simp

end

end
