(* ===== verification/Expense_Repo.thy ===== *)
theory Expense_Repo
  imports Database Paging
begin

text \<open>
  \<^verbatim>\<open>internal/repository/postgres/expense_repo.go\<close> with the statements of
  \<^verbatim>\<open>db/queries/expenses.sql\<close> and the constraints of migrations 00004 to 00006: claims, their
  append-only ledger and the listings. Each repository method runs its statements in the caller's
  transaction and passes every refusal through \<open>translate\<close>.
\<close>

section \<open>Statements\<close>

text \<open>The \<^verbatim>\<open>CHECK\<close> constraints of the expenses table, in the order of their names.\<close>

definition expense_checks :: "TenantConn \<Rightarrow> Expense \<Rightarrow> (string \<times> bool) list" where
  "expense_checks tc e =
    [(''expenses_amount_chk'', 0 <s Minor (e_Amount e)),
     (''expenses_currency_chk'', Currency_Valid (Currency (e_Amount e))),
     (''expenses_decision_order_chk'',
        (case (e_SubmittedAt e, e_DecidedAt e) of (Some s, Some d) \<Rightarrow> s \<le> d | _ \<Rightarrow> True)),
     (''expenses_merchant_chk'', btrim_len_between 1 200 (e_Merchant e)),
     (''expenses_payment_order_chk'',
        (case (e_DecidedAt e, e_PaidAt e) of (Some d, Some p) \<Rightarrow> d \<le> p | _ \<Rightarrow> True)),
     (''expenses_revision_chk'', 1 \<le>s e_Revision e),
     (''expenses_spent_at_chk'', e_SpentAt e \<le> truncate_to day (tc_now tc) + day),
     (''expenses_status_timestamps_chk'',
        (case e_Status e of
           StatusDraft \<Rightarrow> e_SubmittedAt e = None \<and> e_DecidedAt e = None \<and> e_DecidedBy e = None \<and> e_PaidAt e = None
         | StatusPendingApproval \<Rightarrow>
             e_SubmittedAt e \<noteq> None \<and> e_DecidedAt e = None \<and> e_DecidedBy e = None \<and> e_PaidAt e = None
         | StatusPaid \<Rightarrow>
             e_SubmittedAt e \<noteq> None \<and> e_DecidedAt e \<noteq> None \<and> e_DecidedBy e \<noteq> None \<and> e_PaidAt e \<noteq> None
         | _ \<Rightarrow> e_SubmittedAt e \<noteq> None \<and> e_DecidedAt e \<noteq> None \<and> e_DecidedBy e \<noteq> None \<and> e_PaidAt e = None)),
     (''expenses_version_chk'', 1 \<le>s e_Version e)]"

definition same_charge :: "Expense \<Rightarrow> Expense \<Rightarrow> bool" where
  "same_charge e r =
    (e_SourceSubscriptionID e \<noteq> None \<and> e_SourceSubscriptionID r = e_SourceSubscriptionID e \<and>
     e_TenantID r = e_TenantID e \<and> e_SpentAt r = e_SpentAt e)"

definition expense_fks :: "db \<Rightarrow> Expense \<Rightarrow> (string \<times> bool) list" where
  "expense_fks d e =
    [(''expenses_tenant_id_fkey'', has_tenant d (e_TenantID e)),
     (''expenses_submitter_fk'', has_member d (e_TenantID e) (e_SubmitterID e)),
     (''expenses_decided_by_fk'', fk_opt (has_member d (e_TenantID e)) (e_DecidedBy e)),
     (''expenses_department_fk'', fk_opt (has_department d (e_TenantID e)) (e_DepartmentID e)),
     (''expenses_source_subscription_fk'', fk_opt (has_vendor_sub d (e_TenantID e)) (e_SourceSubscriptionID e))]"

text \<open>The row an \<^verbatim>\<open>INSERT\<close> of a claim writes: the decision columns are not among its columns.\<close>

definition inserted_row :: "TenantConn \<Rightarrow> Expense \<Rightarrow> Expense" where
  "inserted_row tc e = e\<lparr>e_TenantID := tc_tenantID tc, e_SubmittedAt := None, e_DecidedAt := None,
     e_DecidedBy := None, e_DecisionNote := None, e_PaidAt := None, e_PaymentRef := None\<rparr>"

text \<open>A value outside an enum type is refused first, then the policy, then the constraints.\<close>

definition row_admissible :: "TenantConn \<Rightarrow> Expense \<Rightarrow> unit tx" where
  "row_admissible tc r =
    bind_tx (reject_if (\<not> (Status_Valid (e_Status r) \<and> Category_Valid (e_Category r))) (pg ''22P02'' [])) (\<lambda>_.
    bind_tx (reject_if (\<not> rls tc (e_TenantID r)) policy_error) (\<lambda>_.
    constraints ''23514'' (expense_checks tc r)))"

definition CreateExpense :: "TenantConn \<Rightarrow> Expense \<Rightarrow> Expense tx" where
  "CreateExpense tc e =
    (let r = inserted_row tc e in
     bind_tx (writable tc) (\<lambda>_.
     bind_tx (row_admissible tc r) (\<lambda>_.
     bind_tx (asks (\<lambda>d. d)) (\<lambda>d.
     bind_tx (constraints ''23505''
       [(''expenses_pkey'', \<forall>x \<in> set (expenses d). e_ID x \<noteq> e_ID r),
        (''expenses_recurring_once_per_charge_key'', \<forall>x \<in> set (expenses d). \<not> same_charge r x)]) (\<lambda>_.
     bind_tx (constraints ''23503'' (expense_fks d r)) (\<lambda>_.
     (\<lambda>d. Inr (r, d\<lparr>expenses := expenses d @ [r]\<rparr>))))))))"

text \<open>\<^verbatim>\<open>ON CONFLICT ... DO NOTHING\<close>: a claim for the same charge makes the statement return no row.\<close>

definition CreateRecurringExpense :: "TenantConn \<Rightarrow> Expense \<Rightarrow> Expense tx" where
  "CreateRecurringExpense tc e =
    (let r = inserted_row tc e in
     bind_tx (writable tc) (\<lambda>_.
     bind_tx (row_admissible tc r) (\<lambda>_.
     bind_tx (asks (\<lambda>d. d)) (\<lambda>d.
     bind_tx (reject_if (\<exists>x \<in> set (expenses d). same_charge r x) NoRows) (\<lambda>_.
     bind_tx (constraints ''23505'' [(''expenses_pkey'', \<forall>x \<in> set (expenses d). e_ID x \<noteq> e_ID r)]) (\<lambda>_.
     bind_tx (constraints ''23503'' (expense_fks d r)) (\<lambda>_.
     (\<lambda>d. Inr (r, d\<lparr>expenses := expenses d @ [r]\<rparr>)))))))))"

definition claim_row :: "TenantConn \<Rightarrow> uuid \<Rightarrow> Expense \<Rightarrow> bool" where
  "claim_row tc i r = (e_TenantID r = tc_tenantID tc \<and> e_ID r = i \<and> rls tc (e_TenantID r))"

definition GetExpense :: "TenantConn \<Rightarrow> uuid \<Rightarrow> Expense tx" where
  "GetExpense tc i = bind_tx (asks (\<lambda>d. filter (claim_row tc i) (expenses d))) (\<lambda>rs. lift_res (one_row rs))"

definition GetExpenseForUpdate :: "TenantConn \<Rightarrow> uuid \<Rightarrow> Expense tx" where
  "GetExpenseForUpdate tc i =
    bind_tx (writable tc) (\<lambda>_.
    bind_tx (GetExpense tc i) (\<lambda>r.
    bind_tx (reject_if (tc_locked tc i) (pg ''55P03'' [])) (\<lambda>_. ret r)))"

definition UpdateExpenseRow :: "TenantConn \<Rightarrow> (Expense \<Rightarrow> bool) \<Rightarrow> (Expense \<Rightarrow> Expense) \<Rightarrow> Expense tx" where
  "UpdateExpenseRow tc P f =
    bind_tx (writable tc) (\<lambda>_.
    bind_tx (asks (\<lambda>d. filter P (expenses d))) (\<lambda>rs.
    bind_tx (lift_res (one_row rs)) (\<lambda>old.
    bind_tx (row_admissible tc (f old)) (\<lambda>_.
    bind_tx (asks (\<lambda>d. d)) (\<lambda>d.
    bind_tx (constraints ''23503''
      [(''expenses_decided_by_fk'', e_DecidedBy (f old) = e_DecidedBy old \<or>
           fk_opt (has_member d (e_TenantID old)) (e_DecidedBy (f old))),
       (''expenses_department_fk'', e_DepartmentID (f old) = e_DepartmentID old \<or>
           fk_opt (has_department d (e_TenantID old)) (e_DepartmentID (f old)))]) (\<lambda>_.
    (\<lambda>d. Inr (f old, d\<lparr>expenses := update_rows P f (expenses d)\<rparr>))))))))"

text \<open>The trigger \<^verbatim>\<open>expenses_touch_updated_at\<close> overwrites \<^verbatim>\<open>updated_at\<close> with \<^verbatim>\<open>now()\<close>.\<close>

definition TransitionExpense :: "TenantConn \<Rightarrow> Expense \<Rightarrow> int32 \<Rightarrow> Expense tx" where
  "TransitionExpense tc e expected =
    UpdateExpenseRow tc (\<lambda>r. claim_row tc (e_ID e) r \<and> e_Version r = expected)
      (\<lambda>r. r\<lparr>e_Status := e_Status e, e_SubmittedAt := e_SubmittedAt e, e_DecidedAt := e_DecidedAt e,
             e_DecidedBy := e_DecidedBy e, e_DecisionNote := e_DecisionNote e, e_PaidAt := e_PaidAt e,
             e_PaymentRef := e_PaymentRef e, e_Revision := e_Revision e, e_Version := e_Version e,
             e_UpdatedAt := tc_now tc\<rparr>)"

definition UpdateExpenseDraft :: "TenantConn \<Rightarrow> Expense \<Rightarrow> int32 \<Rightarrow> Expense tx" where
  "UpdateExpenseDraft tc e expected =
    UpdateExpenseRow tc (\<lambda>r. claim_row tc (e_ID e) r \<and> e_Version r = expected \<and> e_Status r = StatusDraft)
      (\<lambda>r. r\<lparr>e_DepartmentID := e_DepartmentID e, e_Category := e_Category e, e_Amount := e_Amount e,
             e_Merchant := e_Merchant e, e_Description := e_Description e, e_SpentAt := e_SpentAt e,
             e_Version := e_Version e, e_UpdatedAt := tc_now tc\<rparr>)"

text \<open>
  Deleting a draft cascades to its attachments and its ledger rows: the referential action runs as the
  owner of the table, whom the append-only trigger lets pass.
\<close>

definition DeleteExpenseDraft :: "TenantConn \<Rightarrow> uuid \<Rightarrow> nat tx" where
  "DeleteExpenseDraft tc i =
    bind_tx (writable tc) (\<lambda>_ d.
      let gone = (\<lambda>r. claim_row tc i r \<and> e_Status r = StatusDraft);
          n = length (filter gone (expenses d))
      in if n = 0 then Inr (0, d)
         else Inr (n, d\<lparr>expenses := filter (\<lambda>r. \<not> gone r) (expenses d),
                        attachments := filter (\<lambda>a. \<not> (at_ExpenseID a = i \<and> at_TenantID a = tc_tenantID tc)) (attachments d),
                        events := filter (\<lambda>p. \<not> (ev_ExpenseID (snd p) = i \<and> ev_TenantID (snd p) = tc_tenantID tc)) (events d)\<rparr>))"

definition AppendExpenseEvent :: "TenantConn \<Rightarrow> Event \<Rightarrow> nat tx" where
  "AppendExpenseEvent tc ev =
    (let r = ev\<lparr>ev_TenantID := tc_tenantID tc\<rparr> in
     bind_tx (writable tc) (\<lambda>_.
     bind_tx (reject_if (\<not> (fk_opt Status_Valid (ev_FromStatus r) \<and> Status_Valid (ev_ToStatus r))) (pg ''22P02'' [])) (\<lambda>_.
     bind_tx (reject_if (\<not> rls tc (ev_TenantID r)) policy_error) (\<lambda>_.
     bind_tx (constraints ''23514''
       [(''expense_events_transition_chk'', ev_FromStatus r \<noteq> Some (ev_ToStatus r))]) (\<lambda>_.
     bind_tx (asks (\<lambda>d. d)) (\<lambda>d.
     bind_tx (constraints ''23503''
       [(''expense_events_tenant_id_fkey'', has_tenant d (ev_TenantID r)),
        (''expense_events_expense_fk'', has_expense d (ev_TenantID r) (ev_ExpenseID r)),
        (''expense_events_actor_fk'', fk_opt (has_member d (ev_TenantID r)) (ev_ActorID r))]) (\<lambda>_.
     (\<lambda>d. Inr (next_event d, d\<lparr>events := events d @ [(next_event d, r)], next_event := Suc (next_event d)\<rparr>)))))))))"

section \<open>The repository\<close>

definition appendEvent :: "TenantConn \<Rightarrow> Event \<Rightarrow> unit tx" where
  "appendEvent tc ev = map_err translate (bind_tx (AppendExpenseEvent tc ev) (\<lambda>_. ret ()))"

definition Repo_Create :: "TenantConn \<Rightarrow> Expense \<Rightarrow> Event \<Rightarrow> Expense tx" where
  "Repo_Create tc e ev =
    bind_tx (map_err translate (CreateExpense tc e)) (\<lambda>row.
    bind_tx (appendEvent tc ev) (\<lambda>_. ret row))"

definition Repo_CreateRecurring :: "TenantConn \<Rightarrow> Expense \<Rightarrow> Event \<Rightarrow> Expense tx" where
  "Repo_CreateRecurring tc e ev =
    bind_tx (map_err (\<lambda>err. if translate err = Sentinel ErrNotFound then Sentinel ErrAlreadyMaterialised
                            else translate err) (CreateRecurringExpense tc e)) (\<lambda>row.
    bind_tx (appendEvent tc ev) (\<lambda>_. ret row))"

definition Repo_Get :: "TenantConn \<Rightarrow> uuid \<Rightarrow> Expense tx" where
  "Repo_Get tc i = map_err translate (GetExpense tc i)"

definition GetForUpdate :: "TenantConn \<Rightarrow> uuid \<Rightarrow> Expense tx" where
  "GetForUpdate tc i = map_err translate (GetExpenseForUpdate tc i)"

definition Save :: "TenantConn \<Rightarrow> Expense \<Rightarrow> Event \<Rightarrow> int32 \<Rightarrow> Expense tx" where
  "Save tc e ev expectedVersion =
    bind_tx (map_err (\<lambda>err. if translate err = Sentinel ErrNotFound
                            then Wrap ErrStaleWrite (Text ''the claim was changed while you were deciding'')
                            else translate err) (TransitionExpense tc e expectedVersion)) (\<lambda>row.
    bind_tx (appendEvent tc ev) (\<lambda>_. ret row))"

definition UpdateDraft :: "TenantConn \<Rightarrow> Expense \<Rightarrow> Event \<Rightarrow> int32 \<Rightarrow> Expense tx" where
  "UpdateDraft tc e ev expectedVersion =
    bind_tx (map_err (\<lambda>err. if translate err = Sentinel ErrNotFound
                            then Wrap ErrStaleWrite (Text ''the claim was changed or submitted while you were editing'')
                            else translate err) (UpdateExpenseDraft tc e expectedVersion)) (\<lambda>row.
    bind_tx (appendEvent tc ev) (\<lambda>_. ret row))"

definition DeleteDraft :: "TenantConn \<Rightarrow> uuid \<Rightarrow> unit tx" where
  "DeleteDraft tc i =
    bind_tx (map_err translate (DeleteExpenseDraft tc i)) (\<lambda>n.
    reject_if (n = 0) (Sentinel ErrNotFound))"

record Filter =
  f_Status :: "Status option"
  f_Category :: "Category option"
  f_DepartmentID :: "uuid option"
  f_SubmitterID :: "uuid option"
  f_SpentFrom :: "time option"
  f_SpentTo :: "time option"
  f_MinMinor :: "int64 option"
  f_MaxMinor :: "int64 option"
  f_Search :: "string option"

text \<open>\<^verbatim>\<open>narg IS NULL OR column op narg\<close>.\<close>

definition narg :: "('a \<Rightarrow> bool) \<Rightarrow> 'a option \<Rightarrow> bool" where
  "narg P v = (case v of None \<Rightarrow> True | Some x \<Rightarrow> P x)"

text \<open>
  The filter of \<^verbatim>\<open>ListExpenses\<close>. \<open>ilike\<close> is the database's \<^verbatim>\<open>column ILIKE '%' || search || '%'\<close>;
  dates are compared as dates.
\<close>

definition matches :: "(string \<Rightarrow> string \<Rightarrow> bool) \<Rightarrow> Filter \<Rightarrow> Expense \<Rightarrow> bool" where
  "matches ilike f r =
    (narg (\<lambda>s. e_Status r = s) (f_Status f) \<and>
     narg (\<lambda>c. e_Category r = c) (f_Category f) \<and>
     narg (\<lambda>dp. e_DepartmentID r = Some dp) (f_DepartmentID f) \<and>
     narg (\<lambda>m. e_SubmitterID r = m) (f_SubmitterID f) \<and>
     narg (\<lambda>t. truncate_to day t \<le> e_SpentAt r) (f_SpentFrom f) \<and>
     narg (\<lambda>t. e_SpentAt r \<le> truncate_to day t) (f_SpentTo f) \<and>
     narg (\<lambda>v. v \<le>s Minor (e_Amount r)) (f_MinMinor f) \<and>
     narg (\<lambda>v. Minor (e_Amount r) \<le>s v) (f_MaxMinor f) \<and>
     narg (\<lambda>q. ilike (e_Merchant r) q \<or> (case e_Description r of None \<Rightarrow> False | Some t \<Rightarrow> ilike t q)) (f_Search f))"

definition ListExpenses :: "(string \<Rightarrow> string \<Rightarrow> bool) \<Rightarrow> TenantConn \<Rightarrow> Filter \<Rightarrow> Cursor option \<Rightarrow> int \<Rightarrow> Expense list tx" where
  "ListExpenses ilike tc f cursor limit =
    bind_tx (reject_if (\<not> (fk_opt Status_Valid (f_Status f) \<and> fk_opt Category_Valid (f_Category f))) (pg ''22P02'' [])) (\<lambda>_.
    asks (\<lambda>d.
      let hits = filter (\<lambda>r. e_TenantID r = tc_tenantID tc \<and> rls tc (e_TenantID r) \<and> matches ilike f r \<and>
            narg (\<lambda>cu. (e_SpentAt r, e_ID r) < (truncate_to day (cu_SpentAt cu), cu_ID cu)) cursor) (expenses d)
      in take (nat limit) (rev (sort_key (\<lambda>r. (e_SpentAt r, e_ID r)) hits))))"

definition Repo_List :: "(string \<Rightarrow> string \<Rightarrow> bool) \<Rightarrow> TenantConn \<Rightarrow> Filter \<Rightarrow> Cursor option \<Rightarrow> int \<Rightarrow> Expense list tx" where
  "Repo_List ilike tc f cursor limit = map_err translate (ListExpenses ilike tc f cursor limit)"

definition Q_ListPendingForApproval :: "TenantConn \<Rightarrow> uuid option \<Rightarrow> Cursor option \<Rightarrow> int \<Rightarrow> Expense list tx" where
  "Q_ListPendingForApproval tc departmentID cursor limit =
    asks (\<lambda>d.
      let hits = filter (\<lambda>r. e_TenantID r = tc_tenantID tc \<and> rls tc (e_TenantID r) \<and>
            e_Status r = StatusPendingApproval \<and> narg (\<lambda>dp. e_DepartmentID r = Some dp) departmentID \<and>
            narg (\<lambda>cu. case e_SubmittedAt r of None \<Rightarrow> False
                   | Some s \<Rightarrow> (cu_SpentAt cu, cu_ID cu) < (s, e_ID r)) cursor) (expenses d)
      in take (nat limit)
           (sort_key (\<lambda>r. (case e_SubmittedAt r of Some s \<Rightarrow> s | None \<Rightarrow> zero_time, e_ID r)) hits))"

definition ListPendingForApproval :: "TenantConn \<Rightarrow> uuid option \<Rightarrow> Cursor option \<Rightarrow> int \<Rightarrow> Expense list tx" where
  "ListPendingForApproval tc departmentID cursor limit = map_err translate (Q_ListPendingForApproval tc departmentID cursor limit)"

record EventRecord =
  er_ID :: nat
  er_Event :: Event
  er_ActorEmail :: "string option"

definition actor_email :: "TenantConn \<Rightarrow> db \<Rightarrow> Event \<Rightarrow> string option" where
  "actor_email tc d ev =
    (case ev_ActorID ev of
       None \<Rightarrow> None
     | Some m \<Rightarrow>
         (case filter (\<lambda>r. m_ID r = m \<and> m_TenantID r = ev_TenantID ev \<and> rls tc (m_TenantID r)) (memberships d) of
            [] \<Rightarrow> None
          | r # _ \<Rightarrow> (case filter (\<lambda>u. u_ID u = m_UserID r) (users d) of [] \<Rightarrow> None | u # _ \<Rightarrow> Some (u_Email u))))"

text \<open>Newest first: \<^verbatim>\<open>ORDER BY occurred_at DESC, id DESC\<close>.\<close>

definition ListExpenseEvents :: "TenantConn \<Rightarrow> uuid \<Rightarrow> EventRecord list tx" where
  "ListExpenseEvents tc expenseID =
    asks (\<lambda>d.
      let hits = filter (\<lambda>p. ev_TenantID (snd p) = tc_tenantID tc \<and> rls tc (ev_TenantID (snd p)) \<and>
            ev_ExpenseID (snd p) = expenseID) (events d)
      in map (\<lambda>(i, ev). \<lparr>er_ID = i, er_Event = ev, er_ActorEmail = actor_email tc d ev\<rparr>)
           (rev (sort_key (\<lambda>p. (ev_OccurredAt (snd p), fst p)) hits)))"

definition Repo_Events :: "TenantConn \<Rightarrow> uuid \<Rightarrow> EventRecord list tx" where
  "Repo_Events tc expenseID = map_err translate (ListExpenseEvents tc expenseID)"

end
