(* ===== verification/Expense_Props.thy ===== *)
theory Expense_Props
  imports Expense
begin

text \<open>
  Correctness of the claim state machine. The first part inverts the table and the operations; the
  second is the life of a claim as an inductive relation, with the invariant that relates a claim to
  its ledger; the third states the properties.
\<close>

section \<open>The table and its index\<close>

lemma init_index_ok:
  "init_index transitions Map.empty Map.empty = Inr (index, actionPermission)"
  by (simp add: transitions_def edge_def index_def actionPermission_def)

lemma actionPermission_simps [simp]:
  "actionPermission ActionSubmit = Some PermExpenseSubmit"
  "actionPermission ActionApprove = Some PermExpenseApprove"
  "actionPermission ActionReject = Some PermExpenseApprove"
  "actionPermission ActionWithdraw = Some PermExpenseSubmit"
  "actionPermission ActionRevise = Some PermExpenseCreate"
  "actionPermission ActionPay = Some PermExpensePay"
  "actionPermission (ActionOther s) = None"
  by (simp_all add: transitions_def edge_def actionPermission_def)

lemma init_index_Inr:
  "init_index ts ix ap = Inr (ix', ap') \<Longrightarrow>
   ix' k = Some t \<longleftrightarrow> ix k = Some t \<or> t \<in> set ts \<and> (tr_From t, tr_Action t) = k"
  by (induction ts arbitrary: ix ap) (auto split: if_splits option.splits)

lemma index_iff:
  "index (s, a) = Some t \<longleftrightarrow> t \<in> set transitions \<and> tr_From t = s \<and> tr_Action t = a"
  using init_index_Inr [OF init_index_ok, of "(s, a)" t] by simp

lemma transition_permission:
  "t \<in> set transitions \<Longrightarrow> actionPermission (tr_Action t) = Some (tr_Permission t)"
  by (auto simp: transitions_def edge_def)

lemma index_None_iff:
  "index (s, a) = None \<longleftrightarrow> (\<forall>t \<in> set transitions. tr_From t = s \<longrightarrow> tr_Action t \<noteq> a)"
  by (metis index_iff not_None_eq)

section \<open>Inversion of the operations\<close>

lemma checkGuards_Inr:
  "checkGuards e t cmd = Inr u \<longleftrightarrow>
    (MustBeSubmitter t \<longrightarrow> a_MembershipID (c_Actor cmd) = e_SubmitterID e) \<and>
    (MustNotBeSubmitter t \<longrightarrow> a_MembershipID (c_Actor cmd) \<noteq> e_SubmitterID e) \<and>
    (MustNotBeDecider t \<longrightarrow> e_DecidedBy e \<noteq> Some (a_MembershipID (c_Actor cmd))) \<and>
    (WithinDepartmentScope t \<longrightarrow> GovernsDepartment (c_Actor cmd) (e_DepartmentID e)) \<and>
    (WithinLimit t \<longrightarrow> WithinApprovalLimit (c_Actor cmd) (e_Amount e)) \<and>
    (RequiresReason t \<longrightarrow> \<not> blank (c_Reason cmd)) \<and>
    (RequiresPaymentRef t \<longrightarrow> \<not> blank (c_PaymentRef cmd)) \<and>
    (\<forall>r. c_Reason cmd = Some r \<longrightarrow> length r \<le> 2000) \<and>
    (\<forall>r. c_PaymentRef cmd = Some r \<longrightarrow> length r \<le> 200)"
  by (auto simp: checkGuards_def Let_def SameMembership_def go_result not_less split: option.splits)

lemma Apply_Inr:
  "Apply e cmd now = (Inr ev, e') \<longleftrightarrow>
    (\<exists>t \<in> set transitions. tr_From t = e_Status e \<and> tr_Action t = c_Action cmd \<and>
       a_TenantID (c_Actor cmd) = e_TenantID e \<and> Can (c_Actor cmd) (tr_Permission t) \<and>
       checkGuards e t cmd = Inr () \<and> commit e t cmd now = (ev, e'))"
  (is "?L = ?R")
proof
  assume ?L
  then obtain t where t: "index (e_Status e, c_Action cmd) = Some t"
    and ok: "a_TenantID (c_Actor cmd) = e_TenantID e" "checkGuards e t cmd = Inr ()"
      "commit e t cmd now = (ev, e')"
      "\<forall>p. actionPermission (c_Action cmd) = Some p \<longrightarrow> Can (c_Actor cmd) p"
    by (auto simp: Apply_def Let_def split: if_splits option.splits sum.splits prod.splits)
  then show ?R by (metis index_iff transition_permission)
next
  assume ?R
  then obtain t where t: "t \<in> set transitions" "tr_From t = e_Status e" "tr_Action t = c_Action cmd"
    and ok: "a_TenantID (c_Actor cmd) = e_TenantID e" "Can (c_Actor cmd) (tr_Permission t)"
      "checkGuards e t cmd = Inr ()" "commit e t cmd now = (ev, e')" by blast
  have "index (e_Status e, c_Action cmd) = Some t" using t by (simp add: index_iff)
  moreover have "actionPermission (c_Action cmd) = Some (tr_Permission t)"
    using transition_permission [OF t(1)] t(3) by simp
  moreover have "Active (c_Actor cmd)" using ok(2) by (auto dest: Role_Allows_active)
  moreover have "Action_Valid (c_Action cmd)"
    using calculation(2) by (cases "c_Action cmd") simp_all
  ultimately show ?L using ok by (simp add: Apply_def)
qed

lemma Apply_Inl_unchanged: "Apply e cmd now = (Inl er, e') \<Longrightarrow> e' = e"
  by (auto simp: Apply_def Let_def split: if_splits option.splits sum.splits prod.splits)

lemma Draft_validate_Inr:
  assumes "Draft_validate d0 now = (Inr u, d)"
  shows "d = d0\<lparr>d_Merchant := TrimSpace (d_Merchant d0), d_Description := trim_opt (d_Description d0)\<rparr>"
    "1 \<le> length (d_Merchant d)" "length (d_Merchant d) \<le> 200"
    "Category_Valid (d_Category d)" "Currency_Valid (Currency (d_Amount d))" "IsPositive (d_Amount d)"
    "d_SpentAt d \<noteq> zero_time" "d_SpentAt d \<le> now + day"
  using assms
  by (auto simp: Draft_validate_def Let_def go_result Add_def maxFutureSkew_def not_less Suc_le_eq
      split: if_splits)

lemma Draft_validate_spent: "d_SpentAt (snd (Draft_validate d now)) = d_SpentAt d"
  by (simp add: Draft_validate_def Let_def)

lemma New_Inr:
  assumes "New i t s d now = Inr (e, ev)"
  shows "\<exists>d'. Draft_validate d now = (Inr (), d') \<and>
    e = \<lparr>e_ID = i, e_TenantID = t, e_SubmitterID = s,
         e_DepartmentID = d_DepartmentID d', e_Status = StatusDraft, e_Category = d_Category d',
         e_Amount = d_Amount d', e_Merchant = d_Merchant d', e_Description = d_Description d',
         e_SpentAt = truncate_to day (d_SpentAt d'),
         e_SubmittedAt = None, e_DecidedAt = None, e_DecidedBy = None, e_DecisionNote = None,
         e_PaidAt = None, e_PaymentRef = None, e_Revision = 1, e_Version = 1,
         e_SourceSubscriptionID = None, e_CreatedAt = now, e_UpdatedAt = now\<rparr> \<and>
    ev = \<lparr>ev_TenantID = t, ev_ExpenseID = i, ev_Action = EventCreated,
          ev_FromStatus = None, ev_ToStatus = StatusDraft, ev_ActorID = Some s,
          ev_Reason = None, ev_Amount = e_Amount e, ev_Revision = 1,
          ev_Metadata = [], ev_OccurredAt = now\<rparr>"
  using assms by (auto simp: New_def Let_def split: prod.splits sum.splits)

lemma Edit_Inr:
  assumes "Edit e d actor now = (Inr ev, e')"
  shows "e_Status e = StatusDraft \<and> (\<exists>d'. Draft_validate d now = (Inr (), d') \<and>
    e' = e\<lparr>e_DepartmentID := d_DepartmentID d', e_Category := d_Category d', e_Amount := d_Amount d',
           e_Merchant := d_Merchant d', e_Description := d_Description d',
           e_SpentAt := truncate_to day (d_SpentAt d'), e_UpdatedAt := now,
           e_Version := e_Version e + 1\<rparr> \<and>
    ev = \<lparr>ev_TenantID = e_TenantID e, ev_ExpenseID = e_ID e, ev_Action = EventUpdated,
          ev_FromStatus = Some StatusDraft, ev_ToStatus = StatusDraft, ev_ActorID = Some actor,
          ev_Reason = None, ev_Amount = d_Amount d', ev_Revision = e_Revision e,
          ev_Metadata = [], ev_OccurredAt = now\<rparr>)"
  using assms by (auto simp: Edit_def Editable_def Let_def split: if_splits prod.splits sum.splits)

lemma Edit_Inl_unchanged: "Edit e d actor now = (Inl er, e') \<Longrightarrow> e' = e"
  by (auto simp: Edit_def Let_def split: if_splits prod.splits sum.splits)

text \<open>The identity of a claim never changes.\<close>

lemma commit_frame:
  assumes "commit e t cmd now = (ev, e')"
  shows "e_ID e' = e_ID e" "e_TenantID e' = e_TenantID e" "e_SubmitterID e' = e_SubmitterID e"
    "e_DepartmentID e' = e_DepartmentID e" "e_Category e' = e_Category e" "e_Amount e' = e_Amount e"
    "e_Merchant e' = e_Merchant e" "e_Description e' = e_Description e" "e_SpentAt e' = e_SpentAt e"
    "e_CreatedAt e' = e_CreatedAt e" "e_SourceSubscriptionID e' = e_SourceSubscriptionID e"
    "e_Status e' = tr_To t" "e_Version e' = e_Version e + 1" "e_UpdatedAt e' = now"
  using assms unfolding commit_def Let_def by (auto split: Action.splits)

lemma commit_event:
  assumes "commit e t cmd now = (ev, e')"
  shows "ev = \<lparr>ev_TenantID = e_TenantID e, ev_ExpenseID = e_ID e, ev_Action = tr_Event t,
      ev_FromStatus = Some (e_Status e), ev_ToStatus = tr_To t,
      ev_ActorID = Some (a_MembershipID (c_Actor cmd)), ev_Reason = trimmed (c_Reason cmd),
      ev_Amount = e_Amount e, ev_Revision = e_Revision e', ev_Metadata = [], ev_OccurredAt = now\<rparr>"
  using commit_frame [OF assms] assms by (auto simp: commit_def Let_def)

section \<open>The life of a claim\<close>

text \<open>
  A claim is created by \<^verbatim>\<open>New\<close> and moved by \<^verbatim>\<open>Apply\<close> and \<^verbatim>\<open>Edit\<close>; its ledger is the
  list of the events those calls returned, oldest first.
\<close>

inductive claim_step :: "Expense \<Rightarrow> Event \<Rightarrow> Expense \<Rightarrow> bool" where
  applied: "Apply e cmd now = (Inr ev, e') \<Longrightarrow> claim_step e ev e'"
| edited: "Edit e d actor now = (Inr ev, e') \<Longrightarrow> claim_step e ev e'"

inductive claim_history :: "Expense \<Rightarrow> Event list \<Rightarrow> bool" where
  filed: "New i t s d now = Inr (e, ev) \<Longrightarrow> claim_history e [ev]"
| moved: "claim_history e evs \<Longrightarrow> claim_step e ev e' \<Longrightarrow> claim_history e' (evs @ [ev])"

text \<open>
  \<^verbatim>\<open>expenses_status_timestamps_chk\<close> of migration 00004: which decision columns are set in which
  status.
\<close>

fun status_timestamps_chk :: "Expense \<Rightarrow> bool" where
  "status_timestamps_chk e =
    (case e_Status e of
       StatusDraft \<Rightarrow> e_SubmittedAt e = None \<and> e_DecidedAt e = None \<and> e_DecidedBy e = None \<and> e_PaidAt e = None
     | StatusPendingApproval \<Rightarrow>
         e_SubmittedAt e \<noteq> None \<and> e_DecidedAt e = None \<and> e_DecidedBy e = None \<and> e_PaidAt e = None
     | StatusApproved \<Rightarrow>
         e_SubmittedAt e \<noteq> None \<and> e_DecidedAt e \<noteq> None \<and> e_DecidedBy e \<noteq> None \<and> e_PaidAt e = None
     | StatusRejected \<Rightarrow>
         e_SubmittedAt e \<noteq> None \<and> e_DecidedAt e \<noteq> None \<and> e_DecidedBy e \<noteq> None \<and> e_PaidAt e = None
     | StatusPaid \<Rightarrow>
         e_SubmittedAt e \<noteq> None \<and> e_DecidedAt e \<noteq> None \<and> e_DecidedBy e \<noteq> None \<and> e_PaidAt e \<noteq> None
     | StatusOther s \<Rightarrow> False)"

declare status_timestamps_chk.simps [simp del]
lemmas timestamps_def = status_timestamps_chk.simps

lemma transitions_cases:
  assumes "t \<in> set transitions"
  obtains
    (submit) "t = (edge StatusDraft ActionSubmit StatusPendingApproval PermExpenseSubmit EventSubmitted)
      \<lparr>MustBeSubmitter := True\<rparr>"
  | (approve) "t = (edge StatusPendingApproval ActionApprove StatusApproved PermExpenseApprove EventApproved)
      \<lparr>MustNotBeSubmitter := True, WithinLimit := True, WithinDepartmentScope := True\<rparr>"
  | (reject) "t = (edge StatusPendingApproval ActionReject StatusRejected PermExpenseApprove EventRejected)
      \<lparr>MustNotBeSubmitter := True, WithinLimit := True, WithinDepartmentScope := True, RequiresReason := True\<rparr>"
  | (withdraw) "t = (edge StatusPendingApproval ActionWithdraw StatusDraft PermExpenseSubmit EventWithdrawn)
      \<lparr>MustBeSubmitter := True\<rparr>"
  | (revise) "t = (edge StatusRejected ActionRevise StatusDraft PermExpenseCreate EventRevised)
      \<lparr>MustBeSubmitter := True, BumpsRevision := True\<rparr>"
  | (pay) "t = (edge StatusApproved ActionPay StatusPaid PermExpensePay EventPaid)
      \<lparr>MustNotBeSubmitter := True, MustNotBeDecider := True, RequiresPaymentRef := True\<rparr>"
  using assms unfolding transitions_def by (simp only: set_simps insert_iff empty_iff) blast

text \<open>One edge taken, with everything the table demands of it.\<close>

lemma Apply_edge:
  assumes "Apply e cmd now = (Inr ev, e')"
  obtains t where "t \<in> set transitions" "tr_From t = e_Status e" "tr_Action t = c_Action cmd"
    "checkGuards e t cmd = Inr ()" "commit e t cmd now = (ev, e')"
    "a_TenantID (c_Actor cmd) = e_TenantID e" "Can (c_Actor cmd) (tr_Permission t)"
  using assms by (auto simp: Apply_Inr)

lemma commit_timestamps:
  assumes "t \<in> set transitions" "tr_From t = e_Status e" "commit e t cmd now = (ev, e')"
    "status_timestamps_chk e"
  shows "status_timestamps_chk e'"
  using assms(1)
proof (cases rule: transitions_cases)
qed (use assms(2-4) in \<open>auto simp: commit_def Let_def edge_def timestamps_def\<close>)

lemma Apply_timestamps:
  "Apply e cmd now = (Inr ev, e') \<Longrightarrow> status_timestamps_chk e \<Longrightarrow> status_timestamps_chk e'"
  by (auto elim!: Apply_edge intro: commit_timestamps)

lemma Edit_timestamps:
  "Edit e d actor now = (Inr ev, e') \<Longrightarrow> status_timestamps_chk e \<Longrightarrow> status_timestamps_chk e'"
  by (auto dest!: Edit_Inr simp: timestamps_def)

lemma New_timestamps: "New i t s d now = Inr (e, ev) \<Longrightarrow> status_timestamps_chk e"
  by (auto dest!: New_Inr simp: timestamps_def)

text \<open>The ledger chains: each event starts where the one before it ended.\<close>

fun chained :: "Status option \<Rightarrow> Event list \<Rightarrow> Status option \<Rightarrow> bool" where
  "chained s [] s' = (s = s')"
| "chained s (ev # evs) s' = (ev_FromStatus ev = s \<and> chained (Some (ev_ToStatus ev)) evs s')"

lemma chained_append [simp]: "chained s (xs @ ys) s' = (\<exists>m. chained s xs m \<and> chained m ys s')"
  by (induction xs arbitrary: s) auto

definition revisions :: "Event list \<Rightarrow> nat" where
  "revisions evs = length (filter (\<lambda>ev. ev_Action ev = EventRevised) evs)"

definition is_submission :: "Expense \<Rightarrow> Event \<Rightarrow> bool" where
  "is_submission e s =
    (ev_Action s = EventSubmitted \<and> ev_ActorID s = Some (e_SubmitterID e) \<and>
     ev_Amount s = e_Amount e \<and> ev_Revision s = e_Revision e)"

definition is_decision :: "EventAction \<Rightarrow> Expense \<Rightarrow> Event \<Rightarrow> bool" where
  "is_decision k e d =
    (ev_Action d = k \<and> ev_ActorID d = e_DecidedBy e \<and> e_DecidedBy e \<noteq> None \<and>
     e_DecidedBy e \<noteq> Some (e_SubmitterID e) \<and> ev_Amount d = e_Amount e \<and> ev_Revision d = e_Revision e)"

definition is_payment :: "Expense \<Rightarrow> Event \<Rightarrow> bool" where
  "is_payment e p =
    (ev_Action p = EventPaid \<and> ev_ActorID p \<noteq> None \<and> ev_ActorID p \<noteq> Some (e_SubmitterID e) \<and>
     ev_ActorID p \<noteq> e_DecidedBy e \<and> ev_Amount p = e_Amount e \<and> ev_Revision p = e_Revision e)"

text \<open>What the newest events say, by status.\<close>

fun phase :: "Expense \<Rightarrow> Event list \<Rightarrow> bool" where
  "phase e evs =
    (case e_Status e of
       StatusDraft \<Rightarrow> True
     | StatusPendingApproval \<Rightarrow> \<exists>pre s. evs = pre @ [s] \<and> is_submission e s
     | StatusApproved \<Rightarrow> \<exists>pre s a. evs = pre @ [s, a] \<and> is_submission e s \<and> is_decision EventApproved e a
     | StatusRejected \<Rightarrow> \<exists>pre s a. evs = pre @ [s, a] \<and> is_submission e s \<and> is_decision EventRejected e a
     | StatusPaid \<Rightarrow> \<exists>pre s a p. evs = pre @ [s, a, p] \<and> is_submission e s \<and>
         is_decision EventApproved e a \<and> is_payment e p
     | StatusOther s \<Rightarrow> False)"

declare phase.simps [simp del]

definition ledger_inv :: "Expense \<Rightarrow> Event list \<Rightarrow> bool" where
  "ledger_inv e evs =
    (status_timestamps_chk e \<and> chained None evs (Some (e_Status e)) \<and> phase e evs \<and>
     e_Version e = of_nat (length evs) \<and> e_Revision e = 1 + of_nat (revisions evs) \<and>
     (\<forall>ev \<in> set evs. ev_ExpenseID ev = e_ID e \<and> ev_TenantID ev = e_TenantID e))"

lemma commit_phase:
  assumes "t \<in> set transitions" "tr_From t = e_Status e" "checkGuards e t cmd = Inr ()"
    "commit e t cmd now = (ev, e')" "phase e evs" "status_timestamps_chk e"
  shows "phase e' (evs @ [ev])"
  using assms(1)
proof (cases rule: transitions_cases)
  case pay
  then show ?thesis using assms(2-6)
    by (auto simp: commit_def Let_def edge_def phase.simps checkGuards_Inr is_submission_def is_decision_def is_payment_def)
qed (use assms(2-6) in \<open>auto simp: commit_def Let_def edge_def phase.simps checkGuards_Inr timestamps_def
      is_submission_def is_decision_def\<close>)

lemma commit_revision:
  assumes "t \<in> set transitions" "commit e t cmd now = (ev, e')"
  shows "e_Revision e' = e_Revision e + (if ev_Action ev = EventRevised then 1 else 0)"
  using assms(1)
proof (cases rule: transitions_cases)
qed (use assms(2) in \<open>auto simp: commit_def Let_def edge_def\<close>)

lemma ledger_inv_Apply:
  assumes inv: "ledger_inv e evs" and app: "Apply e cmd now = (Inr ev, e')"
  shows "ledger_inv e' (evs @ [ev])"
proof -
  from app obtain t where t: "t \<in> set transitions" "tr_From t = e_Status e"
      "checkGuards e t cmd = Inr ()" "commit e t cmd now = (ev, e')" by (elim Apply_edge)
  note frame = commit_frame [OF t(4)]
  have "phase e' (evs @ [ev])"
    using inv t by (intro commit_phase) (auto simp: ledger_inv_def)
  moreover have "status_timestamps_chk e'"
    using inv t by (intro commit_timestamps [OF t(1,2,4)]) (simp add: ledger_inv_def)
  moreover have "e_Revision e' = 1 + of_nat (revisions (evs @ [ev]))"
    using inv commit_revision [OF t(1,4)] by (simp add: ledger_inv_def revisions_def)
  moreover have "chained None (evs @ [ev]) (Some (e_Status e'))"
    using inv frame(12) by (simp add: ledger_inv_def commit_event [OF t(4)])
  moreover have "\<forall>x \<in> set (evs @ [ev]). ev_ExpenseID x = e_ID e' \<and> ev_TenantID x = e_TenantID e'"
    using inv frame(1,2) by (simp add: ledger_inv_def commit_event [OF t(4)])
  moreover have "e_Version e' = of_nat (length (evs @ [ev]))"
    using inv frame(13) by (simp add: ledger_inv_def)
  ultimately show ?thesis unfolding ledger_inv_def by blast
qed

lemma ledger_inv_Edit:
  assumes "ledger_inv e evs" "Edit e d actor now = (Inr ev, e')"
  shows "ledger_inv e' (evs @ [ev])"
  using assms Edit_timestamps [OF assms(2)]
  by (auto dest!: Edit_Inr simp: ledger_inv_def phase.simps revisions_def)

lemma ledger_inv_New: "New i t s d now = Inr (e, ev) \<Longrightarrow> ledger_inv e [ev]"
  using New_timestamps [of i t s d now e ev]
  by (auto dest!: New_Inr simp: ledger_inv_def phase.simps revisions_def)

lemma history_ledger_inv: "claim_history e evs \<Longrightarrow> ledger_inv e evs"
proof (induction rule: claim_history.induct)
  case (filed i t s d now e ev)
  then show ?case by (rule ledger_inv_New)
next
  case (moved e evs ev e')
  from moved(2) show ?case
  proof (cases rule: claim_step.cases)
    case (applied cmd now)
    then show ?thesis by (intro ledger_inv_Apply [OF moved.IH])
  next
    case (edited d actor now)
    then show ?thesis by (rule ledger_inv_Edit [OF moved.IH])
  qed
qed

section \<open>Properties of the state machine\<close>

text \<open>
  The package initialises: \<^verbatim>\<open>init()\<close> reaches no panic on the transition table, and the
  lookup it builds finds exactly the rows of the table, so a move is legal only if it is a row.
\<close>

theorem init_builds_table:
  "init_index transitions Map.empty Map.empty = Inr (index, actionPermission) \<and>
   (\<forall>s a t. index (s, a) = Some t \<longleftrightarrow> t \<in> set transitions \<and> tr_From t = s \<and> tr_Action t = a)"
  using init_index_ok index_iff by blast

lemma ledger_inv_paid:
  assumes "ledger_inv e evs" and "e_Status e = StatusPaid"
  shows "\<exists>pre s a p approver payer. evs = pre @ [s, a, p] \<and>
    ev_Action s = EventSubmitted \<and> ev_ActorID s = Some (e_SubmitterID e) \<and>
    ev_Action a = EventApproved \<and> ev_ActorID a = Some approver \<and>
    ev_Action p = EventPaid \<and> ev_ActorID p = Some payer \<and>
    distinct [e_SubmitterID e, approver, payer] \<and>
    ev_Amount s = e_Amount e \<and> ev_Amount a = e_Amount e \<and> ev_Amount p = e_Amount e"
proof -
  from assms obtain pre s a p where
    evs: "evs = pre @ [s, a, p]" and s: "is_submission e s" and a: "is_decision EventApproved e a"
      and p: "is_payment e p"
    by (auto simp: ledger_inv_def phase.simps)
  then obtain approver payer where "e_DecidedBy e = Some approver" "ev_ActorID p = Some payer"
    by (auto simp: is_decision_def is_payment_def)
  with evs s a p show ?thesis
    by (intro exI [of _ pre] exI [of _ s] exI [of _ a] exI [of _ p] exI [of _ approver] exI [of _ payer])
       (auto simp: is_submission_def is_decision_def is_payment_def)
qed

text \<open>
  Four eyes, end to end: whatever commands and edits a claim has been through, once it is paid its
  last three ledger entries are a submission by the submitter, an approval and a payment by three
  different people, all for the amount the claim carries now.
\<close>

theorem paid_claim_four_eyes:
  assumes "claim_history e evs" and "e_Status e = StatusPaid"
  shows "\<exists>pre s a p approver payer. evs = pre @ [s, a, p] \<and>
    ev_Action s = EventSubmitted \<and> ev_ActorID s = Some (e_SubmitterID e) \<and>
    ev_Action a = EventApproved \<and> ev_ActorID a = Some approver \<and>
    ev_Action p = EventPaid \<and> ev_ActorID p = Some payer \<and>
    distinct [e_SubmitterID e, approver, payer] \<and>
    ev_Amount s = e_Amount e \<and> ev_Amount a = e_Amount e \<and> ev_Amount p = e_Amount e"
  using history_ledger_inv [OF assms(1)] assms(2) by (rule ledger_inv_paid)

text \<open>A worked claim: filed and submitted by member 3, approved by manager 4, settled by finance 5.\<close>

definition demo_actor :: "uuid \<Rightarrow> Role \<Rightarrow> Actor" where
  "demo_actor m r = \<lparr>a_TenantID = 1, a_UserID = m, a_MembershipID = m, a_Role = r,
     a_Status = MembershipActive, a_DepartmentID = None, a_ApprovalLimitMinor = None,
     a_TenantStatus = TenantActive\<rparr>"

definition demo_draft :: Draft where
  "demo_draft = \<lparr>d_DepartmentID = None, d_Category = CategoryTravel,
     d_Amount = \<lparr>Minor = 1250, Currency = ''USD''\<rparr>, d_Merchant = ''Rail'', d_Description = None,
     d_SpentAt = 5 * day\<rparr>"

definition demo_cmd :: "Action \<Rightarrow> uuid \<Rightarrow> Role \<Rightarrow> Command" where
  "demo_cmd a m r = \<lparr>c_Action = a, c_Actor = demo_actor m r, c_Reason = None, c_PaymentRef = Some ''R1''\<rparr>"

definition demo_filed :: "Expense \<times> Event" where
  "demo_filed = (case New 9 1 3 demo_draft (6 * day) of Inr r \<Rightarrow> r | Inl _ \<Rightarrow> undefined)"

definition demo_submitted :: Expense where
  "demo_submitted = snd (Apply (fst demo_filed) (demo_cmd ActionSubmit 3 RoleMember) (7 * day))"

definition demo_approved :: Expense where
  "demo_approved = snd (Apply demo_submitted (demo_cmd ActionApprove 4 RoleManager) (8 * day))"

definition demo_paid :: Expense where
  "demo_paid = snd (Apply demo_approved (demo_cmd ActionPay 5 RoleFinance) (9 * day))"

lemma TrimSpace_no_space:
  "match_prefix go_spaces s = 0 \<Longrightarrow> match_prefix (map rev go_spaces) (rev s) = 0 \<Longrightarrow> TrimSpace s = s"
  by (simp add: TrimSpace_def strip_left_id)

lemma demo_trims [simp]: "TrimSpace ''Rail'' = ''Rail''" "TrimSpace ''R1'' = ''R1''" "TrimSpace ''probe'' = ''probe''"
  by (rule TrimSpace_no_space; simp add: match_prefix_def go_spaces_def)+

lemma demo_New: "New 9 1 3 demo_draft (6 * day) = Inr demo_filed"
  by (simp add: demo_filed_def New_def Draft_validate_def demo_draft_def trim_opt_def Category_Valid_def
      AllCategories_def Currency_Valid_def IsPositive_def maxFutureSkew_def day_def word_sless_alt)

lemma demo_claim: "fst demo_filed = \<lparr>e_ID = 9, e_TenantID = 1, e_SubmitterID = 3, e_DepartmentID = None,
    e_Status = StatusDraft, e_Category = CategoryTravel, e_Amount = \<lparr>Minor = 1250, Currency = ''USD''\<rparr>,
    e_Merchant = ''Rail'', e_Description = None, e_SpentAt = 5 * day, e_SubmittedAt = None,
    e_DecidedAt = None, e_DecidedBy = None, e_DecisionNote = None, e_PaidAt = None, e_PaymentRef = None,
    e_Revision = 1, e_Version = 1, e_SourceSubscriptionID = None, e_CreatedAt = 6 * day, e_UpdatedAt = 6 * day\<rparr>"
  by (simp add: demo_filed_def New_def Draft_validate_def demo_draft_def trim_opt_def Category_Valid_def
      AllCategories_def Currency_Valid_def IsPositive_def maxFutureSkew_def day_def word_sless_alt truncate_to_def)

lemma index_simps [simp]:
  "index (StatusDraft, ActionSubmit) =
     Some ((edge StatusDraft ActionSubmit StatusPendingApproval PermExpenseSubmit EventSubmitted)
       \<lparr>MustBeSubmitter := True\<rparr>)"
  "index (StatusPendingApproval, ActionApprove) =
     Some ((edge StatusPendingApproval ActionApprove StatusApproved PermExpenseApprove EventApproved)
       \<lparr>MustNotBeSubmitter := True, WithinLimit := True, WithinDepartmentScope := True\<rparr>)"
  "index (StatusPendingApproval, ActionWithdraw) =
     Some ((edge StatusPendingApproval ActionWithdraw StatusDraft PermExpenseSubmit EventWithdrawn)
       \<lparr>MustBeSubmitter := True\<rparr>)"
  "index (StatusRejected, ActionRevise) =
     Some ((edge StatusRejected ActionRevise StatusDraft PermExpenseCreate EventRevised)
       \<lparr>MustBeSubmitter := True, BumpsRevision := True\<rparr>)"
  "index (StatusApproved, ActionPay) =
     Some ((edge StatusApproved ActionPay StatusPaid PermExpensePay EventPaid)
       \<lparr>MustNotBeSubmitter := True, MustNotBeDecider := True, RequiresPaymentRef := True\<rparr>)"
  by (simp_all add: index_iff transitions_def edge_def)

lemmas apply_eval =
  Apply_def checkGuards_def commit_def Let_def edge_def SameMembership_def Can_def Active_def
  Role_Allows_def GovernsDepartment_def WithinApprovalLimit_def ApprovalCeilingMinor_def
  DefaultManagerApprovalLimitMinor_def blank_def trimmed_def word_sless_alt word_sle_eq

lemma demo_submitted_eq: "demo_submitted = (fst demo_filed)\<lparr>e_Status := StatusPendingApproval,
    e_SubmittedAt := Some (7 * day), e_Version := 2, e_UpdatedAt := 7 * day\<rparr>"
  by (simp add: demo_submitted_def demo_claim demo_cmd_def demo_actor_def apply_eval)

lemma demo_step1: "\<exists>ev. Apply (fst demo_filed) (demo_cmd ActionSubmit 3 RoleMember) (7 * day) = (Inr ev, demo_submitted)"
  by (simp add: demo_submitted_def demo_claim demo_cmd_def demo_actor_def apply_eval)

lemma demo_approved_eq: "demo_approved = demo_submitted\<lparr>e_Status := StatusApproved,
    e_DecidedAt := Some (8 * day), e_DecidedBy := Some 4, e_Version := 3, e_UpdatedAt := 8 * day\<rparr>"
  by (simp add: demo_approved_def demo_submitted_eq demo_claim demo_cmd_def demo_actor_def apply_eval)

lemma demo_step2: "\<exists>ev. Apply demo_submitted (demo_cmd ActionApprove 4 RoleManager) (8 * day) = (Inr ev, demo_approved)"
  by (simp add: demo_approved_def demo_submitted_eq demo_claim demo_cmd_def demo_actor_def apply_eval)

lemma demo_step3: "\<exists>ev. Apply demo_approved (demo_cmd ActionPay 5 RoleFinance) (9 * day) = (Inr ev, demo_paid)"
  by (simp add: demo_paid_def demo_approved_eq demo_submitted_eq demo_claim demo_cmd_def demo_actor_def apply_eval)

lemma demo_history: "\<exists>evs. claim_history demo_paid evs"
proof -
  have "claim_history (fst demo_filed) [snd demo_filed]"
    by (rule claim_history.filed [of 9 1 3 demo_draft "6 * day"]) (simp add: demo_New)
  with demo_step1 demo_step2 demo_step3 show ?thesis
    by (metis claim_history.moved claim_step.applied)
qed

lemma demo_paid_status: "e_Status demo_paid = StatusPaid"
  by (simp add: demo_paid_def demo_approved_eq demo_submitted_eq demo_claim demo_cmd_def demo_actor_def apply_eval)

theorem paid_claim_four_eyes_witness:
  "\<exists>(evs :: Event list) pre s a p approver payer. evs = pre @ [s, a, p] \<and>
    ev_Action s = EventSubmitted \<and> ev_ActorID s = Some (e_SubmitterID demo_paid) \<and>
    ev_Action a = EventApproved \<and> ev_ActorID a = Some approver \<and>
    ev_Action p = EventPaid \<and> ev_ActorID p = Some payer \<and>
    distinct [e_SubmitterID demo_paid, approver, payer] \<and>
    ev_Amount s = e_Amount demo_paid \<and> ev_Amount a = e_Amount demo_paid \<and>
    ev_Amount p = e_Amount demo_paid"
proof -
  obtain evs where h: "claim_history demo_paid evs" using demo_history by blast
  show ?thesis
    by (rule exI [where x = evs], rule paid_claim_four_eyes [OF h demo_paid_status])
qed



text \<open>
  A refused command is refused whole: when \<^verbatim>\<open>Apply\<close>, \<^verbatim>\<open>Edit\<close> or the draft's
  validation returns an error, the claim is left exactly as it was.
\<close>

theorem refusal_changes_nothing:
  "(fst (Apply e cmd now) = Inl er \<longrightarrow> snd (Apply e cmd now) = e) \<and>
   (fst (Edit e d actor now) = Inl er' \<longrightarrow> snd (Edit e d actor now) = e)"
  by (metis Apply_Inl_unchanged Edit_Inl_unchanged prod.collapse)

theorem refusal_changes_nothing_witness:
  "snd (Apply (fst demo_filed) (demo_cmd ActionPay 5 RoleMember) (7 * day)) = fst demo_filed \<and>
   snd (Edit demo_paid demo_draft 3 (9 * day)) = demo_paid"
proof -
  have "fst (Apply (fst demo_filed) (demo_cmd ActionPay 5 RoleMember) (7 * day)) =
      Inl (AuthorizationError ''pay'' (Fmt ''role %s does not carry %s'' [''member'', ''expense:pay'']))"
    by (simp add: demo_claim demo_cmd_def demo_actor_def apply_eval)
  moreover have "fst (Edit demo_paid demo_draft 3 (9 * day)) =
      Inl (TransitionError ''paid'' ''edit'' ''only a draft may be edited; submit a revision instead'')"
    by (simp add: Edit_def Editable_def demo_paid_status)
  ultimately show ?thesis using refusal_changes_nothing by blast
qed

text \<open>
  Authorisation is decided before the state is looked at: an actor whose role does not carry the
  action's permission gets one and the same error for every claim of the organisation, so the answer
  reveals nothing about the status of a claim.
\<close>

theorem Apply_hides_status:
  assumes "a_TenantID (c_Actor cmd) = e_TenantID e" "a_TenantID (c_Actor cmd) = e_TenantID e'"
    and "actionPermission (c_Action cmd) = Some p" "\<not> Can (c_Actor cmd) p"
  shows "fst (Apply e cmd now) = fst (Apply e' cmd now') \<and>
    (\<exists>why. fst (Apply e cmd now) = Inl (AuthorizationError (action_str (c_Action cmd)) why))"
proof -
  have "Action_Valid (c_Action cmd)" using assms(3) by (cases "c_Action cmd") simp_all
  with assms show ?thesis by (auto simp: Apply_def Let_def)
qed

theorem Apply_hides_status_witness:
  "fst (Apply demo_paid (demo_cmd ActionPay 7 RoleMember) 0) =
   fst (Apply (fst demo_filed) (demo_cmd ActionPay 7 RoleMember) 0)"
proof -
  have t: "e_TenantID demo_paid = 1"
    using demo_step1 demo_step2 demo_step3 by (auto elim!: Apply_edge dest!: commit_frame(2) simp: demo_claim)
  show ?thesis
    by (rule conjunct1 [OF Apply_hides_status [where p = PermExpensePay]])
       (simp_all add: t demo_claim demo_cmd_def demo_actor_def Can_def Role_Allows_def)
qed

lemma no_edge_iff: "index k = None \<longleftrightarrow> k \<notin> (\<lambda>t. (tr_From t, tr_Action t)) ` set transitions"
  by (cases k) (auto simp: index_None_iff)

text \<open>
  A conflict (409) is answered exactly when the actor is authorised and the table has no edge for
  the action from the claim's status.
\<close>

theorem Apply_conflict_iff:
  "(\<exists>f a h. fst (Apply e cmd now) = Inl (TransitionError f a h)) \<longleftrightarrow>
   (\<exists>p. actionPermission (c_Action cmd) = Some p \<and> Can (c_Actor cmd) p) \<and>
   a_TenantID (c_Actor cmd) = e_TenantID e \<and>
   (e_Status e, c_Action cmd) \<notin> (\<lambda>t. (tr_From t, tr_Action t)) ` set transitions"
  (is "?L = ?R")
proof
  assume ?L
  then show ?R
    by (cases "c_Action cmd")
      (auto simp: Apply_def Let_def no_edge_iff [symmetric] checkGuards_def Err_def
        split: if_splits option.splits sum.splits prod.splits)
next
  assume ?R
  then obtain p where p: "actionPermission (c_Action cmd) = Some p" "Can (c_Actor cmd) p"
    and t: "a_TenantID (c_Actor cmd) = e_TenantID e" and n: "index (e_Status e, c_Action cmd) = None"
    by (auto simp: no_edge_iff)
  have "Action_Valid (c_Action cmd)" using p(1) by (cases "c_Action cmd") simp_all
  moreover have "Active (c_Actor cmd)" using p(2) by (auto dest: Role_Allows_active)
  ultimately show ?L using p t n by (simp add: Apply_def Let_def)
qed


lemma CanApply_iff: "CanApply e cmd now = Inr () \<longleftrightarrow> (\<exists>ev e'. Apply e cmd now = (Inr ev, e'))"
  by (cases "Apply e cmd now") (auto simp: CanApply_def split: sum.splits)

lemma Apply_probe:
  assumes "Apply e \<lparr>c_Action = a, c_Actor = actor, c_Reason = r, c_PaymentRef = p\<rparr> now = (Inr ev, e')"
  shows "CanApply e \<lparr>c_Action = a, c_Actor = actor, c_Reason = Some ''probe'', c_PaymentRef = Some ''probe''\<rparr> now
    = Inr ()"
proof -
  from assms obtain t where "t \<in> set transitions" "tr_From t = e_Status e" "tr_Action t = a"
      "a_TenantID actor = e_TenantID e" "Can actor (tr_Permission t)"
    and g: "checkGuards e t \<lparr>c_Action = a, c_Actor = actor, c_Reason = r, c_PaymentRef = p\<rparr> = Inr ()"
    by (auto elim!: Apply_edge)
  moreover from g have "checkGuards e t \<lparr>c_Action = a, c_Actor = actor, c_Reason = Some ''probe'',
      c_PaymentRef = Some ''probe''\<rparr> = Inr ()"
    by (auto simp: checkGuards_Inr blank_def)
  ultimately show ?thesis unfolding CanApply_iff Apply_Inr by (metis Command.select_convs(1,2) surj_pair)
qed

lemma AllowedActions_mem:
  "a \<in> set (AllowedActions e actor now) \<longleftrightarrow>
   (\<exists>r p ev e'. Apply e \<lparr>c_Action = a, c_Actor = actor, c_Reason = r, c_PaymentRef = p\<rparr> now = (Inr ev, e'))"
  (is "?L = ?R")
proof
  assume ?L
  then show ?R by (auto simp: AllowedActions_def CanApply_iff)
next
  assume R: ?R
  then obtain t where "t \<in> set transitions" "tr_Action t = a" by (auto elim!: Apply_edge)
  then have "a \<in> set AllActions" by (cases rule: transitions_cases) (simp_all add: AllActions_def edge_def)
  with R show ?L by (auto simp: AllowedActions_def dest: Apply_probe)
qed

text \<open>
  C29. The action menu is exact: \<^verbatim>\<open>AllowedActions\<close> offers an action if and only if some reason and
  payment reference make \<^verbatim>\<open>Apply\<close> succeed for that actor, so the interface neither offers a move
  that must fail nor hides one that could succeed.
\<close>

theorem AllowedActions_exact:
  "a \<in> set (AllowedActions e actor now) \<longleftrightarrow>
   (\<exists>r p ev e'. Apply e \<lparr>c_Action = a, c_Actor = actor, c_Reason = r, c_PaymentRef = p\<rparr> now = (Inr ev, e'))"
  by (rule AllowedActions_mem)



text \<open>A sequence of commands, each of which has to succeed.\<close>

fun play :: "Expense \<Rightarrow> Command list \<Rightarrow> time \<Rightarrow> Expense option" where
  "play e [] now = Some e"
| "play e (cmd # cmds) now =
    (case Apply e cmd now of (Inl _, _) \<Rightarrow> None | (Inr ev, e') \<Rightarrow> play e' cmds now)"

definition plain_cmd :: "Action \<Rightarrow> Actor \<Rightarrow> Command" where
  "plain_cmd a actor = \<lparr>c_Action = a, c_Actor = actor, c_Reason = None, c_PaymentRef = Some ''ref''\<rparr>"

lemma play_edge:
  assumes "t \<in> set transitions" "tr_From t = e_Status e" "a_TenantID actor = e_TenantID e"
    "Can actor (tr_Permission t)" "checkGuards e t (plain_cmd (tr_Action t) actor) = Inr ()"
  shows "play e (plain_cmd (tr_Action t) actor # cmds) now
    = play (snd (commit e t (plain_cmd (tr_Action t) actor) now)) cmds now"
proof -
  let ?cmd = "plain_cmd (tr_Action t) actor"
  have "Apply e ?cmd now = (Inr (fst (commit e t ?cmd now)), snd (commit e t ?cmd now))"
    unfolding Apply_Inr using assms by (intro bexI [of _ t]) (simp_all add: plain_cmd_def)
  then show ?thesis by simp
qed

definition can_file :: "Actor \<Rightarrow> Expense \<Rightarrow> bool" where
  "can_file a e = (a_MembershipID a = e_SubmitterID e \<and> a_TenantID a = e_TenantID e \<and> Active a \<and>
     a_Role a \<in> {RoleOwner, RoleAdmin, RoleFinance, RoleManager, RoleMember})"

definition can_approve :: "Actor \<Rightarrow> Expense \<Rightarrow> bool" where
  "can_approve a e = (a_MembershipID a \<noteq> e_SubmitterID e \<and> a_TenantID a = e_TenantID e \<and> Can a PermExpenseApprove \<and>
     GovernsDepartment a (e_DepartmentID e) \<and> WithinApprovalLimit a (e_Amount e))"

definition can_settle :: "Actor \<Rightarrow> Expense \<Rightarrow> bool" where
  "can_settle a e = (a_MembershipID a \<noteq> e_SubmitterID e \<and> a_TenantID a = e_TenantID e \<and> Can a PermExpensePay)"

lemma settle_approved:
  assumes "e_Status e = StatusApproved" "can_settle payer e" "e_DecidedBy e \<noteq> Some (a_MembershipID payer)"
  shows "\<exists>e'. play e [plain_cmd ActionPay payer] now = Some e' \<and> e_Status e' = StatusPaid"
proof -
  let ?t = "(edge StatusApproved ActionPay StatusPaid PermExpensePay EventPaid)
      \<lparr>MustNotBeSubmitter := True, MustNotBeDecider := True, RequiresPaymentRef := True\<rparr>"
  have "TrimSpace ''ref'' = ''ref''"
    by (rule TrimSpace_no_space) (simp_all add: match_prefix_def go_spaces_def)
  then show ?thesis
    using assms play_edge [of ?t e payer "[]" now]
    by (simp add: transitions_def edge_def can_settle_def checkGuards_Inr plain_cmd_def blank_def commit_def Let_def)
qed

lemma settle_pending:
  assumes "e_Status e = StatusPendingApproval" "can_approve appr e" "can_settle payer e"
    "a_MembershipID appr \<noteq> a_MembershipID payer"
  shows "\<exists>e'. play e [plain_cmd ActionApprove appr, plain_cmd ActionPay payer] now = Some e' \<and> e_Status e' = StatusPaid"
proof -
  let ?t = "(edge StatusPendingApproval ActionApprove StatusApproved PermExpenseApprove EventApproved)
      \<lparr>MustNotBeSubmitter := True, WithinLimit := True, WithinDepartmentScope := True\<rparr>"
  let ?e = "snd (commit e ?t (plain_cmd ActionApprove appr) now)"
  have "play e (plain_cmd ActionApprove appr # cmds) now = play ?e cmds now" for cmds
    using assms play_edge [of ?t e appr cmds now]
    by (simp add: transitions_def edge_def can_approve_def checkGuards_Inr plain_cmd_def)
  then show ?thesis
    using settle_approved [of ?e payer now] assms
    by (simp add: commit_def Let_def edge_def can_settle_def plain_cmd_def)
qed

lemma settle_draft:
  assumes "e_Status e = StatusDraft" "can_file sub e" "can_approve appr e" "can_settle payer e"
    "a_MembershipID appr \<noteq> a_MembershipID payer"
  shows "\<exists>e'. play e [plain_cmd ActionSubmit sub, plain_cmd ActionApprove appr, plain_cmd ActionPay payer] now
    = Some e' \<and> e_Status e' = StatusPaid"
proof -
  let ?t = "(edge StatusDraft ActionSubmit StatusPendingApproval PermExpenseSubmit EventSubmitted)\<lparr>MustBeSubmitter := True\<rparr>"
  let ?e = "snd (commit e ?t (plain_cmd ActionSubmit sub) now)"
  have "Can sub PermExpenseSubmit" using assms(2) by (auto simp: can_file_def Can_def Role_Allows_def)
  then have "play e (plain_cmd ActionSubmit sub # cmds) now = play ?e cmds now" for cmds
    using assms play_edge [of ?t e sub cmds now]
    by (simp add: transitions_def edge_def can_file_def checkGuards_Inr plain_cmd_def)
  then show ?thesis
    using settle_pending [of ?e appr payer now] assms
    by (simp add: commit_def Let_def edge_def can_settle_def can_approve_def plain_cmd_def)
qed

lemma settle_rejected:
  assumes "e_Status e = StatusRejected" "can_file sub e" "can_approve appr e" "can_settle payer e"
    "a_MembershipID appr \<noteq> a_MembershipID payer"
  shows "\<exists>e'. play e [plain_cmd ActionRevise sub, plain_cmd ActionSubmit sub, plain_cmd ActionApprove appr,
    plain_cmd ActionPay payer] now = Some e' \<and> e_Status e' = StatusPaid"
proof -
  let ?t = "(edge StatusRejected ActionRevise StatusDraft PermExpenseCreate EventRevised)
      \<lparr>MustBeSubmitter := True, BumpsRevision := True\<rparr>"
  let ?e = "snd (commit e ?t (plain_cmd ActionRevise sub) now)"
  have "Can sub PermExpenseCreate" using assms(2) by (auto simp: can_file_def Can_def Role_Allows_def)
  then have "play e (plain_cmd ActionRevise sub # cmds) now = play ?e cmds now" for cmds
    using assms play_edge [of ?t e sub cmds now]
    by (simp add: transitions_def edge_def can_file_def checkGuards_Inr plain_cmd_def)
  then show ?thesis
    using settle_draft [of ?e sub appr payer now] assms
    by (simp add: commit_def Let_def edge_def can_file_def can_settle_def can_approve_def plain_cmd_def)
qed

text \<open>
  C27. Every claim can be settled: whatever history a claim has, an active submitter, an approver
  with the department and the limit for it and a third person who may pay bring it to
  \<^verbatim>\<open>paid\<close> in at most four commands.
\<close>

theorem claim_can_be_settled:
  assumes "claim_history e evs" and "can_file sub e" "can_approve appr e" "can_settle payer e"
    and "a_MembershipID appr \<noteq> a_MembershipID payer" "e_DecidedBy e \<noteq> Some (a_MembershipID payer)"
  shows "\<exists>cmds e'. length cmds \<le> 4 \<and> c_Actor ` set cmds \<subseteq> {sub, appr, payer} \<and>
    play e cmds now = Some e' \<and> e_Status e' = StatusPaid"
proof -
  have "phase e evs" using history_ledger_inv [OF assms(1)] by (simp add: ledger_inv_def)
  then consider "e_Status e = StatusDraft" | "e_Status e = StatusPendingApproval" | "e_Status e = StatusRejected"
    | "e_Status e = StatusApproved" | "e_Status e = StatusPaid"
    by (cases "e_Status e") (simp_all add: phase.simps)
  then show ?thesis
  proof cases
    case 1
    from settle_draft [OF this assms(2-5)] show ?thesis
      by (intro exI [of _ "[plain_cmd ActionSubmit sub, plain_cmd ActionApprove appr, plain_cmd ActionPay payer]"])
         (auto simp: plain_cmd_def)
  next
    case 2
    from settle_pending [OF this assms(3-5)] show ?thesis
      by (intro exI [of _ "[plain_cmd ActionApprove appr, plain_cmd ActionPay payer]"]) (auto simp: plain_cmd_def)
  next
    case 3
    from settle_rejected [OF this assms(2-5)] show ?thesis
      by (intro exI [of _ "[plain_cmd ActionRevise sub, plain_cmd ActionSubmit sub, plain_cmd ActionApprove appr,
            plain_cmd ActionPay payer]"]) (auto simp: plain_cmd_def)
  next
    case 4
    from settle_approved [OF this assms(4,6)] show ?thesis
      by (intro exI [of _ "[plain_cmd ActionPay payer]"]) (auto simp: plain_cmd_def)
  next
    case 5
    then show ?thesis by (intro exI [of _ "[]"]) simp
  qed
qed

theorem claim_can_be_settled_witness:
  "\<exists>cmds e'. play (fst demo_filed) cmds 0 = Some e' \<and> e_Status e' = StatusPaid"
proof -
  have "claim_history (fst demo_filed) [snd demo_filed]"
    by (rule claim_history.filed [of 9 1 3 demo_draft "6 * day"]) (simp add: demo_New)
  moreover have "can_file (demo_actor 3 RoleMember) (fst demo_filed)"
    "can_approve (demo_actor 4 RoleOwner) (fst demo_filed)" "can_settle (demo_actor 5 RoleFinance) (fst demo_filed)"
    by (simp_all add: can_file_def can_approve_def can_settle_def demo_claim demo_actor_def Active_def Can_def
        Role_Allows_def GovernsDepartment_def WithinApprovalLimit_def ApprovalCeilingMinor_def
        UnlimitedApprovalLimitMinor_def word_sless_alt)
  ultimately show ?thesis
    using claim_can_be_settled [where now = 0 and appr = "demo_actor 4 RoleOwner" and payer = "demo_actor 5 RoleFinance"]
    by (force simp: demo_actor_def demo_claim)
qed

end
