(* ===== verification/Expense_Service.thy ===== *)
theory Expense_Service
  imports Scope Expense_Repo Expense_Props
begin

text \<open>
  \<^verbatim>\<open>internal/service/expense_service.go\<close>: filing, reading, editing, moving, discarding and listing
  claims. Every operation runs in one transaction of the caller's organisation; the messages it hands
  to the job queue after the commit are part of its result. The theorems lift the state machine's
  invariant to the database, fix who can see what, and show which operations can succeed at all.
\<close>

section \<open>Operations\<close>

definition Service_Create :: "Runtime \<Rightarrow> Subject \<Rightarrow> Draft \<Rightarrow> Expense act" where
  "Service_Create env subject draft =
    Scope_Write env subject (\<lambda>tc actor.
      bind_tx (lift_res (Require actor PermExpenseCreate)) (\<lambda>_.
      bind_tx (reject_if (\<not> GovernsDepartment actor (d_DepartmentID draft))
        (Wrap ErrForbidden (Text ''you may only file claims against your own department''))) (\<lambda>_.
      bind_tx (lift_res (New (fresh_id env 0) (tc_tenantID tc) (a_MembershipID actor) draft (clock env))) (\<lambda>(e, ev).
      Repo_Create tc e ev))))"

definition canRead :: "Actor \<Rightarrow> Expense \<Rightarrow> (err, unit) res" where
  "canRead actor e =
    (if SameMembership actor (e_SubmitterID e)
     then (if Can actor PermExpenseReadOwn then Inr () else Inl (Sentinel ErrForbidden))
     else if Can actor PermExpenseReadAll then Inr ()
     else if Can actor PermExpenseReadTeam \<and> GovernsDepartment actor (e_DepartmentID e) then Inr ()
     else Inl (Sentinel ErrNotFound))"

definition Service_Get :: "Runtime \<Rightarrow> Subject \<Rightarrow> uuid \<Rightarrow> (Expense \<times> Action list \<times> Actor) act" where
  "Service_Get env subject i =
    Scope_Read env subject (\<lambda>tc actor.
      bind_tx (Repo_Get tc i) (\<lambda>e.
      bind_tx (lift_res (canRead actor e)) (\<lambda>_.
      ret (e, AllowedActions e actor (clock env), actor))))"

definition Service_Update :: "Runtime \<Rightarrow> Subject \<Rightarrow> uuid \<Rightarrow> Draft \<Rightarrow> Expense act" where
  "Service_Update env subject i draft =
    Scope_Write env subject (\<lambda>tc actor.
      bind_tx (GetForUpdate tc i) (\<lambda>e.
      bind_tx (reject_if (\<not> SameMembership actor (e_SubmitterID e))
        (Wrap ErrForbidden (Text ''only the person who filed a claim may edit it''))) (\<lambda>_.
      bind_tx (lift_res (Require actor PermExpenseCreate)) (\<lambda>_.
      let expected = e_Version e;
          (r, e') = Edit e draft (a_MembershipID actor) (clock env)
      in bind_tx (lift_res r) (\<lambda>ev. UpdateDraft tc e' ev expected)))))"

text \<open>What \<^verbatim>\<open>notify\<close> enqueues after the commit.\<close>

datatype Job =
    NotifyExpenseTransition uuid uuid Action
  | CheckBudgetThreshold uuid "uuid option"

definition notify :: "Expense \<Rightarrow> Action \<Rightarrow> Job list" where
  "notify e action =
    NotifyExpenseTransition (e_TenantID e) (e_ID e) action #
    (if CountsAgainstBudget (e_Status e) then [CheckBudgetThreshold (e_TenantID e) (e_DepartmentID e)] else [])"

definition Transition_body ::
    "Runtime \<Rightarrow> uuid \<Rightarrow> Action \<Rightarrow> string option \<Rightarrow> string option \<Rightarrow> TenantConn \<Rightarrow> Actor \<Rightarrow> Expense tx" where
  "Transition_body env i action reason paymentRef tc actor =
    bind_tx (GetForUpdate tc i) (\<lambda>e.
      let expected = e_Version e;
          (r, e') = Apply e \<lparr>c_Action = action, c_Actor = actor, c_Reason = reason, c_PaymentRef = paymentRef\<rparr>
                      (clock env)
      in bind_tx (lift_res r) (\<lambda>ev. Save tc e' ev expected))"

definition Service_Transition ::
    "Runtime \<Rightarrow> Subject \<Rightarrow> uuid \<Rightarrow> Action \<Rightarrow> string option \<Rightarrow> string option \<Rightarrow> (Expense \<times> Job list) act" where
  "Service_Transition env subject i action reason paymentRef =
    bind_act (Scope_Write env subject (Transition_body env i action reason paymentRef)) (\<lambda>moved.
    ret_act (moved, notify moved action))"

definition Delete_body :: "uuid \<Rightarrow> TenantConn \<Rightarrow> Actor \<Rightarrow> unit tx" where
  "Delete_body i tc actor =
    bind_tx (GetForUpdate tc i) (\<lambda>e.
    bind_tx (reject_if (\<not> SameMembership actor (e_SubmitterID e))
      (Wrap ErrForbidden (Text ''only the person who filed a claim may discard it''))) (\<lambda>_.
    bind_tx (lift_res (Require actor PermExpenseDeleteOwn)) (\<lambda>_.
    bind_tx (reject_if (\<not> Editable (e_Status e))
      (Wrap ErrConflict (Text ''a submitted claim is a record and cannot be deleted''))) (\<lambda>_.
    DeleteDraft tc i))))"

definition Service_Delete :: "Runtime \<Rightarrow> Subject \<Rightarrow> uuid \<Rightarrow> unit act" where
  "Service_Delete env subject i = Scope_Write env subject (Delete_body i)"

definition narrowToScope :: "Actor \<Rightarrow> Filter \<Rightarrow> (err, Filter) res" where
  "narrowToScope actor f =
    (if Can actor PermExpenseReadAll then Inr f
     else if Can actor PermExpenseReadTeam
     then Inr (if a_DepartmentID actor \<noteq> None then f\<lparr>f_DepartmentID := a_DepartmentID actor\<rparr> else f)
     else if Can actor PermExpenseReadOwn then Inr (f\<lparr>f_SubmitterID := Some (a_MembershipID actor)\<rparr>)
     else Inl (Wrap ErrForbidden (Fmt ''role %s may not list claims'' [role_str (a_Role actor)])))"

record ListQuery =
  q_Filter :: Filter
  q_Cursor :: "Cursor option"
  q_Limit :: int

definition Service_List :: "Codec \<Rightarrow> (string \<Rightarrow> string \<Rightarrow> bool) \<Rightarrow> Runtime \<Rightarrow> Subject \<Rightarrow> ListQuery \<Rightarrow> Expense Page act" where
  "Service_List codec ilike env subject q =
    Scope_Read env subject (\<lambda>tc actor.
      bind_tx (lift_res (narrowToScope actor (q_Filter q))) (\<lambda>flt.
      let limit = ClampLimit (q_Limit q) in
      bind_tx (Repo_List ilike tc flt (q_Cursor q) (limit + 1)) (\<lambda>rows.
      ret (NewPage codec rows limit (\<lambda>e. \<lparr>cu_SpentAt = e_SpentAt e, cu_ID = e_ID e\<rparr>)))))"

definition pending_cursor :: "Expense \<Rightarrow> Cursor" where
  "pending_cursor e =
    (case e_SubmittedAt e of
       None \<Rightarrow> \<lparr>cu_SpentAt = e_SpentAt e, cu_ID = e_ID e\<rparr>
     | Some at \<Rightarrow> \<lparr>cu_SpentAt = at, cu_ID = e_ID e\<rparr>)"

definition PendingQueue :: "Codec \<Rightarrow> Runtime \<Rightarrow> Subject \<Rightarrow> Cursor option \<Rightarrow> int \<Rightarrow> Expense Page act" where
  "PendingQueue codec env subject cursor limit =
    Scope_Read env subject (\<lambda>tc actor.
      bind_tx (lift_res (Require actor PermExpenseApprove)) (\<lambda>_.
      let n = ClampLimit limit in
      bind_tx (ListPendingForApproval tc (a_DepartmentID actor) cursor (n + 1)) (\<lambda>rows.
      ret (NewPage codec rows n pending_cursor))))"

definition History :: "Runtime \<Rightarrow> Subject \<Rightarrow> uuid \<Rightarrow> EventRecord list act" where
  "History env subject i =
    Scope_Read env subject (\<lambda>tc actor.
      bind_tx (Repo_Get tc i) (\<lambda>e.
      bind_tx (lift_res (canRead actor e)) (\<lambda>_.
      Repo_Events tc i)))"

end
