(* ===== verification/Demo_World.thy ===== *)
theory Demo_World
  imports Expense_Service
begin

text \<open>
  A small organisation on which the theorems of the services are exercised: organisation 1 with a
  submitter (3), a manager (4), a finance clerk (5) and the owner (6), whose user and membership
  identifiers coincide.
\<close>

definition demo_tenant :: Tenant where
  "demo_tenant = \<lparr>t_ID = 1, t_Slug = ''acme'', t_Name = ''Acme'', t_Status = TenantActive, t_DefaultCurrency = ''USD'',
     t_BillingCustomerRef = None, t_CreatedAt = 0, t_UpdatedAt = 0\<rparr>"

definition demo_user :: "uuid \<Rightarrow> string \<Rightarrow> User" where
  "demo_user i email = \<lparr>u_ID = i, u_Email = email, u_PasswordHash = None, u_FullName = None, u_CreatedAt = 0,
     u_DeletedAt = None\<rparr>"

definition demo_member :: "uuid \<Rightarrow> Role \<Rightarrow> Membership" where
  "demo_member i r = \<lparr>m_ID = i, m_TenantID = 1, m_UserID = i, m_Role = r, m_Status = MembershipActive,
     m_ApprovalLimitMinor = None, m_DepartmentID = None, m_InvitedBy = None, m_CreatedAt = 0, m_UpdatedAt = 0\<rparr>"

definition demo_db :: db where
  "demo_db = empty_db\<lparr>tenants := [demo_tenant],
     users := [demo_user 3 ''s@acme.test'', demo_user 4 ''m@acme.test'', demo_user 5 ''f@acme.test'', demo_user 6 ''o@acme.test''],
     memberships := [demo_member 3 RoleMember, demo_member 4 RoleManager, demo_member 5 RoleFinance, demo_member 6 RoleOwner]\<rparr>"

definition demo_subject :: "uuid \<Rightarrow> Subject" where
  "demo_subject i = \<lparr>sub_UserID = i, sub_TenantID = 1, sub_Email = [], sub_TokenID = []\<rparr>"

lemmas demo_defs = demo_db_def empty_db_def demo_tenant_def demo_member_def demo_user_def demo_subject_def

lemma demo_runs [simp]: "runs demo_env" "verify_reset demo_env = None" "runs (demo_env\<lparr>locked_rows := l\<rparr>)"
  by (simp_all add: runs_no_fault demo_env_def)

lemma demo_acts:
  assumes "memberships d = memberships demo_db" "tenants d = tenants demo_db" "tc_tenantID tc = 1"
  shows "acts_as d (demo_subject 3) tc (demo_actor 3 RoleMember)"
    "acts_as d (demo_subject 4) tc (demo_actor 4 RoleManager)"
    "acts_as d (demo_subject 5) tc (demo_actor 5 RoleFinance)"
    "acts_as d (demo_subject 6) tc (demo_actor 6 RoleOwner)"
  using assms
  by (simp_all add: acts_as_def ResolveActor_def Q_ResolveActor_def demo_defs map_err_def bind_tx_def lift_res_def one_row_def rls_def
      demo_actor_def Active_def)

end
