(* ===== verification/Expense_Service_Props.thy ===== *)
theory Expense_Service_Props
  imports Demo_World
begin

text \<open>
  What the expense service guarantees of the database: the ledger of every claim explains its row
  whatever calls are made, the rows of other organisations are never touched, and listings show
  exactly what a single read would show.
\<close>

section \<open>Inversion of the statements\<close>

lemma row_admissible_Inr:
  "row_admissible tc r d = Inr (x, d') \<longleftrightarrow>
    Status_Valid (e_Status r) \<and> Category_Valid (e_Category r) \<and> rls tc (e_TenantID r) \<and>
    first_failing (expense_checks tc r) = None \<and> d' = d"
  by (auto simp: row_admissible_def go_result)

lemma UpdateExpenseRow_Inr:
  assumes "UpdateExpenseRow tc P f d = Inr (row, d')"
  obtains old where "old \<in> set (expenses d)" "P old" "row = f old" "\<not> tc_readOnly tc"
    "d' = d\<lparr>expenses := update_rows P f (expenses d)\<rparr>" "first_failing (expense_checks tc row) = None"
  using assms
  by (auto simp: UpdateExpenseRow_def go_result row_admissible_Inr dest!: filter_ConsD)

lemma AppendExpenseEvent_Inr:
  assumes "AppendExpenseEvent tc ev d = Inr (n, d')"
  shows "d' = d\<lparr>events := events d @ [(next_event d, ev\<lparr>ev_TenantID := tc_tenantID tc\<rparr>)],
      next_event := Suc (next_event d)\<rparr>" "has_expense d (tc_tenantID tc) (ev_ExpenseID ev)"
    "ev_FromStatus ev \<noteq> Some (ev_ToStatus ev)"
  using assms by (auto simp: AppendExpenseEvent_def Let_def go_result first_failing_None)

lemma appendEvent_Inr:
  assumes "appendEvent tc ev d = Inr (u, d')"
  shows "d' = d\<lparr>events := events d @ [(next_event d, ev\<lparr>ev_TenantID := tc_tenantID tc\<rparr>)],
      next_event := Suc (next_event d)\<rparr>" "has_expense d (tc_tenantID tc) (ev_ExpenseID ev)"
    "ev_FromStatus ev \<noteq> Some (ev_ToStatus ev)"
  using assms AppendExpenseEvent_Inr by (auto simp: appendEvent_def go_result)

lemma CreateExpense_Inr:
  assumes "CreateExpense tc e d = Inr (row, d')"
  shows "row = inserted_row tc e \<and> d' = d\<lparr>expenses := expenses d @ [row]\<rparr> \<and>
    (\<forall>x \<in> set (expenses d). e_ID x \<noteq> e_ID e)"
  using assms
  by (auto simp: CreateExpense_def Let_def go_result row_admissible_Inr first_failing_None inserted_row_def)

lemma CreateRecurringExpense_Inr:
  assumes "CreateRecurringExpense tc e d = Inr (row, d')"
  shows "row = inserted_row tc e \<and> d' = d\<lparr>expenses := expenses d @ [row]\<rparr> \<and>
    (\<forall>x \<in> set (expenses d). e_ID x \<noteq> e_ID e) \<and> (\<forall>x \<in> set (expenses d). \<not> same_charge row x)"
  using assms
  by (auto simp: CreateRecurringExpense_def Let_def go_result row_admissible_Inr first_failing_None inserted_row_def)

lemma GetExpense_Inr:
  "GetExpense tc i d = Inr (e, d') \<Longrightarrow> d' = d \<and> e \<in> set (expenses d) \<and> claim_row tc i e"
  by (auto simp: GetExpense_def go_result dest!: filter_ConsD)

lemma GetForUpdate_Inr:
  "GetForUpdate tc i d = Inr (e, d') \<Longrightarrow>
    d' = d \<and> e \<in> set (expenses d) \<and> claim_row tc i e \<and> \<not> tc_locked tc i"
  by (auto simp: GetForUpdate_def GetExpenseForUpdate_def go_result dest!: GetExpense_Inr)

lemma Repo_Get_Inr:
  "Repo_Get tc i d = Inr (e, d') \<Longrightarrow> d' = d \<and> e \<in> set (expenses d) \<and> claim_row tc i e"
  by (simp add: Repo_Get_def go_result GetExpense_Inr)

section \<open>The ledger invariant on the database\<close>

definition claim_ledger :: "db \<Rightarrow> Expense \<Rightarrow> Event list" where
  "claim_ledger d e =
    map snd (filter (\<lambda>p. ev_ExpenseID (snd p) = e_ID e \<and> ev_TenantID (snd p) = e_TenantID e) (events d))"

definition claims_inv :: "db \<Rightarrow> bool" where
  "claims_inv d =
    (distinct (map e_ID (expenses d)) \<and>
     (\<forall>e \<in> set (expenses d). ledger_inv e (claim_ledger d e)) \<and>
     (\<forall>p \<in> set (events d). \<exists>e \<in> set (expenses d). e_ID e = ev_ExpenseID (snd p) \<and> e_TenantID e = ev_TenantID (snd p)))"

lemma same_id: "claims_inv d \<Longrightarrow> x \<in> set (expenses d) \<Longrightarrow> y \<in> set (expenses d) \<Longrightarrow> e_ID x = e_ID y \<Longrightarrow> x = y"
  by (auto simp: claims_inv_def distinct_map inj_on_def)

lemma ledger_inv_cong:
  "ledger_inv (e\<lparr>e_UpdatedAt := t, e_SourceSubscriptionID := s\<rparr>) evs = ledger_inv e evs"
  by (simp add: ledger_inv_def timestamps_def phase.simps is_submission_def is_decision_def is_payment_def
      split: Status.splits)

text \<open>A new claim enters with a one-event ledger.\<close>

lemma claims_inv_insert:
  assumes inv: "claims_inv d" and new: "\<forall>x \<in> set (expenses d). e_ID x \<noteq> e_ID e" and led: "ledger_inv e [ev]"
  shows "claims_inv (d\<lparr>expenses := expenses d @ [e], events := events d @ [(n, ev)], next_event := k\<rparr>)"
proof -
  let ?d = "d\<lparr>expenses := expenses d @ [e], events := events d @ [(n, ev)], next_event := k\<rparr>"
  have ev: "ev_ExpenseID ev = e_ID e" "ev_TenantID ev = e_TenantID e" using led by (auto simp: ledger_inv_def)
  have none: "ev_ExpenseID (snd p) \<noteq> e_ID e" if "p \<in> set (events d)" for p
    using inv new that by (auto simp: claims_inv_def)
  have "claim_ledger ?d e = [ev]" using none ev by (auto simp: claim_ledger_def filter_empty_conv)
  moreover have "claim_ledger ?d x = claim_ledger d x" if "x \<in> set (expenses d)" for x
    using new ev that by (auto simp: claim_ledger_def)
  moreover have "\<forall>p \<in> set (events ?d). \<exists>x \<in> set (expenses ?d).
      e_ID x = ev_ExpenseID (snd p) \<and> e_TenantID x = ev_TenantID (snd p)"
    using inv ev by (auto simp: claims_inv_def)
  ultimately show ?thesis using inv new led by (auto simp: claims_inv_def)
qed

text \<open>A moved claim gains one event.\<close>

lemma update_rows_id:
  assumes "distinct (map e_ID xs)" "e \<in> set xs" "\<And>x. x \<in> set xs \<Longrightarrow> P x \<longleftrightarrow> x = e" "e_ID (f e) = e_ID e"
  shows "map e_ID (update_rows P f xs) = map e_ID xs"
    "set (update_rows P f xs) = insert (f e) (set xs - {e})"
proof -
  show "map e_ID (update_rows P f xs) = map e_ID xs"
    using assms(3,4) by (auto simp: update_rows_def)
  show "set (update_rows P f xs) = insert (f e) (set xs - {e})"
    using assms(2,3) by (auto simp: update_rows_def)
qed

lemma claims_inv_update:
  assumes inv: "claims_inv d" and e: "e \<in> set (expenses d)"
    and P: "\<And>x. x \<in> set (expenses d) \<Longrightarrow> P x \<longleftrightarrow> x = e"
    and e': "e' = f e" "e_ID e' = e_ID e" "e_TenantID e' = e_TenantID e"
    and ev: "ev_ExpenseID ev = e_ID e" "ev_TenantID ev = e_TenantID e"
    and led: "ledger_inv e' (claim_ledger d e @ [ev])"
  shows "claims_inv (d\<lparr>expenses := update_rows P f (expenses d), events := events d @ [(n, ev)], next_event := k\<rparr>)"
proof -
  let ?d = "d\<lparr>expenses := update_rows P f (expenses d), events := events d @ [(n, ev)], next_event := k\<rparr>"
  have dist: "distinct (map e_ID (expenses d))" using inv by (simp add: claims_inv_def)
  note upd = update_rows_id [where f = f, OF dist e P] and ids = same_id [OF inv _ e]
  have set_d: "set (expenses ?d) = insert e' (set (expenses d) - {e})" using upd(2) e' by simp
  have "claim_ledger ?d e' = claim_ledger d e @ [ev]" using e' ev by (simp add: claim_ledger_def)
  moreover have "claim_ledger ?d x = claim_ledger d x" if "x \<in> set (expenses d)" "x \<noteq> e" for x
    using ids that ev by (auto simp: claim_ledger_def)
  ultimately have "\<forall>x \<in> set (expenses ?d). ledger_inv x (claim_ledger ?d x)"
    using inv led unfolding set_d by (auto simp: claims_inv_def)
  moreover have "\<forall>p \<in> set (events ?d). \<exists>x \<in> set (expenses ?d).
      e_ID x = ev_ExpenseID (snd p) \<and> e_TenantID x = ev_TenantID (snd p)"
    unfolding set_d using inv e' ev by (fastforce simp: claims_inv_def)
  ultimately show ?thesis using upd(1) dist e' by (simp add: claims_inv_def)
qed

lemma claims_inv_delete:
  assumes inv: "claims_inv d" and e: "e \<in> set (expenses d)" "claim_row tc i e" "Q e"
  shows "claims_inv (d\<lparr>expenses := filter (\<lambda>r. \<not> (claim_row tc i r \<and> Q r)) (expenses d),
      attachments := a,
      events := filter (\<lambda>p. \<not> (ev_ExpenseID (snd p) = i \<and> ev_TenantID (snd p) = tc_tenantID tc)) (events d)\<rparr>)"
    (is "claims_inv ?d")
proof -
  have id: "e_ID e = i" using e(2) by (simp add: claim_row_def)
  have gone: "claim_row tc i x \<and> Q x \<longleftrightarrow> e_ID x = i" if "x \<in> set (expenses d)" for x
    using same_id [OF inv that e(1)] e id by (auto simp: claim_row_def)
  have set_d: "set (expenses ?d) = {x \<in> set (expenses d). e_ID x \<noteq> i}" using gone by auto
  have "claim_ledger ?d x = claim_ledger d x" if "x \<in> set (expenses d)" "e_ID x \<noteq> i" for x
    using that by (auto simp: claim_ledger_def intro!: arg_cong [where f = "map snd"] filter_cong)
  moreover have "\<forall>p \<in> set (events ?d). \<exists>x \<in> set (expenses ?d).
      e_ID x = ev_ExpenseID (snd p) \<and> e_TenantID x = ev_TenantID (snd p)"
  proof
    fix p assume p: "p \<in> set (events ?d)"
    then obtain x where x: "x \<in> set (expenses d)" "e_ID x = ev_ExpenseID (snd p)" "e_TenantID x = ev_TenantID (snd p)"
      using inv by (auto simp: claims_inv_def)
    have "e_ID x \<noteq> i" using p x same_id [OF inv x(1) e(1)] id e(2) by (auto simp: claim_row_def)
    then show "\<exists>x \<in> set (expenses ?d). e_ID x = ev_ExpenseID (snd p) \<and> e_TenantID x = ev_TenantID (snd p)"
      unfolding set_d using x by blast
  qed
  moreover have "distinct (map e_ID (expenses ?d))" using inv by (simp add: claims_inv_def distinct_map_filter)
  ultimately show ?thesis using inv unfolding claims_inv_def set_d by auto
qed

section \<open>The operations keep it\<close>

lemma inserted_row_New:
  assumes "New i t s dr c = Inr (e, ev)" "t = tc_tenantID tc"
  shows "inserted_row tc e = e" "ev\<lparr>ev_TenantID := tc_tenantID tc\<rparr> = ev" "e_ID e = i" "e_TenantID e = t"
  using New_Inr [OF assms(1)] assms(2) by (auto simp: inserted_row_def)

lemma Repo_Create_inv:
  assumes "New i (tc_tenantID tc) s dr c = Inr (e, ev)" "Repo_Create tc e ev d = Inr (row, d')" "claims_inv d"
  shows "claims_inv d'"
proof -
  from assms(2) obtain d1 where c: "CreateExpense tc e d = Inr (row, d1)" and a: "appendEvent tc ev d1 = Inr ((), d')"
    by (auto simp: Repo_Create_def go_result)
  show ?thesis
    using claims_inv_insert [OF assms(3) _ ledger_inv_New [OF assms(1)], where n = "next_event d" and k = "Suc (next_event d)"]
      CreateExpense_Inr [OF c] appendEvent_Inr(1) [OF a] inserted_row_New [OF assms(1) refl] by simp
qed

lemma create_keeps: "keeps (invariant_effect claims_inv)
   (bind_tx (lift_res (New i (tc_tenantID tc) s dr c)) (\<lambda>(e, ev). Repo_Create tc e ev))"
  by (auto simp: keeps_def invariant_effect_def go_result split: prod.splits intro: Repo_Create_inv)

lemma Save_inv:
  assumes app: "Apply e cmd c = (Inr ev, e')" and e: "e \<in> set (expenses d)" "claim_row tc i e"
    and sv: "Save tc e' ev (e_Version e) d = Inr (row, d')" and inv: "claims_inv d"
  shows "claims_inv d' \<and> row = e'\<lparr>e_UpdatedAt := tc_now tc\<rparr>"
proof -
  from sv obtain d1 where t: "TransitionExpense tc e' (e_Version e) d = Inr (row, d1)"
    and a: "appendEvent tc ev d1 = Inr ((), d')" by (auto simp: Save_def go_result)
  obtain t' where cm: "commit e t' cmd c = (ev, e')" using app by (elim Apply_edge)
  note fr = commit_frame [OF cm] and evq = commit_event [OF cm]
  let ?P = "\<lambda>r. claim_row tc (e_ID e') r \<and> e_Version r = e_Version e"
  let ?f = "\<lambda>r. r\<lparr>e_Status := e_Status e', e_SubmittedAt := e_SubmittedAt e', e_DecidedAt := e_DecidedAt e',
             e_DecidedBy := e_DecidedBy e', e_DecisionNote := e_DecisionNote e', e_PaidAt := e_PaidAt e',
             e_PaymentRef := e_PaymentRef e', e_Revision := e_Revision e', e_Version := e_Version e',
             e_UpdatedAt := tc_now tc\<rparr>"
  have P: "?P x \<longleftrightarrow> x = e" if "x \<in> set (expenses d)" for x
    using same_id [OF inv that e(1)] e(2) fr(1) by (auto simp: claim_row_def)
  from t obtain old where o: "old \<in> set (expenses d)" "?P old" "row = ?f old"
      "d1 = d\<lparr>expenses := update_rows ?P ?f (expenses d)\<rparr>"
    unfolding TransitionExpense_def by (elim UpdateExpenseRow_Inr)
  have old: "old = e" using P o by simp
  have row: "row = e'\<lparr>e_UpdatedAt := tc_now tc\<rparr>" unfolding o old using fr by (cases e, cases e') simp
  have "ledger_inv e' (claim_ledger d e @ [ev])"
    using inv e(1) app by (intro ledger_inv_Apply) (auto simp: claims_inv_def)
  then have "ledger_inv row (claim_ledger d e @ [ev])"
    unfolding row using ledger_inv_cong [where e = e' and t = "tc_now tc" and s = "e_SourceSubscriptionID e'"] by simp
  moreover have "ev\<lparr>ev_TenantID := tc_tenantID tc\<rparr> = ev" using evq e(2) by (simp add: claim_row_def)
  ultimately have "claims_inv d'"
    using claims_inv_update [OF inv e(1) P, where e' = row and f = ?f and ev = ev and n = "next_event d"
        and k = "Suc (next_event d)"] appendEvent_Inr(1) [OF a] o old fr evq row by simp
  with row show ?thesis by blast
qed

lemma transition_keeps:
  "keeps (invariant_effect claims_inv) (Transition_body env i action reason ref tc actor)"
  unfolding keeps_def invariant_effect_def
proof (intro allI impI)
  fix d x d'
  assume t: "Transition_body env i action reason ref tc actor d = Inr (x, d')" and inv: "claims_inv d"
  obtain e d1 where g: "GetForUpdate tc i d = Inr (e, d1)"
    using t by (auto simp: Transition_body_def go_result)
  let ?a = "Apply e \<lparr>c_Action = action, c_Actor = actor, c_Reason = reason, c_PaymentRef = ref\<rparr> (clock env)"
  from g have e: "d1 = d" "e \<in> set (expenses d)" "claim_row tc i e" using GetForUpdate_Inr by blast+
  obtain ev e' where a: "?a = (Inr ev, e')" and s: "Save tc e' ev (e_Version e) d = Inr (x, d')"
    using t g e by (cases ?a) (auto simp: Transition_body_def bind_tx_def lift_res_def split: sum.splits)
  from Save_inv [OF a e(2,3) s inv] show "claims_inv d'" by blast
qed

text \<open>Editing a draft never succeeds: its event stays in the status it left.\<close>

lemma UpdateDraft_fails:
  assumes "Edit e dr m c = (Inr ev, e')"
  shows "UpdateDraft tc e' ev v d \<noteq> Inr (row, d')"
  using Edit_Inr [OF assms] by (auto simp: UpdateDraft_def go_result dest!: appendEvent_Inr(3))

lemma delete_keeps: "keeps (invariant_effect claims_inv) (Delete_body i tc actor)"
  unfolding keeps_def invariant_effect_def
proof (intro allI impI)
  fix d x d'
  assume t: "Delete_body i tc actor d = Inr (x, d')" and inv: "claims_inv d"
  then obtain n where del: "DeleteExpenseDraft tc i d = Inr (n, d')" and n: "n \<noteq> 0"
    by (auto simp: Delete_body_def DeleteDraft_def go_result dest!: GetForUpdate_Inr)
  then have "filter (\<lambda>r. claim_row tc i r \<and> e_Status r = StatusDraft) (expenses d) \<noteq> []"
    by (auto simp: DeleteExpenseDraft_def go_result Let_def split: if_splits)
  then obtain e where e: "e \<in> set (expenses d)" "claim_row tc i e" "e_Status e = StatusDraft"
    by (auto simp: filter_empty_conv)
  have "d' = d\<lparr>expenses := filter (\<lambda>r. \<not> (claim_row tc i r \<and> e_Status r = StatusDraft)) (expenses d),
      attachments := filter (\<lambda>a. \<not> (at_ExpenseID a = i \<and> at_TenantID a = tc_tenantID tc)) (attachments d),
      events := filter (\<lambda>p. \<not> (ev_ExpenseID (snd p) = i \<and> ev_TenantID (snd p) = tc_tenantID tc)) (events d)\<rparr>"
    using del n by (auto simp: DeleteExpenseDraft_def go_result Let_def split: if_splits)
  then show "claims_inv d'" using claims_inv_delete [OF inv e(1,2), where Q = "\<lambda>r. e_Status r = StatusDraft"] e(3) by simp
qed

section \<open>Whole calls\<close>

lemma Create_keeps_inv: "keeps_act (invariant_effect claims_inv) (Service_Create env subject draft)"
  unfolding Service_Create_def
  by (intro inv_effect.keeps_Scope_Write inv_effect.keeps_bind inv_effect.keeps_lift inv_effect.keeps_reject
      create_keeps)

lemma Transition_keeps_inv:
  "keeps_act (invariant_effect claims_inv) (Service_Transition env subject i action reason ref)"
  unfolding Service_Transition_def
  by (intro inv_effect.keeps_act_bind inv_effect.keeps_act_ret inv_effect.keeps_Scope_Write transition_keeps)

lemma Delete_keeps_inv: "keeps_act (invariant_effect claims_inv) (Service_Delete env subject i)"
  unfolding Service_Delete_def by (intro inv_effect.keeps_Scope_Write delete_keeps)

text \<open>The work of an edit fails whatever the caller does, so no relation is lost by it.\<close>

lemma edit_fails:
  "bind_tx (lift_res (fst (Edit e dr m c))) (\<lambda>ev. UpdateDraft tc (snd (Edit e dr m c)) ev v) d \<noteq> Inr (row, d')"
  using UpdateDraft_fails [where e = e and dr = dr and m = m and c = c and e' = "snd (Edit e dr m c)"]
  by (cases "Edit e dr m c") (auto simp: go_result)

context effect_relation
begin

lemma keeps_edit:
  "keeps R (let expected = e_Version e; (r, e') = Edit e dr m c in bind_tx (lift_res r) (\<lambda>ev. UpdateDraft tc e' ev expected))"
  using edit_fails [where e = e and dr = dr and m = m and c = c and tc = tc and v = "e_Version e"]
  by (simp add: keeps_def split_beta)

lemma keeps_GetForUpdate: "keeps R (GetForUpdate tc i)"
  by (auto simp: keeps_def effect_refl dest!: GetForUpdate_Inr)

lemma keeps_Repo_Get: "keeps R (Repo_Get tc i)"
  by (auto simp: keeps_def effect_refl dest!: Repo_Get_Inr)

lemma keeps_Service_Update: "keeps_act R (Service_Update env subject i dr)"
  unfolding Service_Update_def by (intro keeps_Scope_Write keeps_intros keeps_edit keeps_GetForUpdate)

lemma keeps_Service_Get: "keeps_act R (Service_Get env subject i)"
  unfolding Service_Get_def by (intro keeps_Scope_Read keeps_intros keeps_Repo_Get)

lemma keeps_Service_List: "keeps_act R (Service_List codec ilike env subject q)"
  unfolding Service_List_def Repo_List_def ListExpenses_def Let_def by (intro keeps_Scope_Read keeps_intros)

lemma keeps_PendingQueue: "keeps_act R (PendingQueue codec env subject cursor limit)"
  unfolding PendingQueue_def ListPendingForApproval_def Q_ListPendingForApproval_def Let_def by (intro keeps_Scope_Read keeps_intros)

lemma keeps_History: "keeps_act R (History env subject i)"
  unfolding History_def Repo_Events_def ListExpenseEvents_def Let_def by (intro keeps_Scope_Read keeps_intros keeps_Repo_Get)

lemmas keeps_reads = keeps_Service_Get keeps_Service_List keeps_PendingQueue keeps_History

end

section \<open>Isolation\<close>

lemma claim_row_tenant: "claim_row tc i r \<Longrightarrow> e_TenantID r = tc_tenantID tc"
  by (simp add: claim_row_def)

lemma others_insert_expense:
  "e_TenantID r = t \<Longrightarrow> others t (d\<lparr>expenses := expenses d @ [r]\<rparr>) = others t d"
  by (simp add: others_def)

lemma others_update_expenses:
  assumes "\<And>r. P r \<Longrightarrow> e_TenantID r = t" "\<And>r. P r \<Longrightarrow> e_TenantID (f r) = t"
  shows "others t (d\<lparr>expenses := update_rows P f (expenses d)\<rparr>) = others t d"
  using filter_update_rows [of P e_TenantID t f, OF assms] by (simp add: others_def)

lemma CreateExpense_frame: "keeps (frame_effect (tc_tenantID tc)) (CreateExpense tc e)"
  by (auto simp: keeps_def frame_effect_def inserted_row_def others_insert_expense dest!: CreateExpense_Inr)

lemma CreateRecurringExpense_frame: "keeps (frame_effect (tc_tenantID tc)) (CreateRecurringExpense tc e)"
  by (auto simp: keeps_def frame_effect_def inserted_row_def others_insert_expense dest!: CreateRecurringExpense_Inr)

lemma appendEvent_frame: "keeps (frame_effect (tc_tenantID tc)) (appendEvent tc ev)"
  unfolding keeps_def
proof (intro allI impI)
  fix d x d' assume "appendEvent tc ev d = Inr (x, d')"
  from appendEvent_Inr(1) [OF this] show "frame_effect (tc_tenantID tc) d d'"
    by (simp add: frame_effect_def others_def)
qed

lemma TransitionExpense_frame: "keeps (frame_effect (tc_tenantID tc)) (TransitionExpense tc e v)"
  unfolding TransitionExpense_def keeps_def
  by (auto elim!: UpdateExpenseRow_Inr simp: frame_effect_def claim_row_tenant intro!: others_update_expenses)

lemma DeleteExpenseDraft_frame: "keeps (frame_effect (tc_tenantID tc)) (DeleteExpenseDraft tc i)"
proof -
  let ?t = "tc_tenantID tc"
  have e: "filter (\<lambda>r. e_TenantID r \<noteq> ?t) (filter (\<lambda>r. \<not> (claim_row tc i r \<and> e_Status r = StatusDraft)) xs)
      = filter (\<lambda>r. e_TenantID r \<noteq> ?t) xs" for xs :: "Expense list"
    by (rule filter_delete_rows) (auto dest: claim_row_tenant)
  have a: "filter (\<lambda>r. at_TenantID r \<noteq> ?t) (filter (\<lambda>a. \<not> (at_ExpenseID a = i \<and> at_TenantID a = ?t)) xs)
      = filter (\<lambda>r. at_TenantID r \<noteq> ?t) xs" for xs :: "Attachment list"
    by (rule filter_delete_rows) simp
  have v: "filter (\<lambda>p. ev_TenantID (snd p) \<noteq> ?t)
        (filter (\<lambda>p. \<not> (ev_ExpenseID (snd p) = i \<and> ev_TenantID (snd p) = ?t)) xs)
      = filter (\<lambda>p. ev_TenantID (snd p) \<noteq> ?t) xs" for xs :: "(nat \<times> Event) list"
    by (rule filter_delete_rows [where key = "\<lambda>p. ev_TenantID (snd p)"]) simp
  show ?thesis unfolding keeps_def
  proof (intro allI impI)
    fix d x d' assume "DeleteExpenseDraft tc i d = Inr (x, d')"
    then have "d' = d \<or> d' = d\<lparr>expenses := filter (\<lambda>r. \<not> (claim_row tc i r \<and> e_Status r = StatusDraft)) (expenses d),
        attachments := filter (\<lambda>a. \<not> (at_ExpenseID a = i \<and> at_TenantID a = ?t)) (attachments d),
        events := filter (\<lambda>p. \<not> (ev_ExpenseID (snd p) = i \<and> ev_TenantID (snd p) = ?t)) (events d)\<rparr>"
      unfolding DeleteExpenseDraft_def go_result Let_def by (auto split: if_splits)
    then show "frame_effect ?t d d'" using e a v by (auto simp: frame_effect_def others_def)
  qed
qed

lemma Repo_Create_frame: "keeps (frame_effect (tc_tenantID tc)) (Repo_Create tc e ev)"
  unfolding Repo_Create_def by (intro frame.keeps_intros CreateExpense_frame appendEvent_frame)

lemma Repo_CreateRecurring_frame: "keeps (frame_effect (tc_tenantID tc)) (Repo_CreateRecurring tc e ev)"
  unfolding Repo_CreateRecurring_def by (intro frame.keeps_intros CreateRecurringExpense_frame appendEvent_frame)

lemma Save_frame: "keeps (frame_effect (tc_tenantID tc)) (Save tc e ev v)"
  unfolding Save_def by (intro frame.keeps_intros TransitionExpense_frame appendEvent_frame)

lemma Create_frame: "keeps_act (frame_effect (sub_TenantID subject)) (Service_Create env subject draft)"
  unfolding Service_Create_def
  by (rule frame.keeps_Scope_Write)
     (auto intro!: frame.keeps_intros dest: sym simp: split_beta Repo_Create_frame)

lemma Transition_frame:
  "keeps_act (frame_effect (sub_TenantID subject)) (Service_Transition env subject i action reason ref)"
proof -
  have "keeps (frame_effect (tc_tenantID tc)) (Transition_body env i action reason ref tc actor)" for tc actor
    unfolding Transition_body_def Let_def split_beta
    by (intro frame.keeps_intros frame.keeps_GetForUpdate Save_frame)
  then show ?thesis unfolding Service_Transition_def
    by (intro frame.keeps_act_bind frame.keeps_act_ret frame.keeps_Scope_Write) (metis)
qed

lemma Delete_frame: "keeps_act (frame_effect (sub_TenantID subject)) (Service_Delete env subject i)"
proof -
  have "keeps (frame_effect (tc_tenantID tc)) (Delete_body i tc actor)" for tc actor
    unfolding Delete_body_def DeleteDraft_def
    by (intro frame.keeps_intros frame.keeps_GetForUpdate DeleteExpenseDraft_frame)
  then show ?thesis unfolding Service_Delete_def by (intro frame.keeps_Scope_Write) (metis)
qed

section \<open>The worked claim in the database\<close>

definition demo_draft_db :: db where
  "demo_draft_db = demo_db\<lparr>expenses := [fst demo_filed], events := [(0, snd demo_filed)], next_event := 1\<rparr>"

definition demo_pending_db :: db where
  "demo_pending_db = demo_db\<lparr>expenses := [demo_submitted],
     events := [(0, snd demo_filed), (1, case fst (Apply (fst demo_filed) (demo_cmd ActionSubmit 3 RoleMember) (7 * day)) of
        Inr ev \<Rightarrow> ev | Inl _ \<Rightarrow> undefined)], next_event := 2\<rparr>"

lemma claims_inv_demo_db: "claims_inv demo_db"
  by (simp add: claims_inv_def demo_db_def empty_db_def)

lemma claims_inv_draft: "claims_inv demo_draft_db"
  using claims_inv_insert [OF claims_inv_demo_db, of "fst demo_filed" "snd demo_filed" 1 0] ledger_inv_New demo_New
  by (simp add: demo_draft_db_def demo_db_def empty_db_def)

lemma claims_inv_pending: "claims_inv demo_pending_db"
proof -
  obtain ev where a: "Apply (fst demo_filed) (demo_cmd ActionSubmit 3 RoleMember) (7 * day) = (Inr ev, demo_submitted)"
    using demo_step1 by blast
  have led: "ledger_inv (fst demo_filed) [snd demo_filed]" using ledger_inv_New demo_New by simp
  have "claim_ledger demo_draft_db (fst demo_filed) = [snd demo_filed]"
    using led by (simp add: claim_ledger_def demo_draft_db_def ledger_inv_def)
  moreover have "ledger_inv demo_submitted ([snd demo_filed] @ [ev])" by (rule ledger_inv_Apply [OF led a])
  moreover have "ev_ExpenseID ev = e_ID (fst demo_filed)" "ev_TenantID ev = e_TenantID (fst demo_filed)"
    using a by (auto elim!: Apply_edge dest!: commit_event)
  ultimately have "claims_inv (demo_draft_db\<lparr>expenses := update_rows (\<lambda>x. x = fst demo_filed) (\<lambda>_. demo_submitted) (expenses demo_draft_db),
      events := events demo_draft_db @ [(1, ev)], next_event := 2\<rparr>)"
    by (intro claims_inv_update [OF claims_inv_draft, where e' = demo_submitted])
       (auto simp: demo_draft_db_def demo_submitted_eq demo_claim)
  then show ?thesis by (simp add: demo_draft_db_def demo_pending_db_def update_rows_def a)
qed

section \<open>What calls answer\<close>

text \<open>
  C38. Editing a claim never succeeds: whatever the caller, the claim and the draft, the edit
  endpoint answers an error and leaves the database as it was, because the event it appends goes from
  draft to draft and the ledger's transition constraint refuses such a row.
\<close>

theorem update_never_succeeds:
  "\<exists>e. Service_Update env subject i draft d = (Inl e, d)"
  unfolding Service_Update_def
proof (rule Scope_Write_never)
  fix a x d'
  let ?tc = "write_conn env subject"
  show "bind_tx (GetForUpdate ?tc i) (\<lambda>e.
      bind_tx (reject_if (\<not> SameMembership a (e_SubmitterID e))
        (Wrap ErrForbidden (Text ''only the person who filed a claim may edit it''))) (\<lambda>_.
      bind_tx (lift_res (Require a PermExpenseCreate)) (\<lambda>_.
      let expected = e_Version e;
          (r, e') = Edit e draft (a_MembershipID a) (clock env)
      in bind_tx (lift_res r) (\<lambda>ev. UpdateDraft ?tc e' ev expected)))) d \<noteq> Inr (x, d')"
    by (auto simp: bind_tx_Inr [where m = "GetForUpdate ?tc i"] bind_tx_Inr [where m = "reject_if _ _"]
        bind_tx_Inr [where m = "lift_res (Require a PermExpenseCreate)"] reject_if_Inr lift_res_Inr split_beta Let_def edit_fails)
qed

lemma Save_stale:
  assumes "\<not> tc_readOnly tc" "\<And>x. x \<in> set (expenses d) \<Longrightarrow> claim_row tc (e_ID e) x \<Longrightarrow> e_Version x \<noteq> v"
  shows "Save tc e ev v d = Inl (Wrap ErrStaleWrite (Text ''the claim was changed while you were deciding''))"
proof -
  have none: "filter (\<lambda>r. claim_row tc (e_ID e) r \<and> e_Version r = v) (expenses d) = []"
    using assms(2) by (auto simp: filter_empty_conv)
  have "TransitionExpense tc e v d = Inl NoRows"
    unfolding TransitionExpense_def UpdateExpenseRow_def using none assms(1)
    by (simp add: bind_tx_def writable_def reject_if_def lift_res_def one_row_def)
  then show ?thesis by (simp add: Save_def bind_tx_def map_err_def translate_def)
qed

text \<open>
  C5. No lost update: two people read the same version of a claim and both their commands are
  allowed; once one of them is saved, saving the other is refused as stale, even without the row lock.
\<close>

theorem lost_update_refused:
  assumes "claims_inv d" and e: "e \<in> set (expenses d)" "claim_row tc i e"
    and first: "Apply e cmd now = (Inr ev, e1)" "Save tc e1 ev (e_Version e) d = Inr (row, d1)"
    and second: "Apply e cmd' now' = (Inr ev', e2)"
    and tc': "tc_tenantID tc' = tc_tenantID tc" "\<not> tc_readOnly tc'"
  shows "Save tc' e2 ev' (e_Version e) d1
    = Inl (Wrap ErrStaleWrite (Text ''the claim was changed while you were deciding''))"
proof (rule Save_stale [OF tc'(2)])
  fix x assume x: "x \<in> set (expenses d1)" "claim_row tc' (e_ID e2) x"
  have inv: "claims_inv d1" and row: "row = e1\<lparr>e_UpdatedAt := tc_now tc\<rparr>"
    using Save_inv [OF first(1) e first(2) assms(1)] by blast+
  have ids: "e_ID e1 = e_ID e" "e_Version e1 = e_Version e + 1" "e_ID e2 = e_ID e"
    using first(1) second by (auto elim!: Apply_edge dest: commit_frame(1,13))
  have "row \<in> set (expenses d1)"
  proof -
    from first(2) obtain d0 where t: "TransitionExpense tc e1 (e_Version e) d = Inr (row, d0)"
      and a: "appendEvent tc ev d0 = Inr ((), d1)" by (auto simp: Save_def go_result)
    from t have "row \<in> set (expenses d0)" unfolding TransitionExpense_def
      by (elim UpdateExpenseRow_Inr) (auto simp: update_rows_def)
    then show ?thesis using appendEvent_Inr(1) [OF a] by simp
  qed
  then have "x = row" using same_id [OF inv x(1)] x(2) ids row by (simp add: claim_row_def)
  then show "e_Version x \<noteq> e_Version e" using row ids by simp
qed

text \<open>
  Discarding a draft takes its ledger along: after a successful delete neither the claim nor
  any of its events is left, the rejection of an earlier submission included.
\<close>

theorem delete_erases_ledger:
  assumes "verify_reset env = None" and "Service_Delete env subject i d = (Inr (), d')" "claims_inv d"
  shows "(\<nexists>e. e \<in> set (expenses d') \<and> e_ID e = i) \<and> (\<nexists>p. p \<in> set (events d') \<and> ev_ExpenseID (snd p) = i)"
proof -
  let ?tc = "write_conn env subject"
  obtain a where t: "Delete_body i ?tc a d = Inr ((), d')"
    using assms(1,2) by (auto simp: Service_Delete_def Scope_Write_Inr)
  have inv: "claims_inv d'" using delete_keeps [of i ?tc a] t assms(3) by (auto simp: keeps_def invariant_effect_def)
  from t obtain n e where del: "DeleteExpenseDraft ?tc i d = Inr (n, d')" "n \<noteq> 0"
      and e: "e \<in> set (expenses d)" "claim_row ?tc i e"
    by (auto simp: Delete_body_def DeleteDraft_def go_result dest!: GetForUpdate_Inr)
  then have d': "expenses d' = filter (\<lambda>r. \<not> (claim_row ?tc i r \<and> e_Status r = StatusDraft)) (expenses d)"
      and some: "\<exists>x \<in> set (expenses d). claim_row ?tc i x \<and> e_Status x = StatusDraft"
    by (auto simp: DeleteExpenseDraft_def go_result Let_def filter_empty_conv split: if_splits)
  have "e_ID x \<noteq> i" if "x \<in> set (expenses d')" for x
    using that some same_id [OF assms(3)] unfolding d' by (fastforce simp: claim_row_def)
  moreover have "ev_ExpenseID (snd p) \<noteq> i" if "p \<in> set (events d')" for p
    using inv that calculation by (auto simp: claims_inv_def)
  ultimately show ?thesis by blast
qed

text \<open>
  A claim that another session holds locked is answered with a conflict at once, and nothing
  is changed.
\<close>

theorem locked_claim_conflicts:
  assumes "runs env" "sub_TenantID subject \<noteq> nil_uuid" "acts_as d subject (write_conn env subject) actor"
    and "e \<in> set (expenses d)" "e_TenantID e = sub_TenantID subject" "locked_rows env (e_ID e)"
  shows "Service_Transition env subject (e_ID e) action reason ref d
    = (Inl (Wrap ErrConflict (Text ''the claim is being changed by someone else'')), d)"
proof -
  let ?tc = "write_conn env subject"
  have "filter (claim_row ?tc (e_ID e)) (expenses d) \<noteq> []"
    using assms(2,4,5) by (auto simp: filter_empty_conv claim_row_def rls_def)
  then have "GetForUpdate ?tc (e_ID e) d = Inl (translate (pg ''55P03'' []))"
    using assms(6) by (cases "filter (claim_row ?tc (e_ID e)) (expenses d)")
      (auto simp: GetForUpdate_def GetExpenseForUpdate_def GetExpense_def map_err_def bind_tx_def writable_def reject_if_def
        lift_res_def one_row_def)
  then have "Transition_body env (e_ID e) action reason ref ?tc actor d
      = Inl (Wrap ErrConflict (Text ''the claim is being changed by someone else''))"
    by (simp add: Transition_body_def bind_tx_def translate_def pg_def)
  then show ?thesis
    using Scope_Write_Inl [OF assms(1,2,3), where work = "Transition_body env (e_ID e) action reason ref"]
    by (simp add: Service_Transition_def bind_act_def)
qed

section \<open>Worked calls\<close>

lemma demo_conn_simps: "tc_tenantID (write_conn env (demo_subject i)) = 1" "sub_TenantID (demo_subject i) = 1"
  by (simp_all add: demo_subject_def)

theorem locked_claim_conflicts_witness:
  "Service_Transition (demo_env\<lparr>locked_rows := (\<lambda>_. True)\<rparr>) (demo_subject 4) 9 ActionApprove None None demo_pending_db
   = (Inl (Wrap ErrConflict (Text ''the claim is being changed by someone else'')), demo_pending_db)"
  using locked_claim_conflicts [of "demo_env\<lparr>locked_rows := (\<lambda>_. True)\<rparr>" "demo_subject 4" demo_pending_db
      "demo_actor 4 RoleManager" demo_submitted ActionApprove None None]
  by (simp add: demo_conn_simps demo_acts demo_pending_db_def demo_submitted_eq demo_claim)

lemma demo_delete: "\<exists>d'. Service_Delete demo_env (demo_subject 3) 9 demo_draft_db = (Inr (), d')"
  unfolding Service_Delete_def Scope_Write_Inr [OF demo_runs(2)]
  by (intro exI conjI, simp_all add: demo_conn_simps, rule demo_acts(1))
     (simp_all add: demo_conn_simps demo_draft_db_def Delete_body_def GetForUpdate_def GetExpenseForUpdate_def GetExpense_def
        map_err_def bind_tx_def writable_def reject_if_def lift_res_def fail_if_def one_row_def claim_row_def rls_def demo_claim demo_env_def
        Require_def Can_def Role_Allows_def demo_actor_def Active_def SameMembership_def Editable_def DeleteDraft_def
        DeleteExpenseDraft_def Let_def)

theorem delete_erases_ledger_witness:
  "\<exists>d'. Service_Delete demo_env (demo_subject 3) 9 demo_draft_db = (Inr (), d') \<and>
    (\<nexists>p. p \<in> set (events d') \<and> ev_ExpenseID (snd p) = 9)"
  using demo_delete delete_erases_ledger [OF demo_runs(2) _ claims_inv_draft] by blast

lemma demo_save:
  "\<exists>ev row d1. Apply demo_submitted (demo_cmd ActionApprove 4 RoleManager) (8 * day) = (Inr ev, demo_approved) \<and>
     Save (write_conn demo_env (demo_subject 4)) demo_approved ev (e_Version demo_submitted) demo_pending_db = Inr (row, d1)"
proof -
  obtain ev where a: "Apply demo_submitted (demo_cmd ActionApprove 4 RoleManager) (8 * day) = (Inr ev, demo_approved)"
    using demo_step2 by blast
  then obtain t where t: "t \<in> set transitions" "tr_From t = e_Status demo_submitted"
      "commit demo_submitted t (demo_cmd ActionApprove 4 RoleManager) (8 * day) = (ev, demo_approved)" by (elim Apply_edge)
  have st: "e_Status demo_submitted = StatusPendingApproval" "e_Status demo_approved = StatusApproved"
    by (simp_all add: demo_submitted_eq demo_approved_eq)
  have ev: "ev_FromStatus ev = Some StatusPendingApproval" "ev_ToStatus ev = StatusApproved" "ev_ExpenseID ev = 9"
      "ev_ActorID ev = Some 4"
    using commit_event [OF t(3)] commit_frame(12) [OF t(3)] st
    by (simp_all add: demo_submitted_eq demo_claim demo_cmd_def demo_actor_def)
  have len: "btrim_len_between 1 200 ''Rail''"
    using rune_count_le [of "''Rail''"]
    by (simp add: btrim_len_between_def btrim_def Suc_le_eq neq0_conv [symmetric] del: neq0_conv)
  have "\<exists>row d1. Save (write_conn demo_env (demo_subject 4)) demo_approved ev (e_Version demo_submitted) demo_pending_db
      = Inr (row, d1)"
    using ev len
    by (simp add: Save_def TransitionExpense_def UpdateExpenseRow_def appendEvent_def AppendExpenseEvent_def demo_pending_db_def
        map_err_def bind_tx_def writable_def reject_if_def lift_res_def fail_if_def one_row_def claim_row_def rls_def
        demo_submitted_eq demo_approved_eq demo_claim demo_conn_simps row_admissible_def Category_Valid_def AllCategories_def
        constraints_def first_failing.simps expense_checks_def Currency_Valid_def word_sless_alt word_sle_eq demo_env_def
        day_def truncate_to_def has_member_def has_tenant_def has_expense_def fk_opt_def demo_defs update_rows_def Let_def)
  with a show ?thesis by blast
qed

theorem lost_update_refused_witness:
  "\<exists>ev d1 ev' e2. Save (write_conn demo_env (demo_subject 6)) e2 ev' (e_Version demo_submitted) d1
    = Inl (Wrap ErrStaleWrite (Text ''the claim was changed while you were deciding'')) \<and>
    Apply demo_submitted (demo_cmd ActionApprove 4 RoleOwner) (9 * day) = (Inr ev', e2) \<and>
    Apply demo_submitted (demo_cmd ActionApprove 4 RoleManager) (8 * day) = (Inr ev, demo_approved)"
proof -
  obtain ev row d1 where a: "Apply demo_submitted (demo_cmd ActionApprove 4 RoleManager) (8 * day) = (Inr ev, demo_approved)"
    "Save (write_conn demo_env (demo_subject 4)) demo_approved ev (e_Version demo_submitted) demo_pending_db = Inr (row, d1)"
    using demo_save by blast
  obtain ev' e2 where b: "Apply demo_submitted (demo_cmd ActionApprove 4 RoleOwner) (9 * day) = (Inr ev', e2)"
    by (simp add: demo_submitted_eq demo_claim demo_cmd_def demo_actor_def apply_eval UnlimitedApprovalLimitMinor_def)
  have "demo_submitted \<in> set (expenses demo_pending_db)" "claim_row (write_conn demo_env (demo_subject 4)) 9 demo_submitted"
    by (simp_all add: demo_pending_db_def claim_row_def demo_conn_simps rls_def demo_submitted_eq demo_claim)
  from lost_update_refused [OF claims_inv_pending this a b, of "write_conn demo_env (demo_subject 6)"] show ?thesis
    using a b by (auto simp: demo_conn_simps)
qed

end
