(* ===== verification/Isolation.thy ===== *)
theory Isolation
  imports Expense_Service_Props
begin

text \<open>
  Tenant isolation of the expense service, in both directions. Written rows: a call leaves the rows
  of every other organisation alone (the frame lemmas of \<open>Expense_Service_Props\<close>). Read rows: a
  call computes the same answer, and the same change, on the database cut down to its own
  organisation's rows, so nothing of another organisation can reach its answer. The second half is
  a homomorphism argument: cutting the database down commutes with every statement.
\<close>

section \<open>Transactions that commute with a view of the database\<close>

definition commutes :: "(db \<Rightarrow> db) \<Rightarrow> 'a tx \<Rightarrow> bool" where
  "commutes v m = (\<forall>d. m (v d) = map_sum id (apsnd v) (m d))"

definition commutes_act :: "(db \<Rightarrow> db) \<Rightarrow> 'a act \<Rightarrow> bool" where
  "commutes_act v a = (\<forall>d. a (v d) = apsnd v (a d))"

named_theorems commuting \<open>statements that commute with the cut to one organisation\<close>

lemma commutes_ret [commuting]: "commutes v (ret x)"
  by (simp add: commutes_def)

lemma commutes_lift [commuting]: "commutes v (lift_res r)"
  by (simp add: commutes_def lift_res_def split: sum.splits)

lemma commutes_reject [commuting]: "commutes v (reject_if c e)"
  by (simp add: reject_if_def commutes_lift)

lemma commutes_writable [commuting]: "commutes v (writable tc)"
  by (simp add: writable_def commutes_reject)

lemma commutes_constraints [commuting]: "commutes v (constraints code cs)"
  by (simp add: constraints_def commutes_lift)

lemma commutes_asks: "(\<And>d. f (v d) = f d) \<Longrightarrow> commutes v (asks f)"
  by (simp add: commutes_def)

lemma commutes_bind [commuting]:
  assumes m: "commutes v m" and f: "\<And>x. commutes v (f x)"
  shows "commutes v (bind_tx m f)"
proof -
  have "bind_tx m f (v d) = map_sum id (apsnd v) (bind_tx m f d)" for d
    using m f by (cases "m d") (auto simp: commutes_def bind_tx_def)
  then show ?thesis by (simp add: commutes_def)
qed

lemma commutes_bind_when:
  assumes m: "commutes v m" and Q: "\<And>d x d'. m d = Inr (x, d') \<Longrightarrow> Q x" and f: "\<And>x. Q x \<Longrightarrow> commutes v (f x)"
  shows "commutes v (bind_tx m f)"
proof -
  have "bind_tx m f (v d) = map_sum id (apsnd v) (bind_tx m f d)" for d
    using m f Q by (cases "m d") (auto simp: commutes_def bind_tx_def)
  then show ?thesis by (simp add: commutes_def)
qed

text \<open>A statement that inspects the database through a test that the view does not change.\<close>

lemma commutes_bind_asks:
  assumes "\<And>d. f (v d) (v d) = map_sum id (apsnd v) (f d d)"
  shows "commutes v (bind_tx (asks (\<lambda>d. d)) f)"
  using assms by (simp add: commutes_def bind_tx_def)

lemma commutes_checked:
  assumes "\<And>d. cs (v d) = cs d" "\<And>u. commutes v (g u)"
  shows "commutes v (bind_tx (asks (\<lambda>d. d)) (\<lambda>d. bind_tx (constraints code (cs d)) g))"
proof (rule commutes_bind_asks)
  fix d show "bind_tx (constraints code (cs (v d))) g (v d) = map_sum id (apsnd v) (bind_tx (constraints code (cs d)) g d)"
    using commutes_bind [OF commutes_constraints [of v code "cs d"] assms(2)] assms(1) by (simp add: commutes_def)
qed

lemma commutes_map_err [commuting]: "commutes v m \<Longrightarrow> commutes v (map_err f m)"
  by (auto simp: commutes_def map_err_def split: sum.splits)

lemma attemptTx_commutes:
  "commutes v (fn (bindSession env b sys)) \<Longrightarrow> commutes_act v (attemptTx env k b sys fn)"
  by (auto simp: commutes_def commutes_act_def attemptTx_def split: option.splits sum.splits)

lemma runTx_loop_commutes:
  assumes "commutes v (fn (bindSession env b sys))"
  shows "commutes_act v (runTx_loop n k env b sys fn)"
proof -
  have step: "attemptTx env j b sys fn (v d) = apsnd v (attemptTx env j b sys fn d)" for j d
    using attemptTx_commutes [of v fn, OF assms] by (simp add: commutes_act_def)
  have "runTx_loop n k env b sys fn (v d) = apsnd v (runTx_loop n k env b sys fn d)" for d
    by (induction n arbitrary: k d) (auto simp: step split: prod.splits sum.splits)
  then show ?thesis by (simp add: commutes_act_def)
qed

lemma commutes_act_bind [commuting]:
  assumes m: "commutes_act v m" and f: "\<And>x. commutes_act v (f x)"
  shows "commutes_act v (bind_act m f)"
proof -
  have "bind_act m f (v d) = apsnd v (bind_act m f d)" for d
    using m f by (cases "m d"; cases "fst (m d)") (auto simp: commutes_act_def bind_act_def)
  then show ?thesis by (simp add: commutes_act_def)
qed

lemma commutes_act_ret [commuting]: "commutes_act v (ret_act x)"
  by (simp add: commutes_act_def ret_act_def)

section \<open>The view of one organisation\<close>

text \<open>
  The rows one organisation owns; users, sessions and processed deliveries are global tables.
\<close>

definition own :: "uuid \<Rightarrow> db \<Rightarrow> db" where
  "own t d =
    d\<lparr>tenants := filter (\<lambda>r. t_ID r = t) (tenants d),
      memberships := filter (\<lambda>r. m_TenantID r = t) (memberships d),
      departments := filter (\<lambda>r. dp_TenantID r = t) (departments d),
      budgets := filter (\<lambda>r. b_TenantID r = t) (budgets d),
      expenses := filter (\<lambda>r. e_TenantID r = t) (expenses d),
      attachments := filter (\<lambda>r. at_TenantID r = t) (attachments d),
      events := filter (\<lambda>r. ev_TenantID (snd r) = t) (events d),
      vendor_subs := filter (\<lambda>r. vs_TenantID r = t) (vendor_subs d),
      tenant_subs := filter (\<lambda>r. ts_TenantID r = t) (tenant_subs d)\<rparr>"

lemma own_simps [simp]:
  "tenants (own t d) = filter (\<lambda>r. t_ID r = t) (tenants d)"
  "memberships (own t d) = filter (\<lambda>r. m_TenantID r = t) (memberships d)"
  "expenses (own t d) = filter (\<lambda>r. e_TenantID r = t) (expenses d)"
  "events (own t d) = filter (\<lambda>r. ev_TenantID (snd r) = t) (events d)"
  "attachments (own t d) = filter (\<lambda>r. at_TenantID r = t) (attachments d)"
  "next_event (own t d) = next_event d" "users (own t d) = users d"
  by (simp_all add: own_def)

lemma own_has [simp]:
  "has_tenant (own t d) t = has_tenant d t" "has_member (own t d) t = has_member d t"
  "has_department (own t d) t = has_department d t" "has_expense (own t d) t = has_expense d t"
  by (auto simp: fun_eq_iff own_def has_tenant_def has_member_def has_department_def has_expense_def)

lemma filter_own: "(\<And>x. P x \<Longrightarrow> key x = t) \<Longrightarrow> filter P (filter (\<lambda>r. key r = t) xs) = filter P xs"
  by (induction xs) auto

lemma update_own:
  assumes "\<And>x. P x \<Longrightarrow> key (f x) = key x"
  shows "filter (\<lambda>r. key r = t) (update_rows P f xs) = update_rows P f (filter (\<lambda>r. key r = t) xs)"
  using assms by (induction xs) (auto simp: update_rows_def)

lemma filter_and_own: "filter P (filter Q xs) = filter Q (filter P xs)"
  by (induction xs) auto

section \<open>The statements of the expense service\<close>

lemma ResolveActor_own [commuting]: "commutes (own (tc_tenantID tc)) (ResolveActor tc u)"
proof -
  let ?t = "tc_tenantID tc"
  have ts: "filter (\<lambda>t. t_ID t = s \<and> rls tc (t_ID t)) (filter (\<lambda>r. t_ID r = ?t) xs)
      = filter (\<lambda>t. t_ID t = s \<and> rls tc (t_ID t)) xs" if "s = ?t" for s xs
    using that by (intro filter_own) auto
  have ms: "filter (\<lambda>m. m_TenantID m = ?t \<and> m_UserID m = u \<and> rls tc (m_TenantID m)) (filter (\<lambda>r. m_TenantID r = ?t) xs)
      = filter (\<lambda>m. m_TenantID m = ?t \<and> m_UserID m = u \<and> rls tc (m_TenantID m)) xs" for xs
    by (intro filter_own) auto
  show ?thesis unfolding ResolveActor_def Q_ResolveActor_def
    by (intro commuting commutes_asks arg_cong [where f = concat] map_cong) (auto simp: ms ts)
qed

lemma GetExpense_own [commuting]: "commutes (own (tc_tenantID tc)) (GetExpense tc i)"
  unfolding GetExpense_def
  by (intro commuting commutes_asks) (simp add: claim_row_def [abs_def])

lemma GetForUpdate_own [commuting]: "commutes (own (tc_tenantID tc)) (GetForUpdate tc i)"
  unfolding GetForUpdate_def GetExpenseForUpdate_def by (intro commuting)

lemma Repo_Get_own [commuting]: "commutes (own (tc_tenantID tc)) (Repo_Get tc i)"
  unfolding Repo_Get_def by (intro commuting)

lemma row_admissible_own [commuting]: "commutes v (row_admissible tc r)"
  unfolding row_admissible_def by (intro commuting)

text \<open>Rows are changed in place within the organisation, so cutting before or after is the same.\<close>

lemma UpdateExpenseRow_own:
  assumes P: "\<And>r. P r \<Longrightarrow> e_TenantID r = tc_tenantID tc" and f: "\<And>r. P r \<Longrightarrow> e_TenantID (f r) = e_TenantID r"
  shows "commutes (own (tc_tenantID tc)) (UpdateExpenseRow tc P f)"
proof -
  let ?v = "own (tc_tenantID tc)"
  have hits: "filter P (filter (\<lambda>r. e_TenantID r = tc_tenantID tc) xs) = filter P xs" for xs
    using P by (rule filter_own)
  have upd: "commutes ?v (\<lambda>d. Inr (x, d\<lparr>expenses := update_rows P f (expenses d)\<rparr>))" for x
    using update_own [of P e_TenantID f] f by (simp add: commutes_def own_def)
  show ?thesis unfolding UpdateExpenseRow_def
    by (intro commutes_bind commutes_writable commutes_lift row_admissible_own
          commutes_bind_when [where m = "asks _" and Q = "\<lambda>rs. \<forall>r \<in> set rs. P r"]
          commutes_bind_when [where m = "lift_res (one_row _)" and Q = P] commutes_asks commutes_checked upd)
       (auto simp: hits P go_result simp del: filter_filter)
qed

lemma AppendExpenseEvent_own [commuting]: "commutes (own (tc_tenantID tc)) (AppendExpenseEvent tc ev)"
  unfolding AppendExpenseEvent_def Let_def
  by (intro commutes_bind commutes_writable commutes_reject commutes_constraints commutes_checked)
     (simp_all add: commutes_def own_def [of _ "_\<lparr>events := _, next_event := _\<rparr>"], simp_all add: own_def)

lemma appendEvent_own [commuting]: "commutes (own (tc_tenantID tc)) (appendEvent tc ev)"
  unfolding appendEvent_def by (intro commuting)

lemma Save_own [commuting]: "commutes (own (tc_tenantID tc)) (Save tc e ev n)"
  unfolding Save_def TransitionExpense_def
  by (intro commuting UpdateExpenseRow_own) (auto simp: claim_row_def)

lemma UpdateDraft_own [commuting]: "commutes (own (tc_tenantID tc)) (UpdateDraft tc e ev n)"
  unfolding UpdateDraft_def UpdateExpenseDraft_def
  by (intro commuting UpdateExpenseRow_own) (auto simp: claim_row_def)

lemma DeleteDraft_own [commuting]: "commutes (own (tc_tenantID tc)) (DeleteDraft tc i)"
proof -
  let ?t = "tc_tenantID tc" and ?gone = "\<lambda>r. claim_row tc i r \<and> e_Status r = StatusDraft"
  have hits: "filter ?gone (filter (\<lambda>r. e_TenantID r = ?t) xs) = filter ?gone xs" for xs
    by (rule filter_own) (simp add: claim_row_def)
  have "commutes (own ?t) (DeleteExpenseDraft tc i)"
    unfolding DeleteExpenseDraft_def Let_def
    by (intro commuting)
       (simp add: commutes_def hits own_def filter_and_own [of _ "\<lambda>r. _ r = ?t"]
          filter_and_own [of _ "\<lambda>p. ev_TenantID (snd p) = ?t"] del: filter_filter)
  then show ?thesis unfolding DeleteDraft_def by (intro commuting)
qed

lemma listing_own [commuting]:
  "commutes (own (tc_tenantID tc)) (Repo_List ilike tc flt cursor limit)"
  "commutes (own (tc_tenantID tc)) (ListPendingForApproval tc dep cursor limit)"
  unfolding Repo_List_def ListExpenses_def ListPendingForApproval_def Q_ListPendingForApproval_def Let_def
  by (intro commuting commutes_asks; simp cong: conj_cong)+

lemma Repo_Events_own [commuting]: "commutes (own (tc_tenantID tc)) (Repo_Events tc i)"
proof -
  let ?t = "tc_tenantID tc"
  have "actor_email tc (own ?t d) ev = actor_email tc d ev" if "ev_TenantID ev = ?t" for d ev
    using that filter_own [where key = m_TenantID and t = ?t and xs = "memberships d"]
    by (simp add: actor_email_def conj_ac cong: option.case_cong list.case_cong)
  then show ?thesis unfolding Repo_Events_def ListExpenseEvents_def Let_def
    by (intro commuting commutes_asks map_cong) (auto cong: conj_cong)
qed

lemma Scope_run_own [commuting]:
  assumes "bi_TenantID b = t" "\<And>tc actor. tc_tenantID tc = t \<Longrightarrow> commutes (own t) (work tc actor)"
  shows "commutes_act (own t) (Scope_run env subject b work)"
proof -
  have "commutes (own t) (Scope_body subject work (bindSession env b False))"
    unfolding Scope_body_def using ResolveActor_own [of "bindSession env b False"] assms
    by (intro commuting) simp_all
  then show ?thesis unfolding Scope_run_def WithTenantTx_def runTx_def
    using runTx_loop_commutes [of "own t" "Scope_body subject work" env b False]
    by (auto simp: commutes_act_def fail_act_def)
qed

lemma Scope_own [commuting]:
  assumes "\<And>tc actor. tc_tenantID tc = sub_TenantID subject \<Longrightarrow> commutes (own (sub_TenantID subject)) (work tc actor)"
  shows "commutes_act (own (sub_TenantID subject)) (Scope_Read env subject work)"
    "commutes_act (own (sub_TenantID subject)) (Scope_Write env subject work)"
  unfolding Scope_Read_def Scope_Write_def by (intro Scope_run_own assms; simp)+

lemma commutes_at: "(\<And>tc. commutes (own (tc_tenantID tc)) (m tc)) \<Longrightarrow> tc_tenantID tc = t \<Longrightarrow> commutes (own t) (m tc)"
  by auto

section \<open>The two halves of isolation\<close>

text \<open>
  C2. A call answers from its own organisation only: reading, listing, moving, editing and discarding
  claims give the same answer on the database cut down to the caller's organisation, and leave there
  what cutting down the real outcome leaves. Filing is the one exception by design: it fails when its
  random identifier is taken anywhere.
\<close>

theorem calls_see_own_organisation:
  "Service_Get env subject i (own (sub_TenantID subject) d)
     = apsnd (own (sub_TenantID subject)) (Service_Get env subject i d) \<and>
   Service_List codec ilike env subject q (own (sub_TenantID subject) d)
     = apsnd (own (sub_TenantID subject)) (Service_List codec ilike env subject q d) \<and>
   PendingQueue codec env subject cursor limit (own (sub_TenantID subject) d)
     = apsnd (own (sub_TenantID subject)) (PendingQueue codec env subject cursor limit d) \<and>
   History env subject i (own (sub_TenantID subject) d)
     = apsnd (own (sub_TenantID subject)) (History env subject i d) \<and>
   Service_Update env subject i draft (own (sub_TenantID subject) d)
     = apsnd (own (sub_TenantID subject)) (Service_Update env subject i draft d) \<and>
   Service_Transition env subject i action reason ref (own (sub_TenantID subject) d)
     = apsnd (own (sub_TenantID subject)) (Service_Transition env subject i action reason ref d) \<and>
   Service_Delete env subject i (own (sub_TenantID subject) d)
     = apsnd (own (sub_TenantID subject)) (Service_Delete env subject i d)"
proof -
  let ?v = "own (sub_TenantID subject)"
  have "commutes_act ?v (Service_Get env subject i)"
    unfolding Service_Get_def
    by (rule Scope_own, rule commutes_at [where t = "sub_TenantID subject"], intro commuting)
  moreover have "commutes_act ?v (Service_List codec ilike env subject q)"
    unfolding Service_List_def Let_def
    by (rule Scope_own, rule commutes_at [where t = "sub_TenantID subject"], intro commuting)
  moreover have "commutes_act ?v (PendingQueue codec env subject cursor limit)"
    unfolding PendingQueue_def Let_def
    by (rule Scope_own, rule commutes_at [where t = "sub_TenantID subject"], intro commuting)
  moreover have "commutes_act ?v (History env subject i)"
    unfolding History_def
    by (rule Scope_own, rule commutes_at [where t = "sub_TenantID subject"], intro commuting)
  moreover have "commutes_act ?v (Service_Update env subject i draft)"
    unfolding Service_Update_def Let_def split_beta
    by (rule Scope_own, rule commutes_at [where t = "sub_TenantID subject"], intro commuting)
  moreover have "commutes_act ?v (Service_Transition env subject i action reason ref)"
    unfolding Service_Transition_def Transition_body_def Let_def split_beta
    by (intro commutes_act_bind commutes_act_ret, rule Scope_own,
        rule commutes_at [where t = "sub_TenantID subject"], intro commuting)
  moreover have "commutes_act ?v (Service_Delete env subject i)"
    unfolding Service_Delete_def Delete_body_def
    by (rule Scope_own, rule commutes_at [where t = "sub_TenantID subject"], intro commuting)
  ultimately show ?thesis by (simp add: commutes_act_def)
qed

text \<open>
  A call of the expense service, and the databases the service can produce: it starts from an empty
  claims table, and whatever other components do leaves claims and ledger alone.
\<close>

inductive claim_call :: "Subject \<Rightarrow> db \<Rightarrow> db \<Rightarrow> bool" for subject :: Subject and d :: db where
  "claim_call subject d (snd (Service_Create env subject draft d))"
| "claim_call subject d (snd (Service_Get env subject i d))"
| "claim_call subject d (snd (Service_Update env subject i draft d))"
| "claim_call subject d (snd (Service_Transition env subject i action reason ref d))"
| "claim_call subject d (snd (Service_Delete env subject i d))"
| "claim_call subject d (snd (Service_List codec ilike env subject q d))"
| "claim_call subject d (snd (PendingQueue codec env subject cursor limit d))"
| "claim_call subject d (snd (History env subject i d))"

inductive served :: "db \<Rightarrow> bool" where
  start: "expenses d = [] \<Longrightarrow> events d = [] \<Longrightarrow> served d"
| call: "served d \<Longrightarrow> claim_call subject d d' \<Longrightarrow> served d'"
| elsewhere: "served d \<Longrightarrow> expenses d' = expenses d \<Longrightarrow> events d' = events d \<Longrightarrow> served d'"

lemma claim_call_inv: "claim_call subject d d' \<Longrightarrow> claims_inv d \<Longrightarrow> claims_inv d'"
  using Create_keeps_inv [of _ subject] Transition_keeps_inv [of _ subject] Delete_keeps_inv [of _ subject]
    inv_effect.keeps_Service_Update [of claims_inv _ subject] inv_effect.keeps_reads [where subject = subject and I = claims_inv]
  by (auto elim!: claim_call.cases simp: keeps_act_def invariant_effect_def)

lemma claim_call_frame: "claim_call subject d d' \<Longrightarrow> others (sub_TenantID subject) d' = others (sub_TenantID subject) d"
  using Create_frame [of subject] Transition_frame [of subject] Delete_frame [of subject]
    frame.keeps_Service_Update [of "sub_TenantID subject" _ subject]
    frame.keeps_reads [where subject = subject and t = "sub_TenantID subject"]
  by (auto elim!: claim_call.cases simp: keeps_act_def frame_effect_def)

lemma served_inv: "served d \<Longrightarrow> claims_inv d"
proof (induction rule: served.induct)
  case (elsewhere d d')
  then show ?case by (simp add: claims_inv_def claim_ledger_def)
next
  case (call d subject d')
  then show ?case using claim_call_inv by blast
qed (simp add: claims_inv_def)

end
