(* ===== verification/Served_Demo.thy ===== *)
theory Served_Demo
  imports Isolation
begin

text \<open>
  The worked claim through the service: filed, submitted, approved and paid by four calls on the small
  organisation of \<open>Demo_World\<close>. It shows that the databases the invariants speak of are reached.
\<close>

definition demo_day :: "int \<Rightarrow> Runtime" where
  "demo_day t = demo_env\<lparr>clock := t * day, db_clock := t * day, fresh_id := (\<lambda>_. 9)\<rparr>"

lemma demo_day_runs [simp]: "runs (demo_day t)" "verify_reset (demo_day t) = None"
  by (simp_all add: demo_day_def runs_no_fault demo_env_def)

lemma demo_day_simps [simp]: "clock (demo_day t) = t * day" "db_clock (demo_day t) = t * day" "fresh_id (demo_day t) k = 9"
  "locked_rows (demo_day t) i = False" "tc_now (write_conn (demo_day t) s) = t * day" "tc_locked (write_conn (demo_day t) s) i = False"
  "\<not> tc_readOnly (write_conn (demo_day t) s)" "\<not> tc_system (write_conn (demo_day t) s)"
  by (simp_all add: demo_day_def demo_env_def write_conn_def no_binding_def)

definition one_claim :: "Expense \<Rightarrow> (nat \<times> Event) list \<Rightarrow> nat \<Rightarrow> db" where
  "one_claim e evs n = demo_db\<lparr>expenses := [e], events := evs, next_event := n\<rparr>"

lemma demo_merchant: "btrim_len_between 1 200 ''Rail''"
  using rune_count_le [of "''Rail''"]
  by (simp add: btrim_len_between_def btrim_def Suc_le_eq neq0_conv [symmetric] del: neq0_conv)

lemmas demo_eval = map_err_def bind_tx_def writable_def reject_if_def lift_res_def fail_if_def one_row_def
  claim_row_def rls_def demo_conn_simps row_admissible_def Category_Valid_def AllCategories_def
  constraints_def first_failing.simps expense_checks_def Currency_Valid_def word_sless_alt word_sle_eq
  day_def truncate_to_def has_member_def has_tenant_def has_expense_def fk_opt_def demo_defs update_rows_def Let_def

lemma demo_created:
  "\<exists>evs n. Service_Create (demo_day 6) (demo_subject 3) demo_draft demo_db = (Inr (fst demo_filed), one_claim (fst demo_filed) evs n)"
proof -
  let ?tc = "write_conn (demo_day 6) (demo_subject 3)"
  obtain e ev where f: "demo_filed = (e, ev)" by fastforce
  have e: "e = fst demo_filed" unfolding f by (rule fst_conv [symmetric])
  have ev: "ev_FromStatus ev = None \<and> ev_ToStatus ev = StatusDraft \<and> ev_ExpenseID ev = 9 \<and> ev_ActorID ev = Some 3"
    using demo_New [unfolded f] by (auto simp: New_def Let_def split: sum.splits prod.splits)
  have "\<exists>evs n. Repo_Create ?tc e ev demo_db = Inr (e, one_claim e evs n)"
    using ev demo_merchant
    by (simp add: e demo_claim Repo_Create_def CreateExpense_def appendEvent_def AppendExpenseEvent_def demo_eval
        inserted_row_def expense_fks_def same_charge_def one_claim_def)
  then obtain evs n where created: "Repo_Create ?tc e ev demo_db = Inr (e, one_claim e evs n)" by blast
  have act: "acts_as demo_db (demo_subject 3) ?tc (demo_actor 3 RoleMember)"
    by (rule demo_acts(1)) (simp_all add: demo_conn_simps)
  have may: "Require (demo_actor 3 RoleMember) PermExpenseCreate = Inr ()" "GovernsDepartment (demo_actor 3 RoleMember) dep"
    "a_MembershipID (demo_actor 3 RoleMember) = 3" for dep
    by (simp_all add: go_result Can_def Role_Allows_def demo_actor_def Active_def GovernsDepartment_def)
  have "Service_Create (demo_day 6) (demo_subject 3) demo_draft demo_db = (Inr e, one_claim e evs n)"
    unfolding Service_Create_def Scope_Write_Inr [OF demo_day_runs(2)]
    by (intro conjI exI [of _ "demo_actor 3 RoleMember"] act)
       (simp_all add: demo_conn_simps bind_tx_def lift_res_def may reject_if_def fail_if_def demo_New [unfolded f] created)
  then show ?thesis unfolding e by blast
qed

text \<open>One call that moves the only claim.\<close>

lemma demo_moved:
  assumes step: "Apply e (demo_cmd a m r) (t * day) = (Inr ev, e')" and e: "e_ID e = 9" "e_TenantID e = 1"
    and who: "acts_as (one_claim e evs n) (demo_subject m) (write_conn (demo_day t) (demo_subject m)) (demo_actor m r)"
    and save: "Save (write_conn (demo_day t) (demo_subject m)) e' ev (e_Version e) (one_claim e evs n) = Inr (e', d')"
  shows "Service_Transition (demo_day t) (demo_subject m) 9 a None (Some ''R1'') (one_claim e evs n) = (Inr (e', notify e' a), d')"
proof -
  let ?tc = "write_conn (demo_day t) (demo_subject m)"
  have "GetForUpdate ?tc 9 (one_claim e evs n) = Inr (e, one_claim e evs n)"
    using e by (simp add: GetForUpdate_def GetExpenseForUpdate_def GetExpense_def one_claim_def demo_eval)
  then have "Transition_body (demo_day t) 9 a None (Some ''R1'') ?tc (demo_actor m r) (one_claim e evs n) = Inr (e', d')"
    using step save by (simp add: Transition_body_def bind_tx_def demo_cmd_def lift_res_def)
  then have "Scope_Write (demo_day t) (demo_subject m) (Transition_body (demo_day t) 9 a None (Some ''R1'')) (one_claim e evs n)
      = (Inr e', d')"
    unfolding Scope_Write_Inr [OF demo_day_runs(2)] using who by (auto simp: demo_conn_simps)
  then show ?thesis by (simp add: Service_Transition_def bind_act_def ret_act_def)
qed

lemma demo_event:
  assumes "Apply e (demo_cmd a m r) now = (Inr ev, e')"
  shows "ev_FromStatus ev = Some (e_Status e) \<and> ev_ToStatus ev = e_Status e' \<and> ev_ExpenseID ev = e_ID e \<and> ev_ActorID ev = Some m"
  using assms by (elim Apply_edge) (use commit_frame(12) in \<open>auto dest: commit_event simp: demo_cmd_def demo_actor_def\<close>)

lemma demo_paid_eq: "demo_paid = demo_approved\<lparr>e_Status := StatusPaid, e_PaidAt := Some (9 * day), e_PaymentRef := Some ''R1'',
    e_Version := 4, e_UpdatedAt := 9 * day\<rparr>"
  by (simp add: demo_paid_def demo_approved_eq demo_submitted_eq demo_claim demo_cmd_def demo_actor_def apply_eval)

lemmas demo_save_eval = Save_def TransitionExpense_def UpdateExpenseRow_def appendEvent_def AppendExpenseEvent_def one_claim_def
  demo_paid_eq demo_submitted_eq demo_approved_eq demo_claim demo_eval

lemma demo_saves:
  "Apply (fst demo_filed) (demo_cmd ActionSubmit 3 RoleMember) (7 * day) = (Inr ev, demo_submitted) \<Longrightarrow>
    \<exists>evs' n'. Save (write_conn (demo_day 7) (demo_subject 3)) demo_submitted ev (e_Version (fst demo_filed)) (one_claim (fst demo_filed) evs n)
      = Inr (demo_submitted, one_claim demo_submitted evs' n')"
  "Apply demo_submitted (demo_cmd ActionApprove 4 RoleManager) (8 * day) = (Inr ev, demo_approved) \<Longrightarrow>
    \<exists>evs' n'. Save (write_conn (demo_day 8) (demo_subject 4)) demo_approved ev (e_Version demo_submitted) (one_claim demo_submitted evs n)
      = Inr (demo_approved, one_claim demo_approved evs' n')"
  "Apply demo_approved (demo_cmd ActionPay 5 RoleFinance) (9 * day) = (Inr ev, demo_paid) \<Longrightarrow>
    \<exists>evs' n'. Save (write_conn (demo_day 9) (demo_subject 5)) demo_paid ev (e_Version demo_approved) (one_claim demo_approved evs n)
      = Inr (demo_paid, one_claim demo_paid evs' n')"
  by (drule demo_event; use demo_merchant in \<open>simp add: demo_save_eval\<close>)+

lemma demo_transitions:
  "\<exists>evs' n'. Service_Transition (demo_day 7) (demo_subject 3) 9 ActionSubmit None (Some ''R1'') (one_claim (fst demo_filed) evs n)
    = (Inr (demo_submitted, notify demo_submitted ActionSubmit), one_claim demo_submitted evs' n')"
  "\<exists>evs' n'. Service_Transition (demo_day 8) (demo_subject 4) 9 ActionApprove None (Some ''R1'') (one_claim demo_submitted evs n)
    = (Inr (demo_approved, notify demo_approved ActionApprove), one_claim demo_approved evs' n')"
  "\<exists>evs' n'. Service_Transition (demo_day 9) (demo_subject 5) 9 ActionPay None (Some ''R1'') (one_claim demo_approved evs n)
    = (Inr (demo_paid, notify demo_paid ActionPay), one_claim demo_paid evs' n')"
proof -
  have ms: "memberships (one_claim e evs n) = memberships demo_db" "tenants (one_claim e evs n) = tenants demo_db" for e
    by (simp_all add: one_claim_def)
  have ids: "e_ID (fst demo_filed) = 9" "e_TenantID (fst demo_filed) = 1" "e_ID demo_submitted = 9" "e_TenantID demo_submitted = 1"
    "e_ID demo_approved = 9" "e_TenantID demo_approved = 1"
    by (simp_all add: demo_approved_eq demo_submitted_eq demo_claim)
  note acts = demo_acts [OF ms demo_conn_simps(1)]
  show "\<exists>evs' n'. Service_Transition (demo_day 7) (demo_subject 3) 9 ActionSubmit None (Some ''R1'') (one_claim (fst demo_filed) evs n)
      = (Inr (demo_submitted, notify demo_submitted ActionSubmit), one_claim demo_submitted evs' n')"
    using demo_step1 demo_saves(1) demo_moved [OF _ ids(1,2) acts(1)] by metis
  show "\<exists>evs' n'. Service_Transition (demo_day 8) (demo_subject 4) 9 ActionApprove None (Some ''R1'') (one_claim demo_submitted evs n)
      = (Inr (demo_approved, notify demo_approved ActionApprove), one_claim demo_approved evs' n')"
    using demo_step2 demo_saves(2) demo_moved [OF _ ids(3,4) acts(2)] by metis
  show "\<exists>evs' n'. Service_Transition (demo_day 9) (demo_subject 5) 9 ActionPay None (Some ''R1'') (one_claim demo_approved evs n)
      = (Inr (demo_paid, notify demo_paid ActionPay), one_claim demo_paid evs' n')"
    using demo_step3 demo_saves(3) demo_moved [OF _ ids(5,6) acts(3)] by metis
qed

lemma demo_served: "\<exists>evs n. served (one_claim demo_paid evs n)"
proof -
  have "served demo_db" by (rule served.start) (simp_all add: demo_db_def empty_db_def)
  with demo_created obtain evs n where "served (one_claim (fst demo_filed) evs n)"
    by (metis served.call claim_call.intros(1) snd_conv)
  with demo_transitions(1) obtain evs n where "served (one_claim demo_submitted evs n)"
    by (metis served.call claim_call.intros(4) snd_conv)
  with demo_transitions(2) obtain evs n where "served (one_claim demo_approved evs n)"
    by (metis served.call claim_call.intros(4) snd_conv)
  with demo_transitions(3) show ?thesis
    by (metis served.call claim_call.intros(4) snd_conv)
qed

end
