(* ===== verification/Expense_Listing.thy ===== *)
theory Expense_Listing
  imports Expense_Service_Props
begin

text \<open>
  What the listings of the expense service show: exactly the claims a single read would show, apart
  from a department head's own claims elsewhere, and each of them once when a client follows the
  tokens. The approval queue's tokens lose the fraction of a second, which makes it repeat rows.
\<close>

section \<open>Who sees a claim\<close>

lemma read_own: "Can actor PermExpenseReadAll \<Longrightarrow> Can actor PermExpenseReadOwn"
    "Can actor PermExpenseReadTeam \<Longrightarrow> Can actor PermExpenseReadOwn"
  by (cases "a_Role actor"; simp add: Can_def Role_Allows_def split: if_splits)+

lemma matches_department:
  "f_DepartmentID f = None \<Longrightarrow>
    matches ilike (f\<lparr>f_DepartmentID := Some dp\<rparr>) e \<longleftrightarrow> matches ilike f e \<and> e_DepartmentID e = Some dp"
  by (auto simp: matches_def narg_def)

lemma matches_submitter:
  "f_SubmitterID f = None \<Longrightarrow>
    matches ilike (f\<lparr>f_SubmitterID := Some m\<rparr>) e \<longleftrightarrow> matches ilike f e \<and> e_SubmitterID e = m"
  by (auto simp: matches_def narg_def)

lemma GovernsDepartment_iff:
  "GovernsDepartment actor dp \<longleftrightarrow> a_DepartmentID actor = None \<or> a_DepartmentID actor = dp"
  by (auto simp: GovernsDepartment_def split: option.splits)

lemma canRead_iff:
  "canRead actor e = Inr () \<longleftrightarrow>
    Can actor PermExpenseReadAll \<or>
    (if SameMembership actor (e_SubmitterID e) then Can actor PermExpenseReadOwn
     else Can actor PermExpenseReadTeam \<and> GovernsDepartment actor (e_DepartmentID e))"
  by (auto simp: canRead_def read_own)

text \<open>
  A list without department or submitter filter shows a caller exactly the claims they may
  read one by one and that match the filter, except that a caller confined to a department does not
  see their own claims outside it.
\<close>

theorem listing_matches_reading:
  assumes "narrowToScope actor f = Inr f'" and "f_DepartmentID f = None" "f_SubmitterID f = None"
  shows "matches ilike f' e \<longleftrightarrow> matches ilike f e \<and> canRead actor e = Inr () \<and>
    (Can actor PermExpenseReadAll \<or> (Can actor PermExpenseReadTeam \<longrightarrow> GovernsDepartment actor (e_DepartmentID e)))"
proof -
  consider (all) "Can actor PermExpenseReadAll" "f' = f"
    | (team) "\<not> Can actor PermExpenseReadAll" "Can actor PermExpenseReadTeam" "a_DepartmentID actor = None" "f' = f"
    | (dept) dp where "\<not> Can actor PermExpenseReadAll" "Can actor PermExpenseReadTeam" "a_DepartmentID actor = Some dp"
        "f' = f\<lparr>f_DepartmentID := Some dp\<rparr>"
    | (own) "\<not> Can actor PermExpenseReadAll" "\<not> Can actor PermExpenseReadTeam" "Can actor PermExpenseReadOwn"
        "f' = f\<lparr>f_SubmitterID := Some (a_MembershipID actor)\<rparr>"
    using assms(1) by (auto simp: narrowToScope_def split: if_splits)
  then show ?thesis
    by cases (auto simp: canRead_iff matches_department matches_submitter assms GovernsDepartment_iff
        SameMembership_def read_own)
qed

text \<open>The rows of an organisation that match a filter, newest spending first.\<close>

definition visible_claims :: "(string \<Rightarrow> string \<Rightarrow> bool) \<Rightarrow> uuid \<Rightarrow> Filter \<Rightarrow> db \<Rightarrow> Expense list" where
  "visible_claims ilike t f d =
    rev (sort_key (\<lambda>r. (e_SpentAt r, e_ID r)) (filter (\<lambda>r. e_TenantID r = t \<and> matches ilike f r) (expenses d)))"

definition day_key :: "Expense \<Rightarrow> int \<times> uuid" where
  "day_key e = (truncate_to day (e_SpentAt e), e_ID e)"

definition cursor_key :: "Cursor \<Rightarrow> int \<times> uuid" where
  "cursor_key cu = (truncate_to day (cu_SpentAt cu), cu_ID cu)"

definition claim_cursor :: "Expense \<Rightarrow> Cursor" where
  "claim_cursor e = \<lparr>cu_SpentAt = e_SpentAt e, cu_ID = e_ID e\<rparr>"

interpretation claims: keyset day_key "\<lambda>k l. l < k" claim_cursor cursor_key
  by unfold_locales (auto simp: day_key_def cursor_key_def claim_cursor_def)

text \<open>Spending dates are dates.\<close>

definition whole_days :: "db \<Rightarrow> bool" where
  "whole_days d = (\<forall>e \<in> set (expenses d). day dvd e_SpentAt e)"

lemma whole_days_key: "whole_days d \<Longrightarrow> e \<in> set (expenses d) \<Longrightarrow> (e_SpentAt e, e_ID e) = day_key e"
  by (simp add: whole_days_def day_key_def truncate_to_def mod_eq_0_iff_dvd)

lemma Repo_List_Inr:
  assumes "tc_tenantID tc \<noteq> nil_uuid" "\<not> tc_system tc" "whole_days d"
  shows "Repo_List ilike tc f cursor n d = Inr (rows, d') \<longleftrightarrow>
    fk_opt Status_Valid (f_Status f) \<and> fk_opt Category_Valid (f_Category f) \<and> d' = d \<and>
    rows = select_after (\<lambda>k l. l < k) day_key (map_option cursor_key cursor) n
      (visible_claims ilike (tc_tenantID tc) f d)"
proof -
  have "filter (\<lambda>r. e_TenantID r = tc_tenantID tc \<and> rls tc (e_TenantID r) \<and> matches ilike f r \<and>
        narg (\<lambda>cu. (e_SpentAt r, e_ID r) < (truncate_to day (cu_SpentAt cu), cu_ID cu)) cursor) (expenses d)
    = filter (\<lambda>r. case map_option cursor_key cursor of None \<Rightarrow> True | Some k \<Rightarrow> day_key r < k)
       (filter (\<lambda>r. e_TenantID r = tc_tenantID tc \<and> matches ilike f r) (expenses d))"
    unfolding filter_filter using assms
    by (intro filter_cong) (auto simp: rls_def narg_def cursor_key_def whole_days_key split: option.splits)
  then show ?thesis
    by (auto simp: Repo_List_def ListExpenses_def go_result select_after_def visible_claims_def Let_def filter_sort rev_filter [symmetric])
qed

lemma visible_sorted:
  assumes "distinct (map e_ID (expenses d))" "whole_days d"
  shows "sorted_wrt (\<lambda>x y. day_key y < day_key x) (visible_claims ilike t f d)"
proof -
  let ?xs = "filter (\<lambda>r. e_TenantID r = t \<and> matches ilike f r) (expenses d)"
  let ?k = "\<lambda>r. (e_SpentAt r, e_ID r)"
  have "distinct (map e_ID ?xs)" using assms(1) by (rule distinct_map_filter)
  then have "inj_on e_ID (set ?xs)" "distinct ?xs" by (simp_all add: distinct_map)
  then have "distinct (map ?k (sort_key ?k ?xs))"
    by (auto simp: distinct_map inj_on_def)
  then have "sorted_wrt (<) (map ?k (sort_key ?k ?xs))"
    using sorted_sort_key [of ?k ?xs] by (simp add: strict_sorted_iff)
  then have "sorted_wrt (\<lambda>x y. ?k x < ?k y) (sort_key ?k ?xs)" by (simp add: sorted_wrt_map)
  then have "sorted_wrt (\<lambda>x y. day_key x < day_key y) (sort_key ?k ?xs)"
    by (rule sorted_wrt_mono_rel [rotated]) (use whole_days_key [OF assms(2)] in auto)
  then show ?thesis by (simp add: visible_claims_def sorted_wrt_rev)
qed

lemma Service_List_Inr:
  assumes "verify_reset env = None" "whole_days d"
  shows "Service_List codec ilike env subject q d = (Inr page, d') \<longleftrightarrow>
    sub_TenantID subject \<noteq> nil_uuid \<and> runs env \<and> d' = d \<and>
    (\<exists>actor f. acts_as d subject (read_conn env subject) actor \<and> narrowToScope actor (q_Filter q) = Inr f \<and>
       fk_opt Status_Valid (f_Status f) \<and> fk_opt Category_Valid (f_Category f) \<and>
       page = NewPage codec (select_after (\<lambda>k l. l < k) day_key (map_option cursor_key (q_Cursor q))
           (ClampLimit (q_Limit q) + 1) (visible_claims ilike (sub_TenantID subject) f d))
         (ClampLimit (q_Limit q)) claim_cursor)"
proof -
  have cc: "(\<lambda>e. \<lparr>cu_SpentAt = e_SpentAt e, cu_ID = e_ID e\<rparr>) = claim_cursor" by (auto simp: claim_cursor_def)
  show ?thesis unfolding Service_List_def Scope_Read_Inr [OF assms(1)]
    using Repo_List_Inr [where d = d and tc = "read_conn env subject", OF _ _ assms(2)]
    by (auto simp: go_result Let_def cc)
qed

lemma Service_List_page:
  assumes "runs env" "whole_days d" "sub_TenantID subject \<noteq> nil_uuid" "acts_as d subject (read_conn env subject) actor"
    "narrowToScope actor (q_Filter q) = Inr f" "fk_opt Status_Valid (f_Status f)" "fk_opt Category_Valid (f_Category f)"
  shows "Service_List codec ilike env subject q d =
    (Inr (NewPage codec (select_after (\<lambda>k l. l < k) day_key (map_option cursor_key (q_Cursor q))
      (ClampLimit (q_Limit q) + 1) (visible_claims ilike (sub_TenantID subject) f d)) (ClampLimit (q_Limit q)) claim_cursor), d)"
proof -
  have "verify_reset env = None" using assms(1) by (simp add: runs_def)
  from Service_List_Inr [OF this assms(2)] show ?thesis using assms by blast
qed

text \<open>A client of the list endpoint: each page of a query at a position, empty when refused.\<close>

definition fetch_list ::
    "Codec \<Rightarrow> (string \<Rightarrow> string \<Rightarrow> bool) \<Rightarrow> Runtime \<Rightarrow> Subject \<Rightarrow> ListQuery \<Rightarrow> db \<Rightarrow> Cursor option \<Rightarrow> Expense Page" where
  "fetch_list codec ilike env subject q d cur =
    (case fst (Service_List codec ilike env subject (q\<lparr>q_Cursor := cur\<rparr>) d) of
       Inr page \<Rightarrow> page | Inl _ \<Rightarrow> \<lparr>Items = [], NextCursor = [], HasMore = False\<rparr>)"

text \<open>
  C28. Following the tokens of the claim list reads every visible claim once, newest first,
  whatever the page size: the pages of an unchanged database concatenate to the whole list.
\<close>

theorem list_pages_complete:
  assumes "codec_ok codec" "verify_reset env = None" "distinct (map e_ID (expenses d))" "whole_days d"
    and "fst (Service_List codec ilike env subject (q\<lparr>q_Cursor := None\<rparr>) d) = Inr page"
  shows "\<exists>actor f. resolves d (sub_TenantID subject) (sub_UserID subject) actor \<and>
    narrowToScope actor (q_Filter q) = Inr f \<and>
    follow (Suc (length (expenses d))) codec (fetch_list codec ilike env subject q d) None
      = visible_claims ilike (sub_TenantID subject) f d"
proof -
  from assms(5) obtain d' where "Service_List codec ilike env subject (q\<lparr>q_Cursor := None\<rparr>) d = (Inr page, d')"
    by (cases "Service_List codec ilike env subject (q\<lparr>q_Cursor := None\<rparr>) d") auto
  then obtain actor f where a: "acts_as d subject (read_conn env subject) actor"
    and f: "narrowToScope actor (q_Filter q) = Inr f" "fk_opt Status_Valid (f_Status f)" "fk_opt Category_Valid (f_Category f)"
    and ok: "sub_TenantID subject \<noteq> nil_uuid" "runs env"
    unfolding Service_List_Inr [OF assms(2,4)] by auto
  let ?rows = "visible_claims ilike (sub_TenantID subject) f d" and ?n = "ClampLimit (q_Limit q)"
  have "Service_List codec ilike env subject (q\<lparr>q_Cursor := cur\<rparr>) d =
      (Inr (NewPage codec (select_after (\<lambda>k l. l < k) day_key (map_option cursor_key cur) (?n + 1) ?rows) ?n claim_cursor), d)"
    for cur using Service_List_page [where q = "q\<lparr>q_Cursor := cur\<rparr>", OF ok(2) assms(4) ok(1) a] f by simp
  then have fetch: "fetch_list codec ilike env subject q d cur =
      NewPage codec (select_after (\<lambda>k l. l < k) day_key (map_option cursor_key cur) (?n + 1) ?rows) ?n claim_cursor" for cur
    by (simp add: fetch_list_def)
  have "DecodeCursor codec (Cursor_Encode codec (claim_cursor r)) = Inr (claim_cursor r)" if "r \<in> set ?rows" for r
  proof -
    have "day dvd e_SpentAt r" using that assms(4) by (auto simp: visible_claims_def whole_days_def)
    moreover have "second dvd day" by (simp add: second_def day_def)
    ultimately have "second dvd e_SpentAt r" by (rule dvd_trans [rotated])
    then show ?thesis
      by (simp add: DecodeCursor_Encode [OF assms(1)] claim_cursor_def truncate_to_def mod_eq_0_iff_dvd)
  qed
  moreover have "length ?rows < Suc (length (expenses d))"
    by (simp add: visible_claims_def le_imp_less_Suc)
  ultimately have "follow (Suc (length (expenses d))) codec (fetch_list codec ilike env subject q d) None = ?rows"
    using ClampLimit_range [of "q_Limit q"] fetch visible_sorted [OF assms(3,4)]
    by (intro claims.follow_all [where n = ?n]) auto
  then show ?thesis using f acts_as_resolves [OF a] by auto
qed

section \<open>The approval queue\<close>

definition queue_key :: "Expense \<Rightarrow> int \<times> uuid" where
  "queue_key r = (case e_SubmittedAt r of Some s \<Rightarrow> s | None \<Rightarrow> zero_time, e_ID r)"

definition queued_claims :: "TenantConn \<Rightarrow> uuid option \<Rightarrow> db \<Rightarrow> Expense list" where
  "queued_claims tc departmentID d =
    sort_key queue_key (filter (\<lambda>r. e_TenantID r = tc_tenantID tc \<and> rls tc (e_TenantID r) \<and>
      e_Status r = StatusPendingApproval \<and> narg (\<lambda>dp. e_DepartmentID r = Some dp) departmentID) (expenses d))"

definition after_cursor :: "Cursor \<Rightarrow> Expense \<Rightarrow> bool" where
  "after_cursor cu r = (case e_SubmittedAt r of None \<Rightarrow> False | Some s \<Rightarrow> (cu_SpentAt cu, cu_ID cu) < (s, e_ID r))"

lemma ListPending_eq:
  "ListPendingForApproval tc dp cursor n d = Inr (take (nat n) (filter (\<lambda>r. narg (\<lambda>cu. after_cursor cu r) cursor)
     (queued_claims tc dp d)), d)"
  by (simp add: ListPendingForApproval_def Q_ListPendingForApproval_def map_err_def queued_claims_def queue_key_def [abs_def] after_cursor_def [abs_def]
      filter_sort Let_def conj_commute conj_left_commute)

lemma PendingQueue_Inr:
  assumes "verify_reset env = None"
  shows "PendingQueue codec env subject cursor limit d = (Inr page, d') \<longleftrightarrow>
    sub_TenantID subject \<noteq> nil_uuid \<and> runs env \<and> d' = d \<and>
    (\<exists>actor. acts_as d subject (read_conn env subject) actor \<and> Can actor PermExpenseApprove \<and>
       page = NewPage codec (take (nat (ClampLimit limit + 1)) (filter (\<lambda>r. narg (\<lambda>cu. after_cursor cu r) cursor)
         (queued_claims (read_conn env subject) (a_DepartmentID actor) d))) (ClampLimit limit) pending_cursor)"
  unfolding PendingQueue_def Scope_Read_Inr [OF assms] by (auto simp: go_result Let_def ListPending_eq)

lemma NewPage_more:
  assumes "0 < n" "HasMore (NewPage codec (take (nat (n + 1)) rows) n cursorOf)"
  obtains xs e ys where "rows = xs @ e # ys" "Items (NewPage codec (take (nat (n + 1)) rows) n cursorOf) = xs @ [e]"
    "NextCursor (NewPage codec (take (nat (n + 1)) rows) n cursorOf) = Cursor_Encode codec (cursorOf e)"
proof -
  define p where "p = take (nat n) rows"
  have len: "n < int (length rows)" using assms by (auto simp: NewPage_def Let_def split: if_splits)
  then have p: "length p = nat n" "p \<noteq> []" using assms(1) by (auto simp: p_def)
  obtain xs e where xe: "p = xs @ [e]" using p(2) by (cases p rule: rev_cases) auto
  have "rows = xs @ e # drop (nat n) rows" 
    using append_take_drop_id [of "nat n" rows] xe unfolding p_def by (metis append.assoc append_Cons append_Nil)
  moreover have "take (nat n) (take (nat (n + 1)) rows) = p" by (simp add: p_def)
  ultimately show ?thesis
    using that [of xs e "drop (nat n) rows"] assms(1) len p xe
    by (simp add: NewPage_def Let_def nth_append)
qed

lemma NewPage_first:
  assumes "0 < n"
  shows "\<exists>rest. Items (NewPage codec (take (nat (n + 1)) (r # rs)) n cursorOf) = r # rest"
proof -
  obtain m where "nat n = Suc m" "nat (n + 1) = Suc (Suc m)" using assms by (cases "nat n") (auto simp: nat_add_distrib)
  then show ?thesis using assms by (simp add: NewPage_def Let_def)
qed

text \<open>
  The approval queue repeats itself: when the last claim of a page was submitted at a time
  with a fraction of a second, the page its token leads to starts at that claim or before it.
\<close>

theorem pending_queue_repeats:
  assumes "codec_ok codec" "verify_reset env = None"
    and "PendingQueue codec env subject cursor limit d = (Inr page, d')" "HasMore page"
    and "e_SubmittedAt (last (Items page)) = Some s" "\<not> second dvd s"
  shows "\<exists>cu page'. DecodeCursor codec (NextCursor page) = Inr cu \<and>
    PendingQueue codec env subject (Some cu) limit d = (Inr page', d) \<and>
    Items page' \<noteq> [] \<and> queue_key (hd (Items page')) \<le> queue_key (last (Items page))"
proof -
  let ?n = "ClampLimit limit"
  have n: "0 < ?n" using ClampLimit_range [of limit] by simp
  from assms(3) obtain actor where ok: "sub_TenantID subject \<noteq> nil_uuid" "runs env"
    and a: "acts_as d subject (read_conn env subject) actor" "Can actor PermExpenseApprove"
    and page: "page = NewPage codec (take (nat (?n + 1)) (filter (\<lambda>r. narg (\<lambda>cu. after_cursor cu r) cursor)
         (queued_claims (read_conn env subject) (a_DepartmentID actor) d))) ?n pending_cursor"
    unfolding PendingQueue_Inr [OF assms(2)] by blast
  let ?L = "queued_claims (read_conn env subject) (a_DepartmentID actor) d"
  let ?F = "filter (\<lambda>r. narg (\<lambda>cu. after_cursor cu r) cursor) ?L"
  obtain xs e ys where split: "?F = xs @ e # ys" and items: "Items page = xs @ [e]"
    and tok: "NextCursor page = Cursor_Encode codec (pending_cursor e)"
    using NewPage_more [OF n, of codec ?F pending_cursor] assms(4) unfolding page by blast
  have s: "e_SubmittedAt e = Some s" using assms(5) items by simp
  let ?cu = "\<lparr>cu_SpentAt = truncate_to second s, cu_ID = e_ID e\<rparr>"
  have "truncate_to second s < s"
    using assms(6) truncate_to_le [of second s] by (simp add: second_def truncate_to_def dvd_eq_mod_eq_0 order_le_less)
  then have after: "after_cursor ?cu e" using s by (simp add: after_cursor_def)
  have dec: "DecodeCursor codec (NextCursor page) = Inr ?cu"
    unfolding tok DecodeCursor_Encode [OF assms(1)] using s by (simp add: pending_cursor_def)
  let ?G = "filter (after_cursor ?cu) ?L"
  have "e \<in> set ?F" unfolding split by simp
  then have eG: "e \<in> set ?G" using after by simp
  have "sorted (map queue_key ?G)"
    unfolding queued_claims_def filter_sort by (rule sorted_sort_key)
  moreover obtain r rs where G: "?G = r # rs" using eG by (cases ?G) auto
  ultimately have le: "queue_key r \<le> queue_key e" using eG by auto
  let ?page = "NewPage codec (take (nat (?n + 1)) ?G) ?n pending_cursor"
  have "\<exists>rest. Items ?page = r # rest" unfolding G using NewPage_first [OF n] .
  then show ?thesis
    using dec le items a ok by (intro exI [of _ ?cu] exI [of _ ?page]) (auto simp: PendingQueue_Inr [OF assms(2)] narg_def)
qed

section \<open>Worked listings\<close>

definition no_filter :: Filter where
  "no_filter = \<lparr>f_Status = None, f_Category = None, f_DepartmentID = None, f_SubmitterID = None, f_SpentFrom = None,
     f_SpentTo = None, f_MinMinor = None, f_MaxMinor = None, f_Search = None\<rparr>"

lemma no_filter_matches [simp]: "matches ilike no_filter e"
  by (simp add: matches_def no_filter_def narg_def)

theorem listing_matches_reading_witness:
  "\<exists>f'. narrowToScope ((demo_actor 4 RoleManager)\<lparr>a_DepartmentID := Some 2\<rparr>) no_filter = Inr f' \<and>
    \<not> matches (\<lambda>_ _. False) f' ((fst demo_filed)\<lparr>e_SubmitterID := 4\<rparr>) \<and>
    canRead ((demo_actor 4 RoleManager)\<lparr>a_DepartmentID := Some 2\<rparr>) ((fst demo_filed)\<lparr>e_SubmitterID := 4\<rparr>) = Inr ()"
proof -
  let ?a = "(demo_actor 4 RoleManager)\<lparr>a_DepartmentID := Some 2\<rparr>"
  have n: "narrowToScope ?a no_filter = Inr (no_filter\<lparr>f_DepartmentID := Some 2\<rparr>)"
    by (simp add: narrowToScope_def Can_def Role_Allows_def demo_actor_def Active_def)
  show ?thesis
    using listing_matches_reading [OF n, of "\<lambda>_ _. False" "(fst demo_filed)\<lparr>e_SubmitterID := 4\<rparr>"] n
    by (simp add: no_filter_def canRead_def SameMembership_def Can_def Role_Allows_def demo_actor_def Active_def
        GovernsDepartment_def demo_claim)
qed

definition demo_query :: ListQuery where
  "demo_query = \<lparr>q_Filter = no_filter, q_Cursor = None, q_Limit = 1\<rparr>"

theorem list_pages_complete_witness:
  "follow 2 demo_codec (fetch_list demo_codec (\<lambda>_ _. False) demo_env (demo_subject 6) demo_query demo_draft_db) None
   = [fst demo_filed]"
proof -
  let ?d = demo_draft_db
  have w: "whole_days ?d" by (simp add: whole_days_def demo_draft_db_def demo_claim)
  have nar: "narrowToScope (demo_actor 6 RoleOwner) no_filter = Inr no_filter"
    by (simp add: narrowToScope_def Can_def Role_Allows_def demo_actor_def Active_def)
  have act: "acts_as ?d (demo_subject 6) (read_conn demo_env (demo_subject 6)) (demo_actor 6 RoleOwner)"
    by (rule demo_acts(4)) (simp_all add: demo_draft_db_def demo_subject_def)
  have "Service_List demo_codec (\<lambda>_ _. False) demo_env (demo_subject 6) (demo_query\<lparr>q_Cursor := None\<rparr>) ?d
      = (Inr (NewPage demo_codec (select_after (\<lambda>k l. l < k) day_key None 2 (visible_claims (\<lambda>_ _. False) 1 no_filter ?d)) 1 claim_cursor), ?d)"
    using Service_List_page [OF demo_runs(1) w _ act, of "demo_query\<lparr>q_Cursor := None\<rparr>" no_filter demo_codec "\<lambda>_ _. False"] nar
    by (simp add: demo_query_def demo_subject_def ClampLimit_def DefaultPageSize_def MaxPageSize_def fk_opt_def no_filter_def)
  then have "fst (Service_List demo_codec (\<lambda>_ _. False) demo_env (demo_subject 6) (demo_query\<lparr>q_Cursor := None\<rparr>) ?d)
      = Inr (NewPage demo_codec (select_after (\<lambda>k l. l < k) day_key None 2 (visible_claims (\<lambda>_ _. False) 1 no_filter ?d)) 1 claim_cursor)"
    by simp
  from list_pages_complete [OF demo_codec_ok demo_runs(2) _ w this] obtain actor f
    where a: "resolves ?d 1 6 actor" "narrowToScope actor no_filter = Inr f"
      "follow 2 demo_codec (fetch_list demo_codec (\<lambda>_ _. False) demo_env (demo_subject 6) demo_query ?d) None
        = visible_claims (\<lambda>_ _. False) 1 f ?d"
    by (auto simp: demo_draft_db_def demo_subject_def demo_query_def numeral_2_eq_2)
  have "actor = demo_actor 6 RoleOwner"
    using a(1) by (auto simp: resolves_def demo_draft_db_def demo_defs demo_actor_def)
  then have "f = no_filter" using a(2) nar by simp
  then show ?thesis using a(3) by (simp add: visible_claims_def demo_draft_db_def demo_claim)
qed

text \<open>Two waiting claims, the first submitted half a second after midnight.\<close>

definition demo_queue_db :: db where
  "demo_queue_db = demo_db\<lparr>expenses :=
     [demo_submitted\<lparr>e_SubmittedAt := Some (7 * day + 500000)\<rparr>, demo_submitted\<lparr>e_ID := 10, e_SubmittedAt := Some (8 * day)\<rparr>]\<rparr>"

lemma demo_queue:
  "queued_claims (read_conn demo_env (demo_subject 6)) None demo_queue_db = expenses demo_queue_db"
  by (simp add: queued_claims_def demo_queue_db_def demo_submitted_eq demo_claim rls_def demo_subject_def narg_def
      queue_key_def day_def)

theorem pending_queue_repeats_witness:
  "\<exists>page cu page'. PendingQueue demo_codec demo_env (demo_subject 6) None 1 demo_queue_db = (Inr page, demo_queue_db) \<and>
    DecodeCursor demo_codec (NextCursor page) = Inr cu \<and>
    PendingQueue demo_codec demo_env (demo_subject 6) (Some cu) 1 demo_queue_db = (Inr page', demo_queue_db) \<and>
    queue_key (hd (Items page')) \<le> queue_key (last (Items page))"
proof -
  let ?page = "NewPage demo_codec (expenses demo_queue_db) 1 pending_cursor"
  have two: "take 2 (expenses demo_queue_db) = expenses demo_queue_db" by (simp add: demo_queue_db_def)
  have act: "acts_as demo_queue_db (demo_subject 6) (read_conn demo_env (demo_subject 6)) (demo_actor 6 RoleOwner)"
    by (rule demo_acts(4)) (simp_all add: demo_queue_db_def demo_subject_def)
  have "Can (demo_actor 6 RoleOwner) PermExpenseApprove" "a_DepartmentID (demo_actor 6 RoleOwner) = None"
    by (simp_all add: Can_def Role_Allows_def demo_actor_def Active_def)
  then have p: "PendingQueue demo_codec demo_env (demo_subject 6) None 1 demo_queue_db = (Inr ?page, demo_queue_db)"
    unfolding PendingQueue_Inr [OF demo_runs(2)] using act two
    by (intro conjI exI [of _ "demo_actor 6 RoleOwner"])
       (simp_all add: demo_queue narg_def ClampLimit_def DefaultPageSize_def MaxPageSize_def demo_conn_simps)
  have items: "HasMore ?page" "last (Items ?page) = demo_submitted\<lparr>e_SubmittedAt := Some (7 * day + 500000)\<rparr>"
    by (simp_all add: NewPage_def demo_queue_db_def)
  show ?thesis
    using pending_queue_repeats [OF demo_codec_ok demo_runs(2) p items(1), of "7 * day + 500000"] p items
    by (auto simp: day_def second_def)
qed

end
