(* ===== verification/Auth.thy ===== *)
theory Auth
  imports Scope Paging "HOL-Library.Countable"
begin

text \<open>
  \<^verbatim>\<open>internal/auth\<close>: passwords, refresh tokens, access tokens and download tokens. bcrypt, SHA-256,
  the JWT library, the random source and UUID text are not part of this repository: they are the
  fields of the records \<open>Crypto\<close> and \<open>Jwt\<close>, and what the code relies on of them is stated in
  \<open>crypto_ok\<close> and \<open>jwt_ok\<close>.
\<close>

section \<open>Passwords and refresh tokens (\<^verbatim>\<open>password.go\<close>)\<close>

record Crypto =
  bcrypt_hash :: "string \<Rightarrow> (err, string) res"
  bcrypt_ok :: "string \<Rightarrow> string \<Rightarrow> bool"
  dummyHash :: string
  sha256 :: "string \<Rightarrow> string"
  rand32 :: "nat \<Rightarrow> (err, string) res"

definition crypto_ok :: "Crypto \<Rightarrow> bool" where
  "crypto_ok c =
    ((\<forall>p h. bcrypt_hash c p = Inr h \<longrightarrow> bcrypt_ok c h p) \<and>
     (\<forall>s. length (sha256 c s) = 32) \<and>
     (\<forall>k raw. rand32 c k = Inr raw \<longrightarrow> length raw = 32))"

definition MinPasswordLength :: nat where
  "MinPasswordLength = 12"

definition MaxPasswordBytes :: nat where
  "MaxPasswordBytes = 72"

definition RefreshTokenBytes :: nat where
  "RefreshTokenBytes = 32"

definition ValidatePassword :: "string \<Rightarrow> (err, unit) res" where
  "ValidatePassword plain =
    (if rune_count plain < MinPasswordLength
     then Inl (Opaque (Fmt ''password must be at least %d characters'' [''12'']))
     else if MaxPasswordBytes < length plain
     then Inl (Opaque (Fmt ''password must be at most %d bytes; bcrypt ignores anything beyond that'' [''72'']))
     else Inr ())"

definition HashPassword :: "Crypto \<Rightarrow> string \<Rightarrow> (err, string) res" where
  "HashPassword c plain = bind_res (ValidatePassword plain) (\<lambda>_. bcrypt_hash c plain)"

definition ComparePassword :: "Crypto \<Rightarrow> string option \<Rightarrow> string \<Rightarrow> (err, unit) res" where
  "ComparePassword c hash plain =
    (let stored = (case hash of None \<Rightarrow> dummyHash c | Some h \<Rightarrow> h) in
     if \<not> bcrypt_ok c stored plain then Inl (Sentinel ErrPasswordMismatch)
     else if hash = None then Inl (Sentinel ErrPasswordMismatch)
     else Inr ())"

text \<open>The \<open>k\<close>-th draw of the random source.\<close>

definition NewRefreshToken :: "Crypto \<Rightarrow> nat \<Rightarrow> (err, string \<times> string) res" where
  "NewRefreshToken c k = bind_res (rand32 c k) (\<lambda>raw. Inr (b64_encode RawURLEncoding raw, sha256 c raw))"

definition HashRefreshToken :: "Crypto \<Rightarrow> string \<Rightarrow> (err, string) res" where
  "HashRefreshToken c token =
    (case b64_decode RawURLEncoding token of
       None \<Rightarrow> Inl (Wrap ErrTokenInvalid (Text ''refresh token is malformed''))
     | Some raw \<Rightarrow>
         if length raw \<noteq> RefreshTokenBytes
         then Inl (Wrap ErrTokenInvalid (Text ''refresh token has the wrong length''))
         else Inr (sha256 c raw))"

lemma HashRefreshToken_New:
  "crypto_ok c \<Longrightarrow> NewRefreshToken c k = Inr (token, digest) \<Longrightarrow> HashRefreshToken c token = Inr digest"
  by (auto simp: crypto_ok_def NewRefreshToken_def HashRefreshToken_def RefreshTokenBytes_def bind_res_Inr)

lemma ComparePassword_Inr [go_result]: "ComparePassword c hash plain = Inr u \<longleftrightarrow> (\<exists>h. hash = Some h \<and> bcrypt_ok c h plain)"
  by (cases hash) (auto simp: ComparePassword_def)

section \<open>Access tokens (\<^verbatim>\<open>token.go\<close>)\<close>

record Claims =
  cl_Subject :: string
  cl_Issuer :: string
  cl_Audience :: "string list"
  cl_IssuedAt :: time
  cl_NotBefore :: time
  cl_ExpiresAt :: time
  cl_ID :: string
  cl_TenantID :: string
  cl_Email :: string
  cl_Query :: string

datatype jwt_failure = JwtExpired | JwtOther string

text \<open>
  The JWT library with HS256: signing claims, and parsing a token with a secret, an expected issuer and
  audience and the current time.
\<close>

record Jwt =
  jwt_sign :: "string \<Rightarrow> Claims \<Rightarrow> (err, string) res"
  jwt_parse :: "string \<Rightarrow> string \<Rightarrow> string \<Rightarrow> time \<Rightarrow> string \<Rightarrow> (jwt_failure, Claims) res"
  jwt_uuid :: "uuid \<Rightarrow> string"
  jwt_uuid_parse :: "string \<Rightarrow> uuid option"

definition jwt_ok :: "Jwt \<Rightarrow> bool" where
  "jwt_ok j =
    ((\<forall>u. jwt_uuid_parse j (jwt_uuid j u) = Some u) \<and>
     (\<forall>s c tok i a now. jwt_sign j s c = Inr tok \<longrightarrow>
        cl_Issuer c = i \<longrightarrow> a \<in> set (cl_Audience c) \<longrightarrow> cl_IssuedAt c \<le> now \<longrightarrow> cl_NotBefore c \<le> now \<longrightarrow>
        jwt_parse j s i a now tok = (if now < cl_ExpiresAt c then Inr c else Inl JwtExpired)) \<and>
     (\<forall>s c tok i a now c'. jwt_sign j s c = Inr tok \<longrightarrow> jwt_parse j s i a now tok = Inr c' \<longrightarrow>
        c' = c \<and> cl_Issuer c = i \<and> a \<in> set (cl_Audience c)))"

record TokenConfig =
  tk_Secret :: string
  tk_Issuer :: string
  tk_Audience :: string
  tk_TTL :: duration

definition MinSecretBytes :: nat where
  "MinSecretBytes = 32"

definition NewTokenService :: "TokenConfig \<Rightarrow> (err, TokenConfig) res" where
  "NewTokenService cfg =
    (if length (tk_Secret cfg) < MinSecretBytes
     then Inl (Opaque (Fmt ''jwt secret must be at least %d bytes, got %d'' [''32'', digits (length (tk_Secret cfg))]))
     else if tk_Issuer cfg = [] \<or> tk_Audience cfg = []
     then Inl (Opaque (Text ''jwt issuer and audience are required''))
     else if tk_TTL cfg \<le> 0 then Inl (Opaque (Text ''jwt ttl must be positive''))
     else Inr cfg)"

text \<open>\<^verbatim>\<open>jwt.NewNumericDate\<close> keeps whole seconds.\<close>

definition Token_Issue :: "Jwt \<Rightarrow> TokenConfig \<Rightarrow> uuid \<Rightarrow> time \<Rightarrow> uuid \<Rightarrow> uuid \<Rightarrow> string \<Rightarrow> (err, string \<times> time) res" where
  "Token_Issue j s tokenID now userID tenantID email =
    (if userID = nil_uuid \<or> tenantID = nil_uuid
     then Inl (Opaque (Text ''cannot issue a token without both a user and a tenant''))
     else
       let expiresAt = now + tk_TTL s;
           claims = \<lparr>cl_Subject = jwt_uuid j userID, cl_Issuer = tk_Issuer s, cl_Audience = [tk_Audience s],
             cl_IssuedAt = truncate_to second now, cl_NotBefore = truncate_to second now,
             cl_ExpiresAt = truncate_to second expiresAt, cl_ID = jwt_uuid j tokenID,
             cl_TenantID = jwt_uuid j tenantID, cl_Email = email, cl_Query = []\<rparr>
       in bind_res (jwt_sign j (tk_Secret s) claims) (\<lambda>signed. Inr (signed, expiresAt)))"

definition parse_ids :: "Jwt \<Rightarrow> Claims \<Rightarrow> (err, uuid \<times> uuid) res" where
  "parse_ids j claims =
    (case jwt_uuid_parse j (cl_Subject claims) of
       None \<Rightarrow> Inl (Wrap ErrTokenInvalid (Text ''subject is not a uuid''))
     | Some userID \<Rightarrow>
         if userID = nil_uuid then Inl (Wrap ErrTokenInvalid (Text ''subject is not a uuid''))
         else (case jwt_uuid_parse j (cl_TenantID claims) of
             None \<Rightarrow> Inl (Wrap ErrTokenInvalid (Text ''tenant claim is missing or malformed''))
           | Some tenantID \<Rightarrow>
               if tenantID = nil_uuid then Inl (Wrap ErrTokenInvalid (Text ''tenant claim is missing or malformed''))
               else Inr (userID, tenantID)))"

definition jwt_error :: "jwt_failure \<Rightarrow> err" where
  "jwt_error f = (case f of JwtExpired \<Rightarrow> Sentinel ErrTokenExpired | JwtOther m \<Rightarrow> Wrap ErrTokenInvalid (Text m))"

definition Token_Parse :: "Jwt \<Rightarrow> TokenConfig \<Rightarrow> time \<Rightarrow> string \<Rightarrow> (err, Subject) res" where
  "Token_Parse j s now token =
    (case jwt_parse j (tk_Secret s) (tk_Issuer s) (tk_Audience s) now token of
       Inl f \<Rightarrow> Inl (jwt_error f)
     | Inr claims \<Rightarrow>
         bind_res (parse_ids j claims) (\<lambda>(userID, tenantID).
         Inr \<lparr>sub_UserID = userID, sub_TenantID = tenantID, sub_Email = cl_Email claims, sub_TokenID = cl_ID claims\<rparr>))"

section \<open>Download tokens (\<^verbatim>\<open>download.go\<close>)\<close>

definition DownloadTokenAudience :: string where
  "DownloadTokenAudience = ''b2b-expense-tracker-download''"

definition DownloadTokenTTL :: duration where
  "DownloadTokenTTL = 60 * second"

definition NewDownloadTokens :: "string \<Rightarrow> string \<Rightarrow> (err, string \<times> string) res" where
  "NewDownloadTokens secret issuer =
    (if length secret < MinSecretBytes
     then Inl (Opaque (Fmt ''download token secret must be at least %d bytes'' [''32'']))
     else if issuer = [] then Inl (Opaque (Text ''download token issuer is required''))
     else Inr (secret, issuer))"

definition Download_Issue :: "Jwt \<Rightarrow> string \<Rightarrow> string \<Rightarrow> uuid \<Rightarrow> time \<Rightarrow> Subject \<Rightarrow> string \<Rightarrow> (err, string \<times> time) res" where
  "Download_Issue j secret issuer tokenID now subject qry =
    (if sub_UserID subject = nil_uuid \<or> sub_TenantID subject = nil_uuid
     then Inl (Opaque (Text ''cannot mint a download token without a user and a tenant''))
     else
       let expiresAt = now + DownloadTokenTTL;
           claims = \<lparr>cl_Subject = jwt_uuid j (sub_UserID subject), cl_Issuer = issuer,
             cl_Audience = [DownloadTokenAudience],
             cl_IssuedAt = truncate_to second now, cl_NotBefore = truncate_to second now,
             cl_ExpiresAt = truncate_to second expiresAt, cl_ID = jwt_uuid j tokenID,
             cl_TenantID = jwt_uuid j (sub_TenantID subject), cl_Email = [], cl_Query = qry\<rparr>
       in bind_res (jwt_sign j secret claims) (\<lambda>signed. Inr (signed, expiresAt)))"

definition Download_Parse :: "Jwt \<Rightarrow> string \<Rightarrow> string \<Rightarrow> time \<Rightarrow> string \<Rightarrow> string \<Rightarrow> (err, Subject) res" where
  "Download_Parse j secret issuer now token qry =
    (case jwt_parse j secret issuer DownloadTokenAudience now token of
       Inl f \<Rightarrow> Inl (jwt_error f)
     | Inr claims \<Rightarrow>
         bind_res (parse_ids j claims) (\<lambda>(userID, tenantID).
         if cl_Query claims \<noteq> qry
         then Inl (Wrap ErrTokenInvalid (Text ''this token was issued for a different report''))
         else Inr \<lparr>sub_UserID = userID, sub_TenantID = tenantID, sub_Email = [], sub_TokenID = []\<rparr>))"

section \<open>Tokens come back as they were issued\<close>

lemma parse_ids_issued:
  assumes "jwt_ok j" "u \<noteq> nil_uuid" "t \<noteq> nil_uuid" "cl_Subject c = jwt_uuid j u" "cl_TenantID c = jwt_uuid j t"
  shows "parse_ids j c = Inr (u, t)"
  using assms by (simp add: jwt_ok_def parse_ids_def)

lemma truncate_second_le: "truncate_to second t \<le> t"
  by (rule truncate_to_le) (simp add: second_def)

lemma jwt_parse_signed:
  assumes "jwt_ok j" "jwt_sign j s c = Inr tok" "cl_Issuer c = i" "a \<in> set (cl_Audience c)"
    "cl_IssuedAt c \<le> now" "cl_NotBefore c \<le> now"
  shows "jwt_parse j s i a now tok = (if now < cl_ExpiresAt c then Inr c else Inl JwtExpired)"
  using assms unfolding jwt_ok_def by blast

lemma jwt_parse_accepts:
  assumes "jwt_ok j" "jwt_sign j s c = Inr tok" "jwt_parse j s i a now tok = Inr c'"
  shows "c' = c \<and> cl_Issuer c = i \<and> a \<in> set (cl_Audience c)"
  using assms unfolding jwt_ok_def by blast

text \<open>
  An access token says what it was issued for and no longer than it should: presented at or
  after its issue it resolves to the user and the organisation it was issued to, until the (whole)
  second of its expiry, and from then on it is refused as expired.
\<close>

theorem access_token_roundtrip:
  assumes "jwt_ok j" and "Token_Issue j s k now u t email = Inr (tok, expiry)" and "now \<le> later"
  shows "Token_Parse j s later tok =
    (if later < truncate_to second (now + tk_TTL s)
     then Inr \<lparr>sub_UserID = u, sub_TenantID = t, sub_Email = email, sub_TokenID = jwt_uuid j k\<rparr>
     else Inl (Sentinel ErrTokenExpired))"
proof -
  from assms(2) obtain c where c: "jwt_sign j (tk_Secret s) c = Inr tok" "cl_Issuer c = tk_Issuer s"
      "tk_Audience s \<in> set (cl_Audience c)" "cl_IssuedAt c = truncate_to second now" "cl_NotBefore c = truncate_to second now"
      "cl_ExpiresAt c = truncate_to second (now + tk_TTL s)" "cl_Subject c = jwt_uuid j u" "cl_TenantID c = jwt_uuid j t"
      "cl_Email c = email" "cl_ID c = jwt_uuid j k" and ids: "u \<noteq> nil_uuid" "t \<noteq> nil_uuid"
    by (auto simp: Token_Issue_def Let_def bind_res_Inr split: if_splits)
  have "jwt_parse j (tk_Secret s) (tk_Issuer s) (tk_Audience s) later tok = (if later < cl_ExpiresAt c then Inr c else Inl JwtExpired)"
    using c assms(3) truncate_second_le [of now] by (intro jwt_parse_signed [OF assms(1)]) auto
  then show ?thesis
    using c parse_ids_issued [OF assms(1) ids c(7,8)] by (simp add: Token_Parse_def jwt_error_def)
qed

text \<open>
  A download token opens the report it was minted for, for less than a minute, and nothing
  else: with another query, or presented as an access token to a service with the same secret and
  another audience, it is refused.
\<close>

theorem download_token_bound_to_query:
  assumes "jwt_ok j" and "Download_Issue j secret issuer k now subject qry = Inr (tok, expiry)" and "now \<le> later"
    and "tk_Secret s = secret" "tk_Audience s \<noteq> DownloadTokenAudience"
  shows "Download_Parse j secret issuer later tok qry' =
      (if truncate_to second (now + DownloadTokenTTL) \<le> later then Inl (Sentinel ErrTokenExpired)
       else if qry' \<noteq> qry then Inl (Wrap ErrTokenInvalid (Text ''this token was issued for a different report''))
       else Inr (subject\<lparr>sub_Email := [], sub_TokenID := []\<rparr>)) \<and>
    (\<exists>e. Token_Parse j s later tok = Inl e)"
proof -
  from assms(2) obtain c where c: "jwt_sign j secret c = Inr tok" "cl_Issuer c = issuer"
      "cl_Audience c = [DownloadTokenAudience]" "cl_IssuedAt c = truncate_to second now" "cl_NotBefore c = truncate_to second now"
      "cl_ExpiresAt c = truncate_to second (now + DownloadTokenTTL)" "cl_Subject c = jwt_uuid j (sub_UserID subject)"
      "cl_TenantID c = jwt_uuid j (sub_TenantID subject)" "cl_Query c = qry"
    and ids: "sub_UserID subject \<noteq> nil_uuid" "sub_TenantID subject \<noteq> nil_uuid"
    by (auto simp: Download_Issue_def Let_def bind_res_Inr split: if_splits)
  have parse: "jwt_parse j secret issuer DownloadTokenAudience later tok = (if later < cl_ExpiresAt c then Inr c else Inl JwtExpired)"
    using c assms(3) truncate_second_le [of now] by (intro jwt_parse_signed [OF assms(1)]) auto
  have "jwt_parse j secret (tk_Issuer s) (tk_Audience s) later tok \<noteq> Inr c'" for c'
    using jwt_parse_accepts [OF assms(1) c(1)] c(3) assms(5) by fastforce
  then have "\<exists>e. Token_Parse j s later tok = Inl e"
    using assms(4) by (cases "jwt_parse j secret (tk_Issuer s) (tk_Audience s) later tok") (auto simp: Token_Parse_def)
  then show ?thesis
    using c parse parse_ids_issued [OF assms(1) ids c(7,8)] by (auto simp: Download_Parse_def jwt_error_def)
qed

text \<open>
  A library with these properties: a token is the number of the secret and the claims in some
  enumeration, written in unary.
\<close>

type_synonym claims_tuple =
  "string \<times> string \<times> string \<times> string list \<times> time \<times> time \<times> time \<times> string \<times> string \<times> string \<times> string"

definition claims_code :: "string \<Rightarrow> Claims \<Rightarrow> string" where
  "claims_code s c = replicate (to_nat ((s, cl_Subject c, cl_Issuer c, cl_Audience c, cl_IssuedAt c, cl_NotBefore c,
     cl_ExpiresAt c, cl_ID c, cl_TenantID c, cl_Email c, cl_Query c) :: claims_tuple)) CHR ''1''"

definition claims_decode :: "string \<Rightarrow> string \<times> Claims" where
  "claims_decode tok =
    (case from_nat (length tok) :: claims_tuple of (s, sub, iss, aud, iat, nbf, ex, i, tid, email, qry) \<Rightarrow>
      (s, \<lparr>cl_Subject = sub, cl_Issuer = iss, cl_Audience = aud, cl_IssuedAt = iat, cl_NotBefore = nbf, cl_ExpiresAt = ex,
           cl_ID = i, cl_TenantID = tid, cl_Email = email, cl_Query = qry\<rparr>))"

lemma claims_decode_code [simp]: "claims_decode (claims_code s c) = (s, c)"
  by (simp add: claims_decode_def claims_code_def)

definition demo_jwt :: Jwt where
  "demo_jwt = \<lparr>jwt_sign = (\<lambda>s c. Inr (claims_code s c)),
     jwt_parse = (\<lambda>s i a now tok. case claims_decode tok of (s', c) \<Rightarrow>
       if s' \<noteq> s \<or> cl_Issuer c \<noteq> i \<or> a \<notin> set (cl_Audience c) \<or> now < cl_IssuedAt c \<or> now < cl_NotBefore c
       then Inl (JwtOther ''invalid'')
       else if now < cl_ExpiresAt c then Inr c else Inl JwtExpired),
     jwt_uuid = (\<lambda>u. unary (uint u)), jwt_uuid_parse = (\<lambda>s. Some (word_of_int (unary_parse s)))\<rparr>"

lemma demo_jwt_ok: "jwt_ok demo_jwt"
  by (auto simp: jwt_ok_def demo_jwt_def split: if_splits)

definition demo_tokens :: TokenConfig where
  "demo_tokens = \<lparr>tk_Secret = replicate 32 CHR ''k'', tk_Issuer = ''tracker'', tk_Audience = ''api'', tk_TTL = 900 * second\<rparr>"

theorem access_token_roundtrip_witness:
  "\<exists>tok expiry. Token_Issue demo_jwt demo_tokens 9 0 3 1 ''s@acme.test'' = Inr (tok, expiry) \<and>
    Token_Parse demo_jwt demo_tokens (60 * second) tok =
      Inr \<lparr>sub_UserID = 3, sub_TenantID = 1, sub_Email = ''s@acme.test'', sub_TokenID = jwt_uuid demo_jwt 9\<rparr>"
proof -
  obtain tok expiry where i: "Token_Issue demo_jwt demo_tokens 9 0 3 1 ''s@acme.test'' = Inr (tok, expiry)"
    by (simp add: Token_Issue_def demo_jwt_def Let_def)
  with access_token_roundtrip [OF demo_jwt_ok i, of "60 * second"] show ?thesis
    by (simp add: demo_tokens_def second_def truncate_to_def)
qed

theorem download_token_bound_to_query_witness:
  "\<exists>tok expiry. Download_Issue demo_jwt (tk_Secret demo_tokens) ''tracker'' 9 0
      \<lparr>sub_UserID = 3, sub_TenantID = 1, sub_Email = [], sub_TokenID = []\<rparr> ''from=2025-03'' = Inr (tok, expiry) \<and>
    Download_Parse demo_jwt (tk_Secret demo_tokens) ''tracker'' second tok ''from=2020-01''
      = Inl (Wrap ErrTokenInvalid (Text ''this token was issued for a different report'')) \<and>
    (\<exists>e. Token_Parse demo_jwt demo_tokens second tok = Inl e)"
proof -
  let ?sub = "\<lparr>sub_UserID = 3, sub_TenantID = 1, sub_Email = [], sub_TokenID = []\<rparr>"
  obtain tok expiry where i: "Download_Issue demo_jwt (tk_Secret demo_tokens) ''tracker'' 9 0 ?sub ''from=2025-03'' = Inr (tok, expiry)"
    by (simp add: Download_Issue_def demo_jwt_def Let_def)
  have "tk_Audience demo_tokens \<noteq> DownloadTokenAudience" by (simp add: demo_tokens_def DownloadTokenAudience_def)
  from download_token_bound_to_query [OF demo_jwt_ok i _ refl this, of second "''from=2020-01''"] i show ?thesis
    by (simp add: second_def truncate_to_def DownloadTokenTTL_def)
qed

end
