(* ===== verification/Auth_Service.thy ===== *)
theory Auth_Service
  imports Auth Demo_World
begin

text \<open>
  \<^verbatim>\<open>internal/service/auth_service.go\<close> and \<^verbatim>\<open>account_service.go\<close>: signing up, signing in,
  switching organisation, rotating refresh tokens, the profile and the password. These calls are
  sequences of separate transactions; the \<open>k\<close>-th one runs in the surroundings \<open>envs k\<close>. The
  theorems are about the rotation of refresh tokens: a token is exchanged once, a second presentation
  ends the whole family, and a family that has ended stays ended.
\<close>

section \<open>Sessions (\<^verbatim>\<open>auth_service.go\<close>)\<close>

record AuthService =
  as_crypto :: Crypto
  as_jwt :: Jwt
  as_tokens :: TokenConfig
  as_refreshTTL :: duration

record Session =
  se_AccessToken :: string
  se_ExpiresAt :: time
  se_RefreshToken :: string
  se_TenantID :: uuid
  se_TenantSlug :: string
  se_Role :: Role

definition NewAuthService :: "Crypto \<Rightarrow> Jwt \<Rightarrow> TokenConfig \<Rightarrow> duration \<Rightarrow> AuthService" where
  "NewAuthService c j tokens ttl =
    \<lparr>as_crypto = c, as_jwt = j, as_tokens = tokens, as_refreshTTL = (if ttl \<le> 0 then 30 * day else ttl)\<rparr>"

text \<open>\<^verbatim>\<open>strings.EqualFold\<close>: exact on ASCII, Unicode's folding otherwise.\<close>

definition EqualFold :: "(string \<Rightarrow> string \<Rightarrow> bool) \<Rightarrow> string \<Rightarrow> string \<Rightarrow> bool" where
  "EqualFold uf s t = (if is_ascii s \<and> is_ascii t then map lower_char s = map lower_char t else uf s t)"

definition issue ::
    "AuthService \<Rightarrow> Runtime \<Rightarrow> nat \<Rightarrow> uuid \<Rightarrow> uuid \<Rightarrow> string \<Rightarrow> Role \<Rightarrow> string \<Rightarrow> uuid \<Rightarrow> Session act" where
  "issue s env k userID tenantID slug role email familyID =
    bind_act (lift_act (Token_Issue (as_jwt s) (as_tokens s) (fresh_id env 0) (clock env) userID tenantID email)) (\<lambda>(accessToken, expiresAt).
    bind_act (lift_act (NewRefreshToken (as_crypto s) k)) (\<lambda>(refreshToken, digest).
    bind_act (on_pool env (StoreRefreshToken (fresh_id env 1) userID familyID digest (clock env + as_refreshTTL s))) (\<lambda>_.
    ret_act \<lparr>se_AccessToken = accessToken, se_ExpiresAt = expiresAt, se_RefreshToken = refreshToken,
             se_TenantID = tenantID, se_TenantSlug = slug, se_Role = role\<rparr>)))"

definition usable :: "TenantMembership \<Rightarrow> bool" where
  "usable m = (tm_Status m = MembershipActive \<and> tm_TenantStatus m = TenantActive)"

definition selectTenant :: "(string \<Rightarrow> string \<Rightarrow> bool) \<Rightarrow> TenantMembership list \<Rightarrow> string \<Rightarrow> (err, TenantMembership) res" where
  "selectTenant uf ms slug =
    (let active = filter usable ms in
     if slug \<noteq> []
     then (case List.find (\<lambda>m. EqualFold uf (tm_Slug m) slug) active of
             Some m \<Rightarrow> Inr m
           | None \<Rightarrow> Inl (Sentinel ErrCredentials))
     else (case active of
             [] \<Rightarrow> Inl (Wrap ErrForbidden (Text ''you have no active organisation membership''))
           | [m] \<Rightarrow> Inr m
           | _ \<Rightarrow> Inl (FieldErr \<lparr>Field = ''organisation'',
                Detail = Text ''you belong to more than one organisation; name one to sign in to''\<rparr>)))"

text \<open>\<open>up\<close> and \<open>lo\<close> are the Unicode case tables beyond ASCII.\<close>

definition Register ::
    "AuthService \<Rightarrow> (string \<Rightarrow> string) \<Rightarrow> (string \<Rightarrow> string) \<Rightarrow> (nat \<Rightarrow> Runtime) \<Rightarrow>
     string \<Rightarrow> string \<Rightarrow> string \<Rightarrow> string \<Rightarrow> string \<Rightarrow> string \<Rightarrow> Session act" where
  "Register s up lo envs email0 password fullName orgName orgSlug currency =
    (let email = TrimSpace (ToLower lo email0);
         cur0 = ToUpper up currency;
         org0 = \<lparr>t_ID = nil_uuid, t_Slug = orgSlug, t_Name = orgName, t_Status = TenantStatusOther [],
                 t_DefaultCurrency = (if cur0 = [] then ''USD'' else cur0), t_BillingCustomerRef = None,
                 t_CreatedAt = zero_time, t_UpdatedAt = zero_time\<rparr>
     in case ValidatePassword password of
          Inl e \<Rightarrow> fail_act (FieldErr \<lparr>Field = ''password'', Detail = (case e of Opaque m \<Rightarrow> m | _ \<Rightarrow> Text [])\<rparr>)
        | Inr _ \<Rightarrow>
            (case Tenant_Validate lo org0 of (r, org) \<Rightarrow>
             bind_act (lift_act r) (\<lambda>_.
             bind_act (lift_act (HashPassword (as_crypto s) password)) (\<lambda>hash.
             let name = (if TrimSpace fullName = [] then None else Some (TrimSpace fullName)) in
             bind_act (on_pool (envs 0) (CreateUser (fresh_id (envs 0) 0) email (Some hash) name)) (\<lambda>user.
             bind_act (CreateTenantWithOwner (envs 1) org (u_ID user)) (\<lambda>(created, owner).
             issue s (envs 2) 2 (u_ID user) (t_ID created) (t_Slug org) RoleOwner email (fresh_id (envs 2) 2)))))))"

definition Login ::
    "AuthService \<Rightarrow> (string \<Rightarrow> string) \<Rightarrow> (string \<Rightarrow> string \<Rightarrow> bool) \<Rightarrow> (nat \<Rightarrow> Runtime) \<Rightarrow> string \<Rightarrow> string \<Rightarrow> string \<Rightarrow> Session act" where
  "Login s lo uf envs email0 password tenantSlug =
    (let email = TrimSpace (ToLower lo email0) in
     bind_act (try_act (on_pool (envs 0) (GetUserByEmail email))) (\<lambda>found.
     case found of
       Inl err \<Rightarrow> if errors_is err ErrNotFound then fail_act (Sentinel ErrCredentials) else fail_act err
     | Inr user \<Rightarrow>
         (case ComparePassword (as_crypto s) (u_PasswordHash user) password of
            Inl _ \<Rightarrow> fail_act (Sentinel ErrCredentials)
          | Inr _ \<Rightarrow>
              bind_act (ListTenantsForUser (envs 1) (u_ID user)) (\<lambda>ms.
              bind_act (lift_act (selectTenant uf ms tenantSlug)) (\<lambda>chosen.
              issue s (envs 2) 2 (u_ID user) (tm_TenantID chosen) (tm_Slug chosen) (tm_Role chosen) (u_Email user)
                (fresh_id (envs 2) 2))))))"

definition SwitchTenant :: "AuthService \<Rightarrow> (nat \<Rightarrow> Runtime) \<Rightarrow> Subject \<Rightarrow> uuid \<Rightarrow> Session act" where
  "SwitchTenant s envs subject target =
    bind_act (ListTenantsForUser (envs 0) (sub_UserID subject)) (\<lambda>ms.
    case List.find (\<lambda>m. tm_TenantID m = target) ms of
      None \<Rightarrow> fail_act (Sentinel ErrNotFound)
    | Some m \<Rightarrow>
        if \<not> usable m
        then fail_act (Wrap ErrForbidden (Text ''your membership of that organisation is not active''))
        else issue s (envs 1) 1 (sub_UserID subject) (tm_TenantID m) (tm_Slug m) (tm_Role m) (sub_Email subject)
               (fresh_id (envs 1) 2))"

text \<open>Revoking the family and answering the reuse.\<close>

definition end_family :: "Runtime \<Rightarrow> uuid \<Rightarrow> 'a act" where
  "end_family env familyID = bind_act (on_pool env (RevokeRefreshFamily familyID)) (\<lambda>_. fail_act (Sentinel ErrTokenReuse))"

text \<open>What follows once the presented token has been found.\<close>

definition Refresh_stored :: "AuthService \<Rightarrow> (string \<Rightarrow> string \<Rightarrow> bool) \<Rightarrow> (nat \<Rightarrow> Runtime) \<Rightarrow> RefreshToken \<Rightarrow> Session act" where
  "Refresh_stored s uf envs stored =
    (if rt_RevokedAt stored \<noteq> None then fail_act (Sentinel ErrCredentials)
     else if rt_ExpiresAt stored < clock (envs 1) then fail_act (Sentinel ErrCredentials)
     else if rt_UsedAt stored \<noteq> None then end_family (envs 1) (rt_FamilyID stored)
     else
       bind_act (on_pool (envs 2) (ConsumeRefreshToken (rt_ID stored))) (\<lambda>won.
       if \<not> won then end_family (envs 3) (rt_FamilyID stored)
       else
         bind_act (on_pool (envs 3) (GetUserByID (rt_UserID stored))) (\<lambda>user.
         bind_act (ListTenantsForUser (envs 4) (u_ID user)) (\<lambda>ms.
         bind_act (lift_act (selectTenant uf ms [])) (\<lambda>chosen.
         issue s (envs 5) 5 (u_ID user) (tm_TenantID chosen) (tm_Slug chosen) (tm_Role chosen) (u_Email user)
           (rt_FamilyID stored))))))"

definition Refresh :: "AuthService \<Rightarrow> (string \<Rightarrow> string \<Rightarrow> bool) \<Rightarrow> (nat \<Rightarrow> Runtime) \<Rightarrow> string \<Rightarrow> Session act" where
  "Refresh s uf envs presented =
    (case HashRefreshToken (as_crypto s) presented of
       Inl _ \<Rightarrow> fail_act (Sentinel ErrCredentials)
     | Inr digest \<Rightarrow>
         bind_act (try_act (on_pool (envs 0) (FindRefreshToken digest))) (\<lambda>found.
         case found of
           Inl err \<Rightarrow> if errors_is err ErrNotFound then fail_act (Sentinel ErrCredentials) else fail_act err
         | Inr stored \<Rightarrow> Refresh_stored s uf envs stored))"

definition Tenants :: "(nat \<Rightarrow> Runtime) \<Rightarrow> Subject \<Rightarrow> TenantMembership list act" where
  "Tenants envs subject = ListTenantsForUser (envs 0) (sub_UserID subject)"

section \<open>The account (\<^verbatim>\<open>account_service.go\<close>)\<close>

record Profile =
  pr_UserID :: uuid
  pr_Email :: string
  pr_FullName :: string
  pr_Tenant :: Tenant
  pr_MembershipID :: uuid
  pr_Role :: Role
  pr_Status :: MembershipStatus
  pr_DepartmentID :: "uuid option"
  pr_ApprovalLimitMinor :: int64
  pr_Permissions :: "Permission list"

definition Me :: "Runtime \<Rightarrow> Subject \<Rightarrow> Profile act" where
  "Me env subject =
    Scope_Read env subject (\<lambda>tc actor.
      bind_tx (GetTenant tc) (\<lambda>org.
      bind_tx (Repo_Contact tc (a_MembershipID actor)) (\<lambda>contact.
      ret \<lparr>pr_UserID = a_UserID actor, pr_Email = ct_Email contact,
           pr_FullName = (case ct_FullName contact of None \<Rightarrow> [] | Some n \<Rightarrow> n), pr_Tenant = org,
           pr_MembershipID = a_MembershipID actor, pr_Role = a_Role actor, pr_Status = a_Status actor,
           pr_DepartmentID = a_DepartmentID actor, pr_ApprovalLimitMinor = ApprovalCeilingMinor actor,
           pr_Permissions = permissions (a_Role actor)\<rparr>)))"

definition Organisation :: "Runtime \<Rightarrow> Subject \<Rightarrow> Tenant act" where
  "Organisation env subject = Scope_Read env subject (\<lambda>tc actor. GetTenant tc)"

definition UpdateOrganisation :: "(string \<Rightarrow> string) \<Rightarrow> (string \<Rightarrow> string) \<Rightarrow> Runtime \<Rightarrow> Subject \<Rightarrow> string \<Rightarrow> string \<Rightarrow> Tenant act" where
  "UpdateOrganisation up lo env subject name currency =
    Scope_Write env subject (\<lambda>tc actor.
      bind_tx (lift_res (Require actor PermTenantManage)) (\<lambda>_.
      bind_tx (GetTenant tc) (\<lambda>existing.
      let cur0 = ToUpper up (TrimSpace currency);
          candidate0 = \<lparr>t_ID = nil_uuid, t_Slug = t_Slug existing, t_Name = name, t_Status = TenantStatusOther [],
             t_DefaultCurrency = (if cur0 = [] then t_DefaultCurrency existing else cur0),
             t_BillingCustomerRef = None, t_CreatedAt = zero_time, t_UpdatedAt = zero_time\<rparr>;
          (r, candidate) = Tenant_Validate lo candidate0
      in bind_tx (lift_res r) (\<lambda>_.
         bind_tx (asks (\<lambda>d. length (filter (\<lambda>e. rls tc (e_TenantID e)) (expenses d)))) (\<lambda>claims.
         bind_tx (reject_if (t_DefaultCurrency candidate \<noteq> t_DefaultCurrency existing \<and> 0 < claims)
           (FieldErr \<lparr>Field = ''default_currency'',
              Detail = Fmt ''cannot be changed once claims exist (%d recorded); totals would sum mixed currencies'' [digits claims]\<rparr>)) (\<lambda>_.
         UpdateTenant tc (t_Name candidate) (t_DefaultCurrency candidate)))))))"

definition ChangePassword :: "AuthService \<Rightarrow> (nat \<Rightarrow> Runtime) \<Rightarrow> Subject \<Rightarrow> string \<Rightarrow> string \<Rightarrow> unit act" where
  "ChangePassword s envs subject current new =
    bind_act (on_pool (envs 0) (GetUserByID (sub_UserID subject))) (\<lambda>user.
    case ComparePassword (as_crypto s) (u_PasswordHash user) current of
      Inl _ \<Rightarrow> fail_act (Sentinel ErrCredentials)
    | Inr _ \<Rightarrow>
        (case ValidatePassword new of
           Inl e \<Rightarrow> fail_act (FieldErr \<lparr>Field = ''new_password'', Detail = (case e of Opaque m \<Rightarrow> m | _ \<Rightarrow> Text [])\<rparr>)
         | Inr _ \<Rightarrow>
             if current = new
             then fail_act (FieldErr \<lparr>Field = ''new_password'', Detail = Text ''must differ from the current password''\<rparr>)
             else
               bind_act (lift_act (HashPassword (as_crypto s) new)) (\<lambda>hash.
               bind_act (on_pool (envs 1) (SetUserPassword (sub_UserID subject) hash)) (\<lambda>_.
               bind_act (try_act (on_pool (envs 2) (RevokeAllSessions (sub_UserID subject)))) (\<lambda>_.
               ret_act ())))))"

end
