(* ===== verification/Auth_Service_Props.thy ===== *)
theory Auth_Service_Props
  imports Auth_Service
begin

text \<open>
  The rotation of refresh tokens, and for whom sessions are issued.
\<close>

section \<open>The statements on refresh tokens\<close>

lemma pool_conn_simps [simp]: "\<not> tc_readOnly (pool_conn env)" "tc_now (pool_conn env) = db_clock env" "\<not> tc_system (pool_conn env)"
  "tc_lower (pool_conn env) = collation_lower env"
  by (simp_all add: pool_conn_def)

lemma FindRefreshToken_Inr:
  "FindRefreshToken digest tc d = Inr (r, d') \<Longrightarrow> d' = d \<and> r \<in> set (refresh_tokens d) \<and> rt_TokenHash r = digest"
  by (auto simp: FindRefreshToken_def Q_GetRefreshTokenByHash_def go_result dest!: filter_ConsD)

definition consumable :: "uuid \<Rightarrow> RefreshToken \<Rightarrow> bool" where
  "consumable i r = (rt_ID r = i \<and> rt_UsedAt r = None \<and> rt_RevokedAt r = None)"

lemma ConsumeRefreshToken_Inr:
  "ConsumeRefreshToken i tc d = Inr (won, d') \<longleftrightarrow>
    \<not> tc_readOnly tc \<and> won = (length (filter (consumable i) (refresh_tokens d)) = 1) \<and>
    d' = d\<lparr>refresh_tokens := update_rows (consumable i) (\<lambda>r. r\<lparr>rt_UsedAt := Some (tc_now tc)\<rparr>) (refresh_tokens d)\<rparr>"
  by (auto simp: ConsumeRefreshToken_def Q_MarkRefreshTokenUsed_def go_result Let_def consumable_def [abs_def])

lemma RevokeRefreshFamily_Inr:
  "RevokeRefreshFamily fam tc d = Inr (u, d') \<longleftrightarrow>
    \<not> tc_readOnly tc \<and> d' = d\<lparr>refresh_tokens := update_rows (\<lambda>r. rt_FamilyID r = fam \<and> rt_RevokedAt r = None)
      (\<lambda>r. r\<lparr>rt_RevokedAt := Some (tc_now tc)\<rparr>) (refresh_tokens d)\<rparr>"
  by (auto simp: RevokeRefreshFamily_def Q_RevokeRefreshTokenFamily_def revoke_where_def go_result Let_def)

lemma RevokeAllSessions_Inr:
  "RevokeAllSessions i tc d = Inr (n, d') \<longleftrightarrow>
    \<not> tc_readOnly tc \<and> n = length (filter (\<lambda>r. rt_UserID r = i \<and> rt_RevokedAt r = None) (refresh_tokens d)) \<and>
    d' = d\<lparr>refresh_tokens := update_rows (\<lambda>r. rt_UserID r = i \<and> rt_RevokedAt r = None)
      (\<lambda>r. r\<lparr>rt_RevokedAt := Some (tc_now tc)\<rparr>) (refresh_tokens d)\<rparr>"
  by (auto simp: RevokeAllSessions_def Q_RevokeAllRefreshTokensForUser_def revoke_where_def go_result Let_def)

lemma StoreRefreshToken_Inr:
  assumes "StoreRefreshToken i u fam digest ex tc d = Inr (r, d')"
  shows "r = \<lparr>rt_ID = i, rt_UserID = u, rt_TokenHash = digest, rt_FamilyID = fam, rt_IssuedAt = tc_now tc,
      rt_ExpiresAt = ex, rt_UsedAt = None, rt_RevokedAt = None\<rparr> \<and> d' = d\<lparr>refresh_tokens := refresh_tokens d @ [r]\<rparr> \<and>
    (\<forall>x \<in> set (refresh_tokens d). rt_ID x \<noteq> i \<and> rt_TokenHash x \<noteq> digest)"
  using assms by (auto simp: StoreRefreshToken_def Q_CreateRefreshToken_def go_result Let_def first_failing_None)

lemma issue_Inr:
  assumes "issue s env k u t slug role email fam d = (Inr ses, d')"
  shows "se_TenantID ses = t \<and> se_Role ses = role \<and>
    (\<exists>digest r. NewRefreshToken (as_crypto s) k = Inr (se_RefreshToken ses, digest) \<and> d' = d\<lparr>refresh_tokens := refresh_tokens d @ [r]\<rparr> \<and>
      rt_TokenHash r = digest \<and> rt_FamilyID r = fam \<and> rt_UserID r = u \<and> rt_RevokedAt r = None \<and> rt_UsedAt r = None \<and>
      rt_TokenHash r \<notin> rt_TokenHash ` set (refresh_tokens d) \<and> rt_ID r \<notin> rt_ID ` set (refresh_tokens d) \<and>
      rt_ExpiresAt r = clock env + as_refreshTTL s)"
proof -
  from assms obtain rtok digest row where n: "NewRefreshToken (as_crypto s) k = Inr (rtok, digest)"
    and st: "StoreRefreshToken (fresh_id env 1) u fam digest (clock env + as_refreshTTL s) (pool_conn env) d = Inr (row, d')"
    and ses: "se_TenantID ses = t" "se_Role ses = role" "se_RefreshToken ses = rtok"
    by (auto simp: issue_def go_result split: prod.splits)
  from StoreRefreshToken_Inr [OF st] n ses show ?thesis by (intro conjI exI [of _ digest] exI [of _ row]) auto
qed

section \<open>Rows never come back to life\<close>

text \<open>A family all of whose tokens are revoked.\<close>

definition family_dead :: "uuid \<Rightarrow> db \<Rightarrow> bool" where
  "family_dead fam d = (\<forall>r \<in> set (refresh_tokens d). rt_FamilyID r = fam \<longrightarrow> rt_RevokedAt r \<noteq> None)"

lemma family_dead_cong: "refresh_tokens d' = refresh_tokens d \<Longrightarrow> family_dead fam d' = family_dead fam d"
  by (simp add: family_dead_def)

lemma family_dead_update:
  assumes "family_dead fam d" "\<And>r. rt_FamilyID (f r) = rt_FamilyID r" "\<And>r. rt_RevokedAt r \<noteq> None \<Longrightarrow> rt_RevokedAt (f r) \<noteq> None"
  shows "family_dead fam (d\<lparr>refresh_tokens := update_rows P f (refresh_tokens d)\<rparr>)"
  using assms by (auto simp: family_dead_def update_rows_def)

lemma Consume_dead: "keeps (invariant_effect (family_dead fam)) (ConsumeRefreshToken i tc)"
  by (auto simp: keeps_def invariant_effect_def ConsumeRefreshToken_Inr intro!: family_dead_update)

lemma RevokeFamily_dead: "keeps (invariant_effect (family_dead fam)) (RevokeRefreshFamily g tc)"
  by (auto simp: keeps_def invariant_effect_def RevokeRefreshFamily_Inr intro!: family_dead_update)

lemma RevokeAll_dead: "keeps (invariant_effect (family_dead fam)) (RevokeAllSessions u tc)"
  by (auto simp: keeps_def invariant_effect_def RevokeAllSessions_Inr intro!: family_dead_update)

lemma Store_dead: "g \<noteq> fam \<Longrightarrow> keeps (invariant_effect (family_dead fam)) (StoreRefreshToken i u g digest ex tc)"
  by (auto simp: keeps_def invariant_effect_def family_dead_def dest!: StoreRefreshToken_Inr)

lemma Purge_dead: "keeps (invariant_effect (family_dead fam)) (PurgeExpiredRefreshTokens grace tc)"
  by (auto simp: keeps_def invariant_effect_def family_dead_def PurgeExpiredRefreshTokens_def Q_DeleteExpiredRefreshTokens_def
      go_result Let_def)

text \<open>Statements that do not touch the tokens.\<close>

definition tokens_kept :: "db \<Rightarrow> db \<Rightarrow> bool" where
  "tokens_kept d d' = (refresh_tokens d' = refresh_tokens d)"

interpretation tokens: effect_relation tokens_kept
  by unfold_locales (auto simp: tokens_kept_def)

lemma keeps_weaken: "keeps tokens_kept m \<Longrightarrow> keeps (invariant_effect (family_dead fam)) m"
  by (auto simp: keeps_def tokens_kept_def invariant_effect_def family_dead_def)

lemma keeps_act_weaken: "keeps_act tokens_kept m \<Longrightarrow> keeps_act (invariant_effect (family_dead fam)) m"
  by (auto simp: keeps_act_def tokens_kept_def invariant_effect_def family_dead_def)

lemma keeps_updateI: "(\<And>d x d'. m d = Inr (x, d') \<Longrightarrow> refresh_tokens d' = refresh_tokens d) \<Longrightarrow> keeps tokens_kept m"
  by (auto simp: keeps_def tokens_kept_def)

lemma users_tokens: "keeps tokens_kept (GetUserByEmail e tc)" "keeps tokens_kept (GetUserByID i tc)"
  "keeps tokens_kept (CreateUser i e h n tc)" "keeps tokens_kept (SetUserPassword i h' tc)"
  by (auto intro!: keeps_updateI simp: GetUserByEmail_def Q_GetUserByEmail_def GetUserByID_def Q_GetUserByID_def CreateUser_def
      Q_CreateUser_def SetUserPassword_def Q_UpdateUserPassword_def go_result Let_def)

lemma ListTenants_tokens: "keeps_act tokens_kept (ListTenantsForUser env u)"
  unfolding ListTenantsForUser_def ListMembershipsForUser_def by (intro tokens.keeps_intros)

lemma CreateTenant_tokens: "keeps_act tokens_kept (CreateTenantWithOwner env t u)"
  unfolding CreateTenantWithOwner_def
  by (intro tokens.keeps_intros)
     (auto intro!: keeps_updateI simp: CreateTenant_def CreateMembership_def go_result Let_def member_checks_def)

lemma pool_tokens: "keeps_act tokens_kept (on_pool env (GetUserByEmail e))" "keeps_act tokens_kept (on_pool env (GetUserByID i))"
  "keeps_act tokens_kept (on_pool env (CreateUser i e h n))" "keeps_act tokens_kept (on_pool env (SetUserPassword i h'))"
  by (intro tokens.keeps_on_pool users_tokens)+

lemmas tokens_calls = pool_tokens ListTenants_tokens CreateTenant_tokens

section \<open>Whole calls\<close>

lemmas dead_calls = tokens_calls [THEN keeps_act_weaken] inv_effect.keeps_act_lift

lemmas dead_intros = inv_effect.keeps_act_bind inv_effect.keeps_act_fail inv_effect.keeps_act_ret inv_effect.keeps_act_try
  dead_calls

lemma issue_dead: "g \<noteq> fam \<Longrightarrow> keeps_act (invariant_effect (family_dead fam)) (issue s env k u t slug role email g)"
  unfolding issue_def split_beta by (intro dead_intros inv_effect.keeps_on_pool Store_dead)

lemma end_family_dead: "keeps_act (invariant_effect (family_dead fam)) (end_family env g)"
  unfolding end_family_def by (intro inv_effect.keeps_intros RevokeFamily_dead)

lemma Refresh_stored_dead:
  "rt_FamilyID r \<noteq> fam \<Longrightarrow> keeps_act (invariant_effect (family_dead fam)) (Refresh_stored s uf envs r)"
  unfolding Refresh_stored_def
  by (auto intro!: dead_intros inv_effect.keeps_on_pool [OF Consume_dead] end_family_dead issue_dead)

lemma Refresh_revoked: "rt_RevokedAt r \<noteq> None \<Longrightarrow> Refresh_stored s uf envs r = fail_act (Sentinel ErrCredentials)"
  by (simp add: Refresh_stored_def)

lemma Refresh_cases:
  assumes "Refresh s uf envs tok d = (r, d')"
  obtains (refused) e where "r = Inl e" "d' = d"
  | (found) digest stored where "HashRefreshToken (as_crypto s) tok = Inr digest" "stored \<in> set (refresh_tokens d)"
      "rt_TokenHash stored = digest" "tx_fault (envs 0) 1 = None" "FindRefreshToken digest (pool_conn (envs 0)) d = Inr (stored, d)"
      "Refresh_stored s uf envs stored d = (r, d')"
proof (cases "HashRefreshToken (as_crypto s) tok")
  case (Inl e)
  with assms show ?thesis by (intro refused) (auto simp: Refresh_def fail_act_def)
next
  case (Inr digest)
  obtain q d1 where q: "on_pool (envs 0) (FindRefreshToken digest) d = (q, d1)" by fastforce
  show ?thesis
  proof (cases q)
    case (Inl e)
    have "d1 = d" using q Inl by (simp add: go_result)
    then show ?thesis using assms Inr q Inl
      by (intro refused [of "if errors_is e ErrNotFound then Sentinel ErrCredentials else e"])
         (auto simp: Refresh_def bind_act_def try_act_def fail_act_def split: if_splits)
  next
    case (Inr stored)
    with q have f: "tx_fault (envs 0) 1 = None" "FindRefreshToken digest (pool_conn (envs 0)) d = Inr (stored, d1)"
      by (simp_all add: go_result)
    note g = FindRefreshToken_Inr [OF f(2)]
    show ?thesis
      using assms q Inr f g \<open>HashRefreshToken (as_crypto s) tok = Inr digest\<close>
      by (intro found [of digest stored]) (auto simp: Refresh_def bind_act_def try_act_def)
  qed
qed

lemma Refresh_dead: "keeps_act (invariant_effect (family_dead fam)) (Refresh s uf envs tok)"
  unfolding keeps_act_def
proof
  fix d
  obtain r d' where c: "Refresh s uf envs tok d = (r, d')" by fastforce
  from c have "invariant_effect (family_dead fam) d d'"
  proof (cases rule: Refresh_cases)
    case refused
    then show ?thesis by (simp add: invariant_effect_def)
  next
    case (found digest stored)
    show ?thesis
    proof (cases "rt_FamilyID stored = fam")
      case True
      then show ?thesis using found by (auto simp: invariant_effect_def family_dead_def Refresh_revoked fail_act_def)
    next
      case False
      from Refresh_stored_dead [OF this, of s uf envs] found(6) show ?thesis
        by (metis keeps_act_def snd_conv)
    qed
  qed
  then show "invariant_effect (family_dead fam) d (snd (Refresh s uf envs tok d))" using c by simp
qed

lemma Login_dead:
  "fresh_id (envs 2) 2 \<noteq> fam \<Longrightarrow> keeps_act (invariant_effect (family_dead fam)) (Login s lo uf envs email pw slug)"
  unfolding Login_def Let_def
  by (auto intro!: dead_intros issue_dead split: sum.splits)

lemma Register_dead:
  "fresh_id (envs 2) 2 \<noteq> fam \<Longrightarrow>
    keeps_act (invariant_effect (family_dead fam)) (Register s up lo envs email pw full org slug cur)"
  unfolding Register_def Let_def
  by (auto intro!: dead_intros issue_dead split: sum.splits prod.splits)

lemma SwitchTenant_dead:
  "fresh_id (envs 1) 2 \<noteq> fam \<Longrightarrow> keeps_act (invariant_effect (family_dead fam)) (SwitchTenant s envs subject target)"
  unfolding SwitchTenant_def
  by (auto intro!: dead_intros issue_dead split: option.splits)

lemma ChangePassword_dead: "keeps_act (invariant_effect (family_dead fam)) (ChangePassword s envs subject cur new)"
  unfolding ChangePassword_def
  by (auto intro!: dead_intros inv_effect.keeps_on_pool [OF RevokeAll_dead] split: sum.splits)

lemma purge_call_dead: "keeps_act (invariant_effect (family_dead fam)) (on_pool env (PurgeExpiredRefreshTokens grace))"
  by (rule inv_effect.keeps_on_pool) (rule Purge_dead)

text \<open>
  Everything that writes refresh tokens: the calls of this service and the nightly purge; any other
  call leaves them alone. A login, a registration and a switch each start a family of their own.
\<close>

inductive session_calls :: "uuid \<Rightarrow> db \<Rightarrow> db \<Rightarrow> bool" for fam :: uuid where
  start: "session_calls fam d d"
| register: "session_calls fam d d1 \<Longrightarrow> fresh_id (envs 2) 2 \<noteq> fam \<Longrightarrow>
    Register s up lo envs email pw full org slug cur d1 = (r, d2) \<Longrightarrow> session_calls fam d d2"
| login: "session_calls fam d d1 \<Longrightarrow> fresh_id (envs 2) 2 \<noteq> fam \<Longrightarrow>
    Login s lo uf envs email pw slug d1 = (r, d2) \<Longrightarrow> session_calls fam d d2"
| switch: "session_calls fam d d1 \<Longrightarrow> fresh_id (envs 1) 2 \<noteq> fam \<Longrightarrow>
    SwitchTenant s envs subject target d1 = (r, d2) \<Longrightarrow> session_calls fam d d2"
| refresh: "session_calls fam d d1 \<Longrightarrow> Refresh s uf envs tok d1 = (r, d2) \<Longrightarrow> session_calls fam d d2"
| password: "session_calls fam d d1 \<Longrightarrow> ChangePassword s envs subject cur new d1 = (q, d2) \<Longrightarrow> session_calls fam d d2"
| purge: "session_calls fam d d1 \<Longrightarrow> on_pool env (PurgeExpiredRefreshTokens grace) d1 = (n, d2) \<Longrightarrow> session_calls fam d d2"
| elsewhere: "session_calls fam d d1 \<Longrightarrow> tokens_kept d1 d2 \<Longrightarrow> session_calls fam d d2"

lemma keeps_actD: "keeps_act (invariant_effect I) a \<Longrightarrow> a d = (r, d') \<Longrightarrow> I d \<Longrightarrow> I d'"
  by (metis invariant_effect_def keeps_act_def snd_conv)

lemma session_calls_dead: "session_calls fam d d' \<Longrightarrow> family_dead fam d \<Longrightarrow> family_dead fam d'"
proof (induction rule: session_calls.induct)
  case (elsewhere d d1 d2)
  then show ?case by (simp add: tokens_kept_def family_dead_def)
qed (blast dest: keeps_actD [OF Register_dead] keeps_actD [OF Login_dead] keeps_actD [OF SwitchTenant_dead]
    keeps_actD [OF Refresh_dead] keeps_actD [OF ChangePassword_dead] keeps_actD [OF purge_call_dead])+

text \<open>The token table as its unique indexes keep it.\<close>

definition tokens_unique :: "db \<Rightarrow> bool" where
  "tokens_unique d = (distinct (map rt_ID (refresh_tokens d)) \<and> distinct (map rt_TokenHash (refresh_tokens d)))"

definition revoked_family :: "Runtime \<Rightarrow> uuid \<Rightarrow> db \<Rightarrow> db" where
  "revoked_family env fam d =
    d\<lparr>refresh_tokens := update_rows (\<lambda>r. rt_FamilyID r = fam \<and> rt_RevokedAt r = None)
      (\<lambda>r. r\<lparr>rt_RevokedAt := Some (db_clock env)\<rparr>) (refresh_tokens d)\<rparr>"

lemma revoked_family_tokens:
  "refresh_tokens (revoked_family env fam d) = update_rows (\<lambda>r. rt_FamilyID r = fam \<and> rt_RevokedAt r = None)
    (\<lambda>r. r\<lparr>rt_RevokedAt := Some (db_clock env)\<rparr>) (refresh_tokens d)"
  by (simp add: revoked_family_def)

lemma revoked_family_dead: "family_dead fam (revoked_family env fam d)"
  unfolding family_dead_def
proof (intro ballI impI)
  fix r assume "r \<in> set (refresh_tokens (revoked_family env fam d))" and fam: "rt_FamilyID r = fam"
  then obtain x where x: "r = (if rt_FamilyID x = fam \<and> rt_RevokedAt x = None
      then x\<lparr>rt_RevokedAt := Some (db_clock env)\<rparr> else x)"
    unfolding revoked_family_tokens update_rows_mem by blast
  show "rt_RevokedAt r \<noteq> None"
  proof (cases "rt_FamilyID x = fam \<and> rt_RevokedAt x = None")
    case False
    then show ?thesis using x fam by (metis (full_types))
  qed (simp add: x)
qed

lemma end_family_ok:
  "tx_fault env 1 = None \<Longrightarrow> end_family env fam d = (Inl (Sentinel ErrTokenReuse), revoked_family env fam d)"
proof -
  assume f: "tx_fault env 1 = None"
  have "on_pool env (RevokeRefreshFamily fam) d = (Inr (), revoked_family env fam d)"
    unfolding on_pool_Inr using f by (simp add: RevokeRefreshFamily_Inr revoked_family_def)
  then show ?thesis by (simp add: end_family_def bind_act_def fail_act_def)
qed

lemma end_family_Inl: "end_family env fam d \<noteq> (Inr x, d')"
  by (simp add: end_family_def bind_act_Inr ret_act_simps)

text \<open>A successful exchange: the token was live, is now used, and its successor is in the same family.\<close>

lemma Refresh_Inr:
  assumes "Refresh s uf envs tok d = (Inr ses, d')"
  obtains digest stored r where "HashRefreshToken (as_crypto s) tok = Inr digest" "stored \<in> set (refresh_tokens d)"
    "rt_TokenHash stored = digest" "rt_RevokedAt stored = None" "rt_UsedAt stored = None"
    "\<not> rt_ExpiresAt stored < clock (envs 1)" "rt_FamilyID r = rt_FamilyID stored"
    "rt_TokenHash r \<notin> rt_TokenHash ` set (refresh_tokens d)" "rt_ID r \<notin> rt_ID ` set (refresh_tokens d)"
    "rt_ExpiresAt r = clock (envs 5) + as_refreshTTL s"
    "refresh_tokens d' = update_rows (consumable (rt_ID stored))
       (\<lambda>r. r\<lparr>rt_UsedAt := Some (db_clock (envs 2))\<rparr>) (refresh_tokens d) @ [r]"
  using assms
proof (cases rule: Refresh_cases)
  case (found digest stored)
  let ?d1 = "d\<lparr>refresh_tokens := update_rows (consumable (rt_ID stored))
       (\<lambda>r. r\<lparr>rt_UsedAt := Some (db_clock (envs 2))\<rparr>) (refresh_tokens d)\<rparr>"
  from found(6) have live: "rt_RevokedAt stored = None" "\<not> rt_ExpiresAt stored < clock (envs 1)" "rt_UsedAt stored = None"
    by (auto simp: Refresh_stored_def go_result end_family_Inl split: if_splits)
  with found(6) obtain user ms d2 d3 and chosen :: TenantMembership where
      u: "on_pool (envs 3) (GetUserByID (rt_UserID stored)) ?d1 = (Inr user, d2)"
    and l: "ListTenantsForUser (envs 4) (u_ID user) d2 = (Inr ms, d3)"
    and i: "issue s (envs 5) 5 (u_ID user) (tm_TenantID chosen) (tm_Slug chosen) (tm_Role chosen) (u_Email user)
         (rt_FamilyID stored) d3 = (Inr ses, d')"
    by (auto simp: Refresh_stored_def bind_act_Inr on_pool_Inr ConsumeRefreshToken_Inr end_family_Inl lift_act_simp split: if_splits)
  have "refresh_tokens d3 = refresh_tokens ?d1"
    using u l tokens_calls(2) [of "envs 3" "rt_UserID stored"] ListTenants_tokens [of "envs 4" "u_ID user"]
    unfolding keeps_act_def tokens_kept_def by (metis snd_conv)
  moreover obtain r where r: "d' = d3\<lparr>refresh_tokens := refresh_tokens d3 @ [r]\<rparr>" "rt_FamilyID r = rt_FamilyID stored"
      "rt_TokenHash r \<notin> rt_TokenHash ` set (refresh_tokens d3)" "rt_ID r \<notin> rt_ID ` set (refresh_tokens d3)"
      "rt_ExpiresAt r = clock (envs 5) + as_refreshTTL s"
    using issue_Inr [OF i] by auto
  ultimately show ?thesis
    using found live by (intro that [of digest stored r]) (auto simp: image_update_rows)
qed auto

lemma find_unique:
  assumes "tokens_unique d" "r \<in> set (refresh_tokens d)" "rt_TokenHash r = digest"
  shows "filter (\<lambda>r. rt_TokenHash r = digest) (refresh_tokens d) = [r]"
proof -
  have "distinct (map rt_TokenHash xs) \<Longrightarrow> r \<in> set xs \<Longrightarrow> filter (\<lambda>x. rt_TokenHash x = rt_TokenHash r) xs = [r]" for xs
  proof (induction xs)
    case (Cons a xs)
    then have "\<forall>x \<in> set xs. rt_TokenHash x \<noteq> rt_TokenHash a" by (metis distinct.simps(2) image_eqI list.set_map list.simps(9))
    with Cons show ?case by (auto simp: filter_empty_conv)
  qed simp
  then show ?thesis using assms by (simp add: tokens_unique_def)
qed

lemma FindRefreshToken_unique:
  assumes "tokens_unique d" "r \<in> set (refresh_tokens d)" "rt_TokenHash r = digest"
  shows "FindRefreshToken digest tc d = Inr (r, d)"
  by (simp add: FindRefreshToken_def Q_GetRefreshTokenByHash_def find_unique [OF assms] bind_tx_def map_err_def lift_res_def
      one_row_def)

lemma Refresh_found:
  assumes "tokens_unique d" "HashRefreshToken (as_crypto s) tok = Inr digest" "r \<in> set (refresh_tokens d)"
    "rt_TokenHash r = digest" "tx_fault (envs 0) 1 = None"
  shows "Refresh s uf envs tok d = Refresh_stored s uf envs r d"
  using assms FindRefreshToken_unique [OF assms(1,3,4), of "pool_conn (envs 0)"]
  by (simp add: Refresh_def bind_act_def try_act_def on_pool_def commit_tx_def)

text \<open>The stored row after a successful exchange.\<close>

lemma Refresh_used:
  assumes "Refresh s uf envs tok d = (Inr ses, d')" "tokens_unique d"
  obtains digest old where "HashRefreshToken (as_crypto s) tok = Inr digest" "old \<in> set (refresh_tokens d')"
    "rt_TokenHash old = digest" "rt_UsedAt old \<noteq> None" "rt_RevokedAt old = None" "tokens_unique d'"
    "\<exists>new \<in> set (refresh_tokens d'). rt_TokenHash new \<noteq> digest \<and> rt_FamilyID new = rt_FamilyID old"
proof -
  from Refresh_Inr [OF assms(1)] obtain digest stored r where h: "HashRefreshToken (as_crypto s) tok = Inr digest"
    and st: "stored \<in> set (refresh_tokens d)" "rt_TokenHash stored = digest" "rt_RevokedAt stored = None" "rt_UsedAt stored = None"
    and r: "rt_FamilyID r = rt_FamilyID stored"
      "rt_TokenHash r \<notin> rt_TokenHash ` set (refresh_tokens d)" "rt_ID r \<notin> rt_ID ` set (refresh_tokens d)"
    and d': "refresh_tokens d' = update_rows (consumable (rt_ID stored))
       (\<lambda>r. r\<lparr>rt_UsedAt := Some (db_clock (envs 2))\<rparr>) (refresh_tokens d) @ [r]" by metis
  let ?old = "stored\<lparr>rt_UsedAt := Some (db_clock (envs 2))\<rparr>"
  have "consumable (rt_ID stored) stored" using st by (simp add: consumable_def)
  then have "?old \<in> set (refresh_tokens d')" unfolding d' using st(1) by (auto simp: update_rows_mem intro!: bexI [of _ stored])
  moreover have "tokens_unique d'"
    using assms(2) r unfolding tokens_unique_def d' by (simp add: map_update_rows image_update_rows)
  moreover have "rt_TokenHash r \<noteq> digest" using r(2) st by auto
  ultimately show ?thesis using h st r by (intro that [of digest ?old]) (auto simp: d')
qed



section \<open>For whom sessions are issued\<close>

lemma find_SomeD: "List.find P xs = Some x \<Longrightarrow> x \<in> set xs \<and> P x"
  by (induction xs) (auto split: if_splits)

lemma selectTenant_Inr:
  assumes "selectTenant uf ms slug = Inr m"
  shows "m \<in> set ms \<and> usable m"
proof -
  have "m \<in> set (filter usable ms)"
  proof (cases "slug = []")
    case True
    then show ?thesis using assms by (cases "filter usable ms" rule: remdups_adj.cases) (auto simp: selectTenant_def)
  next
    case False
    then show ?thesis using assms
      by (cases "List.find (\<lambda>m. EqualFold uf (tm_Slug m) slug) (filter usable ms)") (auto simp: selectTenant_def dest: find_SomeD)
  qed
  then show ?thesis by simp
qed

definition membership_of :: "db \<Rightarrow> uuid \<Rightarrow> TenantMembership \<Rightarrow> bool" where
  "membership_of d u tm =
    (\<exists>m \<in> set (memberships d). \<exists>t \<in> set (tenants d). m_UserID m = u \<and> t_ID t = m_TenantID m \<and>
       tm = \<lparr>tm_MembershipID = m_ID m, tm_TenantID = t_ID t, tm_Slug = t_Slug t, tm_Name = t_Name t, tm_Role = m_Role m,
             tm_Status = m_Status m, tm_TenantStatus = t_Status t\<rparr>)"

lemma ListMembershipsForUser_Inr:
  assumes "ListMembershipsForUser tc u d = Inr (ms, d')"
  shows "d' = d \<and> (\<forall>m \<in> set ms. membership_of d u m)"
proof (intro conjI ballI)
  show "d' = d" using assms by (simp add: ListMembershipsForUser_def)
  fix tm assume "tm \<in> set ms"
  then have "tm \<in> set (fst (case ListMembershipsForUser tc u d of Inr p \<Rightarrow> p | Inl _ \<Rightarrow> ([], d)))" using assms by simp
  then show "membership_of d u tm"
    unfolding ListMembershipsForUser_def asks_simp sum.case fst_conv set_sort set_concat set_map set_filter image_image membership_of_def
    by blast
qed

lemma ListTenantsForUser_Inr:
  assumes "verify_reset env = None" "ListTenantsForUser env u d = (Inr ms, d')"
  shows "d' = d \<and> (\<forall>m \<in> set ms. membership_of d u m)"
  using assms ListMembershipsForUser_Inr
  by (simp add: ListTenantsForUser_def WithSystemTx_def runTx_Inr map_err_Inr) blast

lemma GetUserByEmail_Inr:
  "GetUserByEmail e tc d = Inr (u, d') \<Longrightarrow> d' = d \<and> u \<in> set (users d) \<and> same_email tc e u"
  by (auto simp: GetUserByEmail_def Q_GetUserByEmail_def go_result dest!: filter_ConsD)

lemma GetUserByID_Inr: "GetUserByID i tc d = Inr (u, d') \<Longrightarrow> d' = d \<and> u \<in> set (users d) \<and> live_user i u"
  by (auto simp: GetUserByID_def Q_GetUserByID_def go_result dest!: filter_ConsD)

lemma usable_membership:
  assumes "membership_of d u tm" "usable tm"
  shows "\<exists>m \<in> set (memberships d). \<exists>t \<in> set (tenants d). m_UserID m = u \<and> m_Status m = MembershipActive \<and>
    t_ID t = m_TenantID m \<and> t_Status t = TenantActive \<and> tm_TenantID tm = m_TenantID m \<and> tm_Role tm = m_Role m"
  using assms unfolding membership_of_def usable_def by force

text \<open>
  C30. A login yields a session only to the holder of the password of a live account, in an
  organisation that is active and of which they are an active member, with the role they hold there.
\<close>

theorem login_needs_password_and_membership:
  assumes "\<forall>k. verify_reset (envs k) = None" and "Login s lo uf envs email pw slug d = (Inr ses, d')"
  shows "\<exists>u h m t. u \<in> set (users d) \<and> same_email (pool_conn (envs 0)) (TrimSpace (ToLower lo email)) u \<and>
    u_PasswordHash u = Some h \<and> bcrypt_ok (as_crypto s) h pw \<and>
    m \<in> set (memberships d) \<and> m_UserID m = u_ID u \<and> m_Status m = MembershipActive \<and>
    t \<in> set (tenants d) \<and> t_ID t = m_TenantID m \<and> t_Status t = TenantActive \<and>
    se_TenantID ses = m_TenantID m \<and> se_Role ses = m_Role m"
proof -
  let ?e = "TrimSpace (ToLower lo email)"
  obtain q d1 where q: "on_pool (envs 0) (GetUserByEmail ?e) d = (q, d1)" by fastforce
  from assms(2) q obtain u where "q = Inr u"
    by (cases q) (auto simp: Login_def Let_def bind_act_def try_act_def fail_act_def split: if_splits)
  with q have g: "GetUserByEmail ?e (pool_conn (envs 0)) d = Inr (u, d1)" by (simp add: on_pool_Inr)
  note u = GetUserByEmail_Inr [OF g]
  from assms(2) q \<open>q = Inr u\<close> u obtain ms d2 and chosen :: TenantMembership where
      c: "ComparePassword (as_crypto s) (u_PasswordHash u) pw = Inr ()"
    and l: "ListTenantsForUser (envs 1) (u_ID u) d = (Inr ms, d2)"
    and sel: "selectTenant uf ms slug = Inr chosen"
    and i: "issue s (envs 2) 2 (u_ID u) (tm_TenantID chosen) (tm_Slug chosen) (tm_Role chosen) (u_Email u)
       (fresh_id (envs 2) 2) d2 = (Inr ses, d')"
    by (cases "ComparePassword (as_crypto s) (u_PasswordHash u) pw")
       (auto simp: Login_def Let_def bind_act_Inr try_act_simps lift_act_simp ret_act_simps)
  from c obtain h where h: "u_PasswordHash u = Some h" "bcrypt_ok (as_crypto s) h pw" by (auto simp: ComparePassword_Inr)
  have "membership_of d (u_ID u) chosen" "usable chosen"
    using ListTenantsForUser_Inr [OF _ l] assms(1) selectTenant_Inr [OF sel] by auto
  from usable_membership [OF this] u h issue_Inr [OF i] show ?thesis by auto
qed

text \<open>
  A failed login tells nothing: an unknown address and a wrong password get the same answer,
  and neither changes anything.
\<close>

theorem login_failures_look_alike:
  assumes "tx_fault (envs 0) 1 = None"
    and "(\<forall>u \<in> set (users d). \<not> same_email (pool_conn (envs 0)) (TrimSpace (ToLower lo email)) u) \<or>
      (\<forall>u \<in> set (users d). same_email (pool_conn (envs 0)) (TrimSpace (ToLower lo email)) u \<longrightarrow>
         ComparePassword (as_crypto s) (u_PasswordHash u) pw \<noteq> Inr ())"
  shows "Login s lo uf envs email pw slug d = (Inl (Sentinel ErrCredentials), d)"
proof -
  let ?e = "TrimSpace (ToLower lo email)" and ?tc = "pool_conn (envs 0)"
  show ?thesis
  proof (cases "filter (same_email ?tc ?e) (users d)")
    case Nil
    then have "GetUserByEmail ?e ?tc d = Inl (Sentinel ErrNotFound)"
      by (simp add: GetUserByEmail_def Q_GetUserByEmail_def bind_tx_def map_err_def lift_res_def one_row_def translate_def)
    then show ?thesis using assms(1)
      by (simp add: Login_def bind_act_def try_act_def on_pool_def commit_tx_def fail_act_def)
  next
    case (Cons u rest)
    then have "GetUserByEmail ?e ?tc d = Inr (u, d)"
      by (simp add: GetUserByEmail_def Q_GetUserByEmail_def bind_tx_def map_err_def lift_res_def one_row_def)
    moreover have "ComparePassword (as_crypto s) (u_PasswordHash u) pw \<noteq> Inr ()"
      using filter_ConsD [OF Cons] assms(2) by blast
    ultimately show ?thesis using assms(1)
      by (cases "ComparePassword (as_crypto s) (u_PasswordHash u) pw")
         (simp_all add: Login_def bind_act_def try_act_def on_pool_def commit_tx_def fail_act_def)
  qed
qed

section \<open>The password\<close>

text \<open>
  Changing the password needs the current one, makes the new one the only password of the
  account, and revokes every refresh token of the user, as long as the last statement reaches the
  database.
\<close>

theorem password_change_ends_sessions:
  assumes "crypto_ok (as_crypto s)" and "ChangePassword s envs subject cur new d = (Inr (), d')"
    and "tx_fault (envs 2) 1 = None"
  shows "(\<exists>u h. u \<in> set (users d) \<and> live_user (sub_UserID subject) u \<and> u_PasswordHash u = Some h \<and> bcrypt_ok (as_crypto s) h cur) \<and>
    (\<forall>u \<in> set (users d'). live_user (sub_UserID subject) u \<longrightarrow> (\<exists>h. u_PasswordHash u = Some h \<and> bcrypt_ok (as_crypto s) h new)) \<and>
    (\<forall>r \<in> set (refresh_tokens d'). rt_UserID r = sub_UserID subject \<longrightarrow> rt_RevokedAt r \<noteq> None)"
proof -
  let ?i = "sub_UserID subject"
  from assms(2) obtain u d1 where g: "GetUserByID ?i (pool_conn (envs 0)) d = Inr (u, d1)"
    by (auto simp: ChangePassword_def bind_act_Inr on_pool_Inr)
  note u = GetUserByID_Inr [OF g]
  from assms(2) g u obtain hash d2 q where c: "ComparePassword (as_crypto s) (u_PasswordHash u) cur = Inr ()"
    and hash: "HashPassword (as_crypto s) new = Inr hash"
    and st: "SetUserPassword ?i hash (pool_conn (envs 1)) d = Inr ((), d2)"
    and rv: "on_pool (envs 2) (RevokeAllSessions ?i) d2 = (q, d')"
    by (cases "ComparePassword (as_crypto s) (u_PasswordHash u) cur")
       (auto simp: ChangePassword_def bind_act_Inr on_pool_Inr lift_act_simp ret_act_simps try_act_simps split: sum.splits if_splits)
  have "bcrypt_hash (as_crypto s) new = Inr hash" using hash by (auto simp: HashPassword_def bind_res_Inr)
  then have ok: "bcrypt_ok (as_crypto s) hash new" using assms(1) by (simp add: crypto_ok_def)
  have us: "users d2 = update_rows (live_user ?i) (\<lambda>u. u\<lparr>u_PasswordHash := Some hash\<rparr>) (users d)"
    using st by (auto simp: SetUserPassword_def Q_UpdateUserPassword_def go_result)
  have d': "users d' = users d2" "refresh_tokens d' = update_rows (\<lambda>r. rt_UserID r = ?i \<and> rt_RevokedAt r = None)
      (\<lambda>r. r\<lparr>rt_RevokedAt := Some (db_clock (envs 2))\<rparr>) (refresh_tokens d2)"
    using rv assms(3) by (cases q; auto simp: on_pool_def commit_tx_def RevokeAllSessions_Inr RevokeAllSessions_def
        Q_RevokeAllRefreshTokensForUser_def revoke_where_def Let_def map_err_def bind_tx_def writable_def reject_if_def lift_res_def)+
  have "\<exists>h. u_PasswordHash v = Some h \<and> bcrypt_ok (as_crypto s) h new"
    if v: "v \<in> set (users d')" "live_user ?i v" for v
  proof -
    from v(1) obtain x where x: "v = (if live_user ?i x then x\<lparr>u_PasswordHash := Some hash\<rparr> else x)"
      unfolding d' us update_rows_mem by blast
    show ?thesis using v(2) ok by (cases "live_user ?i x") (auto simp: x)
  qed
  moreover have "rt_RevokedAt r \<noteq> None" if r: "r \<in> set (refresh_tokens d')" "rt_UserID r = ?i" for r
  proof -
    from r(1) obtain x where x: "r = (if rt_UserID x = ?i \<and> rt_RevokedAt x = None
        then x\<lparr>rt_RevokedAt := Some (db_clock (envs 2))\<rparr> else x)" unfolding d' update_rows_mem by blast
    show ?thesis using r(2) by (cases "rt_UserID x = ?i \<and> rt_RevokedAt x = None") (auto simp: x)
  qed
  ultimately show ?thesis using u c by (auto simp: ComparePassword_Inr)
qed

section \<open>A user of two organisations\<close>

lemma Refresh_live:
  assumes "rt_RevokedAt r = None" "rt_UsedAt r = None" "clock (envs 1) \<le> rt_ExpiresAt r" "tx_fault (envs 2) 1 = None"
    "tx_fault (envs 3) 1 = None" "tokens_unique d" "r \<in> set (refresh_tokens d)"
    "u \<in> set (users d)" "live_user (rt_UserID r) u" "distinct (map u_ID (users d))"
    and d1: "d1 = d\<lparr>refresh_tokens := update_rows (consumable (rt_ID r)) (\<lambda>r. r\<lparr>rt_UsedAt := Some (db_clock (envs 2))\<rparr>) (refresh_tokens d)\<rparr>"
  shows "Refresh_stored s uf envs r d =
    bind_act (ListTenantsForUser (envs 4) (u_ID u)) (\<lambda>ms.
    bind_act (lift_act (selectTenant uf ms [])) (\<lambda>chosen.
    issue s (envs 5) 5 (u_ID u) (tm_TenantID chosen) (tm_Slug chosen) (tm_Role chosen) (u_Email u) (rt_FamilyID r))) d1"
proof -
  have "distinct (map rt_ID xs) \<Longrightarrow> r \<in> set xs \<Longrightarrow> filter (consumable (rt_ID r)) xs = [r]" for xs
  proof (induction xs)
    case (Cons a xs)
    then have "\<forall>x \<in> set xs. rt_ID x \<noteq> rt_ID a" by (metis distinct.simps(2) image_eqI list.set_map list.simps(9))
    with Cons show ?case using assms(1,2) by (auto simp: consumable_def filter_empty_conv)
  qed simp
  then have "filter (consumable (rt_ID r)) (refresh_tokens d) = [r]" using assms(6,7) by (simp add: tokens_unique_def)
  then have con: "on_pool (envs 2) (ConsumeRefreshToken (rt_ID r)) d = (Inr True, d1)"
    using assms(4) by (simp add: on_pool_Inr ConsumeRefreshToken_Inr d1)
  have "distinct (map u_ID xs) \<Longrightarrow> u \<in> set xs \<Longrightarrow> filter (live_user (rt_UserID r)) xs = [u]" for xs
  proof (induction xs)
    case (Cons a xs)
    then have "\<forall>x \<in> set xs. u_ID x \<noteq> u_ID a" by (metis distinct.simps(2) image_eqI list.set_map list.simps(9))
    with Cons show ?case using assms(9) by (auto simp: live_user_def filter_empty_conv)
  qed simp
  then have "filter (live_user (rt_UserID r)) (users d1) = [u]" using assms(8,10) by (simp add: d1)
  then have usr: "on_pool (envs 3) (GetUserByID (rt_UserID r)) d1 = (Inr u, d1)"
    using assms(5) by (simp add: on_pool_Inr GetUserByID_def Q_GetUserByID_def go_result)
  show ?thesis using assms(1-3) by (simp add: Refresh_stored_def bind_act_def con usr)
qed

lemma selectTenant_several:
  "1 < length (filter usable ms) \<Longrightarrow> \<exists>e. selectTenant uf ms [] = Inl e \<and> errors_is e ErrValidation"
  by (cases "filter usable ms" rule: remdups_adj.cases) (auto simp: selectTenant_def)

text \<open>
  A user of several organisations cannot refresh: the exchange uses the token up and then
  fails because no organisation was named, and repeating the request is taken for theft and ends all
  sessions of the family.
\<close>

theorem refresh_fails_with_two_organisations:
  assumes "tokens_unique d" "HashRefreshToken (as_crypto s) tok = Inr (rt_TokenHash r)" "r \<in> set (refresh_tokens d)"
    and "rt_RevokedAt r = None" "rt_UsedAt r = None" "clock (envs 1) \<le> rt_ExpiresAt r" "clock (envs' 1) \<le> rt_ExpiresAt r"
    and "u \<in> set (users d)" "live_user (rt_UserID r) u" "distinct (map u_ID (users d))"
    and "\<forall>k. tx_fault (envs k) 1 = None \<and> tx_fault (envs' k) 1 = None"
    and "fst (ListTenantsForUser (envs 4) (u_ID u) d) = Inr ms" "1 < length (filter usable ms)" "verify_reset (envs 4) = None"
  shows "\<exists>e d1 d2. Refresh s uf envs tok d = (Inl e, d1) \<and> errors_is e ErrValidation \<and>
    Refresh s uf envs' tok d1 = (Inl (Sentinel ErrTokenReuse), d2) \<and> family_dead (rt_FamilyID r) d2"
proof -
  define d1 where d1: "d1 = d\<lparr>refresh_tokens := update_rows (consumable (rt_ID r)) (\<lambda>r. r\<lparr>rt_UsedAt := Some (db_clock (envs 2))\<rparr>) (refresh_tokens d)\<rparr>"
  obtain e where e: "selectTenant uf ms [] = Inl e" "errors_is e ErrValidation" using selectTenant_several assms(13) by blast
  have "ListTenantsForUser (envs 4) (u_ID u) d = (Inr ms, d)"
    using assms(12) ListTenantsForUser_Inr [OF assms(14), of "u_ID u" d ms] by (cases "ListTenantsForUser (envs 4) (u_ID u) d") auto
  then have l: "ListTenantsForUser (envs 4) (u_ID u) d1 = (Inr ms, d1)"
    using assms(14) by (simp add: ListTenantsForUser_def WithSystemTx_def runTx_Inr ListMembershipsForUser_def d1 map_err_Inr)
  have "Refresh s uf envs tok d = Refresh_stored s uf envs r d"
    using assms(1,2,3,11) by (intro Refresh_found) auto
  also have "\<dots> = (Inl e, d1)"
    using Refresh_live [where envs = envs, OF assms(4,5,6) _ _ assms(1,3,8,9,10) d1] assms(11) l e(1)
    by (simp add: bind_act_def lift_act_def)
  finally have first: "Refresh s uf envs tok d = (Inl e, d1)" .
  let ?old = "r\<lparr>rt_UsedAt := Some (db_clock (envs 2))\<rparr>"
  have old: "?old \<in> set (refresh_tokens d1)"
    unfolding d1 using assms(3,4,5) by (auto simp: update_rows_mem consumable_def intro!: bexI [of _ r])
  have u1: "tokens_unique d1" using assms(1) by (simp add: tokens_unique_def d1 map_update_rows)
  have "Refresh s uf envs' tok d1 = Refresh_stored s uf envs' ?old d1"
    using assms(2,11) old u1 by (intro Refresh_found) auto
  also have "\<dots> = end_family (envs' 1) (rt_FamilyID r) d1" using assms(4,7) by (simp add: Refresh_stored_def)
  also have "\<dots> = (Inl (Sentinel ErrTokenReuse), revoked_family (envs' 1) (rt_FamilyID r) d1)"
    using assms(11) by (intro end_family_ok) blast
  finally show ?thesis using first e(2) revoked_family_dead by blast
qed

end
