(* ===== verification/Auth_Demo.thy ===== *)
theory Auth_Demo
  imports Auth_Service_Props
begin

text \<open>The theorems on sessions at work on one account and one session family.\<close>

definition demo_crypto :: Crypto where
  "demo_crypto = \<lparr>bcrypt_hash = (\<lambda>p. Inr (''h'' @ p)), bcrypt_ok = (\<lambda>h p. h = ''h'' @ p), dummyHash = ''h'',
     sha256 = (\<lambda>s. take 32 (s @ replicate 32 CHR ''0'')), rand32 = (\<lambda>k. Inr (replicate 32 CHR ''b''))\<rparr>"

lemma demo_crypto_ok: "crypto_ok demo_crypto"
  by (auto simp: crypto_ok_def demo_crypto_def)

definition demo_svc :: AuthService where
  "demo_svc = NewAuthService demo_crypto demo_jwt demo_tokens 0"

definition demo_digest :: string where
  "demo_digest = replicate 32 CHR ''a''"

definition demo_token :: string where
  "demo_token = b64_encode RawURLEncoding demo_digest"

definition demo_row :: RefreshToken where
  "demo_row = \<lparr>rt_ID = 50, rt_UserID = 3, rt_TokenHash = demo_digest, rt_FamilyID = 70, rt_IssuedAt = 0,
     rt_ExpiresAt = 200 * day, rt_UsedAt = None, rt_RevokedAt = None\<rparr>"

definition demo_auth_db :: db where
  "demo_auth_db = demo_db\<lparr>users := [(demo_user 3 ''s@acme.test'')\<lparr>u_PasswordHash := Some ''hcorrect horse battery''\<rparr>],
     refresh_tokens := [demo_row]\<rparr>"

lemma demo_hash: "HashRefreshToken (as_crypto demo_svc) demo_token = Inr demo_digest"
  by (simp add: HashRefreshToken_def demo_svc_def NewAuthService_def demo_crypto_def demo_token_def demo_digest_def RefreshTokenBytes_def)

lemma demo_unique: "tokens_unique demo_auth_db"
  by (simp add: tokens_unique_def demo_auth_db_def)

definition demo_membership :: TenantMembership where
  "demo_membership = \<lparr>tm_MembershipID = 3, tm_TenantID = 1, tm_Slug = ''acme'', tm_Name = ''Acme'', tm_Role = RoleMember,
     tm_Status = MembershipActive, tm_TenantStatus = TenantActive\<rparr>"

lemma demo_list:
  assumes "memberships d = memberships demo_db" "tenants d = tenants demo_db"
  shows "ListTenantsForUser demo_env 3 d = (Inr [demo_membership], d)"
proof -
  have "ListMembershipsForUser (bindSession demo_env (no_binding\<lparr>bi_ReadOnly := True\<rparr>) True) 3 d = Inr ([demo_membership], d)"
    using assms by (simp add: ListMembershipsForUser_def demo_defs demo_membership_def rls_def)
  then show ?thesis
    unfolding ListTenantsForUser_def WithSystemTx_def by (intro runTx_runs) (simp_all add: map_err_def)
qed

lemma demo_user_found: "\<exists>u. u \<in> set (users demo_auth_db) \<and> live_user (rt_UserID demo_row) u \<and> u_ID u = 3"
  by (simp add: demo_auth_db_def live_user_def demo_row_def demo_user_def)

lemma demo_issue:
  assumes "refresh_tokens d = [demo_row\<lparr>rt_UsedAt := q\<rparr>]" "users d = users demo_auth_db"
  shows "\<exists>ses d'. issue demo_svc demo_env k 3 1 ''acme'' RoleMember email fam d = (Inr ses, d')"
proof -
  have "replicate 32 CHR ''b'' \<noteq> demo_digest" by (simp add: demo_digest_def replicate_eq_replicate)
  then show ?thesis
    using assms
    by (simp add: issue_def bind_act_def lift_act_def Token_Issue_def demo_svc_def NewAuthService_def demo_jwt_def Let_def
        demo_env_def NewRefreshToken_def demo_crypto_def on_pool_def commit_tx_def StoreRefreshToken_def Q_CreateRefreshToken_def
        bind_tx_def map_err_def writable_def reject_if_def lift_res_def constraints_def first_failing.simps pool_conn_def
        demo_row_def has_user_def demo_auth_db_def demo_user_def ret_act_def day_def)
qed

definition used_db :: db where
  "used_db = demo_auth_db\<lparr>refresh_tokens := [demo_row\<lparr>rt_UsedAt := Some (100 * day)\<rparr>]\<rparr>"

lemma demo_refresh: "\<exists>ses d'. Refresh demo_svc (\<lambda>_ _. False) (\<lambda>_. demo_env) demo_token demo_auth_db = (Inr ses, d')"
proof -
  let ?u = "(demo_user 3 ''s@acme.test'')\<lparr>u_PasswordHash := Some ''hcorrect horse battery''\<rparr>"
  have "Refresh demo_svc (\<lambda>_ _. False) (\<lambda>_. demo_env) demo_token demo_auth_db
      = Refresh_stored demo_svc (\<lambda>_ _. False) (\<lambda>_. demo_env) demo_row demo_auth_db"
    by (rule Refresh_found [OF demo_unique demo_hash]) (simp_all add: demo_auth_db_def demo_row_def demo_env_def)
  also have "\<dots> = bind_act (ListTenantsForUser demo_env (u_ID ?u)) (\<lambda>ms.
      bind_act (lift_act (selectTenant (\<lambda>_ _. False) ms [])) (\<lambda>chosen.
      issue demo_svc demo_env 5 (u_ID ?u) (tm_TenantID chosen) (tm_Slug chosen) (tm_Role chosen) (u_Email ?u)
        (rt_FamilyID demo_row))) used_db"
    by (rule Refresh_live [OF _ _ _ _ _ demo_unique])
       (simp_all add: demo_auth_db_def demo_row_def demo_env_def live_user_def demo_user_def day_def used_db_def update_rows_def
          consumable_def)
  finally show ?thesis
    using demo_issue [of used_db "Some (100 * day)" 5 "u_Email ?u" "rt_FamilyID demo_row"] demo_list [of used_db]
    by (simp add: used_db_def demo_auth_db_def bind_act_def lift_act_def selectTenant_def demo_membership_def usable_def demo_user_def)
qed



lemma demo_email: "TrimSpace (ToLower (\<lambda>s. s) ''s@acme.test'') = ''s@acme.test''"
proof -
  have "ToLower (\<lambda>s. s) ''s@acme.test'' = ''s@acme.test''" by (simp add: ToLower_def is_ascii_def lower_char_def)
  moreover have "TrimSpace ''s@acme.test'' = ''s@acme.test''"
    by (rule TrimSpace_no_space) (simp_all add: match_prefix_def go_spaces_def)
  ultimately show ?thesis by simp
qed

lemma demo_login: "\<exists>ses d'. Login demo_svc (\<lambda>s. s) (\<lambda>_ _. False) (\<lambda>_. demo_env) ''s@acme.test'' ''correct horse battery'' [] demo_auth_db
    = (Inr ses, d')"
proof -
  let ?u = "(demo_user 3 ''s@acme.test'')\<lparr>u_PasswordHash := Some ''hcorrect horse battery''\<rparr>"
  have g: "on_pool demo_env (GetUserByEmail ''s@acme.test'') demo_auth_db = (Inr ?u, demo_auth_db)"
    by (simp add: on_pool_Inr GetUserByEmail_def Q_GetUserByEmail_def go_result same_email_def demo_auth_db_def demo_user_def demo_env_def)
  have c: "ComparePassword (as_crypto demo_svc) (u_PasswordHash ?u) ''correct horse battery'' = Inr ()"
    by (simp add: ComparePassword_def demo_svc_def NewAuthService_def demo_crypto_def)
  show ?thesis
    unfolding Login_def demo_email Let_def
    using g c demo_list [of demo_auth_db] demo_issue [of demo_auth_db None 2 "''s@acme.test''" "fresh_id demo_env 2"]
    by (simp add: bind_act_def try_act_def lift_act_def selectTenant_def demo_membership_def usable_def demo_user_def
        demo_auth_db_def demo_row_def)
qed

theorem login_needs_password_and_membership_witness:
  "\<exists>ses d' m. Login demo_svc (\<lambda>s. s) (\<lambda>_ _. False) (\<lambda>_. demo_env) ''s@acme.test'' ''correct horse battery'' [] demo_auth_db
    = (Inr ses, d') \<and> m \<in> set (memberships demo_auth_db) \<and> se_TenantID ses = m_TenantID m"
proof -
  obtain ses d' where l: "Login demo_svc (\<lambda>s. s) (\<lambda>_ _. False) (\<lambda>_. demo_env) ''s@acme.test'' ''correct horse battery'' [] demo_auth_db
      = (Inr ses, d')" using demo_login by blast
  from login_needs_password_and_membership [OF _ l] l show ?thesis by (auto simp: demo_env_def)
qed

theorem login_failures_look_alike_witness:
  "Login demo_svc (\<lambda>s. s) (\<lambda>_ _. False) (\<lambda>_. demo_env) ''s@acme.test'' ''wrong'' [] demo_auth_db
    = (Inl (Sentinel ErrCredentials), demo_auth_db)"
  by (rule login_failures_look_alike)
     (auto simp: demo_env_def demo_auth_db_def demo_user_def ComparePassword_def demo_svc_def NewAuthService_def demo_crypto_def)

lemma demo_change:
  "\<exists>d'. ChangePassword demo_svc (\<lambda>_. demo_env) (demo_subject 3) ''correct horse battery'' ''a longer phrase 2'' demo_auth_db = (Inr (), d')"
proof -
  have "ValidatePassword ''a longer phrase 2'' = Inr ()"
    by (simp add: ValidatePassword_def rune_count_ascii is_ascii_def MinPasswordLength_def MaxPasswordBytes_def)
  then show ?thesis
    by (simp add: ChangePassword_def bind_act_def on_pool_def commit_tx_def try_act_def lift_act_def demo_env_def GetUserByID_def
        Q_GetUserByID_def SetUserPassword_def Q_UpdateUserPassword_def bind_tx_def map_err_def lift_res_def writable_def reject_if_def
        one_row_def demo_auth_db_def demo_user_def live_user_def demo_subject_def pool_conn_def ComparePassword_def demo_svc_def
        NewAuthService_def demo_crypto_def HashPassword_def update_rows_def RevokeAllSessions_def Q_RevokeAllRefreshTokensForUser_def
        revoke_where_def ret_act_def Let_def)
qed

theorem password_change_ends_sessions_witness:
  "\<exists>d'. ChangePassword demo_svc (\<lambda>_. demo_env) (demo_subject 3) ''correct horse battery'' ''a longer phrase 2'' demo_auth_db = (Inr (), d') \<and>
    set (refresh_tokens d') \<inter> {r. rt_UserID r = 3 \<and> rt_RevokedAt r = None} = {}"
proof -
  have "crypto_ok (as_crypto demo_svc)" using demo_crypto_ok by (simp add: demo_svc_def NewAuthService_def)
  with demo_change password_change_ends_sessions [where s = demo_svc and envs = "\<lambda>_. demo_env" and subject = "demo_subject 3"] show ?thesis
    by (fastforce simp: demo_env_def demo_subject_def)
qed

definition demo_two_db :: db where
  "demo_two_db = demo_auth_db\<lparr>tenants := [demo_tenant, demo_tenant\<lparr>t_ID := 2, t_Slug := ''beta''\<rparr>],
     memberships := [demo_member 3 RoleMember, (demo_member 3 RoleMember)\<lparr>m_ID := 13, m_TenantID := 2\<rparr>]\<rparr>"

theorem refresh_fails_with_two_organisations_witness:
  "\<exists>e d1 d2. Refresh demo_svc (\<lambda>_ _. False) (\<lambda>_. demo_env) demo_token demo_two_db = (Inl e, d1) \<and> errors_is e ErrValidation \<and>
    Refresh demo_svc (\<lambda>_ _. False) (\<lambda>_. demo_env) demo_token d1 = (Inl (Sentinel ErrTokenReuse), d2) \<and> family_dead 70 d2"
proof -
  let ?d = demo_two_db
  let ?u = "(demo_user 3 ''s@acme.test'')\<lparr>u_PasswordHash := Some ''hcorrect horse battery''\<rparr>"
  let ?ms = "[demo_membership, demo_membership\<lparr>tm_MembershipID := 13, tm_TenantID := 2, tm_Slug := ''beta''\<rparr>]"
  have "ListMembershipsForUser (bindSession demo_env (no_binding\<lparr>bi_ReadOnly := True\<rparr>) True) 3 ?d = Inr (?ms, ?d)"
    by (simp add: ListMembershipsForUser_def demo_two_db_def demo_tenant_def demo_member_def demo_membership_def rls_def)
  then have "ListTenantsForUser demo_env 3 ?d = (Inr ?ms, ?d)"
    unfolding ListTenantsForUser_def WithSystemTx_def by (intro runTx_runs) (simp_all add: map_err_def)
  then have l: "fst (ListTenantsForUser demo_env (u_ID ?u) ?d) = Inr ?ms" by (simp add: demo_user_def)
  have "\<exists>e d1 d2. Refresh demo_svc (\<lambda>_ _. False) (\<lambda>_. demo_env) demo_token ?d = (Inl e, d1) \<and> errors_is e ErrValidation \<and>
      Refresh demo_svc (\<lambda>_ _. False) (\<lambda>_. demo_env) demo_token d1 = (Inl (Sentinel ErrTokenReuse), d2) \<and>
      family_dead (rt_FamilyID demo_row) d2"
    by (rule refresh_fails_with_two_organisations [where u = ?u and ms = ?ms and envs = "\<lambda>_. demo_env" and envs' = "\<lambda>_. demo_env"])
       (use l demo_hash in \<open>simp_all add: tokens_unique_def demo_two_db_def demo_auth_db_def demo_row_def demo_env_def day_def
          live_user_def demo_user_def demo_membership_def usable_def\<close>)
  then show ?thesis by (simp add: demo_row_def)
qed

end
