(* ===== verification/Billing_Repo.thy ===== *)
theory Billing_Repo
  imports Scope
begin

text \<open>
  \<^verbatim>\<open>internal/repository/postgres/billing_repo.go\<close> and the billing statements of
  \<^verbatim>\<open>gen/billing.sql.go\<close>: the ledger of relayed deliveries, which is the idempotency gate, and
  the projection of an organisation's subscription, whose upsert refuses an event older than the one
  recorded. The column \<^verbatim>\<open>error_detail\<close> holds the error itself in place of its text.
\<close>

section \<open>Statements\<close>

text \<open>
  \<open>jsonb\<close> is the database's reading of a JSON document into its stored form; a text it cannot read is
  refused as an invalid representation.
\<close>

type_synonym jsonb = "string \<Rightarrow> string option"

definition Q_ClaimBillingEvent :: "jsonb \<Rightarrow> string \<Rightarrow> uuid option \<Rightarrow> string \<Rightarrow> string \<Rightarrow> TenantConn \<Rightarrow> BillingEvent tx" where
  "Q_ClaimBillingEvent jsonb eventID tenantID eventType payload tc =
    bind_tx (writable tc) (\<lambda>_.
    bind_tx (lift_res (case jsonb payload of None \<Rightarrow> Inl (pg ''22P02'' []) | Some doc \<Rightarrow> Inr doc)) (\<lambda>doc.
    bind_tx (asks (\<lambda>d. d)) (\<lambda>d.
    bind_tx (reject_if (\<exists>r \<in> set (billing_events d). be_EventID r = eventID) NoRows) (\<lambda>_.
    bind_tx (constraints ''23503'' [(''billing_events_tenant_id_fkey'', fk_opt (has_tenant d) tenantID)]) (\<lambda>_.
    let r = \<lparr>be_EventID = eventID, be_TenantID = tenantID, be_EventType = eventType, be_Status = BEProcessing,
             be_Attempts = 1, be_Payload = doc, be_ErrorDetail = None, be_ReceivedAt = tc_now tc, be_ProcessedAt = None\<rparr>
    in (\<lambda>d. Inr (r, d\<lparr>billing_events := billing_events d @ [r]\<rparr>)))))))"

text \<open>\<^verbatim>\<open>WHERE event_id = ... AND status = 'processing'\<close>: a settled delivery is not settled again.\<close>

definition open_delivery :: "string \<Rightarrow> BillingEvent \<Rightarrow> bool" where
  "open_delivery i r = (be_EventID r = i \<and> be_Status r = BEProcessing)"

definition settled_row :: "BillingEventStatus \<Rightarrow> err option \<Rightarrow> uuid option \<Rightarrow> time \<Rightarrow> BillingEvent \<Rightarrow> BillingEvent" where
  "settled_row status detail tenantID now r =
    r\<lparr>be_Status := status, be_ProcessedAt := Some now, be_ErrorDetail := detail,
      be_TenantID := (case tenantID of None \<Rightarrow> be_TenantID r | Some t \<Rightarrow> Some t)\<rparr>"

definition Q_SettleBillingEvent :: "string \<Rightarrow> BillingEventStatus \<Rightarrow> err option \<Rightarrow> uuid option \<Rightarrow> TenantConn \<Rightarrow> nat tx" where
  "Q_SettleBillingEvent eventID status detail tenantID tc =
    bind_tx (writable tc) (\<lambda>_.
    bind_tx (asks (\<lambda>d. d)) (\<lambda>d.
    let hits = filter (open_delivery eventID) (billing_events d) in
    if hits = [] then ret 0
    else
      bind_tx (constraints ''23514'' [(''billing_events_settled_chk'', status \<noteq> BEProcessing)]) (\<lambda>_.
      bind_tx (constraints ''23503'' [(''billing_events_tenant_id_fkey'', fk_opt (has_tenant d) tenantID)]) (\<lambda>_.
      (\<lambda>d. Inr (length hits, d\<lparr>billing_events :=
         update_rows (open_delivery eventID) (settled_row status detail tenantID (tc_now tc)) (billing_events d)\<rparr>))))))"

text \<open>
  \<open>skip\<close> marks the rows another session holds locked (\<^verbatim>\<open>FOR UPDATE SKIP LOCKED\<close>). The rows come
  back in the order of the table.
\<close>

definition Q_ReclaimStuckBillingEvents :: "(string \<Rightarrow> bool) \<Rightarrow> duration \<Rightarrow> int32 \<Rightarrow> TenantConn \<Rightarrow> BillingEvent list tx" where
  "Q_ReclaimStuckBillingEvents skip staleAfter batch tc =
    bind_tx (writable tc) (\<lambda>_.
    bind_tx (reject_if (batch <s 0) (pg ''2201W'' [])) (\<lambda>_.
    bind_tx (asks (\<lambda>d. take (unat batch) (sort_key be_ReceivedAt
        (filter (\<lambda>r. be_Status r = BEProcessing \<and> be_ReceivedAt r < tc_now tc - staleAfter \<and> \<not> skip (be_EventID r))
          (billing_events d))))) (\<lambda>stuck.
    let hit = (\<lambda>r. be_EventID r \<in> set (map be_EventID stuck));
        f = (\<lambda>r. r\<lparr>be_Attempts := be_Attempts r + 1, be_ReceivedAt := tc_now tc\<rparr>)
    in bind_tx (asks (\<lambda>d. filter hit (billing_events d))) (\<lambda>rows.
       bind_tx (reject_if (\<exists>r \<in> set rows. sint (be_Attempts r) = 2147483647) (pg ''22003'' [])) (\<lambda>_.
       (\<lambda>d. Inr (map f rows, d\<lparr>billing_events := update_rows hit f (billing_events d)\<rparr>)))))))"

definition subscription_checks :: "TenantSubscription \<Rightarrow> (string \<times> bool) list" where
  "subscription_checks r =
    [(''tenant_subscriptions_period_chk'', ts_CurrentPeriodStart r < ts_CurrentPeriodEnd r),
     (''tenant_subscriptions_seats_chk'', 0 <s ts_Seats r),
     (''tenant_subscriptions_status_chk'', ts_Status r \<in> set (map sub_str AllSubStatuses))]"

text \<open>The \<^verbatim>\<open>WHERE\<close> of the \<^verbatim>\<open>DO UPDATE\<close> branch; SQL's comparison with NULL is not true.\<close>

definition not_older :: "TenantSubscription \<Rightarrow> TenantSubscription \<Rightarrow> bool" where
  "not_older old r =
    (case ts_LastEventAt old of
       None \<Rightarrow> True
     | Some t \<Rightarrow> (case ts_LastEventAt r of None \<Rightarrow> False | Some t' \<Rightarrow> t \<le> t'))"

definition Q_UpsertTenantSubscription :: "TenantSubscription \<Rightarrow> TenantConn \<Rightarrow> TenantSubscription tx" where
  "Q_UpsertTenantSubscription r0 tc =
    (let r = r0\<lparr>ts_UpdatedAt := tc_now tc\<rparr>; same = (\<lambda>x. ts_TenantID x = ts_TenantID r) in
     bind_tx (writable tc) (\<lambda>_.
     bind_tx (reject_if (\<not> tc_system tc) policy_error) (\<lambda>_.
     bind_tx (constraints ''23514'' (subscription_checks r)) (\<lambda>_.
     bind_tx (asks (\<lambda>d. d)) (\<lambda>d.
     let taken = (\<exists>x \<in> set (tenant_subs d). \<not> same x \<and> ts_GatewaySubscriptionID x = ts_GatewaySubscriptionID r) in
     case filter same (tenant_subs d) of
       old # _ \<Rightarrow>
         bind_tx (reject_if (\<not> not_older old r) NoRows) (\<lambda>_.
         bind_tx (constraints ''23505'' [(''tenant_subscriptions_gateway_id_key'', \<not> taken)]) (\<lambda>_.
         (\<lambda>d. Inr (r, d\<lparr>tenant_subs := update_rows same (\<lambda>_. r) (tenant_subs d)\<rparr>))))
     | [] \<Rightarrow>
         bind_tx (constraints ''23505'' [(''tenant_subscriptions_gateway_id_key'', \<not> taken)]) (\<lambda>_.
         bind_tx (constraints ''23503'' [(''tenant_subscriptions_tenant_id_fkey'', has_tenant d (ts_TenantID r))]) (\<lambda>_.
         (\<lambda>d. Inr (r, d\<lparr>tenant_subs := tenant_subs d @ [r]\<rparr>)))))))))"

definition Q_GetTenantEntitlement :: "TenantConn \<Rightarrow> TenantSubscription tx" where
  "Q_GetTenantEntitlement tc =
    bind_tx (asks (\<lambda>d. filter (\<lambda>r. ts_TenantID r = tc_tenantID tc \<and> rls tc (ts_TenantID r)) (tenant_subs d))) (\<lambda>rs.
    lift_res (one_row rs))"

definition Q_SetTenantBillingRef :: "TenantConn \<Rightarrow> string \<Rightarrow> nat tx" where
  "Q_SetTenantBillingRef tc ref =
    bind_tx (writable tc) (\<lambda>_.
    bind_tx (asks (\<lambda>d. d)) (\<lambda>d.
    let hits = filter (own_tenant tc) (tenants d) in
    if hits = [] then ret 0
    else
      bind_tx (constraints ''23505''
        [(''tenants_billing_customer_ref_key'',
          \<forall>t \<in> set (tenants d). \<not> own_tenant tc t \<longrightarrow> t_BillingCustomerRef t \<noteq> Some ref)]) (\<lambda>_.
      (\<lambda>d. Inr (length hits, d\<lparr>tenants :=
         update_rows (own_tenant tc) (\<lambda>t. t\<lparr>t_BillingCustomerRef := Some ref, t_UpdatedAt := tc_now tc\<rparr>) (tenants d)\<rparr>)))))"

section \<open>The repository\<close>

definition GetEntitlement :: "TenantConn \<Rightarrow> Entitlement tx" where
  "GetEntitlement tc =
    bind_tx (try_tx (Q_GetTenantEntitlement tc)) (\<lambda>r.
    case r of
      Inl err \<Rightarrow> if translate err = Sentinel ErrNotFound then ret FreeEntitlement else lift_res (Inl (translate err))
    | Inr row \<Rightarrow>
        ret \<lparr>en_Plan = plan_of (ts_PlanCode row), en_Status = sub_status_of (ts_Status row),
             en_Seats = sint (ts_Seats row), en_CurrentPeriodEnd = ts_CurrentPeriodEnd row,
             en_CancelAtPeriodEnd = ts_CancelAtPeriodEnd row, en_TrialEnd = ts_TrialEnd row, en_Known = True\<rparr>)"

definition ClaimDelivery :: "jsonb \<Rightarrow> Runtime \<Rightarrow> string \<Rightarrow> string \<Rightarrow> string \<Rightarrow> unit act" where
  "ClaimDelivery jsonb env eventID eventType payload =
    WithSystemTx env no_binding (\<lambda>tc.
      bind_tx (map_err (\<lambda>err. if translate err = Sentinel ErrNotFound then Sentinel ErrDuplicateDelivery else translate err)
        (Q_ClaimBillingEvent jsonb eventID None eventType payload tc)) (\<lambda>_. ret ()))"

definition SettleDelivery :: "Runtime \<Rightarrow> string \<Rightarrow> uuid option \<Rightarrow> BillingEventStatus \<Rightarrow> err option \<Rightarrow> unit act" where
  "SettleDelivery env eventID tenantID status cause =
    WithSystemTx env no_binding (\<lambda>tc.
      bind_tx (map_err translate (Q_SettleBillingEvent eventID status cause tenantID tc)) (\<lambda>_. ret ()))"

text \<open>The error of the transaction is translated after it has ended.\<close>

definition translated :: "'a act \<Rightarrow> 'a act" where
  "translated a = (\<lambda>d. case a d of (Inl e, d') \<Rightarrow> (Inl (translate e), d') | (Inr x, d') \<Rightarrow> (Inr x, d'))"

definition ResolveTenantByBillingRef :: "Runtime \<Rightarrow> string \<Rightarrow> uuid act" where
  "ResolveTenantByBillingRef env ref =
    translated (WithSystemTx env (no_binding\<lparr>bi_ReadOnly := True\<rparr>) (\<lambda>tc.
      bind_tx (asks (\<lambda>d. filter (\<lambda>t. t_BillingCustomerRef t = Some ref \<and> rls tc (t_ID t)) (tenants d))) (\<lambda>rs.
      bind_tx (lift_res (one_row rs)) (\<lambda>t. ret (t_ID t)))))"

record SubscriptionState =
  ss_GatewaySubscriptionID :: string
  ss_GatewayCustomerRef :: string
  ss_PlanCode :: string
  ss_Status :: string
  ss_Seats :: int32
  ss_CurrentPeriodStart :: time
  ss_CurrentPeriodEnd :: time
  ss_CancelAtPeriodEnd :: bool
  ss_TrialEnd :: "time option"
  ss_EventID :: string
  ss_EventAt :: time

definition projection_row :: "uuid \<Rightarrow> SubscriptionState \<Rightarrow> TenantSubscription" where
  "projection_row tenantID s =
    \<lparr>ts_TenantID = tenantID, ts_GatewaySubscriptionID = ss_GatewaySubscriptionID s,
     ts_GatewayCustomerRef = ss_GatewayCustomerRef s, ts_PlanCode = ss_PlanCode s, ts_Status = ss_Status s,
     ts_Seats = ss_Seats s, ts_CurrentPeriodStart = ss_CurrentPeriodStart s,
     ts_CurrentPeriodEnd = ss_CurrentPeriodEnd s, ts_CancelAtPeriodEnd = ss_CancelAtPeriodEnd s,
     ts_TrialEnd = ss_TrialEnd s, ts_LastEventID = Some (ss_EventID s), ts_LastEventAt = Some (ss_EventAt s),
     ts_UpdatedAt = zero_time\<rparr>"

definition ApplySubscription :: "Runtime \<Rightarrow> uuid \<Rightarrow> SubscriptionState \<Rightarrow> unit act" where
  "ApplySubscription env tenantID s =
    WithSystemTx env (no_binding\<lparr>bi_TenantID := tenantID\<rparr>) (\<lambda>tc.
      bind_tx (map_err (\<lambda>err. if translate err = Sentinel ErrNotFound then Sentinel ErrStaleEvent else translate err)
        (Q_UpsertTenantSubscription (projection_row tenantID s) tc)) (\<lambda>_. ret ()))"

definition LinkBillingCustomer :: "TenantConn \<Rightarrow> string \<Rightarrow> unit tx" where
  "LinkBillingCustomer tc ref =
    bind_tx (map_err translate (Q_SetTenantBillingRef tc ref)) (\<lambda>n.
    reject_if (n = 0) (Sentinel ErrNotFound))"

record StuckDelivery =
  sd_EventID :: string
  sd_EventType :: string
  sd_Payload :: string
  sd_Attempts :: int32

definition ReclaimStuck :: "(string \<Rightarrow> bool) \<Rightarrow> Runtime \<Rightarrow> duration \<Rightarrow> int32 \<Rightarrow> StuckDelivery list act" where
  "ReclaimStuck skip env staleAfter batch =
    WithSystemTx env no_binding (\<lambda>tc.
      bind_tx (map_err translate (Q_ReclaimStuckBillingEvents skip staleAfter batch tc)) (\<lambda>rows.
      ret (map (\<lambda>r. \<lparr>sd_EventID = be_EventID r, sd_EventType = be_EventType r, sd_Payload = be_Payload r,
                     sd_Attempts = be_Attempts r\<rparr>) rows)))"

definition TenantsWithBilling :: "Runtime \<Rightarrow> (uuid \<rightharpoonup> string) act" where
  "TenantsWithBilling env =
    WithSystemTx env (no_binding\<lparr>bi_ReadOnly := True\<rparr>) (\<lambda>tc.
      asks (\<lambda>d. map_of (rev (concat (map (\<lambda>t.
        case t_BillingCustomerRef t of
          Some ref \<Rightarrow> if rls tc (t_ID t) \<and> t_Status t \<noteq> TenantCancelled then [(t_ID t, ref)] else []
        | None \<Rightarrow> []) (tenants d))))))"

end
