(* ===== verification/Relay.thy ===== *)
theory Relay
  imports Money Encoding
begin

text \<open>
  \<^verbatim>\<open>internal/gateway/relay.go\<close>: the signature of a delivery forwarded by the payment gateway.
  \<^verbatim>\<open>strconv\<close>, \<^verbatim>\<open>encoding/hex\<close> and the splitting of strings are modelled;
  HMAC-SHA-256 and the JSON decoder are parameters of the operations that use them. The theorems fix
  which deliveries are accepted, and that what the gateway signs is accepted.
\<close>

section \<open>Text of numbers and bytes\<close>

definition itoa :: "int \<Rightarrow> string" where
  "itoa i = (if i < 0 then CHR ''-'' # digits (nat (- i)) else digits (nat i))"

text \<open>\<^verbatim>\<open>strconv.ParseInt(s, 10, 64)\<close>: an optional sign, decimal digits, within 64 bits.\<close>

definition is_digit :: "char \<Rightarrow> bool" where
  "is_digit c = (48 \<le> (of_char c :: nat) \<and> (of_char c :: nat) < 58)"

definition unsigned_of :: "string \<Rightarrow> nat option" where
  "unsigned_of s = (if s \<noteq> [] \<and> list_all is_digit s then Some (undigits s) else None)"

definition ParseInt :: "string \<Rightarrow> int option" where
  "ParseInt s =
    (let (neg, rest) = (case s of [] \<Rightarrow> (False, [])
           | c # r \<Rightarrow> if c = CHR ''-'' then (True, r) else if c = CHR ''+'' then (False, r) else (False, s))
     in case unsigned_of rest of
          None \<Rightarrow> None
        | Some n \<Rightarrow> (let i = (if neg then - int n else int n) in if in_int64 i then Some i else None))"

text \<open>\<^verbatim>\<open>strings.Split\<close> at a one-byte separator and \<^verbatim>\<open>strings.Cut\<close> at the first occurrence.\<close>

fun Split :: "char \<Rightarrow> string \<Rightarrow> string list" where
  "Split c [] = [[]]"
| "Split c (x # s) = (if x = c then [] # Split c s else (x # hd (Split c s)) # tl (Split c s))"

definition Cut :: "char \<Rightarrow> string \<Rightarrow> (string \<times> string) option" where
  "Cut c s = (if c \<in> set s then Some (takeWhile (\<lambda>x. x \<noteq> c) s, tl (dropWhile (\<lambda>x. x \<noteq> c) s)) else None)"

section \<open>Deliveries (\<^verbatim>\<open>relay.go\<close>)\<close>

record Subscription =
  sn_SubscriptionID :: string
  sn_CustomerRef :: string
  sn_PlanCode :: string
  sn_Status :: string
  sn_Seats :: int64
  sn_CurrentPeriodStart :: time
  sn_CurrentPeriodEnd :: time
  sn_CancelAtPeriodEnd :: bool
  sn_TrialEnd :: "time option"

record RelayEvent =
  re_ID :: string
  re_Type :: string
  re_CreatedAt :: time
  re_TenantRef :: string
  re_Subscription :: "Subscription option"

record Relay =
  rl_secret :: string
  rl_tolerance :: duration

definition DefaultTolerance :: duration where
  "DefaultTolerance = 300 * second"

definition NewRelay :: "string \<Rightarrow> duration \<Rightarrow> (err, Relay) res" where
  "NewRelay secret tolerance =
    (if length secret < 32 then Inl (Opaque (Text ''relay secret must be at least 32 bytes''))
     else Inr \<lparr>rl_secret = secret, rl_tolerance = (if tolerance \<le> 0 then DefaultTolerance else tolerance)\<rparr>)"

text \<open>\<^verbatim>\<open>time.Unix\<close> and \<^verbatim>\<open>Time.Unix\<close>: seconds since 1 January 1970.\<close>

definition unix_epoch :: time where
  "unix_epoch = 719162 * day"

definition time_Unix :: "int \<Rightarrow> time" where
  "time_Unix s = unix_epoch + s * second"

definition Unix :: "time \<Rightarrow> int" where
  "Unix t = (t - unix_epoch) div second"

text \<open>The loop over the parts of the header, with the timestamp and the signatures found so far.\<close>

fun header_parts :: "string list \<Rightarrow> int option \<Rightarrow> string list \<Rightarrow> (err, int option \<times> string list) res" where
  "header_parts [] ts sigs = Inr (ts, sigs)"
| "header_parts (part # parts) ts sigs =
    (case Cut (CHR ''='') (TrimSpace part) of
       None \<Rightarrow> header_parts parts ts sigs
     | Some (key, val) \<Rightarrow>
         if key = ''t''
         then (case ParseInt val of
                 None \<Rightarrow> Inl (Wrap ErrSignatureInvalid (Text ''timestamp is not a unix time''))
               | Some t \<Rightarrow> header_parts parts (Some t) sigs)
         else if key = ''v1''
         then (case DecodeString val of
                 None \<Rightarrow> header_parts parts ts sigs
               | Some raw \<Rightarrow> header_parts parts ts (sigs @ [raw]))
         else header_parts parts ts sigs)"

definition parseSignatureHeader :: "string \<Rightarrow> (err, int \<times> string list) res" where
  "parseSignatureHeader header =
    (case header_parts (Split (CHR '','') header) None [] of
       Inl e \<Rightarrow> Inl e
     | Inr (None, sigs) \<Rightarrow> Inl (Wrap ErrSignatureInvalid (Text ''no timestamp in the signature header''))
     | Inr (Some ts, sigs) \<Rightarrow>
         if sigs = [] then Inl (Wrap ErrSignatureInvalid (Text ''no usable signature in the header''))
         else Inr (ts, sigs))"

text \<open>The bytes the signature covers.\<close>

definition signed_bytes :: "int \<Rightarrow> string \<Rightarrow> string" where
  "signed_bytes ts body = itoa ts @ ''.'' @ body"

definition Verify ::
    "(string \<Rightarrow> string \<Rightarrow> string) \<Rightarrow> (string \<Rightarrow> RelayEvent option) \<Rightarrow> Relay \<Rightarrow> string \<Rightarrow> string \<Rightarrow> time \<Rightarrow> (err, RelayEvent) res" where
  "Verify hmac unmarshal r header body now =
    (if header = [] then Inl (Sentinel ErrSignatureMissing)
     else
       case parseSignatureHeader header of
         Inl e \<Rightarrow> Inl e
       | Inr (ts, signatures) \<Rightarrow>
           let age = now - time_Unix ts in
           if age > rl_tolerance r \<or> age < - rl_tolerance r
           then Inl (Wrap ErrSignatureExpired (Fmt ''delivery is %s old'' [itoa age]))
           else if \<not> list_ex (\<lambda>candidate. hmac (rl_secret r) (signed_bytes ts body) = candidate) signatures
           then Inl (Sentinel ErrSignatureInvalid)
           else
             case unmarshal body of
               None \<Rightarrow> Inl (Wrap ErrSignatureInvalid (Text ''body is not valid json''))
             | Some event \<Rightarrow>
                 if re_ID event = [] \<or> re_Type event = []
                 then Inl (Wrap ErrSignatureInvalid (Text ''event is missing id or type''))
                 else Inr event)"

definition Sign :: "(string \<Rightarrow> string \<Rightarrow> string) \<Rightarrow> Relay \<Rightarrow> string \<Rightarrow> time \<Rightarrow> string" where
  "Sign hmac r body at =
    ''t='' @ itoa (Unix at) @ '',v1='' @ EncodeToString (hmac (rl_secret r) (signed_bytes (Unix at) body))"

section \<open>Round trips of the encodings\<close>

lemma digits_are_digits: "list_all is_digit (digits n)"
  using digits_range by (auto simp: list_all_iff is_digit_def)

lemma unsigned_of_digits [simp]: "unsigned_of (digits n) = Some n"
  using digits_are_digits by (simp add: unsigned_of_def)

lemma digits_head: "digits n = c # s \<Longrightarrow> c \<noteq> CHR ''-'' \<and> c \<noteq> CHR ''+''"
  using digits_range [of c n] by auto

lemma ParseInt_itoa: "in_int64 i \<Longrightarrow> ParseInt (itoa i) = Some i"
proof (cases "i < 0")
  case True
  assume "in_int64 i"
  with True show ?thesis by (simp add: ParseInt_def itoa_def)
next
  case False
  assume r: "in_int64 i"
  obtain c s where d: "digits (nat i) = c # s" by (cases "digits (nat i)") auto
  with digits_head have "c \<noteq> CHR ''-''" "c \<noteq> CHR ''+''" by blast+
  then show ?thesis
    using False r d unsigned_of_digits [of "nat i"] by (simp add: ParseInt_def itoa_def)
qed

lemma char_of_halves: "char_of (16 * (of_char c div 16) + of_char c mod 16 :: nat) = (c :: char)"
  by (simp only: mult_div_mod_eq char_of_char)

lemma of_char_div_16: "of_char (c :: char) div 16 < (16 :: nat)"
  by (rule less_mult_imp_div_less) simp

lemma DecodeString_Encode [simp]: "DecodeString (EncodeToString s) = Some s"
  by (induction s) (simp_all add: of_char_div_16 char_of_halves)

text \<open>Printable ASCII has nothing to trim.\<close>

definition solid :: "char \<Rightarrow> bool" where
  "solid c = (32 < (of_char c :: nat) \<and> (of_char c :: nat) < 127)"

lemma TrimSpace_solid:
  assumes "list_all solid s"
  shows "TrimSpace s = s"
proof -
  have space: "\<forall>p \<in> set go_spaces. \<exists>c \<in> set p. \<not> solid c" by (simp add: go_spaces_def solid_def)
  have "take (length p) s \<noteq> p" if p: "p \<in> set go_spaces" for p
    using p space assms by (metis in_set_takeD list_all_iff)
  moreover have "take (length p) (rev s) \<noteq> p" if p: "rev p \<in> set go_spaces" for p
    using p space assms by (metis in_set_takeD list_all_iff set_rev)
  then have "take (length p) (rev s) \<noteq> rev p" if "p \<in> set go_spaces" for p
    using that by (metis length_rev rev_rev_ident)
  ultimately have "match_prefix go_spaces s = 0" "match_prefix (map rev go_spaces) (rev s) = 0"
    by (auto simp: match_prefix_0_iff)
  then show ?thesis by (simp add: TrimSpace_def strip_left_id)
qed

lemma hex_digit_solid:
  assumes "n < 16"
  shows "solid (hex_digit n) \<and> hex_digit n \<noteq> CHR '',''"
proof -
  have "(of_char (hex_digit n) :: nat) = (if n < 10 then 48 + n else 87 + n)"
    using assms by (simp add: hex_digit_def)
  then show ?thesis using assms by (auto simp: solid_def split: if_splits)
qed

lemma Encode_solid: "list_all solid (EncodeToString s) \<and> CHR '','' \<notin> set (EncodeToString s)"
  by (induction s) (use hex_digit_solid of_char_div_16 in \<open>simp_all, metis mod_less_divisor zero_less_numeral\<close>)

lemma itoa_chars: "c \<in> set (itoa i) \<Longrightarrow> c = CHR ''-'' \<or> 48 \<le> (of_char c :: nat) \<and> (of_char c :: nat) < 58"
  using digits_range by (auto simp: itoa_def split: if_splits)

lemma itoa_solid: "list_all solid (itoa i)" "CHR '','' \<notin> set (itoa i)"
proof -
  have "solid c" if "c \<in> set (itoa i)" for c using itoa_chars [OF that] by (auto simp: solid_def)
  then show "list_all solid (itoa i)" by (simp add: list_all_iff)
  show "CHR '','' \<notin> set (itoa i)" using itoa_chars [of "CHR '',''" i] by auto
qed

lemma Split_none: "c \<notin> set s \<Longrightarrow> Split c s = [s]"
  by (induction s) auto

lemma Split_append: "c \<notin> set s \<Longrightarrow> Split c (s @ c # t) = s # Split c t"
  by (induction s) auto

lemma Cut_key: "c \<notin> set k \<Longrightarrow> Cut c (k @ c # v) = Some (k, v)"
  by (induction k) (auto simp: Cut_def)

lemma parse_signed:
  assumes "in_int64 ts"
  shows "parseSignatureHeader (''t='' @ itoa ts @ '',v1='' @ EncodeToString raw) = Inr (ts, [raw])"
proof -
  let ?a = "''t='' @ itoa ts" and ?b = "''v1='' @ EncodeToString raw"
  have "Split (CHR '','') (?a @ CHR '','' # ?b) = [?a, ?b]"
    using itoa_solid [of ts] Encode_solid [of raw]
    by (subst Split_append) (simp_all add: Split_none)
  moreover have "TrimSpace ?a = ?a" "TrimSpace ?b = ?b"
    using itoa_solid [of ts] Encode_solid [of raw] by (auto intro!: TrimSpace_solid simp: solid_def)
  moreover have "Cut (CHR ''='') ?a = Some (''t'', itoa ts)" "Cut (CHR ''='') ?b = Some (''v1'', EncodeToString raw)"
    using Cut_key [of "CHR ''=''" "''t''"] Cut_key [of "CHR ''=''" "''v1''"] by simp_all
  ultimately show ?thesis
    using ParseInt_itoa [OF assms] by (simp add: parseSignatureHeader_def)
qed

text \<open>The signature covers the timestamp: no two deliveries with different ones share the bytes.\<close>

lemma itoa_inj: "in_int64 i \<Longrightarrow> in_int64 j \<Longrightarrow> itoa i = itoa j \<Longrightarrow> i = j"
  by (metis ParseInt_itoa option.inject)

lemma no_dot: "CHR ''.'' \<notin> set (itoa i)"
  using itoa_chars [of "CHR ''.''" i] by auto

lemma signed_bytes_inj:
  assumes "signed_bytes i b = signed_bytes j c" "in_int64 i" "in_int64 j"
  shows "i = j \<and> b = c"
proof -
  have "Cut (CHR ''.'') (signed_bytes k e) = Some (itoa k, e)" for k e
    using Cut_key [OF no_dot [of k]] by (simp add: signed_bytes_def)
  with assms show ?thesis by (metis itoa_inj option.inject prod.inject)
qed

section \<open>What is accepted\<close>


text \<open>
  What the gateway signs is accepted: a body signed at some instant and presented while that instant
  (in whole seconds) is within the tolerance gets past the signature and is decided by its content
  alone; outside the tolerance it is refused as expired.
\<close>

theorem Verify_Sign:
  assumes "in_int64 (Unix at)"
  shows "Verify hmac unmarshal r (Sign hmac r body at) body now =
    (if \<bar>now - time_Unix (Unix at)\<bar> > rl_tolerance r
     then Inl (Wrap ErrSignatureExpired (Fmt ''delivery is %s old'' [itoa (now - time_Unix (Unix at))]))
     else case unmarshal body of
            None \<Rightarrow> Inl (Wrap ErrSignatureInvalid (Text ''body is not valid json''))
          | Some ev \<Rightarrow> if re_ID ev = [] \<or> re_Type ev = []
              then Inl (Wrap ErrSignatureInvalid (Text ''event is missing id or type'')) else Inr ev)"
  using parse_signed [OF assms, of "hmac (rl_secret r) (signed_bytes (Unix at) body)"]
  by (simp add: Verify_def Sign_def Let_def abs_if split: option.splits)

theorem Verify_Sign_witness:
  "Verify (\<lambda>k m. ''mac'') (\<lambda>b. Some \<lparr>re_ID = ''e1'', re_Type = ''subscription.updated'', re_CreatedAt = 0, re_TenantRef = ''r'',
      re_Subscription = None\<rparr>) \<lparr>rl_secret = ''k'', rl_tolerance = DefaultTolerance\<rparr>
      (Sign (\<lambda>k m. ''mac'') \<lparr>rl_secret = ''k'', rl_tolerance = DefaultTolerance\<rparr> ''{}'' unix_epoch) ''{}'' (unix_epoch + 7 * second)
   = Inr \<lparr>re_ID = ''e1'', re_Type = ''subscription.updated'', re_CreatedAt = 0, re_TenantRef = ''r'', re_Subscription = None\<rparr>"
  using Verify_Sign [of unix_epoch "\<lambda>k m. ''mac''" _ "\<lparr>rl_secret = ''k'', rl_tolerance = DefaultTolerance\<rparr>" "''{}''"
      "unix_epoch + 7 * second"]
  by (simp add: Unix_def time_Unix_def in_int64_def DefaultTolerance_def second_def)

end
