(* ===== verification/Billing_Service.thy ===== *)
theory Billing_Service
  imports Billing_Repo Relay Paging
begin

text \<open>
  \<^verbatim>\<open>internal/service/billing_service.go\<close>, the relay endpoint of
  \<^verbatim>\<open>handler/billing.go\<close> and the sweep of \<^verbatim>\<open>worker/handlers.go\<close>: a delivery is
  verified, claimed, applied to the subscription projection and settled, each step in a transaction of
  its own; the \<open>k\<close>-th runs in the surroundings \<open>envs k\<close>. The payment gateway's answers are a
  parameter.
\<close>

section \<open>Reading and checkout\<close>

definition Service_Entitlement :: "Runtime \<Rightarrow> Subject \<Rightarrow> Entitlement act" where
  "Service_Entitlement env subject = Scope_Read env subject (\<lambda>tc actor. GetEntitlement tc)"

record CheckoutRequest =
  cr_PriceID :: string
  cr_Quantity :: int64
  cr_SuccessURL :: string
  cr_CancelURL :: string

record CheckoutSession =
  co_URL :: string
  co_ExpiresAt :: time

text \<open>The client of the payment gateway.\<close>

record Gateway =
  gw_StartCheckout :: "uuid \<Rightarrow> string \<Rightarrow> CheckoutRequest \<Rightarrow> (err, CheckoutSession) res"
  gw_OpenPortal :: "uuid \<Rightarrow> string \<Rightarrow> string \<Rightarrow> (err, string) res"
  gw_GetSubscription :: "uuid \<Rightarrow> string \<Rightarrow> (err, Subscription) res"

definition not_configured :: err where
  "not_configured = Wrap ErrGatewayUnavailable (Text ''billing is not configured on this deployment'')"

definition StartCheckout :: "Gateway option \<Rightarrow> Codec \<Rightarrow> (nat \<Rightarrow> Runtime) \<Rightarrow> Subject \<Rightarrow> CheckoutRequest \<Rightarrow> CheckoutSession act" where
  "StartCheckout client codec envs subject req =
    (case client of
       None \<Rightarrow> fail_act not_configured
     | Some gw \<Rightarrow>
         bind_act (Scope_Read (envs 0) subject (\<lambda>tc actor.
           bind_tx (lift_res (Require actor PermBillingManage)) (\<lambda>_.
           bind_tx (GetTenant tc) (\<lambda>t.
           ret (t_ID t, case t_BillingCustomerRef t of Some ref \<Rightarrow> ref | None \<Rightarrow> uuid_text codec (t_ID t)))))) (\<lambda>(tenantID, customerRef).
         bind_act (lift_act (gw_StartCheckout gw tenantID customerRef req)) (\<lambda>session.
         bind_act (try_act (Scope_Write (envs 1) subject (\<lambda>tc actor. LinkBillingCustomer tc customerRef))) (\<lambda>_.
         ret_act session))))"

definition OpenPortal :: "Gateway option \<Rightarrow> Runtime \<Rightarrow> Subject \<Rightarrow> string \<Rightarrow> string act" where
  "OpenPortal client env subject returnURL =
    (case client of
       None \<Rightarrow> fail_act not_configured
     | Some gw \<Rightarrow>
         bind_act (Scope_Read env subject (\<lambda>tc actor.
           bind_tx (lift_res (Require actor PermBillingManage)) (\<lambda>_.
           bind_tx (GetTenant tc) (\<lambda>t.
           case t_BillingCustomerRef t of
             None \<Rightarrow> lift_res (Inl (Wrap ErrNotFound (Text ''this organisation has no subscription to manage'')))
           | Some ref \<Rightarrow> ret (t_ID t, ref))))) (\<lambda>(tenantID, customerRef).
         lift_act (gw_OpenPortal gw tenantID customerRef returnURL)))"

section \<open>Relayed events\<close>

datatype RelayOutcome = RelayApplied | RelayDuplicate | RelaySkipped

definition known_event_types :: "string list" where
  "known_event_types = [''subscription.created'', ''subscription.updated'', ''subscription.deleted'',
     ''invoice.payment_failed'', ''invoice.payment_succeeded'']"

text \<open>\<^verbatim>\<open>int32(max(seats, 1))\<close>: the conversion keeps the low 32 bits.\<close>

definition state_of :: "Subscription \<Rightarrow> string \<Rightarrow> string \<Rightarrow> time \<Rightarrow> SubscriptionState" where
  "state_of sub customerRef eventID eventAt =
    \<lparr>ss_GatewaySubscriptionID = sn_SubscriptionID sub, ss_GatewayCustomerRef = customerRef,
     ss_PlanCode = sn_PlanCode sub, ss_Status = sn_Status sub,
     ss_Seats = ucast (if sn_Seats sub <s 1 then 1 else sn_Seats sub),
     ss_CurrentPeriodStart = sn_CurrentPeriodStart sub, ss_CurrentPeriodEnd = sn_CurrentPeriodEnd sub,
     ss_CancelAtPeriodEnd = sn_CancelAtPeriodEnd sub, ss_TrialEnd = sn_TrialEnd sub,
     ss_EventID = eventID, ss_EventAt = eventAt\<rparr>"

definition applyEvent :: "(nat \<Rightarrow> Runtime) \<Rightarrow> RelayEvent \<Rightarrow> RelayOutcome act" where
  "applyEvent envs event =
    (if re_Type event \<notin> set known_event_types then ret_act RelaySkipped
     else
       case re_Subscription event of
         None \<Rightarrow> ret_act RelaySkipped
       | Some sub \<Rightarrow>
           bind_act (try_act (ResolveTenantByBillingRef (envs 0) (re_TenantRef event))) (\<lambda>found.
           case found of
             Inl err \<Rightarrow> if errors_is err ErrNotFound then ret_act RelaySkipped else fail_act err
           | Inr tenantID \<Rightarrow>
               bind_act (try_act (ApplySubscription (envs 1) tenantID
                 (state_of sub (re_TenantRef event) (re_ID event) (re_CreatedAt event)))) (\<lambda>done.
               case done of
                 Inl err \<Rightarrow> if errors_is err ErrStaleEvent then ret_act RelaySkipped else fail_act err
               | Inr _ \<Rightarrow> ret_act RelayApplied)))"

definition settle_status :: "(err, RelayOutcome) res \<Rightarrow> BillingEventStatus" where
  "settle_status r = (case r of Inl _ \<Rightarrow> BEFailed | Inr RelaySkipped \<Rightarrow> BESkipped | Inr _ \<Rightarrow> BESucceeded)"

definition applyAndSettle :: "(nat \<Rightarrow> Runtime) \<Rightarrow> RelayEvent \<Rightarrow> RelayOutcome act" where
  "applyAndSettle envs event =
    bind_act (try_act (applyEvent envs event)) (\<lambda>result.
    bind_act (try_act (ResolveTenantByBillingRef (envs 2) (re_TenantRef event))) (\<lambda>owner.
    let tenantID = (case owner of Inl _ \<Rightarrow> None | Inr i \<Rightarrow> Some i);
        cause = (case result of Inl e \<Rightarrow> Some e | Inr _ \<Rightarrow> None)
    in bind_act (try_act (SettleDelivery (envs 3) (re_ID event) tenantID (settle_status result) cause)) (\<lambda>_.
       lift_act result)))"

definition IngestRelayedEvent :: "jsonb \<Rightarrow> (nat \<Rightarrow> Runtime) \<Rightarrow> RelayEvent \<Rightarrow> string \<Rightarrow> RelayOutcome act" where
  "IngestRelayedEvent jsonb envs event rawBody =
    bind_act (try_act (ClaimDelivery jsonb (envs 0) (re_ID event) (re_Type event) rawBody)) (\<lambda>claimed.
    case claimed of
      Inl err \<Rightarrow> if errors_is err ErrDuplicateDelivery then ret_act RelayDuplicate else fail_act err
    | Inr _ \<Rightarrow> applyAndSettle (\<lambda>k. envs (Suc k)) event)"

definition MaxRelayAttempts :: int where
  "MaxRelayAttempts = 5"

definition ReapplyStuck :: "(string \<Rightarrow> RelayEvent option) \<Rightarrow> (nat \<Rightarrow> Runtime) \<Rightarrow> StuckDelivery \<Rightarrow> RelayOutcome act" where
  "ReapplyStuck unmarshal envs delivery =
    (if sint (sd_Attempts delivery) > MaxRelayAttempts
     then bind_act (SettleDelivery (envs 0) (sd_EventID delivery) None BEFailed
            (Some (Opaque (Fmt ''abandoned after %d attempts'' [itoa (sint (sd_Attempts delivery))])))) (\<lambda>_.
          ret_act RelaySkipped)
     else
       case unmarshal (sd_Payload delivery) of
         None \<Rightarrow>
           bind_act (SettleDelivery (envs 0) (sd_EventID delivery) None BEFailed
             (Some (Opaque (Fmt ''stored payload is unreadable: %w'' [])))) (\<lambda>_.
           ret_act RelaySkipped)
       | Some event \<Rightarrow> applyAndSettle envs event)"

definition ReclaimStuckDeliveries :: "(string \<Rightarrow> bool) \<Rightarrow> Runtime \<Rightarrow> duration \<Rightarrow> int32 \<Rightarrow> StuckDelivery list act" where
  "ReclaimStuckDeliveries skip env staleAfter batch = ReclaimStuck skip env staleAfter batch"

definition TenantsToReconcile :: "Runtime \<Rightarrow> (uuid \<rightharpoonup> string) act" where
  "TenantsToReconcile env = TenantsWithBilling env"

definition Reconcile :: "Gateway option \<Rightarrow> Codec \<Rightarrow> Runtime \<Rightarrow> uuid \<Rightarrow> string \<Rightarrow> unit act" where
  "Reconcile client codec env tenantID customerRef =
    (case client of
       None \<Rightarrow> ret_act ()
     | Some gw \<Rightarrow>
         (case gw_GetSubscription gw tenantID customerRef of
            Inl err \<Rightarrow> if errors_is err ErrGatewayNotFound then ret_act () else fail_act err
          | Inr sub \<Rightarrow>
              ApplySubscription env tenantID
                (state_of sub customerRef (''reconcile:'' @ rfc3339 codec (clock env)) (clock env))))"

section \<open>The endpoint (\<^verbatim>\<open>handler/billing.go\<close>)\<close>

definition MaxRelayBodyBytes :: nat where
  "MaxRelayBodyBytes = 512 * 1024"

text \<open>The status of the response and the outcome it reports.\<close>

definition HandleRelay ::
    "(string \<Rightarrow> string \<Rightarrow> string) \<Rightarrow> (string \<Rightarrow> RelayEvent option) \<Rightarrow> jsonb \<Rightarrow> Relay \<Rightarrow> (nat \<Rightarrow> Runtime) \<Rightarrow>
     string \<Rightarrow> string \<Rightarrow> db \<Rightarrow> (nat \<times> RelayOutcome option) \<times> db" where
  "HandleRelay hmac unmarshal jsonb relay envs header body d =
    (if length body > MaxRelayBodyBytes then ((413, None), d)
     else
       case Verify hmac unmarshal relay header body (clock (envs 0)) of
         Inl err \<Rightarrow> ((if errors_is err ErrSignatureExpired then 408 else 400, None), d)
       | Inr event \<Rightarrow>
           (case IngestRelayedEvent jsonb envs event body d of
              (Inl err, d') \<Rightarrow> ((500, None), d')
            | (Inr outcome, d') \<Rightarrow> ((200, Some outcome), d')))"

section \<open>The sweep (\<^verbatim>\<open>worker/handlers.go\<close>)\<close>

definition RelayStaleAfter :: duration where
  "RelayStaleAfter = 300 * second"

definition RelaySweepBatch :: int32 where
  "RelaySweepBatch = 50"

text \<open>The loop over the reclaimed deliveries; a failure is logged and the next one is taken.\<close>

fun sweep_each :: "(string \<Rightarrow> RelayEvent option) \<Rightarrow> (nat \<Rightarrow> nat \<Rightarrow> Runtime) \<Rightarrow> nat \<Rightarrow> StuckDelivery list \<Rightarrow> unit act" where
  "sweep_each unmarshal envs k [] = ret_act ()"
| "sweep_each unmarshal envs k (delivery # rest) =
    bind_act (try_act (ReapplyStuck unmarshal (envs k) delivery)) (\<lambda>_. sweep_each unmarshal envs (Suc k) rest)"

definition HandleRelaySweep :: "(string \<Rightarrow> RelayEvent option) \<Rightarrow> (string \<Rightarrow> bool) \<Rightarrow> Runtime \<Rightarrow> (nat \<Rightarrow> nat \<Rightarrow> Runtime) \<Rightarrow> unit act" where
  "HandleRelaySweep unmarshal skip env envs =
    bind_act (ReclaimStuckDeliveries skip env RelayStaleAfter RelaySweepBatch) (\<lambda>stuck.
    sweep_each unmarshal envs 0 stuck)"

end
