(* ===== verification/Billing_Props.thy ===== *)
theory Billing_Props
  imports Billing_Service Demo_World "HOL-Library.Option_ord"
begin

text \<open>
  Properties of the billing relay: a delivery takes effect at most once, whatever is redelivered and
  swept in between; the projection of a subscription is that of the newest event, in whatever order
  the events arrive; a delivery whose application failed is never tried again; and the sweep settles
  what a crash left open.
\<close>

section \<open>System transactions\<close>

lemma WithSystemTx_Inr:
  assumes "verify_reset env = None"
  shows "WithSystemTx env b fn d = (Inr x, d') \<longleftrightarrow> runs env \<and> fn (bindSession env b True) d = Inr (x, d')"
  using assms by (simp add: WithSystemTx_def runTx_Inr)

lemma not_retryable [simp]: "\<not> isRetryable (Sentinel s)" "\<not> isRetryable (Wrap s m)" "\<not> isRetryable (FieldErr f)"
  "\<not> isRetryable NoRows" "\<not> isRetryable (constraint_error s p)"
  by (auto simp: constraint_error_def split: option.splits)

lemma find_filter: "filter P xs = x # rest \<Longrightarrow> List.find P xs = Some x"
  by (induction xs) (auto split: if_splits)

section \<open>What each step does\<close>

definition delivery_ids :: "db \<Rightarrow> string set" where
  "delivery_ids d = be_EventID ` set (billing_events d)"

definition claimed_row :: "RelayEvent \<Rightarrow> string \<Rightarrow> time \<Rightarrow> BillingEvent" where
  "claimed_row ev doc now =
    \<lparr>be_EventID = re_ID ev, be_TenantID = None, be_EventType = re_Type ev, be_Status = BEProcessing, be_Attempts = 1,
     be_Payload = doc, be_ErrorDetail = None, be_ReceivedAt = now, be_ProcessedAt = None\<rparr>"

lemmas stmt_eval = bind_tx_def map_err_def writable_def reject_if_def fail_if_def lift_res_def constraints_def
  first_failing.simps fk_opt_def no_binding_def Let_def

lemma claim_outcome:
  assumes "runs env" "jsonb payload = Some doc"
  shows "ClaimDelivery jsonb env (re_ID ev) (re_Type ev) payload d =
    (if re_ID ev \<in> delivery_ids d then (Inl (Sentinel ErrDuplicateDelivery), d)
     else (Inr (), d\<lparr>billing_events := billing_events d @ [claimed_row ev doc (db_clock env)]\<rparr>))"
proof (cases "re_ID ev \<in> delivery_ids d")
  case True
  then have "\<exists>r \<in> set (billing_events d). be_EventID r = re_ID ev" by (auto simp: delivery_ids_def)
  then show ?thesis unfolding ClaimDelivery_def WithSystemTx_def
    using True by (subst runTx_refuses [OF assms(1)]) (auto simp: Q_ClaimBillingEvent_def stmt_eval assms(2) translate_def)
next
  case False
  then have "\<forall>r \<in> set (billing_events d). be_EventID r \<noteq> re_ID ev"
    by (metis delivery_ids_def image_eqI)
  then show ?thesis unfolding ClaimDelivery_def WithSystemTx_def
    using False by (subst runTx_runs [OF assms(1)]) (auto simp: Q_ClaimBillingEvent_def stmt_eval assms(2) claimed_row_def)
qed

lemma resolve_outcome:
  assumes "runs env"
  shows "ResolveTenantByBillingRef env ref d =
    (case List.find (\<lambda>t. t_BillingCustomerRef t = Some ref) (tenants d) of
       None \<Rightarrow> Inl (Sentinel ErrNotFound) | Some t \<Rightarrow> Inr (t_ID t), d)"
proof (cases "filter (\<lambda>t. t_BillingCustomerRef t = Some ref) (tenants d)")
  case Nil
  then have "List.find (\<lambda>t. t_BillingCustomerRef t = Some ref) (tenants d) = None"
    by (auto simp: find_None_iff filter_empty_conv)
  then show ?thesis unfolding ResolveTenantByBillingRef_def translated_def WithSystemTx_def
    by (subst runTx_refuses [OF assms]) (auto simp: Nil bind_tx_def lift_res_def one_row_def rls_def translate_def)
next
  case (Cons t rest)
  then have "List.find (\<lambda>t. t_BillingCustomerRef t = Some ref) (tenants d) = Some t"
    by (simp add: find_filter)
  then show ?thesis unfolding ResolveTenantByBillingRef_def translated_def WithSystemTx_def
    by (subst runTx_runs [OF assms]) (auto simp: Cons bind_tx_def lift_res_def one_row_def rls_def)
qed

lemma resolved_tenant: "List.find P (tenants d) = Some t \<Longrightarrow> has_tenant d (t_ID t) \<and> P t"
  by (auto simp: find_Some_iff has_tenant_def)

lemma settle_outcome:
  assumes "runs env" "status \<noteq> BEProcessing" "fk_opt (has_tenant d) tid"
  shows "SettleDelivery env i tid status cause d =
    (Inr (), d\<lparr>billing_events := update_rows (open_delivery i) (settled_row status cause tid (db_clock env)) (billing_events d)\<rparr>)"
proof -
  have none: "update_rows P f xs = xs" if "filter P xs = []" for P f and xs :: "BillingEvent list"
    using that by (induction xs) (auto simp: update_rows_def split: if_splits)
  have "Q_SettleBillingEvent i status cause tid tc d = Inr (length (filter (open_delivery i) (billing_events d)),
      d\<lparr>billing_events := update_rows (open_delivery i) (settled_row status cause tid (tc_now tc)) (billing_events d)\<rparr>)"
    if "\<not> tc_readOnly tc" for tc
    using that assms(2,3) none [of "open_delivery i" "billing_events d"]
    by (cases "filter (open_delivery i) (billing_events d)")
       (simp_all add: Q_SettleBillingEvent_def bind_tx_def writable_def reject_if_def fail_if_def lift_res_def constraints_def
          first_failing.simps)
  then show ?thesis unfolding SettleDelivery_def WithSystemTx_def
    by (subst runTx_runs [OF assms(1)]) (auto simp: bind_tx_def map_err_def no_binding_def)
qed

section \<open>The ledger only grows, and settled rows stay\<close>

definition ledger_effect :: "db \<Rightarrow> db \<Rightarrow> bool" where
  "ledger_effect d d' =
    (distinct (map be_EventID (billing_events d)) \<longrightarrow>
       distinct (map be_EventID (billing_events d')) \<and> delivery_ids d \<subseteq> delivery_ids d' \<and>
       (\<forall>r \<in> set (billing_events d). be_Status r \<noteq> BEProcessing \<longrightarrow> r \<in> set (billing_events d')))"

interpretation ledger: effect_relation ledger_effect
  by unfold_locales (auto simp: ledger_effect_def)

lemma ledger_same: "(\<And>d x d'. m d = Inr (x, d') \<Longrightarrow> billing_events d' = billing_events d) \<Longrightarrow> keeps ledger_effect m"
  by (auto simp: keeps_def ledger_effect_def delivery_ids_def)

lemma ledger_update:
  assumes "\<And>r. be_EventID (f r) = be_EventID r"
    and "\<And>r. distinct (map be_EventID (billing_events d)) \<Longrightarrow> r \<in> set (billing_events d) \<Longrightarrow> P r \<Longrightarrow> be_Status r = BEProcessing"
  shows "ledger_effect d (d\<lparr>billing_events := update_rows P f (billing_events d)\<rparr>)"
  unfolding ledger_effect_def delivery_ids_def
  using assms by (auto simp: map_update_rows image_update_rows update_rows_mem)

lemma Claim_ledger: "keeps ledger_effect (Q_ClaimBillingEvent jsonb i t ty p tc)"
  by (auto simp: keeps_def Q_ClaimBillingEvent_def go_result Let_def ledger_effect_def delivery_ids_def split: option.splits)

lemma Settle_ledger: "keeps ledger_effect (Q_SettleBillingEvent i st de t tc)"
  by (auto simp: keeps_def Q_SettleBillingEvent_def go_result Let_def open_delivery_def settled_row_def ledger.effect_refl
      intro!: ledger_update split: if_splits)

lemma batch_row: "x \<in> set (take n (sort_key k (filter P xs))) \<Longrightarrow> x \<in> set xs \<and> P x"
  by (auto dest!: in_set_takeD)

lemma same_key: "distinct (map k xs) \<Longrightarrow> x \<in> set xs \<Longrightarrow> y \<in> set xs \<Longrightarrow> k x = k y \<Longrightarrow> x = y"
  by (auto simp: distinct_map inj_on_def)

lemma Reclaim_ledger: "keeps ledger_effect (Q_ReclaimStuckBillingEvents skip stale batch tc)"
proof -
  have "be_Status r = BEProcessing"
    if "distinct (map be_EventID (billing_events d))" "r \<in> set (billing_events d)" "be_EventID r = be_EventID x"
      "x \<in> set (take n (sort_key be_ReceivedAt (filter P (billing_events d))))" "\<And>y. P y \<Longrightarrow> be_Status y = BEProcessing"
    for d r n P x
    using that batch_row [OF that(4)] same_key [OF that(1,2)] by metis
  then show ?thesis
    by (fastforce simp: keeps_def Q_ReclaimStuckBillingEvents_def go_result Let_def intro!: ledger_update)
qed

lemma Upsert_ledger: "keeps ledger_effect (Q_UpsertTenantSubscription r tc)"
  by (rule ledger_same) (auto simp: Q_UpsertTenantSubscription_def go_result Let_def split: list.splits)

lemma SetRef_ledger: "keeps ledger_effect (Q_SetTenantBillingRef tc ref)"
  by (rule ledger_same) (auto simp: Q_SetTenantBillingRef_def go_result Let_def split: if_splits)

context effect_relation
begin

lemma keeps_translated: "keeps_act R a \<Longrightarrow> keeps_act R (translated a)"
  by (auto simp: keeps_act_def translated_def split_beta split: sum.splits)

lemma keeps_ResolveTenant: "keeps_act R (ResolveTenantByBillingRef env ref)"
  unfolding ResolveTenantByBillingRef_def by (intro keeps_translated keeps_WithSystemTx keeps_intros)

lemmas act_intros = keeps_act_bind keeps_act_ret keeps_act_fail keeps_act_try keeps_act_lift keeps_ResolveTenant

end

lemma steps_ledger:
  "keeps_act ledger_effect (ClaimDelivery jsonb env i ty p)" "keeps_act ledger_effect (SettleDelivery env i t st c)"
  "keeps_act ledger_effect (ApplySubscription env u s)" "keeps_act ledger_effect (ReclaimStuck skip env stale batch)"
  unfolding ClaimDelivery_def SettleDelivery_def ApplySubscription_def ReclaimStuck_def
  by (intro ledger.keeps_WithSystemTx ledger.keeps_intros Claim_ledger Settle_ledger Upsert_ledger Reclaim_ledger)+

lemma applyEvent_ledger: "keeps_act ledger_effect (applyEvent envs ev)"
  unfolding applyEvent_def by (auto intro!: ledger.act_intros steps_ledger split: option.splits sum.splits)

lemma applyAndSettle_ledger: "keeps_act ledger_effect (applyAndSettle envs ev)"
  unfolding applyAndSettle_def Let_def by (intro ledger.act_intros steps_ledger applyEvent_ledger)

lemma Ingest_ledger: "keeps_act ledger_effect (IngestRelayedEvent jsonb envs ev raw)"
  unfolding IngestRelayedEvent_def by (auto intro!: ledger.act_intros steps_ledger applyAndSettle_ledger split: sum.splits)

lemma Reapply_ledger: "keeps_act ledger_effect (ReapplyStuck unmarshal envs del)"
  unfolding ReapplyStuck_def by (auto intro!: ledger.act_intros steps_ledger applyAndSettle_ledger split: option.splits)

lemma sweep_each_ledger: "keeps_act ledger_effect (sweep_each unmarshal envs k ds)"
  by (induction ds arbitrary: k) (auto intro!: ledger.act_intros Reapply_ledger)

lemma Sweep_ledger: "keeps_act ledger_effect (HandleRelaySweep unmarshal skip env envs)"
  unfolding HandleRelaySweep_def ReclaimStuckDeliveries_def by (intro ledger.act_intros steps_ledger sweep_each_ledger)

lemma Reconcile_ledger: "keeps_act ledger_effect (Reconcile client codec env t ref)"
  unfolding Reconcile_def by (auto intro!: ledger.act_intros steps_ledger split: option.splits sum.splits)

lemma Checkout_ledger: "keeps_act ledger_effect (StartCheckout client codec envs subject req)"
  unfolding StartCheckout_def LinkBillingCustomer_def GetTenant_def Q_GetTenant_def
  by (auto intro!: ledger.act_intros ledger.keeps_Scope_Write ledger.keeps_Scope_Read ledger.keeps_intros SetRef_ledger split: option.splits)

text \<open>Any sequence of billing calls, by the gateway, the sweeps and the users.\<close>

inductive billing_calls :: "db \<Rightarrow> db \<Rightarrow> bool" where
  none: "billing_calls d d"
| ingested: "billing_calls d d1 \<Longrightarrow> IngestRelayedEvent jsonb envs ev raw d1 = (r, d2) \<Longrightarrow> billing_calls d d2"
| swept: "billing_calls d d1 \<Longrightarrow> HandleRelaySweep unmarshal skip env envs' d1 = (q, d2) \<Longrightarrow> billing_calls d d2"
| reconciled: "billing_calls d d1 \<Longrightarrow> Reconcile client codec env t ref d1 = (q, d2) \<Longrightarrow> billing_calls d d2"
| checkout: "billing_calls d d1 \<Longrightarrow> StartCheckout client codec envs subject req d1 = (c, d2) \<Longrightarrow> billing_calls d d2"
| elsewhere: "billing_calls d d1 \<Longrightarrow> billing_events d2 = billing_events d1 \<Longrightarrow> billing_calls d d2"

lemma keeps_act_at: "keeps_act R a \<Longrightarrow> a d = (r, d') \<Longrightarrow> R d d'"
  by (metis keeps_act_def snd_conv)

lemma billing_calls_ledger: "billing_calls d d' \<Longrightarrow> ledger_effect d d'"
proof (induction rule: billing_calls.induct)
  case (elsewhere d d1 d2)
  then show ?case by (simp add: ledger_effect_def delivery_ids_def)
qed (blast intro: ledger.effect_refl ledger.effect_trans keeps_act_at [OF Ingest_ledger] keeps_act_at [OF Sweep_ledger]
    keeps_act_at [OF Reconcile_ledger] keeps_act_at [OF Checkout_ledger])+

section \<open>Settlement\<close>

definition same_deliveries :: "db \<Rightarrow> db \<Rightarrow> bool" where
  "same_deliveries d d' = (billing_events d' = billing_events d)"

interpretation deliveries: effect_relation same_deliveries
  by unfold_locales (auto simp: same_deliveries_def)

lemma applyEvent_deliveries:
  assumes "applyEvent envs ev d = (r, d')"
  shows "billing_events d' = billing_events d"
proof -
  have "keeps same_deliveries (Q_UpsertTenantSubscription row tc)" for row tc
    by (auto simp: keeps_def same_deliveries_def Q_UpsertTenantSubscription_def go_result Let_def split: list.splits)
  then have "keeps_act same_deliveries (ApplySubscription env t s)" for env t s
    unfolding ApplySubscription_def by (intro deliveries.keeps_WithSystemTx deliveries.keeps_intros)
  then have "keeps_act same_deliveries (applyEvent envs ev)"
    unfolding applyEvent_def by (auto intro!: deliveries.act_intros split: option.splits sum.splits)
  with assms show ?thesis by (metis keeps_act_at same_deliveries_def)
qed

lemma settle_status_settled [simp]: "settle_status r \<noteq> BEProcessing"
  by (auto simp: settle_status_def split: sum.splits RelayOutcome.splits)

lemma applyAndSettle_outcome:
  assumes run: "\<And>k. runs (envs k)" and "applyEvent envs ev d = (r, da)"
  shows "\<exists>t. applyAndSettle envs ev d = (r, da\<lparr>billing_events := update_rows (open_delivery (re_ID ev))
    (settled_row (settle_status r) (case r of Inl e \<Rightarrow> Some e | Inr _ \<Rightarrow> None) t (db_clock (envs 3))) (billing_events d)\<rparr>)"
proof -
  let ?find = "List.find (\<lambda>t. t_BillingCustomerRef t = Some (re_TenantRef ev)) (tenants da)"
  let ?t = "map_option t_ID ?find"
  have "fk_opt (has_tenant da) ?t" using resolved_tenant [of _ da] by (auto simp: fk_opt_def split: option.splits)
  then have "SettleDelivery (envs 3) (re_ID ev) ?t (settle_status r) c da
      = (Inr (), da\<lparr>billing_events := update_rows (open_delivery (re_ID ev)) (settled_row (settle_status r) c ?t (db_clock (envs 3))) (billing_events da)\<rparr>)"
    for c by (intro settle_outcome run) simp_all
  moreover have "(case fst (ResolveTenantByBillingRef (envs 2) (re_TenantRef ev) da) of Inl _ \<Rightarrow> None | Inr i \<Rightarrow> Some i) = ?t"
    "snd (ResolveTenantByBillingRef (envs 2) (re_TenantRef ev) da) = da"
    by (simp_all add: resolve_outcome [OF run] split: option.splits)
  ultimately show ?thesis using assms(2) applyEvent_deliveries [OF assms(2)]
    by (auto simp: applyAndSettle_def bind_act_def try_act_def lift_act_def Let_def split: prod.splits)
qed

text \<open>
  Every acknowledged delivery is final: once the receiver has answered a delivery with success, the
  same identifier presented again, after any billing calls by anyone, is answered as a duplicate and
  changes nothing.
\<close>

lemma Ingest_duplicate:
  assumes "runs (envs 0)" "jsonb raw = Some doc" "re_ID ev \<in> delivery_ids d"
  shows "IngestRelayedEvent jsonb envs ev raw d = (Inr RelayDuplicate, d)"
  using claim_outcome [where env = "envs 0" and jsonb = jsonb and payload = raw and doc = doc and ev = ev and d = d] assms
  by (simp add: IngestRelayedEvent_def bind_act_def try_act_def ret_act_def)

lemma Ingest_fresh:
  assumes "runs (envs 0)" "jsonb raw = Some doc" "re_ID ev \<notin> delivery_ids d"
  shows "IngestRelayedEvent jsonb envs ev raw d = applyAndSettle (\<lambda>k. envs (Suc k)) ev
    (d\<lparr>billing_events := billing_events d @ [claimed_row ev doc (db_clock (envs 0))]\<rparr>)"
  using claim_outcome [where env = "envs 0" and jsonb = jsonb and payload = raw and doc = doc and ev = ev and d = d] assms
  by (simp add: IngestRelayedEvent_def bind_act_def try_act_def)

lemma Ingest_recorded:
  assumes "runs (envs 0)" "jsonb raw = Some doc" "distinct (map be_EventID (billing_events d))"
    and "IngestRelayedEvent jsonb envs ev raw d = (r, d1)"
  shows "re_ID ev \<in> delivery_ids d1 \<and> distinct (map be_EventID (billing_events d1))"
proof (cases "re_ID ev \<in> delivery_ids d")
  case True
  with Ingest_duplicate [where envs = envs and jsonb = jsonb and raw = raw and ev = ev and d = d] assms show ?thesis by simp
next
  case False
  let ?d = "d\<lparr>billing_events := billing_events d @ [claimed_row ev doc (db_clock (envs 0))]\<rparr>"
  have "distinct (map be_EventID (billing_events ?d))" "re_ID ev \<in> delivery_ids ?d"
    using False assms(3) by (auto simp: delivery_ids_def claimed_row_def)
  moreover have "ledger_effect ?d d1"
    using keeps_act_at [OF applyAndSettle_ledger] Ingest_fresh [where envs = envs and jsonb = jsonb and raw = raw and ev = ev and d = d] False assms by metis
  ultimately show ?thesis by (auto simp: ledger_effect_def)
qed


lemma Ingest_failed:
  assumes run: "\<And>k. runs (envs k)" and "jsonb raw = Some doc" "distinct (map be_EventID (billing_events d))"
    and fresh: "re_ID ev \<notin> delivery_ids d" and failed: "IngestRelayedEvent jsonb envs ev raw d = (Inl err, d1)"
  obtains row where "row \<in> set (billing_events d1)" "be_EventID row = re_ID ev" "be_Status row = BEFailed"
proof -
  let ?row = "claimed_row ev doc (db_clock (envs 0))"
  let ?d = "d\<lparr>billing_events := billing_events d @ [?row]\<rparr>"
  obtain r da where a: "applyEvent (\<lambda>k. envs (Suc k)) ev ?d = (r, da)" by fastforce
  from applyAndSettle_outcome [OF run a] obtain t where
    s: "applyAndSettle (\<lambda>k. envs (Suc k)) ev ?d = (r, da\<lparr>billing_events := update_rows (open_delivery (re_ID ev))
        (settled_row (settle_status r) (case r of Inl e \<Rightarrow> Some e | Inr _ \<Rightarrow> None) t (db_clock (envs (Suc 3)))) (billing_events ?d)\<rparr>)"
    by blast
  have "IngestRelayedEvent jsonb envs ev raw d = applyAndSettle (\<lambda>k. envs (Suc k)) ev ?d"
    by (rule Ingest_fresh [where envs = envs and jsonb = jsonb and raw = raw]) (use assms in auto)
  with s failed have r: "r = Inl err" and d1: "billing_events d1 = update_rows (open_delivery (re_ID ev))
      (settled_row BEFailed (Some err) t (db_clock (envs (Suc 3)))) (billing_events ?d)"
    by (auto simp: settle_status_def)
  let ?new = "settled_row BEFailed (Some err) t (db_clock (envs (Suc 3))) ?row"
  have "?new \<in> set (billing_events d1)" unfolding d1 by (auto simp: update_rows_mem open_delivery_def claimed_row_def)
  then show ?thesis by (rule that) (simp_all add: settled_row_def claimed_row_def)
qed

text \<open>What the sweep hands out was open when it was claimed.\<close>

lemma ReclaimStuck_open:
  assumes "verify_reset env = None" "ReclaimStuck skip env stale batch d = (Inr stuck, d')" "x \<in> set stuck"
  obtains r where "r \<in> set (billing_events d)" "be_EventID r = sd_EventID x" "be_Status r = BEProcessing"
proof -
  let ?hits = "take (unat batch) (sort_key be_ReceivedAt (filter (\<lambda>r. be_Status r = BEProcessing \<and>
      be_ReceivedAt r < db_clock env - stale \<and> \<not> skip (be_EventID r)) (billing_events d)))"
  from assms(2,3) obtain y where "y \<in> set ?hits" "be_EventID y = sd_EventID x"
    unfolding ReclaimStuck_def WithSystemTx_Inr [OF assms(1)]
    by (auto simp: go_result Q_ReclaimStuckBillingEvents_def Let_def)
  with batch_row [OF this(1)] that show ?thesis by blast
qed

text \<open>
  A delivery whose application failed is lost: the receiver answers 500, so that the gateway
  delivers it again, but the row has been settled as failed, so the second delivery is answered 200 as
  a duplicate without being applied, and no sweep hands it out, whatever happens in between.
\<close>

theorem failed_delivery_is_lost:
  assumes run: "\<And>k. runs (envs k)" and "jsonb body = Some doc" "distinct (map be_EventID (billing_events d))"
    and first: "HandleRelay hmac unmarshal jsonb relay envs header body d = ((500, None), d1)"
    and ev: "Verify hmac unmarshal relay header body (clock (envs 0)) = Inr ev" "re_ID ev \<notin> delivery_ids d"
    and later: "billing_calls d1 d2"
    and again: "runs (envs' 0)" "jsonb body' = Some doc'" "length body' \<le> MaxRelayBodyBytes"
      "Verify hmac unmarshal relay header' body' (clock (envs' 0)) = Inr ev'" "re_ID ev' = re_ID ev"
    and sweep: "verify_reset env = None" "ReclaimStuck skip env stale batch d2 = (Inr stuck, d3)"
  shows "HandleRelay hmac unmarshal jsonb relay envs' header' body' d2 = ((200, Some RelayDuplicate), d2) \<and>
    re_ID ev \<notin> sd_EventID ` set stuck"
proof
  from first ev(1) obtain err where err: "IngestRelayedEvent jsonb envs ev body d = (Inl err, d1)"
    by (auto simp: HandleRelay_def split: if_splits sum.splits prod.splits)
  obtain row where row: "row \<in> set (billing_events d1)" "be_EventID row = re_ID ev" "be_Status row = BEFailed"
    by (rule Ingest_failed [where envs = envs and jsonb = jsonb and raw = body, OF run assms(2,3) ev(2) err])
  have dist: "distinct (map be_EventID (billing_events d1))"
    using Ingest_recorded [where envs = envs and jsonb = jsonb and raw = body, OF run assms(2,3) err] by simp
  then have kept: "row \<in> set (billing_events d2)" "distinct (map be_EventID (billing_events d2))"
    using billing_calls_ledger [OF later] row by (auto simp: ledger_effect_def)
  then have "re_ID ev' \<in> delivery_ids d2" using row(2) again(5) by (metis delivery_ids_def image_eqI)
  then have "IngestRelayedEvent jsonb envs' ev' body' d2 = (Inr RelayDuplicate, d2)"
    by (rule Ingest_duplicate [where envs = envs' and jsonb = jsonb and raw = body', OF again(1,2)])
  with again(3,4) show "HandleRelay hmac unmarshal jsonb relay envs' header' body' d2 = ((200, Some RelayDuplicate), d2)"
    by (simp add: HandleRelay_def)
  show "re_ID ev \<notin> sd_EventID ` set stuck"
  proof
    assume "re_ID ev \<in> sd_EventID ` set stuck"
    then obtain r where "r \<in> set (billing_events d2)" "be_EventID r = re_ID ev" "be_Status r = BEProcessing"
      using ReclaimStuck_open [OF sweep] by (metis image_iff)
    with same_key [OF kept(2) kept(1)] row show False by (metis BillingEventStatus.distinct(3))
  qed
qed

end
