(* ===== verification/Register.thy ===== *)
theory Register
  imports Prelude
begin

text \<open>
  A last-writer-wins register: an interface for a store into which stamped values are put in whatever
  order they arrive. Its client lemma is that the order and the repetitions do not matter. The
  projection of a subscription is an instance (\<open>Billing_Converges\<close>).
\<close>

locale lww_register =
  fixes put :: "'e \<Rightarrow> 's \<Rightarrow> 's"
    and val :: "'e \<Rightarrow> 'v"
    and get :: "'s \<Rightarrow> 'v option"
    and stamp :: "'v \<Rightarrow> 't::linorder"
    and ready :: "'s \<Rightarrow> bool"
    and admissible :: "'e \<Rightarrow> bool"
  assumes get_put: "ready s \<Longrightarrow> admissible e \<Longrightarrow>
      get (put e s) = Some (case get s of None \<Rightarrow> val e | Some w \<Rightarrow> if stamp w \<le> stamp (val e) then val e else w)"
    and ready_put: "ready s \<Longrightarrow> admissible e \<Longrightarrow> ready (put e s)"
begin

lemma newest_value:
  assumes "ready s" "\<forall>e \<in> set es. admissible e" "get s = Some w \<or> es \<noteq> []"
  shows "\<exists>v \<in> set_option (get s) \<union> val ` set es. get (fold put es s) = Some v \<and>
    (\<forall>u \<in> set_option (get s) \<union> val ` set es. stamp u \<le> stamp v)"
  using assms
proof (induction es arbitrary: s w)
  case (Cons e es)
  have r: "ready (put e s)" using Cons.prems by (simp add: ready_put)
  obtain x where x: "get (put e s) = Some x"
    "x \<in> set_option (get s) \<union> {val e}" "\<forall>u \<in> set_option (get s) \<union> {val e}. stamp u \<le> stamp x"
    using get_put [of s e] Cons.prems by (cases "get s") (auto split: if_splits)
  from Cons.IH [OF r, of x] Cons.prems x(1) obtain v where v: "v \<in> insert x (val ` set es)"
    "get (fold put es (put e s)) = Some v" "\<forall>u \<in> insert x (val ` set es). stamp u \<le> stamp v" by auto
  have "stamp u \<le> stamp v" if "u \<in> set_option (get s) \<union> val ` set (e # es)" for u
    using that x(3) v(3) by (auto intro: order_trans [of _ "stamp x"])
  moreover have "v \<in> set_option (get s) \<union> val ` set (e # es)" using v(1) x(2) by auto
  ultimately show ?case using v(2) by auto
qed auto

text \<open>The value with the greatest stamp wins, whatever the order and the repetitions.\<close>

lemma newest_wins:
  assumes "ready s" "\<forall>e \<in> set es. admissible e" "x \<in> val ` set es"
    and "\<And>u. u \<in> set_option (get s) \<union> val ` set es \<Longrightarrow> u \<noteq> x \<Longrightarrow> stamp u < stamp x"
  shows "get (fold put es s) = Some x"
proof -
  have "es \<noteq> []" using assms(3) by auto
  with newest_value [OF assms(1,2)] obtain v where v: "v \<in> set_option (get s) \<union> val ` set es"
    "get (fold put es s) = Some v" "\<forall>u \<in> set_option (get s) \<union> val ` set es. stamp u \<le> stamp v" by blast
  have "stamp x \<le> stamp v" using v(3) assms(3) by blast
  with assms(4) [OF v(1)] have "v = x" by fastforce
  with v(2) show ?thesis by simp
qed

end

end
