(* ===== verification/Billing_Converges.thy ===== *)
theory Billing_Converges
  imports Billing_Props Register
begin

text \<open>
  The projection of a subscription is a last-writer-wins register stamped with the time of the event:
  the gateway's stream is unordered and repeats deliveries, and still the projection ends as the newest
  event left it.
\<close>

definition subscription :: "uuid \<Rightarrow> db \<Rightarrow> TenantSubscription option" where
  "subscription t d = map_option (\<lambda>r. r\<lparr>ts_UpdatedAt := zero_time\<rparr>) (List.find (\<lambda>r. ts_TenantID r = t) (tenant_subs d))"

text \<open>
  A state the table admits: its constraints hold and its subscription identifier is one of those the
  gateway uses for this organisation alone.
\<close>

definition acceptable :: "uuid \<Rightarrow> string set \<Rightarrow> Runtime \<times> SubscriptionState \<Rightarrow> bool" where
  "acceptable t G = (\<lambda>(env, s). runs env \<and> first_failing (subscription_checks (projection_row t s)) = None \<and>
     ss_GatewaySubscriptionID s \<in> G)"

definition projects :: "uuid \<Rightarrow> string set \<Rightarrow> db \<Rightarrow> bool" where
  "projects t G d = (has_tenant d t \<and> distinct (map ts_TenantID (tenant_subs d)) \<and>
     (\<forall>x \<in> set (tenant_subs d). ts_GatewaySubscriptionID x \<in> G \<longrightarrow> ts_TenantID x = t))"

lemma projection_row_simps [simp]: "ts_TenantID (projection_row t s) = t"
  "ts_GatewaySubscriptionID (projection_row t s) = ss_GatewaySubscriptionID s"
  "ts_LastEventAt (projection_row t s) = Some (ss_EventAt s)" "ts_UpdatedAt (projection_row t s) = zero_time"
  by (simp_all add: projection_row_def)

lemma not_older_iff: "not_older old r \<longleftrightarrow> ts_LastEventAt old \<le> ts_LastEventAt r"
  by (cases "ts_LastEventAt old"; cases "ts_LastEventAt r") (simp_all add: not_older_def)

lemma Upsert_outcome:
  assumes "acceptable t G (env, s)" "projects t G d" "\<not> tc_readOnly tc" "tc_system tc"
  shows "Q_UpsertTenantSubscription (projection_row t s) tc d =
    (let r = (projection_row t s)\<lparr>ts_UpdatedAt := tc_now tc\<rparr> in
     case List.find (\<lambda>r. ts_TenantID r = t) (tenant_subs d) of
       None \<Rightarrow> Inr (r, d\<lparr>tenant_subs := tenant_subs d @ [r]\<rparr>)
     | Some old \<Rightarrow> if ts_LastEventAt old \<le> Some (ss_EventAt s)
         then Inr (r, d\<lparr>tenant_subs := update_rows (\<lambda>x. ts_TenantID x = t) (\<lambda>_. r) (tenant_subs d)\<rparr>)
         else Inl NoRows)"
proof -
  have ok: "first_failing (subscription_checks ((projection_row t s)\<lparr>ts_UpdatedAt := n\<rparr>)) = None" for n
    using assms(1) by (simp add: acceptable_def subscription_checks_def)
  have free: "\<not> (\<exists>x \<in> set (tenant_subs d). ts_TenantID x \<noteq> t \<and> ts_GatewaySubscriptionID x = ss_GatewaySubscriptionID s)"
    using assms(1,2) by (auto simp: acceptable_def projects_def)
  show ?thesis
  proof (cases "filter (\<lambda>x. ts_TenantID x = t) (tenant_subs d)")
    case Nil
    then have "List.find (\<lambda>r. ts_TenantID r = t) (tenant_subs d) = None" by (auto simp: find_None_iff filter_empty_conv)
    with Nil assms(2-4) ok free show ?thesis
      by (simp add: Q_UpsertTenantSubscription_def bind_tx_def writable_def reject_if_def fail_if_def lift_res_def
          constraints_def first_failing.simps projects_def Let_def)
  next
    case (Cons old rest)
    from find_filter [OF this] Cons assms(3,4) ok free show ?thesis
      by (simp add: Q_UpsertTenantSubscription_def bind_tx_def writable_def reject_if_def fail_if_def lift_res_def
          constraints_def first_failing.simps not_older_iff Let_def)
  qed
qed

lemma Apply_outcome:
  assumes "acceptable t G (env, s)" "projects t G d"
  shows "ApplySubscription env t s d =
    (let r = (projection_row t s)\<lparr>ts_UpdatedAt := db_clock env\<rparr> in
     case List.find (\<lambda>r. ts_TenantID r = t) (tenant_subs d) of
       None \<Rightarrow> (Inr (), d\<lparr>tenant_subs := tenant_subs d @ [r]\<rparr>)
     | Some old \<Rightarrow> if ts_LastEventAt old \<le> Some (ss_EventAt s)
         then (Inr (), d\<lparr>tenant_subs := update_rows (\<lambda>x. ts_TenantID x = t) (\<lambda>_. r) (tenant_subs d)\<rparr>)
         else (Inl (Sentinel ErrStaleEvent), d))"
proof -
  let ?tc = "bindSession env (no_binding\<lparr>bi_TenantID := t\<rparr>) True"
  have run: "runs env" using assms(1) by (simp add: acceptable_def)
  have u: "Q_UpsertTenantSubscription (projection_row t s) ?tc d = (let r = (projection_row t s)\<lparr>ts_UpdatedAt := db_clock env\<rparr> in
     case List.find (\<lambda>r. ts_TenantID r = t) (tenant_subs d) of
       None \<Rightarrow> Inr (r, d\<lparr>tenant_subs := tenant_subs d @ [r]\<rparr>)
     | Some old \<Rightarrow> if ts_LastEventAt old \<le> Some (ss_EventAt s)
         then Inr (r, d\<lparr>tenant_subs := update_rows (\<lambda>x. ts_TenantID x = t) (\<lambda>_. r) (tenant_subs d)\<rparr>)
         else Inl NoRows)"
    using Upsert_outcome [OF assms, of ?tc] by (simp add: no_binding_def)
  show ?thesis
  proof (cases "Q_UpsertTenantSubscription (projection_row t s) ?tc d")
    case (Inl e)
    with u have "e = NoRows" by (auto simp: Let_def split: option.splits if_splits)
    with Inl have "ApplySubscription env t s d = (Inl (Sentinel ErrStaleEvent), d)"
      unfolding ApplySubscription_def WithSystemTx_def
      by (intro runTx_refuses [OF run]) (simp_all add: bind_tx_def map_err_def translate_def)
    with u Inl show ?thesis by (auto simp: Let_def split: option.splits if_splits)
  next
    case (Inr p)
    obtain r d' where p: "p = (r, d')" by fastforce
    with Inr have "ApplySubscription env t s d = (Inr (), d')"
      unfolding ApplySubscription_def WithSystemTx_def
      by (intro runTx_runs [OF run]) (simp_all add: bind_tx_def map_err_def)
    with u Inr p show ?thesis by (auto simp: Let_def split: option.splits if_splits)
  qed
qed

lemma find_update: "List.find P xs = Some old \<Longrightarrow> (\<And>x. P x \<Longrightarrow> P (f x)) \<Longrightarrow> List.find P (update_rows P f xs) = Some (f old)"
  by (induction xs) (auto simp: update_rows_def split: if_splits)

lemma find_append: "List.find P xs = None \<Longrightarrow> List.find P (xs @ [x]) = (if P x then Some x else None)"
  by (induction xs) (auto split: if_splits)

interpretation projection: lww_register "\<lambda>(env, s) d. snd (ApplySubscription env t s d)" "\<lambda>(env, s). projection_row t s"
    "subscription t" ts_LastEventAt "projects t G" "acceptable t G" for t G
proof unfold_locales
  fix d :: db and e :: "Runtime \<times> SubscriptionState"
  assume d: "projects t G d" and e: "acceptable t G e"
  obtain env s where es: "e = (env, s)" by fastforce
  let ?old = "List.find (\<lambda>r. ts_TenantID r = t) (tenant_subs d)"
  note out = Apply_outcome [OF e [unfolded es] d, unfolded Let_def]
  show "subscription t ((case e of (env, s) \<Rightarrow> \<lambda>d. snd (ApplySubscription env t s d)) d) =
      Some (case subscription t d of None \<Rightarrow> (case e of (env, s) \<Rightarrow> projection_row t s)
        | Some w \<Rightarrow> if ts_LastEventAt w \<le> ts_LastEventAt (case e of (env, s) \<Rightarrow> projection_row t s)
            then (case e of (env, s) \<Rightarrow> projection_row t s) else w)"
    by (cases ?old) (auto simp: es out subscription_def find_append find_update projection_row_def)
  show "projects t G ((case e of (env, s) \<Rightarrow> \<lambda>d. snd (ApplySubscription env t s d)) d)"
  proof (cases ?old)
    case None
    then have "\<forall>x \<in> set (tenant_subs d). ts_TenantID x \<noteq> t" by (auto simp: find_None_iff)
    with None d show ?thesis by (auto simp: es out projects_def has_tenant_def)
  next
    case (Some old)
    have "map ts_TenantID (update_rows (\<lambda>x. ts_TenantID x = t) (\<lambda>_. (projection_row t s)\<lparr>ts_UpdatedAt := n\<rparr>) xs) = map ts_TenantID xs"
      for n xs by (auto simp: update_rows_def)
    with Some d show ?thesis by (auto simp: es out projects_def has_tenant_def update_rows_mem split: if_splits)
  qed
qed

text \<open>
  C9. The newest event decides the projection: whatever order a set of relayed states arrives in, and
  however often each is delivered, afterwards the organisation's projection is the state with the
  latest event time, provided the row there before was not newer.
\<close>

theorem newest_event_decides:
  assumes "projects t G d" and "\<forall>x \<in> set xs. acceptable t G x" and "s \<in> snd ` set xs"
    and "\<forall>s' \<in> snd ` set xs. s' \<noteq> s \<longrightarrow> ss_EventAt s' < ss_EventAt s"
    and "\<forall>r \<in> set (tenant_subs d). \<forall>u. ts_TenantID r = t \<longrightarrow> ts_LastEventAt r = Some u \<longrightarrow> u < ss_EventAt s"
  shows "subscription t (fold (\<lambda>(env, s) d. snd (ApplySubscription env t s d)) xs d) = Some (projection_row t s)"
proof (rule projection.newest_wins [OF assms(1,2)])
  show "projection_row t s \<in> (\<lambda>(env, s). projection_row t s) ` set xs" using assms(3) by force
  fix u assume u: "u \<in> set_option (subscription t d) \<union> (\<lambda>(env, s). projection_row t s) ` set xs" "u \<noteq> projection_row t s"
  then consider r where "r \<in> set (tenant_subs d)" "ts_TenantID r = t" "u = r\<lparr>ts_UpdatedAt := zero_time\<rparr>"
    | s' where "s' \<in> snd ` set xs" "u = projection_row t s'"
    by (force simp: subscription_def find_Some_iff)
  then show "ts_LastEventAt u < ts_LastEventAt (projection_row t s)"
  proof cases
    case 1
    with assms(5) show ?thesis by (cases "ts_LastEventAt r") auto
  next
    case 2
    with assms(4) u(2) show ?thesis by auto
  qed
qed

end
