(* ===== verification/Billing_Sweep.thy ===== *)
theory Billing_Sweep
  imports Billing_Props
begin

text \<open>
  The sweep of abandoned deliveries: a delivery claimed by a process that died before settling it is
  settled by the next sweep that runs undisturbed.
\<close>

definition payload_of :: "(string \<Rightarrow> RelayEvent option) \<Rightarrow> string \<Rightarrow> string \<Rightarrow> bool" where
  "payload_of unmarshal i doc = (\<forall>ev. unmarshal doc = Some ev \<longrightarrow> re_ID ev = i)"

definition settled :: "db \<Rightarrow> string \<Rightarrow> bool" where
  "settled d i = (\<exists>r \<in> set (billing_events d). be_EventID r = i \<and> be_Status r \<noteq> BEProcessing)"

lemma settled_kept: "ledger_effect d d' \<Longrightarrow> distinct (map be_EventID (billing_events d)) \<Longrightarrow> settled d i \<Longrightarrow> settled d' i"
  by (auto simp: ledger_effect_def settled_def)

lemma settled_by_update:
  assumes "i \<in> delivery_ids d" "st \<noteq> BEProcessing"
    "billing_events d' = update_rows (open_delivery i) (settled_row st c t n) (billing_events d)"
  shows "settled d' i"
proof -
  from assms(1) obtain r where r: "r \<in> set (billing_events d)" "be_EventID r = i" by (auto simp: delivery_ids_def)
  let ?r = "if open_delivery i r then settled_row st c t n r else r"
  have "?r \<in> set (billing_events d')" using r(1) unfolding assms(3) by (auto simp: update_rows_mem)
  moreover have "be_EventID ?r = i \<and> be_Status ?r \<noteq> BEProcessing"
    using r(2) assms(2) by (auto simp: open_delivery_def settled_row_def)
  ultimately show ?thesis unfolding settled_def by blast
qed

lemma Reapply_settles:
  assumes run: "\<And>k. runs (envs k)" and "payload_of unmarshal (sd_EventID x) (sd_Payload x)" "sd_EventID x \<in> delivery_ids d"
  shows "settled (snd (ReapplyStuck unmarshal envs x d)) (sd_EventID x)"
proof -
  have given_up: "settled (snd (bind_act (SettleDelivery (envs 0) (sd_EventID x) None BEFailed c) (\<lambda>_. ret_act RelaySkipped) d)) (sd_EventID x)"
    for c
    using settle_outcome [OF run, of BEFailed d None 0 "sd_EventID x" c]
    by (intro settled_by_update [OF assms(3), where st = BEFailed]) (simp_all add: bind_act_def ret_act_def fk_opt_def)
  show ?thesis
  proof (cases "sint (sd_Attempts x) > MaxRelayAttempts \<or> unmarshal (sd_Payload x) = None")
    case True
    with given_up show ?thesis by (auto simp: ReapplyStuck_def)
  next
    case False
    then obtain ev where ev: "unmarshal (sd_Payload x) = Some ev" by auto
    with assms(2) have i: "re_ID ev = sd_EventID x" by (auto simp: payload_of_def)
    obtain r da where "applyEvent envs ev d = (r, da)" by fastforce
    from applyAndSettle_outcome [OF run this] obtain t where
      "billing_events (snd (applyAndSettle envs ev d)) = update_rows (open_delivery (sd_EventID x))
        (settled_row (settle_status r) (case r of Inl e \<Rightarrow> Some e | Inr _ \<Rightarrow> None) t (db_clock (envs 3))) (billing_events d)"
      using i by auto
    with settled_by_update [OF assms(3)] have "settled (snd (applyAndSettle envs ev d)) (sd_EventID x)"
      using settle_status_settled by blast
    with False ev show ?thesis by (simp add: ReapplyStuck_def)
  qed
qed

lemma sweep_each_settles:
  assumes "\<And>j k. runs (envs j k)" and "\<forall>x \<in> set xs. payload_of unmarshal (sd_EventID x) (sd_Payload x)"
    and "distinct (map be_EventID (billing_events d))" "sd_EventID ` set xs \<subseteq> delivery_ids d" "x \<in> set xs"
  shows "settled (snd (sweep_each unmarshal envs k xs d)) (sd_EventID x)"
  using assms(2-)
proof (induction xs arbitrary: d k)
  case (Cons y ys)
  obtain r d1 where step: "ReapplyStuck unmarshal (envs k) y d = (r, d1)" by fastforce
  have eff: "ledger_effect d d1" using keeps_act_at [OF Reapply_ledger step] .
  have d1: "distinct (map be_EventID (billing_events d1))" "sd_EventID ` set ys \<subseteq> delivery_ids d1"
    using eff Cons.prems(2,3) by (auto simp: ledger_effect_def)
  have rest: "snd (sweep_each unmarshal envs k (y # ys) d) = snd (sweep_each unmarshal envs (Suc k) ys d1)"
    by (simp add: bind_act_def try_act_def step)
  show ?case
  proof (cases "x = y")
    case True
    have "settled d1 (sd_EventID x)"
      using Reapply_settles [where envs = "envs k" and unmarshal = unmarshal and x = x and d = d] assms(1) Cons.prems step True
      by auto
    then show ?thesis unfolding rest
      using settled_kept [OF _ d1(1)] keeps_act_at [OF sweep_each_ledger] by (metis prod.collapse)
  next
    case False
    then show ?thesis unfolding rest using Cons.IH [OF _ d1] Cons.prems by auto
  qed
qed simp

text \<open>What the sweep hands out, when at most a batch of deliveries is stale.\<close>

definition stale :: "(string \<Rightarrow> bool) \<Rightarrow> time \<Rightarrow> BillingEvent \<Rightarrow> bool" where
  "stale skip now r = (be_Status r = BEProcessing \<and> be_ReceivedAt r < now - RelayStaleAfter \<and> \<not> skip (be_EventID r))"

lemma sweep_sends_all:
  assumes "runs env" "length (filter (stale skip (db_clock env)) (billing_events d)) \<le> 50"
    "\<forall>r \<in> set (billing_events d). sint (be_Attempts r) < 2147483647" "distinct (map be_EventID (billing_events d))"
  shows "\<exists>stuck d1. ReclaimStuck skip env RelayStaleAfter RelaySweepBatch d = (Inr stuck, d1) \<and>
    (\<forall>r \<in> set (billing_events d). stale skip (db_clock env) r \<longrightarrow> (\<exists>x \<in> set stuck. sd_EventID x = be_EventID r)) \<and>
    (\<forall>x \<in> set stuck. \<exists>r \<in> set (billing_events d). sd_EventID x = be_EventID r \<and> sd_Payload x = be_Payload r)"
proof -
  let ?hits = "take (unat RelaySweepBatch) (sort_key be_ReceivedAt (filter (stale skip (db_clock env)) (billing_events d)))"
  let ?hit = "\<lambda>r. be_EventID r \<in> be_EventID ` set ?hits"
  let ?f = "\<lambda>r. r\<lparr>be_Attempts := be_Attempts r + 1, be_ReceivedAt := db_clock env\<rparr>"
  let ?out = "map (\<lambda>r. \<lparr>sd_EventID = be_EventID r, sd_EventType = be_EventType r, sd_Payload = be_Payload r,
      sd_Attempts = be_Attempts r\<rparr>) (map ?f (filter ?hit (billing_events d)))"
  have all: "set ?hits = set (filter (stale skip (db_clock env)) (billing_events d))"
    using assms(2) by (simp add: RelaySweepBatch_def)
  have "\<not> (\<exists>r \<in> set (filter ?hit (billing_events d)). sint (be_Attempts r) = 2147483647)" using assms(3) by fastforce
  then have "ReclaimStuck skip env RelayStaleAfter RelaySweepBatch d
      = (Inr ?out, d\<lparr>billing_events := update_rows ?hit ?f (billing_events d)\<rparr>)"
    unfolding ReclaimStuck_def WithSystemTx_def
    by (intro runTx_runs [OF assms(1)])
       (simp add: Q_ReclaimStuckBillingEvents_def stmt_eval stale_def [abs_def] RelaySweepBatch_def word_sless_alt)
  moreover have "\<exists>x \<in> set ?out. sd_EventID x = be_EventID r" if "r \<in> set (billing_events d)" "stale skip (db_clock env) r" for r
    using that by (force simp: all)
  moreover have "\<exists>r \<in> set (billing_events d). sd_EventID x = be_EventID r \<and> sd_Payload x = be_Payload r" if "x \<in> set ?out" for x
  proof -
    from that obtain r where "r \<in> set (billing_events d)" "sd_EventID x = be_EventID (?f r)" "sd_Payload x = be_Payload (?f r)"
      by auto
    then show ?thesis by auto
  qed
  ultimately show ?thesis by blast
qed


end
