(* ===== verification/Billing_Demo.thy ===== *)
theory Billing_Demo
  imports Billing_Converges Billing_Sweep
begin

text \<open>The billing theorems on a worked stream of deliveries for the organisation of \<open>Demo_World\<close>.\<close>

definition demo_billing_db :: db where
  "demo_billing_db = demo_db\<lparr>tenants := [demo_tenant\<lparr>t_BillingCustomerRef := Some ''cus''\<rparr>]\<rparr>"

definition demo_sub :: "string \<Rightarrow> string \<Rightarrow> Subscription" where
  "demo_sub plan status = \<lparr>sn_SubscriptionID = ''sub'', sn_CustomerRef = ''cus'', sn_PlanCode = plan, sn_Status = status,
     sn_Seats = 5, sn_CurrentPeriodStart = 0, sn_CurrentPeriodEnd = 30 * day, sn_CancelAtPeriodEnd = False, sn_TrialEnd = None\<rparr>"

definition demo_event :: "string \<Rightarrow> string \<Rightarrow> time \<Rightarrow> RelayEvent" where
  "demo_event i status at = \<lparr>re_ID = i, re_Type = ''subscription.updated'', re_CreatedAt = at, re_TenantRef = ''cus'',
     re_Subscription = Some (demo_sub ''growth'' status)\<rparr>"

definition demo_state :: "string \<Rightarrow> time \<Rightarrow> SubscriptionState" where
  "demo_state status at = state_of (demo_sub ''growth'' status) ''cus'' ''e'' at"

lemma demo_ids: "distinct (map be_EventID (billing_events demo_billing_db))" "delivery_ids demo_billing_db = {}"
  by (simp_all add: demo_billing_db_def demo_db_def empty_db_def delivery_ids_def)

lemma demo_acknowledged:
  "\<exists>outcome d1. IngestRelayedEvent Some (\<lambda>_. demo_env) (demo_event ''e1'' ''active'' 0) ''{}'' demo_billing_db = (Inr outcome, d1)"
proof -
  let ?ev = "demo_event ''e1'' ''active'' 0"
  let ?d = "demo_billing_db\<lparr>billing_events := billing_events demo_billing_db @ [claimed_row ?ev ''{}'' (db_clock demo_env)]\<rparr>"
  have del: "acceptable 1 UNIV (demo_env, state_of (demo_sub ''growth'' ''active'') ''cus'' ''e1'' 0)"
    by (simp add: acceptable_def subscription_checks_def projection_row_def state_of_def demo_sub_def first_failing.simps
        AllSubStatuses_def word_sless_alt day_def)
  have "projects 1 UNIV ?d"
    by (simp add: projects_def has_tenant_def demo_billing_db_def demo_db_def empty_db_def demo_tenant_def)
  from Apply_outcome [OF del this] obtain d1 where
    app: "ApplySubscription demo_env 1 (state_of (demo_sub ''growth'' ''active'') ''cus'' ''e1'' 0) ?d = (Inr (), d1)"
    by (simp add: demo_billing_db_def demo_db_def empty_db_def)
  have "applyEvent (\<lambda>k. demo_env) ?ev ?d = (Inr RelayApplied, d1)"
    using app by (simp add: applyEvent_def demo_event_def known_event_types_def bind_act_def try_act_def ret_act_def
        resolve_outcome [OF demo_runs(1)] demo_billing_db_def demo_tenant_def)
  from applyAndSettle_outcome [OF _ this] obtain d2 where "applyAndSettle (\<lambda>k. demo_env) ?ev ?d = (Inr RelayApplied, d2)"
    by auto
  moreover have "IngestRelayedEvent Some (\<lambda>_. demo_env) ?ev ''{}'' demo_billing_db = applyAndSettle (\<lambda>k. demo_env) ?ev ?d"
    using Ingest_fresh [where envs = "\<lambda>_. demo_env" and jsonb = Some and raw = "''{}''" and ev = ?ev and d = demo_billing_db] demo_ids
    by simp
  ultimately show ?thesis by auto
qed


theorem newest_event_decides_witness:
  "subscription 1 (fold (\<lambda>(env, s) d. snd (ApplySubscription env 1 s d))
      [(demo_env, demo_state ''canceled'' 9), (demo_env, demo_state ''active'' 4), (demo_env, demo_state ''canceled'' 9)] demo_billing_db)
    = Some (projection_row 1 (demo_state ''canceled'' 9))"
proof (rule newest_event_decides [where G = UNIV])
  show "projects 1 UNIV demo_billing_db"
    by (simp add: projects_def has_tenant_def demo_billing_db_def demo_db_def empty_db_def demo_tenant_def)
qed (auto simp: acceptable_def subscription_checks_def projection_row_def demo_state_def state_of_def demo_sub_def first_failing.simps
    AllSubStatuses_def word_sless_alt day_def demo_billing_db_def demo_db_def empty_db_def)

lemma Apply_refused:
  assumes "runs env" "first_failing (subscription_checks (projection_row t s)) = Some n"
  shows "ApplySubscription env t s d = (Inl (constraint_error ErrValidation \<lparr>Code = ''23514'', ConstraintName = n, Message = []\<rparr>), d)"
proof -
  let ?tc = "bindSession env (no_binding\<lparr>bi_TenantID := t\<rparr>) True"
  have "first_failing (subscription_checks ((projection_row t s)\<lparr>ts_UpdatedAt := db_clock env\<rparr>)) = Some n"
    using assms(2) by (simp add: subscription_checks_def)
  then have "Q_UpsertTenantSubscription (projection_row t s) ?tc d = Inl (pg ''23514'' n)"
    by (simp add: Q_UpsertTenantSubscription_def bind_tx_def writable_def reject_if_def fail_if_def lift_res_def constraints_def
        no_binding_def Let_def)
  then show ?thesis unfolding ApplySubscription_def WithSystemTx_def
    by (intro runTx_refuses [OF assms(1)])
       (auto simp: bind_tx_def map_err_def translate_def pg_def constraint_error_def constraintErrors_def)
qed

definition demo_relay :: Relay where
  "demo_relay = \<lparr>rl_secret = ''k'', rl_tolerance = DefaultTolerance\<rparr>"

definition demo_mac :: "string \<Rightarrow> string \<Rightarrow> string" where
  "demo_mac k m = k"

definition demo_header :: string where
  "demo_header = Sign demo_mac demo_relay ''{}'' (100 * day)"

definition demo_unmarshal :: "string \<Rightarrow> RelayEvent option" where
  "demo_unmarshal b = Some (demo_event ''e1'' ''trial'' 0)"

lemma demo_verified: "Verify demo_mac demo_unmarshal demo_relay demo_header ''{}'' (clock demo_env) = Inr (demo_event ''e1'' ''trial'' 0)"
proof -
  have "in_int64 (Unix (100 * day))" by (simp add: in_int64_def Unix_def unix_epoch_def day_def second_def)
  from parse_signed [OF this, of "demo_mac ''k'' (signed_bytes (Unix (100 * day)) ''{}'')"] show ?thesis
    by (simp add: Verify_def demo_header_def Sign_def demo_relay_def demo_unmarshal_def demo_event_def demo_env_def time_Unix_def
        Unix_def unix_epoch_def DefaultTolerance_def day_def second_def)
qed

lemma demo_500:
  "\<exists>d1. HandleRelay demo_mac demo_unmarshal Some demo_relay (\<lambda>_. demo_env) demo_header ''{}'' demo_billing_db = ((500, None), d1)"
proof -
  let ?ev = "demo_event ''e1'' ''trial'' 0"
  let ?s = "state_of (demo_sub ''growth'' ''trial'') ''cus'' ''e1'' 0"
  let ?d = "demo_billing_db\<lparr>billing_events := billing_events demo_billing_db @ [claimed_row ?ev ''{}'' (db_clock demo_env)]\<rparr>"
  have "first_failing (subscription_checks (projection_row 1 ?s)) = Some ''tenant_subscriptions_status_chk''"
    by (simp add: subscription_checks_def projection_row_def state_of_def demo_sub_def first_failing.simps
        AllSubStatuses_def word_sless_alt day_def)
  from Apply_refused [OF demo_runs(1) this] obtain err where
    app: "ApplySubscription demo_env 1 ?s ?d = (Inl err, ?d)" "\<not> errors_is err ErrStaleEvent"
    by (auto simp: constraint_error_def constraintErrors_def)
  then have "applyEvent (\<lambda>k. demo_env) ?ev ?d = (Inl err, ?d)"
    by (simp add: applyEvent_def demo_event_def known_event_types_def bind_act_def try_act_def fail_act_def
        resolve_outcome [OF demo_runs(1)] demo_billing_db_def demo_tenant_def)
  from applyAndSettle_outcome [OF _ this] obtain d2 where "applyAndSettle (\<lambda>k. demo_env) ?ev ?d = (Inl err, d2)" by auto
  moreover have "IngestRelayedEvent Some (\<lambda>_. demo_env) ?ev ''{}'' demo_billing_db = applyAndSettle (\<lambda>k. demo_env) ?ev ?d"
    using Ingest_fresh [where envs = "\<lambda>_. demo_env" and jsonb = Some and raw = "''{}''" and ev = ?ev and d = demo_billing_db] demo_ids
    by simp
  ultimately show ?thesis by (auto simp: HandleRelay_def demo_verified MaxRelayBodyBytes_def)
qed

lemma demo_reclaim:
  "\<exists>stuck d3. ReclaimStuck (\<lambda>_. False) demo_env RelayStaleAfter 0 d = (Inr stuck, d3)"
  unfolding ReclaimStuck_def WithSystemTx_Inr [OF demo_runs(2)]
  by (auto simp: Q_ReclaimStuckBillingEvents_def stmt_eval)

theorem failed_delivery_is_lost_witness:
  "\<exists>d1. HandleRelay demo_mac demo_unmarshal Some demo_relay (\<lambda>_. demo_env) demo_header ''{}'' demo_billing_db = ((500, None), d1) \<and>
     HandleRelay demo_mac demo_unmarshal Some demo_relay (\<lambda>_. demo_env) demo_header ''{}'' d1 = ((200, Some RelayDuplicate), d1)"
proof -
  obtain d1 where d1: "HandleRelay demo_mac demo_unmarshal Some demo_relay (\<lambda>_. demo_env) demo_header ''{}'' demo_billing_db = ((500, None), d1)"
    using demo_500 by blast
  obtain stuck d3 where "ReclaimStuck (\<lambda>_. False) demo_env RelayStaleAfter 0 d1 = (Inr stuck, d3)" using demo_reclaim by blast
  from failed_delivery_is_lost [where envs = "\<lambda>_. demo_env" and jsonb = Some and body = "''{}''" and envs' = "\<lambda>_. demo_env"
      and body' = "''{}''" and ev = "demo_event ''e1'' ''trial'' 0" and ev' = "demo_event ''e1'' ''trial'' 0",
      OF _ _ demo_ids(1) d1 demo_verified _ billing_calls.none _ _ _ demo_verified _ demo_runs(2) this]
  show ?thesis using d1 demo_ids(2) by (auto simp: MaxRelayBodyBytes_def)
qed

definition demo_stuck_db :: db where
  "demo_stuck_db = demo_billing_db\<lparr>billing_events := [claimed_row (demo_event ''e1'' ''trial'' 0) ''{}'' 0]\<rparr>"


end
