(* ===== verification/Org_Repo.thy ===== *)
theory Org_Repo
  imports Expense_Repo Tenancy_Repo
begin

text \<open>
  \<^verbatim>\<open>internal/repository/postgres/org_repo.go\<close> and \<^verbatim>\<open>budget_repo.go\<close> with the statements
  of \<^verbatim>\<open>db/queries/budgets.sql\<close> and \<^verbatim>\<open>billing.sql\<close> and the constraints of migrations
  00003, 00005 and 00006: departments, budget envelopes, the customer's vendor subscriptions, the
  counters behind the plan limits and the dashboard's aggregates. A \<^verbatim>\<open>DATE\<close> column keeps the
  day of the instant it is given; \<^verbatim>\<open>CHAR(3)\<close> keeps the text without its trailing blanks.
\<close>

section \<open>Departments\<close>

definition department_row :: "TenantConn \<Rightarrow> uuid \<Rightarrow> Department \<Rightarrow> bool" where
  "department_row tc i r = (dp_TenantID r = tc_tenantID tc \<and> dp_ID r = i \<and> rls tc (dp_TenantID r))"

definition department_admissible :: "TenantConn \<Rightarrow> Department \<Rightarrow> unit tx" where
  "department_admissible tc r =
    bind_tx (reject_if (\<not> rls tc (dp_TenantID r)) policy_error) (\<lambda>_.
    constraints ''23514''
      [(''departments_name_len_chk'', btrim_len_between 1 120 (dp_Name r)),
       (''departments_not_own_parent_chk'', dp_ParentID r \<noteq> Some (dp_ID r))])"

text \<open>The partial unique index \<^verbatim>\<open>departments_tenant_name_live_key\<close> on \<^verbatim>\<open>lower(name)\<close>.\<close>

definition same_live_name :: "TenantConn \<Rightarrow> Department \<Rightarrow> Department \<Rightarrow> bool" where
  "same_live_name tc r x =
    (dp_ID x \<noteq> dp_ID r \<and> dp_TenantID x = dp_TenantID r \<and> dp_ArchivedAt x = None \<and> dp_ArchivedAt r = None \<and>
     tc_lower tc (dp_Name x) = tc_lower tc (dp_Name r))"

definition Q_CreateDepartment :: "uuid \<Rightarrow> DepartmentDraft \<Rightarrow> TenantConn \<Rightarrow> Department tx" where
  "Q_CreateDepartment newID draft tc =
    (let r = \<lparr>dp_ID = newID, dp_TenantID = tc_tenantID tc, dp_Name = dd_Name draft, dp_ParentID = dd_ParentID draft,
              dp_HeadUserID = dd_HeadUserID draft, dp_ArchivedAt = None, dp_CreatedAt = tc_now tc, dp_UpdatedAt = tc_now tc\<rparr> in
     bind_tx (writable tc) (\<lambda>_.
     bind_tx (department_admissible tc r) (\<lambda>_.
     bind_tx (asks (\<lambda>d. d)) (\<lambda>d.
     bind_tx (constraints ''23505''
       [(''departments_pkey'', \<forall>x \<in> set (departments d). dp_ID x \<noteq> newID),
        (''departments_tenant_name_live_key'', \<forall>x \<in> set (departments d). \<not> same_live_name tc r x)]) (\<lambda>_.
     bind_tx (constraints ''23503''
       [(''departments_tenant_id_fkey'', has_tenant d (dp_TenantID r)),
        (''departments_head_user_id_fkey'', fk_opt (has_user d) (dp_HeadUserID r)),
        (''departments_parent_fk'', fk_opt (has_department d (dp_TenantID r)) (dp_ParentID r))]) (\<lambda>_ d.
     Inr (r, d\<lparr>departments := departments d @ [r]\<rparr>)))))))"

definition Q_ListDepartments :: "TenantConn \<Rightarrow> bool \<Rightarrow> Department list tx" where
  "Q_ListDepartments tc includeArchived =
    asks (\<lambda>d. sort_key (\<lambda>r. tc_collate tc (dp_Name r))
      (filter (\<lambda>r. dp_TenantID r = tc_tenantID tc \<and> rls tc (dp_TenantID r) \<and> (includeArchived \<or> dp_ArchivedAt r = None))
        (departments d)))"

definition Q_GetDepartment :: "TenantConn \<Rightarrow> uuid \<Rightarrow> Department tx" where
  "Q_GetDepartment tc i = bind_tx (asks (\<lambda>d. filter (department_row tc i) (departments d))) (\<lambda>rs. lift_res (one_row rs))"

definition Q_UpdateDepartment :: "TenantConn \<Rightarrow> uuid \<Rightarrow> DepartmentDraft \<Rightarrow> Department tx" where
  "Q_UpdateDepartment tc i draft =
    (let P = (\<lambda>r. department_row tc i r \<and> dp_ArchivedAt r = None);
         f = (\<lambda>r. r\<lparr>dp_Name := dd_Name draft, dp_ParentID := dd_ParentID draft, dp_HeadUserID := dd_HeadUserID draft,
                   dp_UpdatedAt := tc_now tc\<rparr>) in
     bind_tx (writable tc) (\<lambda>_.
     bind_tx (asks (\<lambda>d. filter P (departments d))) (\<lambda>rs.
     bind_tx (lift_res (one_row rs)) (\<lambda>old.
     bind_tx (department_admissible tc (f old)) (\<lambda>_.
     bind_tx (asks (\<lambda>d. d)) (\<lambda>d.
     bind_tx (constraints ''23505''
       [(''departments_tenant_name_live_key'', \<forall>x \<in> set (departments d). \<not> same_live_name tc (f old) x)]) (\<lambda>_.
     bind_tx (constraints ''23503''
       [(''departments_head_user_id_fkey'', dd_HeadUserID draft = dp_HeadUserID old \<or> fk_opt (has_user d) (dd_HeadUserID draft)),
        (''departments_parent_fk'', dd_ParentID draft = dp_ParentID old \<or>
            fk_opt (has_department d (dp_TenantID old)) (dd_ParentID draft))]) (\<lambda>_ d.
     Inr (f old, d\<lparr>departments := update_rows P f (departments d)\<rparr>)))))))))"

definition Q_ArchiveDepartment :: "TenantConn \<Rightarrow> uuid \<Rightarrow> nat tx" where
  "Q_ArchiveDepartment tc i =
    (let P = (\<lambda>r. department_row tc i r \<and> dp_ArchivedAt r = None) in
     bind_tx (writable tc) (\<lambda>_ d.
       Inr (length (filter P (departments d)),
            d\<lparr>departments := update_rows P (\<lambda>r. r\<lparr>dp_ArchivedAt := Some (tc_now tc), dp_UpdatedAt := tc_now tc\<rparr>) (departments d)\<rparr>)))"

definition live_departments :: "uuid \<Rightarrow> db \<Rightarrow> Department list" where
  "live_departments t d = filter (\<lambda>r. dp_TenantID r = t \<and> dp_ArchivedAt r = None) (departments d)"

definition Q_CountLiveDepartments :: "TenantConn \<Rightarrow> int tx" where
  "Q_CountLiveDepartments tc =
    asks (\<lambda>d. int (length (filter (\<lambda>r. rls tc (dp_TenantID r)) (live_departments (tc_tenantID tc) d))))"

definition Repo_CreateDepartment :: "TenantConn \<Rightarrow> uuid \<Rightarrow> DepartmentDraft \<Rightarrow> Department tx" where
  "Repo_CreateDepartment tc newID draft = map_err translate (Q_CreateDepartment newID draft tc)"

definition Repo_ListDepartments :: "TenantConn \<Rightarrow> bool \<Rightarrow> Department list tx" where
  "Repo_ListDepartments tc includeArchived = map_err translate (Q_ListDepartments tc includeArchived)"

definition GetDepartment :: "TenantConn \<Rightarrow> uuid \<Rightarrow> Department tx" where
  "GetDepartment tc i = map_err translate (Q_GetDepartment tc i)"

definition Repo_UpdateDepartment :: "TenantConn \<Rightarrow> uuid \<Rightarrow> DepartmentDraft \<Rightarrow> Department tx" where
  "Repo_UpdateDepartment tc i draft = map_err translate (Q_UpdateDepartment tc i draft)"

definition Repo_ArchiveDepartment :: "TenantConn \<Rightarrow> uuid \<Rightarrow> unit tx" where
  "Repo_ArchiveDepartment tc i =
    bind_tx (map_err translate (Q_ArchiveDepartment tc i)) (\<lambda>n. reject_if (n = 0) (Sentinel ErrNotFound))"

definition CountLiveDepartments :: "TenantConn \<Rightarrow> int tx" where
  "CountLiveDepartments tc = map_err translate (Q_CountLiveDepartments tc)"

section \<open>Budgets\<close>

definition char3 :: "string \<Rightarrow> (err, string) res" where
  "char3 s =
    (let t = rev (dropWhile (\<lambda>c. c = CHR '' '') (rev s)) in
     if rune_count t \<le> 3 then Inr t else Inl (pg ''22001'' []))"

definition to_money :: "Money \<Rightarrow> (err, Money) res" where
  "to_money m = bind_res (char3 (Currency m)) (\<lambda>c. Inr \<lparr>Minor = Minor m, Currency = c\<rparr>)"

definition budget_row :: "TenantConn \<Rightarrow> uuid \<Rightarrow> Budget \<Rightarrow> bool" where
  "budget_row tc i r = (b_TenantID r = tc_tenantID tc \<and> b_ID r = i \<and> rls tc (b_TenantID r))"

definition budget_admissible :: "TenantConn \<Rightarrow> Budget \<Rightarrow> unit tx" where
  "budget_admissible tc r =
    bind_tx (reject_if (\<not> rls tc (b_TenantID r)) policy_error) (\<lambda>_.
    constraints ''23514''
      [(''budgets_amount_chk'', 0 <s Minor (b_Amount r)),
       (''budgets_currency_chk'', Currency_Valid (Currency (b_Amount r))),
       (''budgets_period_chk'', b_PeriodStart r \<le> b_PeriodEnd r),
       (''budgets_threshold_chk'', 1 \<le>s b_AlertThresholdBps r \<and> b_AlertThresholdBps r \<le>s 10000)])"

text \<open>
  \<^verbatim>\<open>budgets_no_overlap\<close>: the same organisation, the same department (NULL standing for the nil
  identifier) and periods, both ends included, that share a day.
\<close>

definition overlaps :: "Budget \<Rightarrow> Budget \<Rightarrow> bool" where
  "overlaps r x =
    (b_TenantID x = b_TenantID r \<and>
     case_option nil_uuid id (b_DepartmentID x) = case_option nil_uuid id (b_DepartmentID r) \<and>
     b_PeriodStart x \<le> b_PeriodEnd r \<and> b_PeriodStart r \<le> b_PeriodEnd x)"

definition Q_CreateBudget :: "uuid \<Rightarrow> BudgetDraft \<Rightarrow> TenantConn \<Rightarrow> Budget tx" where
  "Q_CreateBudget newID draft tc =
     bind_tx (writable tc) (\<lambda>_.
     bind_tx (lift_res (to_money (bd_Amount draft))) (\<lambda>amount.
     let r = \<lparr>b_ID = newID, b_TenantID = tc_tenantID tc, b_DepartmentID = bd_DepartmentID draft,
              b_PeriodStart = truncate_to day (bd_PeriodStart draft), b_PeriodEnd = truncate_to day (bd_PeriodEnd draft),
              b_Amount = amount, b_AlertThresholdBps = bd_AlertThresholdBps draft,
              b_CreatedAt = tc_now tc, b_UpdatedAt = tc_now tc\<rparr> in
     bind_tx (budget_admissible tc r) (\<lambda>_.
     bind_tx (asks (\<lambda>d. d)) (\<lambda>d.
     bind_tx (constraints ''23505'' [(''budgets_pkey'', \<forall>x \<in> set (budgets d). b_ID x \<noteq> newID)]) (\<lambda>_.
     bind_tx (constraints ''23P01'' [(''budgets_no_overlap'', \<forall>x \<in> set (budgets d). \<not> overlaps r x)]) (\<lambda>_.
     bind_tx (constraints ''23503''
       [(''budgets_tenant_id_fkey'', has_tenant d (b_TenantID r)),
        (''budgets_department_fk'', fk_opt (has_department d (b_TenantID r)) (b_DepartmentID r))]) (\<lambda>_ d.
     Inr (r, d\<lparr>budgets := budgets d @ [r]\<rparr>))))))))"

definition in_effect :: "time option \<Rightarrow> Budget \<Rightarrow> bool" where
  "in_effect on r = narg (\<lambda>t. b_PeriodStart r \<le> truncate_to day t \<and> truncate_to day t \<le> b_PeriodEnd r) on"

definition Q_ListBudgets :: "TenantConn \<Rightarrow> uuid option \<Rightarrow> time option \<Rightarrow> Budget list tx" where
  "Q_ListBudgets tc departmentID on =
    asks (\<lambda>d. sort_key (\<lambda>r. - b_PeriodStart r)
      (filter (\<lambda>r. b_TenantID r = tc_tenantID tc \<and> rls tc (b_TenantID r) \<and>
          narg (\<lambda>i. b_DepartmentID r = Some i) departmentID \<and> in_effect on r) (budgets d)))"

text \<open>The period is not among the columns an update writes, so the exclusion constraint stays as it was.\<close>

definition Q_UpdateBudget :: "TenantConn \<Rightarrow> uuid \<Rightarrow> BudgetDraft \<Rightarrow> Budget tx" where
  "Q_UpdateBudget tc i draft =
     bind_tx (writable tc) (\<lambda>_.
     bind_tx (asks (\<lambda>d. filter (budget_row tc i) (budgets d))) (\<lambda>rs.
     bind_tx (lift_res (one_row rs)) (\<lambda>old.
     bind_tx (lift_res (to_money (bd_Amount draft))) (\<lambda>amount.
     let f = (\<lambda>r. r\<lparr>b_Amount := amount, b_AlertThresholdBps := bd_AlertThresholdBps draft, b_UpdatedAt := tc_now tc\<rparr>) in
     bind_tx (budget_admissible tc (f old)) (\<lambda>_ d.
     Inr (f old, d\<lparr>budgets := update_rows (budget_row tc i) f (budgets d)\<rparr>))))))"

definition Q_DeleteBudget :: "TenantConn \<Rightarrow> uuid \<Rightarrow> nat tx" where
  "Q_DeleteBudget tc i =
    bind_tx (writable tc) (\<lambda>_ d.
      Inr (length (filter (budget_row tc i) (budgets d)),
           d\<lparr>budgets := filter (\<lambda>r. \<not> budget_row tc i r) (budgets d)\<rparr>))"

definition Repo_CreateBudget :: "TenantConn \<Rightarrow> uuid \<Rightarrow> BudgetDraft \<Rightarrow> Budget tx" where
  "Repo_CreateBudget tc newID draft = map_err translate (Q_CreateBudget newID draft tc)"

definition Repo_ListBudgets :: "TenantConn \<Rightarrow> uuid option \<Rightarrow> time option \<Rightarrow> Budget list tx" where
  "Repo_ListBudgets tc departmentID on = map_err translate (Q_ListBudgets tc departmentID on)"

definition Repo_UpdateBudget :: "TenantConn \<Rightarrow> uuid \<Rightarrow> BudgetDraft \<Rightarrow> Budget tx" where
  "Repo_UpdateBudget tc i draft = map_err translate (Q_UpdateBudget tc i draft)"

definition Repo_DeleteBudget :: "TenantConn \<Rightarrow> uuid \<Rightarrow> unit tx" where
  "Repo_DeleteBudget tc i =
    bind_tx (map_err translate (Q_DeleteBudget tc i)) (\<lambda>n. reject_if (n = 0) (Sentinel ErrNotFound))"

section \<open>Aggregates\<close>

text \<open>
  \<^verbatim>\<open>coalesce(sum(amount_minor), 0)::bigint\<close>: the sum is exact, and the cast refuses a total that
  no \<^verbatim>\<open>bigint\<close> holds.
\<close>

definition bigint_sum :: "Expense list \<Rightarrow> (err, int64) res" where
  "bigint_sum es =
    (let s = sum_list (map (\<lambda>e. sint (Minor (e_Amount e))) es) in
     if in_int64 s then Inr (word_of_int s) else Inl (pg ''22003'' []))"

fun collect :: "('a \<Rightarrow> ('e, 'b) res) \<Rightarrow> 'a list \<Rightarrow> ('e, 'b list) res" where
  "collect f [] = Inr []"
| "collect f (x # xs) = bind_res (f x) (\<lambda>y. bind_res (collect f xs) (\<lambda>ys. Inr (y # ys)))"

definition committed :: "Expense \<Rightarrow> bool" where
  "committed e = (e_Status e = StatusApproved \<or> e_Status e = StatusPaid)"

definition charged_to :: "Budget \<Rightarrow> Expense \<Rightarrow> bool" where
  "charged_to b e =
    (e_TenantID e = b_TenantID b \<and> committed e \<and> b_PeriodStart b \<le> e_SpentAt e \<and> e_SpentAt e \<le> b_PeriodEnd b \<and>
     (b_DepartmentID b = None \<or> e_DepartmentID e = b_DepartmentID b))"

definition consumption_of :: "TenantConn \<Rightarrow> db \<Rightarrow> Budget \<Rightarrow> (err, Consumption) res" where
  "consumption_of tc d b =
    (let es = filter (\<lambda>e. rls tc (e_TenantID e) \<and> charged_to b e) (expenses d) in
     bind_res (bigint_sum es) (\<lambda>total.
     Inr \<lparr>co_BudgetID = b_ID b, co_DepartmentID = b_DepartmentID b,
          co_DepartmentName = department_name tc d (b_TenantID b) (b_DepartmentID b),
          co_PeriodStart = b_PeriodStart b, co_PeriodEnd = b_PeriodEnd b, co_Budget = b_Amount b,
          co_Consumed = \<lparr>Minor = total, Currency = Currency (b_Amount b)\<rparr>, co_ClaimCount = int (length es),
          co_AlertThresholdBps = b_AlertThresholdBps b\<rparr>))"

text \<open>\<^verbatim>\<open>ORDER BY b.period_start DESC, d.name ASC\<close>, NULL names last.\<close>

definition consumption_order :: "TenantConn \<Rightarrow> Consumption \<Rightarrow> int \<times> nat \<times> nat list" where
  "consumption_order tc c =
    (- co_PeriodStart c, case co_DepartmentName c of None \<Rightarrow> (1, []) | Some n \<Rightarrow> (0, tc_collate tc n))"

definition Q_BudgetConsumption :: "TenantConn \<Rightarrow> time option \<Rightarrow> Consumption list tx" where
  "Q_BudgetConsumption tc on =
    bind_tx (asks (\<lambda>d. collect (consumption_of tc d)
      (filter (\<lambda>b. b_TenantID b = tc_tenantID tc \<and> rls tc (b_TenantID b) \<and> in_effect on b) (budgets d)))) (\<lambda>r.
    bind_tx (lift_res r) (\<lambda>rows. ret (sort_key (consumption_order tc) rows)))"

definition Repo_Consumption :: "TenantConn \<Rightarrow> time option \<Rightarrow> Consumption list tx" where
  "Repo_Consumption tc on = map_err translate (Q_BudgetConsumption tc on)"

text \<open>\<^verbatim>\<open>GROUP BY\<close>: one group per key, here in the order the keys first occur.\<close>

definition group_rows :: "('r \<Rightarrow> 'k) \<Rightarrow> 'r list \<Rightarrow> ('k \<times> 'r list) list" where
  "group_rows key rs = map (\<lambda>k. (k, filter (\<lambda>r. key r = k) rs)) (remdups (map key rs))"

definition spent_between :: "time option \<Rightarrow> time option \<Rightarrow> Expense \<Rightarrow> bool" where
  "spent_between from to e =
    (narg (\<lambda>t. truncate_to day t \<le> e_SpentAt e) from \<and> narg (\<lambda>t. e_SpentAt e \<le> truncate_to day t) to)"

record StatusTotal =
  st_Status :: Status
  st_ClaimCount :: int
  st_Total :: Money

record DepartmentTotal =
  dt_DepartmentID :: "uuid option"
  dt_DepartmentName :: string
  dt_ClaimCount :: int
  dt_Total :: Money

definition Q_CountExpensesByStatus :: "TenantConn \<Rightarrow> time option \<Rightarrow> time option \<Rightarrow> (Status \<times> int \<times> int64) list tx" where
  "Q_CountExpensesByStatus tc from to =
    bind_tx (asks (\<lambda>d. collect (\<lambda>(st, es). bind_res (bigint_sum es) (\<lambda>total. Inr (st, int (length es), total)))
      (group_rows e_Status (filter (\<lambda>e. e_TenantID e = tc_tenantID tc \<and> rls tc (e_TenantID e) \<and> spent_between from to e)
        (expenses d))))) lift_res"

definition Q_SpendByDepartment :: "TenantConn \<Rightarrow> time option \<Rightarrow> time option \<Rightarrow> DepartmentTotal list tx" where
  "Q_SpendByDepartment tc from to =
    bind_tx (asks (\<lambda>d. collect (\<lambda>((name, dep, cur), es). bind_res (bigint_sum es) (\<lambda>total.
        Inr \<lparr>dt_DepartmentID = dep, dt_DepartmentName = (case name of None \<Rightarrow> ''Unassigned'' | Some n \<Rightarrow> n),
             dt_ClaimCount = int (length es), dt_Total = \<lparr>Minor = total, Currency = cur\<rparr>\<rparr>))
      (group_rows (\<lambda>e. (department_name tc d (e_TenantID e) (e_DepartmentID e), e_DepartmentID e, Currency (e_Amount e)))
        (filter (\<lambda>e. e_TenantID e = tc_tenantID tc \<and> rls tc (e_TenantID e) \<and> committed e \<and> spent_between from to e)
          (expenses d))))) (\<lambda>r.
    bind_tx (lift_res r) (\<lambda>rows. ret (sort_key (\<lambda>t. - sint (Minor (dt_Total t))) rows)))"

definition Repo_Summary ::
    "TenantConn \<Rightarrow> time option \<Rightarrow> time option \<Rightarrow> Currency \<Rightarrow> (StatusTotal list \<times> DepartmentTotal list) tx" where
  "Repo_Summary tc from to defaultCurrency =
    bind_tx (map_err translate (Q_CountExpensesByStatus tc from to)) (\<lambda>statusRows.
    bind_tx (map_err translate (Q_SpendByDepartment tc from to)) (\<lambda>byDepartment.
    ret (map (\<lambda>(st, n, total). \<lparr>st_Status = st, st_ClaimCount = n,
           st_Total = \<lparr>Minor = total, Currency = defaultCurrency\<rparr>\<rparr>) statusRows, byDepartment)))"

definition seats_taken :: "uuid \<Rightarrow> db \<Rightarrow> Membership list" where
  "seats_taken t d = filter (\<lambda>m. m_TenantID m = t \<and> m_Status m \<noteq> MembershipSuspended) (memberships d)"

definition Q_CountActiveMembers :: "TenantConn \<Rightarrow> int tx" where
  "Q_CountActiveMembers tc =
    asks (\<lambda>d. int (length (filter (\<lambda>m. rls tc (m_TenantID m)) (seats_taken (tc_tenantID tc) d))))"

definition CountActiveMembers :: "TenantConn \<Rightarrow> int tx" where
  "CountActiveMembers tc = map_err translate (Q_CountActiveMembers tc)"

section \<open>Vendor subscriptions\<close>

definition vendor_row :: "TenantConn \<Rightarrow> uuid \<Rightarrow> VendorSubscription \<Rightarrow> bool" where
  "vendor_row tc i r = (vs_TenantID r = tc_tenantID tc \<and> vs_ID r = i \<and> rls tc (vs_TenantID r))"

definition vendor_admissible :: "TenantConn \<Rightarrow> VendorSubscription \<Rightarrow> unit tx" where
  "vendor_admissible tc r =
    bind_tx (reject_if (\<not> rls tc (vs_TenantID r)) policy_error) (\<lambda>_.
    constraints ''23514''
      [(''vendor_subscriptions_amount_chk'', 0 <s Minor (vs_Amount r)),
       (''vendor_subscriptions_cancelled_chk'', (vs_Status r = VendorCancelled) = (vs_CancelledAt r \<noteq> None)),
       (''vendor_subscriptions_currency_chk'', Currency_Valid (Currency (vs_Amount r))),
       (''vendor_subscriptions_vendor_chk'', btrim_len_between 1 200 (vs_Vendor r))])"

definition Q_CreateVendorSubscription :: "uuid \<Rightarrow> VendorSubscriptionDraft \<Rightarrow> TenantConn \<Rightarrow> VendorSubscription tx" where
  "Q_CreateVendorSubscription newID draft tc =
     bind_tx (reject_if (\<not> Cadence_Valid (vd_Cadence draft)) (pg ''22P02'' [])) (\<lambda>_.
     bind_tx (writable tc) (\<lambda>_.
     bind_tx (lift_res (to_money (vd_Amount draft))) (\<lambda>amount.
     let r = \<lparr>vs_ID = newID, vs_TenantID = tc_tenantID tc, vs_Vendor = vd_Vendor draft, vs_PlanName = vd_PlanName draft,
              vs_DepartmentID = vd_DepartmentID draft, vs_OwnerID = vd_OwnerID draft, vs_Amount = amount,
              vs_Cadence = vd_Cadence draft, vs_Status = VendorActive,
              vs_NextChargeOn = truncate_to day (vd_NextChargeOn draft), vs_LastGeneratedOn = None,
              vs_AutoCreateExpense = vd_AutoCreateExpense draft, vs_CancelledAt = None,
              vs_CreatedAt = tc_now tc, vs_UpdatedAt = tc_now tc\<rparr> in
     bind_tx (vendor_admissible tc r) (\<lambda>_.
     bind_tx (asks (\<lambda>d. d)) (\<lambda>d.
     bind_tx (constraints ''23505'' [(''vendor_subscriptions_pkey'', \<forall>x \<in> set (vendor_subs d). vs_ID x \<noteq> newID)]) (\<lambda>_.
     bind_tx (constraints ''23503''
       [(''vendor_subscriptions_tenant_id_fkey'', has_tenant d (vs_TenantID r)),
        (''vendor_subscriptions_department_fk'', fk_opt (has_department d (vs_TenantID r)) (vs_DepartmentID r)),
        (''vendor_subscriptions_owner_fk'', fk_opt (has_member d (vs_TenantID r)) (vs_OwnerID r))]) (\<lambda>_ d.
     Inr (r, d\<lparr>vendor_subs := vendor_subs d @ [r]\<rparr>))))))))"

record VendorSubscriptionRecord =
  vr_Subscription :: VendorSubscription
  vr_DepartmentName :: "string option"
  vr_AnnualisedMinor :: int64

definition Q_ListVendorSubscriptions :: "TenantConn \<Rightarrow> VendorStatus option \<Rightarrow> (VendorSubscription \<times> string option) list tx" where
  "Q_ListVendorSubscriptions tc status =
    bind_tx (reject_if (\<not> fk_opt VendorStatus_Valid status) (pg ''22P02'' [])) (\<lambda>_.
    asks (\<lambda>d. map (\<lambda>r. (r, department_name tc d (vs_TenantID r) (vs_DepartmentID r)))
      (sort_key vs_NextChargeOn
        (filter (\<lambda>r. vs_TenantID r = tc_tenantID tc \<and> rls tc (vs_TenantID r) \<and> narg (\<lambda>st. vs_Status r = st) status)
          (vendor_subs d)))))"

definition Q_GetVendorSubscription :: "TenantConn \<Rightarrow> uuid \<Rightarrow> VendorSubscription tx" where
  "Q_GetVendorSubscription tc i = bind_tx (asks (\<lambda>d. filter (vendor_row tc i) (vendor_subs d))) (\<lambda>rs. lift_res (one_row rs))"

definition Q_UpdateVendorSubscription ::
    "TenantConn \<Rightarrow> uuid \<Rightarrow> VendorSubscriptionDraft \<Rightarrow> VendorStatus \<Rightarrow> time option \<Rightarrow> VendorSubscription tx" where
  "Q_UpdateVendorSubscription tc i draft status cancelledAt =
     bind_tx (reject_if (\<not> (Cadence_Valid (vd_Cadence draft) \<and> VendorStatus_Valid status)) (pg ''22P02'' [])) (\<lambda>_.
     bind_tx (writable tc) (\<lambda>_.
     bind_tx (asks (\<lambda>d. filter (vendor_row tc i) (vendor_subs d))) (\<lambda>rs.
     bind_tx (lift_res (one_row rs)) (\<lambda>old.
     bind_tx (lift_res (to_money (vd_Amount draft))) (\<lambda>amount.
     let f = (\<lambda>r. r\<lparr>vs_Vendor := vd_Vendor draft, vs_PlanName := vd_PlanName draft, vs_DepartmentID := vd_DepartmentID draft,
                   vs_OwnerID := vd_OwnerID draft, vs_Amount := amount, vs_Cadence := vd_Cadence draft,
                   vs_NextChargeOn := truncate_to day (vd_NextChargeOn draft),
                   vs_AutoCreateExpense := vd_AutoCreateExpense draft, vs_Status := status,
                   vs_CancelledAt := cancelledAt, vs_UpdatedAt := tc_now tc\<rparr>) in
     bind_tx (vendor_admissible tc (f old)) (\<lambda>_.
     bind_tx (asks (\<lambda>d. d)) (\<lambda>d.
     bind_tx (constraints ''23503''
       [(''vendor_subscriptions_department_fk'', vd_DepartmentID draft = vs_DepartmentID old \<or>
            fk_opt (has_department d (vs_TenantID old)) (vd_DepartmentID draft)),
        (''vendor_subscriptions_owner_fk'', vd_OwnerID draft = vs_OwnerID old \<or>
            fk_opt (has_member d (vs_TenantID old)) (vd_OwnerID draft))]) (\<lambda>_ d.
     Inr (f old, d\<lparr>vendor_subs := update_rows (vendor_row tc i) f (vendor_subs d)\<rparr>)))))))))"

definition tracked_subs :: "uuid \<Rightarrow> db \<Rightarrow> VendorSubscription list" where
  "tracked_subs t d = filter (\<lambda>r. vs_TenantID r = t \<and> vs_Status r \<noteq> VendorCancelled) (vendor_subs d)"

definition Q_CountActiveVendorSubscriptions :: "TenantConn \<Rightarrow> int tx" where
  "Q_CountActiveVendorSubscriptions tc =
    asks (\<lambda>d. int (length (filter (\<lambda>r. rls tc (vs_TenantID r)) (tracked_subs (tc_tenantID tc) d))))"

text \<open>
  The sweep's batch: due and not yet generated for their charge date, the longest due first;
  \<^verbatim>\<open>SKIP LOCKED\<close> passes over the rows another session holds.
\<close>

definition due_charge :: "time \<Rightarrow> VendorSubscription \<Rightarrow> bool" where
  "due_charge dueOn r =
    (vs_Status r = VendorActive \<and> vs_AutoCreateExpense r \<and> vs_NextChargeOn r \<le> dueOn \<and>
     (case vs_LastGeneratedOn r of None \<Rightarrow> True | Some g \<Rightarrow> g < vs_NextChargeOn r))"

definition Q_ClaimDueVendorSubscriptions :: "TenantConn \<Rightarrow> time \<Rightarrow> int32 \<Rightarrow> VendorSubscription list tx" where
  "Q_ClaimDueVendorSubscriptions tc dueOn batch =
    bind_tx (writable tc) (\<lambda>_.
    asks (\<lambda>d. take (nat (sint batch)) (sort_key vs_NextChargeOn
      (filter (\<lambda>r. rls tc (vs_TenantID r) \<and> due_charge (truncate_to day dueOn) r \<and> \<not> tc_locked tc (vs_ID r)) (vendor_subs d)))))"

definition Q_AdvanceVendorSubscription :: "TenantConn \<Rightarrow> uuid \<Rightarrow> time \<Rightarrow> VendorSubscription tx" where
  "Q_AdvanceVendorSubscription tc i next =
    (let f = (\<lambda>r. r\<lparr>vs_LastGeneratedOn := Some (vs_NextChargeOn r), vs_NextChargeOn := truncate_to day next,
                   vs_UpdatedAt := tc_now tc\<rparr>) in
     bind_tx (writable tc) (\<lambda>_.
     bind_tx (asks (\<lambda>d. filter (vendor_row tc i) (vendor_subs d))) (\<lambda>rs.
     bind_tx (lift_res (one_row rs)) (\<lambda>old d.
     Inr (f old, d\<lparr>vendor_subs := update_rows (vendor_row tc i) f (vendor_subs d)\<rparr>)))))"

definition Repo_CreateVendorSubscription :: "TenantConn \<Rightarrow> uuid \<Rightarrow> VendorSubscriptionDraft \<Rightarrow> VendorSubscription tx" where
  "Repo_CreateVendorSubscription tc newID draft = map_err translate (Q_CreateVendorSubscription newID draft tc)"

definition Repo_ListVendorSubscriptions :: "TenantConn \<Rightarrow> VendorStatus option \<Rightarrow> VendorSubscriptionRecord list tx" where
  "Repo_ListVendorSubscriptions tc status =
    bind_tx (map_err translate (Q_ListVendorSubscriptions tc status)) (\<lambda>rows.
    ret (map (\<lambda>(r, name). \<lparr>vr_Subscription = r, vr_DepartmentName = name, vr_AnnualisedMinor = AnnualisedMinor r\<rparr>) rows))"

definition GetVendorSubscription :: "TenantConn \<Rightarrow> uuid \<Rightarrow> VendorSubscription tx" where
  "GetVendorSubscription tc i = map_err translate (Q_GetVendorSubscription tc i)"

definition Repo_UpdateVendorSubscription ::
    "TenantConn \<Rightarrow> uuid \<Rightarrow> VendorSubscriptionDraft \<Rightarrow> VendorStatus \<Rightarrow> time option \<Rightarrow> time \<Rightarrow> VendorSubscription tx" where
  "Repo_UpdateVendorSubscription tc i draft status existing now =
    (let cancelledAt =
       (if status = VendorCancelled \<and> existing = None then Some now
        else if status \<noteq> VendorCancelled then None else existing)
     in map_err translate (Q_UpdateVendorSubscription tc i draft status cancelledAt))"

definition CountActiveVendorSubscriptions :: "TenantConn \<Rightarrow> int tx" where
  "CountActiveVendorSubscriptions tc = map_err translate (Q_CountActiveVendorSubscriptions tc)"

record DueSubscription =
  ds_ID :: uuid
  ds_TenantID :: uuid
  ds_Vendor :: string
  ds_PlanName :: "string option"
  ds_DepartmentID :: "uuid option"
  ds_OwnerID :: "uuid option"
  ds_Amount :: Money
  ds_Cadence :: Cadence
  ds_NextChargeOn :: time

definition to_due :: "VendorSubscription \<Rightarrow> DueSubscription" where
  "to_due r =
    \<lparr>ds_ID = vs_ID r, ds_TenantID = vs_TenantID r, ds_Vendor = vs_Vendor r, ds_PlanName = vs_PlanName r,
     ds_DepartmentID = vs_DepartmentID r, ds_OwnerID = vs_OwnerID r, ds_Amount = vs_Amount r,
     ds_Cadence = vs_Cadence r, ds_NextChargeOn = vs_NextChargeOn r\<rparr>"

definition ClaimDue :: "TenantConn \<Rightarrow> time \<Rightarrow> int32 \<Rightarrow> DueSubscription list tx" where
  "ClaimDue tc dueOn batch =
    bind_tx (map_err translate (Q_ClaimDueVendorSubscriptions tc dueOn batch)) (\<lambda>rows. ret (map to_due rows))"

definition Advance :: "TenantConn \<Rightarrow> uuid \<Rightarrow> time \<Rightarrow> unit tx" where
  "Advance tc i next = bind_tx (map_err translate (Q_AdvanceVendorSubscription tc i next)) (\<lambda>_. ret ())"

end
