(* ===== verification/Org_Service.thy ===== *)
theory Org_Service
  imports Org_Repo Billing_Repo Scope
begin

text \<open>
  \<^verbatim>\<open>internal/service/org_service.go\<close>: departments, budgets, vendor subscriptions, members and the
  dashboard. Every call authorises the caller inside the transaction it works in; what adds a
  department, a tracked subscription or a seat also asks the plan for room there. An identifier the
  database generates is the first fresh one of the call's surroundings.
\<close>

section \<open>Plan limits\<close>

definition enforceLimit ::
    "TenantConn \<Rightarrow> string \<Rightarrow> string \<Rightarrow> (Limits \<Rightarrow> int) \<Rightarrow> (TenantConn \<Rightarrow> int tx) \<Rightarrow> unit tx" where
  "enforceLimit tc singular plural limitOf countOf =
    bind_tx (GetEntitlement tc) (\<lambda>entitlement.
    let limit = limitOf (Entitlement_Limits entitlement) in
    if limit = Unlimited then ret ()
    else bind_tx (countOf tc) (\<lambda>current.
      if Within limit (current + 1) then ret ()
      else lift_res (Inl (ErrPlanLimit \<lparr>Singular = singular, Plural = plural, pl_Limit = limit, pl_Current = current,
                                       pl_Plan = plan_str (EffectivePlan entitlement)\<rparr>))))"

section \<open>Departments\<close>

definition CreateDepartment :: "Runtime \<Rightarrow> Subject \<Rightarrow> DepartmentDraft \<Rightarrow> Department act" where
  "CreateDepartment env subject draft0 =
    Scope_Write env subject (\<lambda>tc actor.
      bind_tx (lift_res (Require actor PermDepartmentManage)) (\<lambda>_.
      let (ok, draft) = DepartmentDraft_Validate draft0 in
      bind_tx (lift_res ok) (\<lambda>_.
      bind_tx (enforceLimit tc ''department'' ''departments'' l_Departments CountLiveDepartments) (\<lambda>_.
      Repo_CreateDepartment tc (fresh_id env 0) draft))))"

definition ListDepartments :: "Runtime \<Rightarrow> Subject \<Rightarrow> bool \<Rightarrow> Department list act" where
  "ListDepartments env subject includeArchived =
    Scope_Read env subject (\<lambda>tc actor. Repo_ListDepartments tc includeArchived)"

definition UpdateDepartment :: "Runtime \<Rightarrow> Subject \<Rightarrow> uuid \<Rightarrow> DepartmentDraft \<Rightarrow> Department act" where
  "UpdateDepartment env subject i draft0 =
    Scope_Write env subject (\<lambda>tc actor.
      bind_tx (lift_res (Require actor PermDepartmentManage)) (\<lambda>_.
      let (ok, draft) = DepartmentDraft_Validate draft0 in
      bind_tx (lift_res ok) (\<lambda>_.
      bind_tx (reject_if (dd_ParentID draft = Some i)
        (FieldErr \<lparr>Field = ''parent_id'', Detail = Text ''a department cannot be its own parent''\<rparr>)) (\<lambda>_.
      Repo_UpdateDepartment tc i draft))))"

definition ArchiveDepartment :: "Runtime \<Rightarrow> Subject \<Rightarrow> uuid \<Rightarrow> unit act" where
  "ArchiveDepartment env subject i =
    Scope_Write env subject (\<lambda>tc actor.
      bind_tx (lift_res (Require actor PermDepartmentManage)) (\<lambda>_.
      Repo_ArchiveDepartment tc i))"

section \<open>Budgets\<close>

definition CreateBudget :: "Runtime \<Rightarrow> Subject \<Rightarrow> BudgetDraft \<Rightarrow> Budget act" where
  "CreateBudget env subject draft0 =
    Scope_Write env subject (\<lambda>tc actor.
      bind_tx (lift_res (Require actor PermBudgetManage)) (\<lambda>_.
      bind_tx (GetEntitlement tc) (\<lambda>entitlement.
      bind_tx (reject_if (\<not> Allows entitlement FeatureDepartmentBudgets)
        (Wrap ErrForbidden (Text ''this plan does not include department budgets''))) (\<lambda>_.
      let (ok, draft) = BudgetDraft_Validate draft0 (clock env) in
      bind_tx (lift_res ok) (\<lambda>_.
      Repo_CreateBudget tc (fresh_id env 0) draft)))))"

definition ListBudgets :: "Runtime \<Rightarrow> Subject \<Rightarrow> uuid option \<Rightarrow> time option \<Rightarrow> Budget list act" where
  "ListBudgets env subject departmentID on =
    Scope_Read env subject (\<lambda>tc actor.
      bind_tx (lift_res (Require actor PermExpenseReadTeam)) (\<lambda>_.
      Repo_ListBudgets tc departmentID on))"

definition BudgetConsumption :: "Runtime \<Rightarrow> Subject \<Rightarrow> time option \<Rightarrow> Consumption list act" where
  "BudgetConsumption env subject on =
    Scope_Read env subject (\<lambda>tc actor.
      bind_tx (lift_res (Require actor PermExpenseReadTeam)) (\<lambda>_.
      bind_tx (Repo_Consumption tc on) (\<lambda>rows.
      case a_DepartmentID actor of
        None \<Rightarrow> ret rows
      | Some dep \<Rightarrow>
          if Can actor PermExpenseReadAll then ret rows
          else ret (filter (\<lambda>c. co_DepartmentID c = None \<or> co_DepartmentID c = Some dep) rows))))"

definition UpdateBudget :: "Runtime \<Rightarrow> Subject \<Rightarrow> uuid \<Rightarrow> BudgetDraft \<Rightarrow> Budget act" where
  "UpdateBudget env subject i draft0 =
    Scope_Write env subject (\<lambda>tc actor.
      bind_tx (lift_res (Require actor PermBudgetManage)) (\<lambda>_.
      let (ok, draft) = BudgetDraft_Validate draft0 (clock env) in
      bind_tx (lift_res ok) (\<lambda>_.
      Repo_UpdateBudget tc i draft)))"

definition DeleteBudget :: "Runtime \<Rightarrow> Subject \<Rightarrow> uuid \<Rightarrow> unit act" where
  "DeleteBudget env subject i =
    Scope_Write env subject (\<lambda>tc actor.
      bind_tx (lift_res (Require actor PermBudgetManage)) (\<lambda>_.
      Repo_DeleteBudget tc i))"

section \<open>Vendor subscriptions\<close>

definition CreateVendorSubscription :: "Runtime \<Rightarrow> Subject \<Rightarrow> VendorSubscriptionDraft \<Rightarrow> VendorSubscription act" where
  "CreateVendorSubscription env subject draft0 =
    Scope_Write env subject (\<lambda>tc actor.
      bind_tx (lift_res (Require actor PermVendorSubManage)) (\<lambda>_.
      bind_tx (GetEntitlement tc) (\<lambda>entitlement.
      bind_tx (reject_if (\<not> Allows entitlement FeatureVendorSubTracking)
        (Wrap ErrForbidden (Text ''this plan does not include vendor subscription tracking''))) (\<lambda>_.
      let (ok, draft) = VendorDraft_Validate draft0 (clock env) in
      bind_tx (lift_res ok) (\<lambda>_.
      bind_tx (enforceLimit tc ''tracked subscription'' ''tracked subscriptions'' l_VendorSubscriptions
        CountActiveVendorSubscriptions) (\<lambda>_.
      Repo_CreateVendorSubscription tc (fresh_id env 0) draft))))))"

definition ListVendorSubscriptions :: "Runtime \<Rightarrow> Subject \<Rightarrow> VendorStatus option \<Rightarrow> VendorSubscriptionRecord list act" where
  "ListVendorSubscriptions env subject status =
    Scope_Read env subject (\<lambda>tc actor.
      bind_tx (lift_res (Require actor PermExpenseReadTeam)) (\<lambda>_.
      Repo_ListVendorSubscriptions tc status))"

definition UpdateVendorSubscription ::
    "Runtime \<Rightarrow> Subject \<Rightarrow> uuid \<Rightarrow> VendorSubscriptionDraft \<Rightarrow> VendorStatus \<Rightarrow> VendorSubscription act" where
  "UpdateVendorSubscription env subject i draft0 status =
    Scope_Write env subject (\<lambda>tc actor.
      bind_tx (lift_res (Require actor PermVendorSubManage)) (\<lambda>_.
      bind_tx (reject_if (\<not> VendorStatus_Valid status)
        (FieldErr \<lparr>Field = ''status'', Detail = Text ''must be one of active, paused or cancelled''\<rparr>)) (\<lambda>_.
      bind_tx (GetVendorSubscription tc i) (\<lambda>existing.
      let (ok, draft) =
        (if status \<noteq> VendorCancelled \<or> vd_NextChargeOn draft0 \<noteq> vs_NextChargeOn existing
         then VendorDraft_Validate draft0 (clock env)
         else (Inr (), draft0\<lparr>vd_NextChargeOn := vs_NextChargeOn existing\<rparr>)) in
      bind_tx (lift_res ok) (\<lambda>_.
      Repo_UpdateVendorSubscription tc i draft status (vs_CancelledAt existing) (clock env))))))"

section \<open>Members\<close>

definition Members :: "Runtime \<Rightarrow> Subject \<Rightarrow> MemberRecord list act" where
  "Members env subject =
    Scope_Read env subject (\<lambda>tc actor.
      bind_tx (lift_res (Require actor PermMemberManage)) (\<lambda>_.
      Repo_ListMembers tc))"

definition forbidden :: "string \<Rightarrow> err" where
  "forbidden reason = Wrap ErrForbidden (Text reason)"

definition InviteMember_body ::
    "Runtime \<Rightarrow> uuid \<Rightarrow> Role \<Rightarrow> uuid option \<Rightarrow> int64 option \<Rightarrow> TenantConn \<Rightarrow> Actor \<Rightarrow> Membership tx" where
  "InviteMember_body env userID role departmentID approvalLimit tc actor =
    bind_tx (lift_res (Require actor PermMemberManage)) (\<lambda>_.
    bind_tx (reject_if (\<not> Role_Valid role) (FieldErr \<lparr>Field = ''role'', Detail = Text ''is not a known role''\<rparr>)) (\<lambda>_.
    bind_tx (reject_if (\<not> OutranksStrictly (a_Role actor) role)
      (forbidden ''you may only invite members below your own role'')) (\<lambda>_.
    bind_tx (enforceLimit tc ''seat'' ''seats'' l_Seats CountActiveMembers) (\<lambda>_.
    Repo_InviteMember tc (fresh_id env 0) userID role departmentID approvalLimit (a_UserID actor)))))"

text \<open>
  The user is looked up, and created when unknown, in statements of their own before the transaction
  that authorises the caller.
\<close>

definition InviteMember ::
    "(nat \<Rightarrow> Runtime) \<Rightarrow> Subject \<Rightarrow> string \<Rightarrow> Role \<Rightarrow> uuid option \<Rightarrow> int64 option \<Rightarrow> Membership act" where
  "InviteMember envs subject email role departmentID approvalLimit =
    bind_act (try_act (on_pool (envs 0) (GetUserByEmail email))) (\<lambda>found.
    bind_act
      (case found of
         Inr user \<Rightarrow> ret_act user
       | Inl err \<Rightarrow>
           if err \<noteq> Sentinel ErrNotFound then fail_act err
           else on_pool (envs 1) (CreateUser (fresh_id (envs 1) 0) email None None)) (\<lambda>user.
    Scope_Write (envs 2) subject (InviteMember_body (envs 2) (u_ID user) role departmentID approvalLimit)))"

definition UpdateMember ::
    "Runtime \<Rightarrow> Subject \<Rightarrow> uuid \<Rightarrow> Role \<Rightarrow> MembershipStatus \<Rightarrow> uuid option \<Rightarrow> int64 option \<Rightarrow> Membership act" where
  "UpdateMember env subject i role status departmentID approvalLimit =
    Scope_Write env subject (\<lambda>tc actor.
      bind_tx (lift_res (Require actor PermMemberManage)) (\<lambda>_.
      bind_tx (reject_if (\<not> Role_Valid role) (FieldErr \<lparr>Field = ''role'', Detail = Text ''is not a known role''\<rparr>)) (\<lambda>_.
      bind_tx (reject_if (SameMembership actor i) (forbidden ''you cannot change your own role or status'')) (\<lambda>_.
      bind_tx (GetMember tc i) (\<lambda>target.
      bind_tx (reject_if (\<not> OutranksStrictly (a_Role actor) (m_Role target))
        (forbidden ''you may only administer members below your own role'')) (\<lambda>_.
      bind_tx (reject_if (\<not> OutranksStrictly (a_Role actor) role)
        (forbidden ''you may not grant a role at or above your own'')) (\<lambda>_.
      Repo_UpdateMember tc i role status departmentID approvalLimit)))))))"

section \<open>Dashboard\<close>

record Summary =
  sm_From :: "time option"
  sm_To :: "time option"
  sm_ByStatus :: "StatusTotal list"
  sm_ByDepartment :: "DepartmentTotal list"

definition Service_Summary :: "Runtime \<Rightarrow> Subject \<Rightarrow> time option \<Rightarrow> time option \<Rightarrow> Summary act" where
  "Service_Summary env subject from to =
    Scope_Read env subject (\<lambda>tc actor.
      bind_tx (lift_res (Require actor PermExpenseReadAll)) (\<lambda>_.
      bind_tx (GetTenant tc) (\<lambda>org.
      bind_tx (Repo_Summary tc from to (t_DefaultCurrency org)) (\<lambda>(byStatus, byDepartment).
      ret \<lparr>sm_From = from, sm_To = to, sm_ByStatus = byStatus, sm_ByDepartment = byDepartment\<rparr>))))"

end
