(* ===== verification/Org_Props.thy ===== *)
theory Org_Props
  imports Org_Service
begin

text \<open>
  What the organisation service keeps, whatever calls are made and in whatever order: one relation
  between the database before and after, established for every call and carried through sequences by
  the composition laws of \<open>effect_relation\<close>. It says that the other organisations' rows and the claims
  stay as they are, that ownership does not change hands, that envelopes never overlap, and that the
  live departments grow only within the plan.
\<close>

section \<open>Invariants\<close>

definition owners :: "db \<Rightarrow> Membership list" where
  "owners d = filter (\<lambda>m. m_Role m = RoleOwner) (memberships d)"

text \<open>The primary key of the memberships.\<close>

definition members_ok :: "db \<Rightarrow> bool" where
  "members_ok d = distinct (map m_ID (memberships d))"

definition budget_ok :: "Budget \<Rightarrow> bool" where
  "budget_ok b = (b_PeriodStart b \<le> b_PeriodEnd b \<and> 0 <s Minor (b_Amount b) \<and>
    1 \<le>s b_AlertThresholdBps b \<and> b_AlertThresholdBps b \<le>s 10000)"

definition budgets_ok :: "db \<Rightarrow> bool" where
  "budgets_ok d =
    (distinct (map b_ID (budgets d)) \<and> (\<forall>b \<in> set (budgets d). budget_ok b) \<and>
     (\<forall>x \<in> set (budgets d). \<forall>y \<in> set (budgets d). overlaps x y \<longrightarrow> b_ID x = b_ID y))"

definition vendors_ok :: "db \<Rightarrow> bool" where
  "vendors_ok d = (\<forall>v \<in> set (vendor_subs d). (vs_Status v = VendorCancelled) = (vs_CancelledAt v \<noteq> None))"

definition entitlement_of :: "uuid \<Rightarrow> db \<Rightarrow> Entitlement" where
  "entitlement_of t d =
    (case List.find (\<lambda>r. ts_TenantID r = t) (tenant_subs d) of
       None \<Rightarrow> FreeEntitlement
     | Some row \<Rightarrow>
         \<lparr>en_Plan = plan_of (ts_PlanCode row), en_Status = sub_status_of (ts_Status row),
          en_Seats = sint (ts_Seats row), en_CurrentPeriodEnd = ts_CurrentPeriodEnd row,
          en_CancelAtPeriodEnd = ts_CancelAtPeriodEnd row, en_TrialEnd = ts_TrialEnd row, en_Known = True\<rparr>)"

definition department_limit :: "uuid \<Rightarrow> db \<Rightarrow> int" where
  "department_limit t d = l_Departments (Entitlement_Limits (entitlement_of t d))"

definition departments_fit :: "uuid \<Rightarrow> db \<Rightarrow> db \<Rightarrow> bool" where
  "departments_fit t d d' =
    (department_limit t d = Unlimited \<or>
     int (length (live_departments t d')) \<le> max (int (length (live_departments t d))) (department_limit t d))"

text \<open>The tables the service has no statement for, and the rows of other organisations.\<close>

definition untouched :: "uuid \<Rightarrow> db \<Rightarrow> db \<Rightarrow> bool" where
  "untouched t d d' =
    (others t (d'\<lparr>users := []\<rparr>) = others t (d\<lparr>users := []\<rparr>) \<and> tenants d' = tenants d \<and> tenant_subs d' = tenant_subs d \<and>
     expenses d' = expenses d \<and> events d' = events d \<and> attachments d' = attachments d)"

definition org_effect :: "uuid \<Rightarrow> db \<Rightarrow> db \<Rightarrow> bool" where
  "org_effect t d d' =
    (untouched t d d' \<and> (members_ok d \<longrightarrow> members_ok d' \<and> owners d' = owners d) \<and> (budgets_ok d \<longrightarrow> budgets_ok d') \<and> (vendors_ok d \<longrightarrow> vendors_ok d') \<and>
     departments_fit t d d')"

lemma departments_fit_trans:
  assumes "departments_fit t a b" "departments_fit t b c" "tenant_subs b = tenant_subs a"
  shows "departments_fit t a c"
  using assms by (auto simp: departments_fit_def department_limit_def entitlement_of_def)

interpretation org: effect_relation "org_effect t" for t
proof unfold_locales
  show "org_effect t d d" for d by (auto simp: org_effect_def untouched_def departments_fit_def)
  show "org_effect t a c" if "org_effect t a b" "org_effect t b c" for a b c
    using that departments_fit_trans [of t a b c] by (auto simp: org_effect_def untouched_def)
qed

text \<open>A change of one table, by what it must keep of that table.\<close>

lemma org_effect_users: "org_effect t d (d\<lparr>users := us\<rparr>)"
  by (simp add: org_effect_def untouched_def others_def members_ok_def owners_def budgets_ok_def vendors_ok_def departments_fit_def live_departments_def)

lemma org_effect_budgets:
  assumes "filter (\<lambda>r. b_TenantID r \<noteq> t) bs = filter (\<lambda>r. b_TenantID r \<noteq> t) (budgets d)"
    and "budgets_ok d \<Longrightarrow> budgets_ok (d\<lparr>budgets := bs\<rparr>)"
  shows "org_effect t d (d\<lparr>budgets := bs\<rparr>)"
  using assms by (simp add: org_effect_def untouched_def others_def members_ok_def owners_def vendors_ok_def departments_fit_def live_departments_def)

lemma org_effect_vendors:
  assumes "filter (\<lambda>r. vs_TenantID r \<noteq> t) vs = filter (\<lambda>r. vs_TenantID r \<noteq> t) (vendor_subs d)"
    and "vendors_ok d \<Longrightarrow> vendors_ok (d\<lparr>vendor_subs := vs\<rparr>)"
  shows "org_effect t d (d\<lparr>vendor_subs := vs\<rparr>)"
  using assms by (simp add: org_effect_def untouched_def others_def members_ok_def owners_def budgets_ok_def departments_fit_def live_departments_def)

lemma org_effect_members:
  assumes "filter (\<lambda>r. m_TenantID r \<noteq> t) ms = filter (\<lambda>r. m_TenantID r \<noteq> t) (memberships d)"
    and "members_ok d \<Longrightarrow> distinct (map m_ID ms) \<and> filter (\<lambda>m. m_Role m = RoleOwner) ms = owners d"
  shows "org_effect t d (d\<lparr>memberships := ms\<rparr>)"
  using assms
  by (simp add: org_effect_def untouched_def others_def members_ok_def owners_def budgets_ok_def vendors_ok_def departments_fit_def live_departments_def)

lemma org_effect_departments:
  assumes "filter (\<lambda>r. dp_TenantID r \<noteq> t) ds = filter (\<lambda>r. dp_TenantID r \<noteq> t) (departments d)"
    and "departments_fit t d (d\<lparr>departments := ds\<rparr>)"
  shows "org_effect t d (d\<lparr>departments := ds\<rparr>)"
  using assms by (simp add: org_effect_def untouched_def others_def members_ok_def owners_def budgets_ok_def vendors_ok_def)

section \<open>Each call\<close>

lemma admissible_Inr [go_result]:
  "department_admissible tc r d = Inr (u, d') \<longleftrightarrow> d' = d \<and> rls tc (dp_TenantID r) \<and>
    btrim_len_between 1 120 (dp_Name r) \<and> dp_ParentID r \<noteq> Some (dp_ID r)"
  "budget_admissible tc b d = Inr (u, d') \<longleftrightarrow> d' = d \<and> rls tc (b_TenantID b) \<and> Currency_Valid (Currency (b_Amount b)) \<and> budget_ok b"
  "vendor_admissible tc v d = Inr (u, d') \<longleftrightarrow> d' = d \<and> rls tc (vs_TenantID v) \<and> 0 <s Minor (vs_Amount v) \<and>
    (vs_Status v = VendorCancelled) = (vs_CancelledAt v \<noteq> None) \<and> Currency_Valid (Currency (vs_Amount v)) \<and>
    btrim_len_between 1 200 (vs_Vendor v)"
  by (auto simp: department_admissible_def budget_admissible_def vendor_admissible_def budget_ok_def go_result first_failing_None)

lemma GetEntitlement_Inr:
  assumes "GetEntitlement tc d = Inr (e, d')" "tc_tenantID tc = t" "\<not> tc_system tc" "t \<noteq> nil_uuid"
  shows "d' = d \<and> e = entitlement_of t d"
proof -
  have f: "List.find P xs = (case filter P xs of [] \<Rightarrow> None | r # _ \<Rightarrow> Some r)" for P :: "TenantSubscription \<Rightarrow> bool" and xs
    by (induction xs) auto
  show ?thesis using assms
    by (auto simp: GetEntitlement_def Q_GetTenantEntitlement_def go_result entitlement_of_def f rls_def one_row_def
        lift_res_def bind_tx_def conj_commute split: sum.splits list.splits if_splits)
qed

lemma enforceLimit_Inr:
  assumes "enforceLimit tc sing plur limitOf countOf d = Inr (u, d')" "tc_tenantID tc = t" "\<not> tc_system tc" "t \<noteq> nil_uuid"
    and "countOf tc d = Inr (n, d)"
  shows "d' = d \<and> (limitOf (Entitlement_Limits (entitlement_of t d)) = Unlimited \<or>
    n + 1 \<le> limitOf (Entitlement_Limits (entitlement_of t d)))"
  using assms by (auto simp: enforceLimit_def go_result Let_def Within_def dest!: GetEntitlement_Inr split: if_splits)

lemma live_departments_append:
  "live_departments t (d\<lparr>departments := departments d @ [r]\<rparr>) =
    live_departments t d @ (if dp_TenantID r = t \<and> dp_ArchivedAt r = None then [r] else [])"
  by (simp add: live_departments_def)

lemma live_departments_update:
  assumes "\<And>r. P r \<Longrightarrow> dp_ArchivedAt r = None" "\<And>r. dp_TenantID (f r) = dp_TenantID r"
  shows "length (live_departments t (d\<lparr>departments := update_rows P f (departments d)\<rparr>)) \<le> length (live_departments t d)"
proof -
  have "length (filter Q (map g rs)) \<le> length (filter Q rs)" if "\<And>r. Q (g r) \<Longrightarrow> Q r" for Q g and rs :: "Department list"
    using that by (induction rs) (simp_all add: le_SucI)
  note shrink = this
  have "(dp_TenantID r = t \<and> dp_ArchivedAt r = None)"
    if "dp_TenantID (if P r then f r else r) = t \<and> dp_ArchivedAt (if P r then f r else r) = None" for r
    using that assms by (auto split: if_splits)
  from shrink [OF this] show ?thesis by (simp add: live_departments_def update_rows_def del: filter_map)
qed

lemma CountLive: "CountLiveDepartments tc d = Inr (n, d') \<longleftrightarrow> d' = d \<and>
    n = int (length (filter (\<lambda>r. rls tc (dp_TenantID r)) (live_departments (tc_tenantID tc) d)))"
  by (auto simp: CountLiveDepartments_def Q_CountLiveDepartments_def go_result)

lemma rls_live: "rls tc (tc_tenantID tc) \<Longrightarrow>
    filter (\<lambda>r. rls tc (dp_TenantID r)) (live_departments (tc_tenantID tc) d) = live_departments (tc_tenantID tc) d"
  by (auto simp: live_departments_def intro!: filter_cong)

lemma new_department_fits:
  assumes "enforceLimit tc s p l_Departments CountLiveDepartments d = Inr (u, d1)"
    and "Repo_CreateDepartment tc i draft d1 = Inr (x, d')" and "\<not> tc_system tc"
  shows "org_effect (tc_tenantID tc) d d'"
proof -
  let ?t = "tc_tenantID tc"
  from assms(2) have rls: "rls tc ?t" and d': "d' = d1\<lparr>departments := departments d1 @ [x]\<rparr>" and x: "dp_TenantID x = ?t" "dp_ArchivedAt x = None"
    by (auto simp: Repo_CreateDepartment_def Q_CreateDepartment_def department_admissible_def go_result Let_def)
  have t: "?t \<noteq> nil_uuid" using rls assms(3) by (simp add: rls_def)
  have n: "CountLiveDepartments tc d = Inr (int (length (live_departments ?t d)), d)"
    by (simp add: CountLive rls_live rls)
  from enforceLimit_Inr [OF assms(1) refl assms(3) t n] have "d1 = d" "departments_fit ?t d d'"
    by (auto simp: departments_fit_def department_limit_def d' live_departments_append x)
  then show ?thesis using org_effect_departments [of ?t "departments d @ [x]" d] by (simp add: d' x)
qed

lemma CreateDepartment_effect: "keeps_act (org_effect (sub_TenantID subject)) (CreateDepartment env subject draft)"
  unfolding CreateDepartment_def
  by (rule org.keeps_Scope_Write) (auto simp: keeps_def go_result split_beta Let_def dest: new_department_fits)

lemma org_effect_update_departments:
  assumes "\<And>r. P r \<Longrightarrow> dp_TenantID r = t \<and> dp_ArchivedAt r = None" "\<And>r. dp_TenantID (f r) = dp_TenantID r"
  shows "org_effect t d (d\<lparr>departments := update_rows P f (departments d)\<rparr>)"
proof (rule org_effect_departments)
  show "departments_fit t d (d\<lparr>departments := update_rows P f (departments d)\<rparr>)"
    using live_departments_update [of P f t d] assms by (auto simp: departments_fit_def)
qed (rule filter_update_rows, use assms in auto)

lemma Repo_UpdateDepartment_effect:
  assumes "tc_tenantID tc = t"
  shows "keeps (org_effect t) (Repo_UpdateDepartment tc i draft)"
  unfolding keeps_def
proof (intro allI impI)
  fix d x d' assume "Repo_UpdateDepartment tc i draft d = Inr (x, d')"
  then obtain P f where "d' = d\<lparr>departments := update_rows P f (departments d)\<rparr>"
    "\<And>r. P r \<Longrightarrow> dp_TenantID r = t \<and> dp_ArchivedAt r = None" "\<And>r. dp_TenantID (f r) = dp_TenantID r"
    using assms by (auto simp: Repo_UpdateDepartment_def Q_UpdateDepartment_def go_result Let_def department_row_def)
  then show "org_effect t d d'" by (auto intro: org_effect_update_departments)
qed

lemma Repo_ArchiveDepartment_effect:
  assumes "tc_tenantID tc = t"
  shows "keeps (org_effect t) (Repo_ArchiveDepartment tc i)"
  using assms unfolding keeps_def
  by (auto simp: Repo_ArchiveDepartment_def Q_ArchiveDepartment_def go_result Let_def department_row_def
      intro!: org_effect_update_departments)

lemma overlaps_sym: "overlaps x y = overlaps y x"
  by (auto simp: overlaps_def)

lemma Repo_CreateBudget_effect:
  assumes "tc_tenantID tc = t"
  shows "keeps (org_effect t) (Repo_CreateBudget tc i draft)"
  unfolding keeps_def
proof (intro allI impI)
  fix d x d' assume "Repo_CreateBudget tc i draft d = Inr (x, d')"
  then have x: "d' = d\<lparr>budgets := budgets d @ [x]\<rparr>" "b_TenantID x = t" "budget_ok x"
      "\<forall>y \<in> set (budgets d). b_ID y \<noteq> b_ID x" "\<forall>y \<in> set (budgets d). \<not> overlaps x y"
    using assms by (auto simp: Repo_CreateBudget_def Q_CreateBudget_def go_result Let_def first_failing_None)
  have "\<forall>y \<in> set (budgets d). \<not> overlaps y x" using x(5) overlaps_sym by blast
  then have "budgets_ok d \<Longrightarrow> budgets_ok (d\<lparr>budgets := budgets d @ [x]\<rparr>)" using x(3-5) by (auto simp: budgets_ok_def)
  then show "org_effect t d d'" unfolding x(1) by (rule org_effect_budgets [rotated]) (simp_all add: x(2))
qed

lemma budgets_ok_map:
  assumes "budgets_ok d" "\<And>b. b_ID (g b) = b_ID b" "\<And>b. budget_ok b \<Longrightarrow> budget_ok (g b)"
    and "\<And>a b. overlaps (g a) (g b) = overlaps a b"
  shows "budgets_ok (d\<lparr>budgets := map g (budgets d)\<rparr>)"
  using assms by (simp add: budgets_ok_def comp_def)

lemma Repo_UpdateBudget_effect:
  assumes "tc_tenantID tc = t"
  shows "keeps (org_effect t) (Repo_UpdateBudget tc i draft)"
  unfolding keeps_def
proof (intro allI impI)
  fix d x d' assume "Repo_UpdateBudget tc i draft d = Inr (x, d')"
  then obtain amount old where new: "d' = d\<lparr>budgets := update_rows (budget_row tc i) (\<lambda>r. r\<lparr>b_Amount := amount,
        b_AlertThresholdBps := bd_AlertThresholdBps draft, b_UpdatedAt := tc_now tc\<rparr>) (budgets d)\<rparr>"
      and ok: "budget_ok (old\<lparr>b_Amount := amount, b_AlertThresholdBps := bd_AlertThresholdBps draft, b_UpdatedAt := tc_now tc\<rparr>)"
    by (auto simp: Repo_UpdateBudget_def Q_UpdateBudget_def go_result Let_def)
  have "budgets_ok d \<Longrightarrow> budgets_ok d'" unfolding new update_rows_def
    by (rule budgets_ok_map) (use ok in \<open>auto simp: overlaps_def budget_ok_def\<close>)
  with assms show "org_effect t d d'" unfolding new
    by (intro org_effect_budgets) (auto simp: budget_row_def intro!: filter_update_rows)
qed

lemma Repo_DeleteBudget_effect:
  assumes "tc_tenantID tc = t"
  shows "keeps (org_effect t) (Repo_DeleteBudget tc i)"
proof -
  have "filter (\<lambda>r. b_TenantID r \<noteq> t) (filter (\<lambda>r. \<not> budget_row tc i r) bs) = filter (\<lambda>r. b_TenantID r \<noteq> t) bs" for bs
    by (rule filter_delete_rows) (simp add: budget_row_def assms)
  then show ?thesis unfolding keeps_def
    by (auto simp: Repo_DeleteBudget_def Q_DeleteBudget_def go_result budgets_ok_def distinct_map_filter
        simp del: filter_filter intro!: org_effect_budgets)
qed

lemma Repo_CreateVendorSubscription_effect:
  assumes "tc_tenantID tc = t"
  shows "keeps (org_effect t) (Repo_CreateVendorSubscription tc i draft)"
  using assms unfolding keeps_def
  by (auto simp: Repo_CreateVendorSubscription_def Q_CreateVendorSubscription_def go_result Let_def vendors_ok_def
      intro!: org_effect_vendors)

lemma Repo_UpdateVendorSubscription_effect:
  assumes "tc_tenantID tc = t"
  shows "keeps (org_effect t) (Repo_UpdateVendorSubscription tc i draft status existing now)"
  using assms unfolding keeps_def
  by (auto simp: Repo_UpdateVendorSubscription_def Q_UpdateVendorSubscription_def go_result Let_def vendors_ok_def vendor_row_def
      update_rows_mem intro!: org_effect_vendors filter_update_rows split: if_splits)

lemma Repo_InviteMember_effect:
  assumes "Repo_InviteMember tc i u role dep lim by' d = Inr (m, d')" "role \<noteq> RoleOwner" "tc_tenantID tc = t"
  shows "org_effect t d d'"
  using assms by (auto simp: Repo_InviteMember_def CreateMembership_def member_checks_def go_result owners_def members_ok_def
      first_failing_None intro!: org_effect_members)

lemma owners_update:
  assumes "\<And>m. m \<in> set ms \<Longrightarrow> P m \<Longrightarrow> m_Role m \<noteq> RoleOwner" "\<And>m. m_Role (f m) \<noteq> RoleOwner"
  shows "filter (\<lambda>m. m_Role m = RoleOwner) (update_rows P f ms) = filter (\<lambda>m. m_Role m = RoleOwner) ms"
  using assms by (induction ms) (auto simp: update_rows_def)

lemma Repo_UpdateMember_effect:
  assumes "GetMember tc i d = Inr (target, d1)" "Repo_UpdateMember tc i role st dep lim d1 = Inr (m, d')"
    and "m_Role target \<noteq> RoleOwner" "role \<noteq> RoleOwner" "tc_tenantID tc = t"
  shows "org_effect t d d'"
proof -
  from assms(1) have t: "d1 = d" "target \<in> set (memberships d)" "member_row tc i target"
    by (auto simp: GetMember_def Q_GetMembership_def go_result dest!: filter_ConsD)
  have same: "x = target" if "members_ok d" "x \<in> set (memberships d)" "member_row tc i x" for x
    using that t(2,3) by (auto simp: members_ok_def member_row_def distinct_map dest: inj_onD)
  from assms(2) obtain f where d': "d' = d\<lparr>memberships := update_rows (member_row tc i) f (memberships d)\<rparr>"
    and f: "\<forall>m. m_Role (f m) = role \<and> m_ID (f m) = m_ID m \<and> m_TenantID (f m) = m_TenantID m"
    by (auto simp: Repo_UpdateMember_def Q_UpdateMembership_def member_checks_def go_result Let_def t(1))
  show ?thesis unfolding d'
  proof (rule org_effect_members)
    show "filter (\<lambda>r. m_TenantID r \<noteq> t) (update_rows (member_row tc i) f (memberships d)) = filter (\<lambda>r. m_TenantID r \<noteq> t) (memberships d)"
      using f assms(5) by (intro filter_update_rows) (auto simp: member_row_def)
    assume ok: "members_ok d"
    have "filter (\<lambda>m. m_Role m = RoleOwner) (update_rows (member_row tc i) f (memberships d)) = owners d"
      unfolding owners_def using same [OF ok] assms(3,4) f by (intro owners_update) auto
    then show "distinct (map m_ID (update_rows (member_row tc i) f (memberships d))) \<and>
        filter (\<lambda>m. m_Role m = RoleOwner) (update_rows (member_row tc i) f (memberships d)) = owners d"
      using ok f by (simp add: members_ok_def map_update_rows)
  qed
qed

lemma GetEntitlement_effect: "keeps (org_effect t) (GetEntitlement tc)"
  unfolding GetEntitlement_def Q_GetTenantEntitlement_def
  by (intro org.keeps_intros) (auto split: sum.splits intro!: org.keeps_intros)

lemma enforceLimit_effect: "keeps (org_effect t) (countOf tc) \<Longrightarrow> keeps (org_effect t) (enforceLimit tc s p l countOf)"
  unfolding enforceLimit_def Let_def by (auto intro!: org.keeps_intros GetEntitlement_effect)

lemma count_effect:
  "keeps (org_effect t) (CountActiveVendorSubscriptions tc)" "keeps (org_effect t) (CountActiveMembers tc)"
  "keeps (org_effect t) (GetVendorSubscription tc i)"
  unfolding CountActiveVendorSubscriptions_def Q_CountActiveVendorSubscriptions_def CountActiveMembers_def Q_CountActiveMembers_def
    GetVendorSubscription_def Q_GetVendorSubscription_def
  by (auto intro!: org.keeps_intros)

lemmas statement_effects = GetEntitlement_effect enforceLimit_effect count_effect Repo_UpdateDepartment_effect
  Repo_ArchiveDepartment_effect Repo_CreateBudget_effect Repo_UpdateBudget_effect Repo_DeleteBudget_effect
  Repo_CreateVendorSubscription_effect Repo_UpdateVendorSubscription_effect

lemma call_effects:
  "keeps_act (org_effect (sub_TenantID subject)) (UpdateDepartment env subject i dd)"
  "keeps_act (org_effect (sub_TenantID subject)) (ArchiveDepartment env subject i)"
  "keeps_act (org_effect (sub_TenantID subject)) (CreateBudget env subject bd)"
  "keeps_act (org_effect (sub_TenantID subject)) (UpdateBudget env subject i bd)"
  "keeps_act (org_effect (sub_TenantID subject)) (DeleteBudget env subject i)"
  "keeps_act (org_effect (sub_TenantID subject)) (CreateVendorSubscription env subject vd)"
  "keeps_act (org_effect (sub_TenantID subject)) (UpdateVendorSubscription env subject i vd vst)"
  unfolding UpdateDepartment_def ArchiveDepartment_def CreateBudget_def UpdateBudget_def DeleteBudget_def
    CreateVendorSubscription_def UpdateVendorSubscription_def
  by (rule org.keeps_Scope_Write; auto simp: split_beta Let_def intro!: org.keeps_intros statement_effects)+

lemma UpdateMember_effect:
  "keeps_act (org_effect (sub_TenantID subject)) (UpdateMember env subject i role st dep lim)"
  unfolding UpdateMember_def
  by (rule org.keeps_Scope_Write)
    (auto simp: keeps_def go_result owner_not_outranked intro: Repo_UpdateMember_effect)

lemma invite_body_effect:
  assumes "tc_tenantID tc = t"
  shows "keeps (org_effect t) (InviteMember_body env u role dep lim tc actor)"
proof -
  have "keeps (org_effect t) (Repo_InviteMember tc i u role dep lim by')" if "role \<noteq> RoleOwner" for i by'
    using that assms by (auto simp: keeps_def intro: Repo_InviteMember_effect)
  note invite = this
  show ?thesis
  proof (cases "role = RoleOwner")
    case False
    then show ?thesis unfolding InviteMember_body_def by (intro org.keeps_intros statement_effects invite)
  qed (auto simp: InviteMember_body_def keeps_def go_result owner_not_outranked)
qed

lemma InviteMember_effect:
  "keeps_act (org_effect (sub_TenantID subject)) (InviteMember envs subject email role dep lim)"
proof -
  have "keeps (org_effect t) (CreateUser i email None None tc)" for t i tc
    by (auto simp: keeps_def CreateUser_def Q_CreateUser_def go_result Let_def intro: org_effect_users)
  moreover have "keeps (org_effect t) (GetUserByEmail email tc)" for t tc
    unfolding GetUserByEmail_def Q_GetUserByEmail_def by (intro org.keeps_intros)
  ultimately show ?thesis unfolding InviteMember_def
    by (auto split: sum.splits intro!: org.keeps_intros org.keeps_Scope_Write invite_body_effect)
qed

section \<open>Sequences of calls\<close>

text \<open>The databases any sequence of organisation calls, by any users, leads to.\<close>

inductive org_calls :: "db \<Rightarrow> db \<Rightarrow> bool" for d :: db where
  org_start: "org_calls d d"
| org_create_department: "org_calls d d' \<Longrightarrow> org_calls d (snd (CreateDepartment env subject dd d'))"
| org_update_department: "org_calls d d' \<Longrightarrow> org_calls d (snd (UpdateDepartment env subject i dd d'))"
| org_archive_department: "org_calls d d' \<Longrightarrow> org_calls d (snd (ArchiveDepartment env subject i d'))"
| org_create_budget: "org_calls d d' \<Longrightarrow> org_calls d (snd (CreateBudget env subject bd d'))"
| org_update_budget: "org_calls d d' \<Longrightarrow> org_calls d (snd (UpdateBudget env subject i bd d'))"
| org_delete_budget: "org_calls d d' \<Longrightarrow> org_calls d (snd (DeleteBudget env subject i d'))"
| org_create_vendor: "org_calls d d' \<Longrightarrow> org_calls d (snd (CreateVendorSubscription env subject vd d'))"
| org_update_vendor: "org_calls d d' \<Longrightarrow> org_calls d (snd (UpdateVendorSubscription env subject i vd vst d'))"
| org_invite_member: "org_calls d d' \<Longrightarrow> org_calls d (snd (InviteMember envs subject email role dep lim d'))"
| org_update_member: "org_calls d d' \<Longrightarrow> org_calls d (snd (UpdateMember env subject i role mst dep lim d'))"

definition org_kept :: "db \<Rightarrow> db \<Rightarrow> bool" where
  "org_kept d d' =
    (expenses d' = expenses d \<and> events d' = events d \<and> tenant_subs d' = tenant_subs d \<and>
     (members_ok d \<longrightarrow> members_ok d' \<and> owners d' = owners d) \<and> (budgets_ok d \<longrightarrow> budgets_ok d') \<and>
     (vendors_ok d \<longrightarrow> vendors_ok d') \<and> (\<forall>t. departments_fit t d d'))"

lemma org_effect_kept:
  assumes "org_effect t d d'"
  shows "org_kept d d'"
proof -
  have "departments_fit u d d'" for u
  proof (cases "u = t")
    case False
    then have live: "live_departments u x = filter (\<lambda>r. dp_TenantID r = u \<and> dp_ArchivedAt r = None) (filter (\<lambda>r. dp_TenantID r \<noteq> t) (departments x))" for x
      by (auto simp: live_departments_def intro: filter_cong)
    have "departments (others t (d'\<lparr>users := []\<rparr>)) = departments (others t (d\<lparr>users := []\<rparr>))"
      using assms by (simp add: org_effect_def untouched_def)
    then have "filter (\<lambda>r. dp_TenantID r \<noteq> t) (departments d') = filter (\<lambda>r. dp_TenantID r \<noteq> t) (departments d)"
      by (simp add: others_def)
    then have "live_departments u d' = live_departments u d" unfolding live by (rule arg_cong)
    then show ?thesis by (simp add: departments_fit_def)
  qed (use assms in \<open>simp add: org_effect_def\<close>)
  then show ?thesis using assms by (simp add: org_kept_def org_effect_def untouched_def)
qed

lemma org_kept_trans: "org_kept a b \<Longrightarrow> org_kept b c \<Longrightarrow> org_kept a c"
  using departments_fit_trans [of _ a b c] by (auto simp: org_kept_def)

lemma org_kept_step: "org_kept d d' \<Longrightarrow> keeps_act (org_effect t) a \<Longrightarrow> org_kept d (snd (a d'))"
  by (rule org_kept_trans) (auto simp: keeps_act_def intro: org_effect_kept)

lemma org_calls_kept: "org_calls d d' \<Longrightarrow> org_kept d d'"
proof (induction rule: org_calls.induct)
  case org_start
  show ?case by (simp add: org_kept_def departments_fit_def)
qed (rule org_kept_step, assumption, rule CreateDepartment_effect call_effects UpdateMember_effect InviteMember_effect)+

text \<open>
  C12. Ownership is not the organisation service's to give: whatever departments, budgets, subscriptions and
  members anybody changes, and in whatever order, the owners are the same rows as before, untouched.
  Nobody is promoted to owner, and no owner is demoted, suspended or moved.
\<close>

theorem ownership_is_fixed:
  assumes "org_calls d d'" "members_ok d"
  shows "owners d' = owners d"
  using org_calls_kept [OF assms(1)] assms(2) by (simp add: org_kept_def)


section \<open>What the plan does not see\<close>

lemma length_filter_update_one:
  assumes "distinct ms" "\<forall>x \<in> set ms. P x \<longleftrightarrow> x = target" "target \<in> set ms" "\<not> Q target" "Q (f target)"
  shows "length (filter Q (update_rows P f ms)) = Suc (length (filter Q ms))"
proof -
  from assms(3) obtain xs ys where ms: "ms = xs @ target # ys" by (meson split_list)
  with assms(1,2) have "update_rows P f ms = xs @ f target # ys" by (auto simp: update_rows_def intro!: map_idI)
  then show ?thesis using ms assms(4,5) by simp
qed

text \<open>
  A seat is checked only when somebody is invited: bringing a suspended member back takes one seat
  more, whatever the plan includes and however many seats are taken.
\<close>

theorem reactivation_ignores_plan:
  assumes "verify_reset env = None" "members_ok d" "target \<in> set (memberships d)" "m_Status target = MembershipSuspended"
    and call: "UpdateMember env subject (m_ID target) role MembershipActive dep lim d = (Inr m, d')"
  shows "length (seats_taken (sub_TenantID subject) d') = Suc (length (seats_taken (sub_TenantID subject) d))"
proof -
  let ?tc = "write_conn env subject" and ?t = "sub_TenantID subject"
  let ?P = "member_row ?tc (m_ID target)"
  let ?f = "\<lambda>m. m\<lparr>m_Role := role, m_Status := MembershipActive, m_ApprovalLimitMinor := lim, m_DepartmentID := dep, m_UpdatedAt := tc_now ?tc\<rparr>"
  from call [unfolded UpdateMember_def Scope_Write_Inr [OF assms(1)]] obtain row where
    row: "row \<in> set (memberships d)" "?P row" and d': "d' = d\<lparr>memberships := update_rows ?P ?f (memberships d)\<rparr>"
    by (auto simp: go_result GetMember_def Q_GetMembership_def Repo_UpdateMember_def Q_UpdateMembership_def member_checks_def Let_def
        dest!: filter_ConsD)
  have same: "x = target" if "x \<in> set (memberships d)" "?P x" for x
    using that assms(2,3) by (auto simp: members_ok_def member_row_def distinct_map dest: inj_onD)
  with row have P: "?P target" by blast
  have "length (filter (\<lambda>m. m_TenantID m = ?t \<and> m_Status m \<noteq> MembershipSuspended) (update_rows ?P ?f (memberships d))) =
      Suc (length (filter (\<lambda>m. m_TenantID m = ?t \<and> m_Status m \<noteq> MembershipSuspended) (memberships d)))"
    by (rule length_filter_update_one [where target = target])
      (use assms(2-4) same P in \<open>auto simp: members_ok_def distinct_map member_row_def\<close>)
  then show ?thesis by (simp add: seats_taken_def d')
qed

end
