(* ===== verification/Org_Budgets.thy ===== *)
theory Org_Budgets
  imports Org_Props Isolation "HOL-Library.Multiset"
begin

text \<open>
  What the budget report says: because envelopes of one department never share a day, no claim is
  counted against two of them, and the departments' consumption together stays within what the
  organisation has committed.
\<close>

section \<open>One envelope per claim\<close>

lemma charged_once:
  assumes "budgets_ok d" "x \<in> set (budgets d)" "y \<in> set (budgets d)" "charged_to x e" "charged_to y e"
    and "b_DepartmentID x \<noteq> None" "b_DepartmentID y \<noteq> None"
  shows "x = y"
proof -
  have "overlaps x y" using assms(4-7) by (auto simp: charged_to_def overlaps_def)
  then have "b_ID x = b_ID y" using assms(1-3) by (simp add: budgets_ok_def)
  then show ?thesis using assms(1-3) by (auto simp: budgets_ok_def distinct_map dest: inj_onD)
qed

lemma distinct_single: "distinct xs \<Longrightarrow> (\<And>x y. x \<in> set xs \<Longrightarrow> y \<in> set xs \<Longrightarrow> x = y) \<Longrightarrow> length xs \<le> 1"
  by (simp add: card_le_Suc0_iff_eq flip: distinct_card)

lemma sum_list_swap: "(\<Sum>x\<leftarrow>xs. \<Sum>y\<leftarrow>ys. g x y) = (\<Sum>y\<leftarrow>ys. \<Sum>x\<leftarrow>xs. g x y :: int)"
  by (induction xs) (simp_all add: sum_list_addf)

lemma sum_list_if: "(\<Sum>x\<leftarrow>xs. if P x then c else 0) = int (length (filter P xs)) * (c :: int)"
  by (induction xs) (simp_all add: algebra_simps)

lemma sum_list_filter_if: "(\<Sum>x\<leftarrow>filter P xs. f x) = (\<Sum>x\<leftarrow>xs. if P x then f x else (0 :: int))"
  by (induction xs) simp_all

lemma sum_list_filter_le:
  assumes "\<And>x. x \<in> set xs \<Longrightarrow> 0 \<le> f x"
  shows "(\<Sum>x\<leftarrow>filter P (filter Q xs). f x) \<le> (\<Sum>x\<leftarrow>filter P xs. f x :: int)"
  using assms by (induction xs) (auto simp: add_increasing)

section \<open>The report\<close>

abbreviation minor :: "Expense \<Rightarrow> int" where
  "minor e \<equiv> sint (Minor (e_Amount e))"

lemma bigint_sum_Inr [go_result]: "bigint_sum es = Inr s \<longleftrightarrow> in_int64 (\<Sum>e\<leftarrow>es. minor e) \<and> s = word_of_int (\<Sum>e\<leftarrow>es. minor e)"
  by (auto simp: bigint_sum_def Let_def)

lemma consumption_of_Inr:
  assumes "consumption_of tc d b = Inr c"
  shows "co_BudgetID c = b_ID b" "co_DepartmentID c = b_DepartmentID b" "co_Budget c = b_Amount b"
    "sint (Minor (co_Consumed c)) = (\<Sum>e\<leftarrow>filter (\<lambda>e. rls tc (e_TenantID e) \<and> charged_to b e) (expenses d). minor e)"
  using assms by (auto simp: consumption_of_def Let_def go_result in_int64_def sint64_of_int_id)

lemma collect_Inr: "collect f xs = Inr ys \<Longrightarrow> list_all2 (\<lambda>x y. f x = Inr y) xs ys"
  by (induction xs arbitrary: ys) (auto simp: go_result)

lemma sum_list_all2: "list_all2 (\<lambda>x y. f x = g y) xs ys \<Longrightarrow> (\<Sum>x\<leftarrow>xs. f x) = (\<Sum>y\<leftarrow>ys. g y :: int)"
  by (induction rule: list_all2_induct) simp_all

lemma list_all2_right: "list_all2 R xs ys \<Longrightarrow> y \<in> set ys \<Longrightarrow> \<exists>x \<in> set xs. R x y"
  by (induction rule: list_all2_induct) auto

lemma sum_list_sort: "(\<Sum>x\<leftarrow>sort_key k xs. f x) = (\<Sum>x\<leftarrow>xs. f x :: int)"
  by (metis mset_map mset_sort sum_mset_sum_list)

lemma departmental_total:
  assumes ok: "budgets_ok d" and pos: "\<forall>e \<in> set (expenses d). 0 \<le> minor e"
    and bs: "set bs \<subseteq> set (budgets d)" "distinct bs" "\<forall>b \<in> set bs. b_TenantID b = t \<and> b_DepartmentID b \<noteq> None"
  shows "(\<Sum>b\<leftarrow>bs. \<Sum>e\<leftarrow>filter (charged_to b) (expenses d). minor e) \<le>
    (\<Sum>e\<leftarrow>filter (\<lambda>e. e_TenantID e = t \<and> committed e) (expenses d). minor e)"
proof -
  let ?n = "\<lambda>e. length (filter (\<lambda>b. charged_to b e) bs)"
  have one: "?n e \<le> 1" for e
  proof (rule distinct_single)
    show "distinct (filter (\<lambda>b. charged_to b e) bs)" using bs(2) by simp
    show "x = y" if "x \<in> set (filter (\<lambda>b. charged_to b e) bs)" "y \<in> set (filter (\<lambda>b. charged_to b e) bs)" for x y
      using that bs(1,3) by (intro charged_once [OF ok, of x y e]) auto
  qed
  have none: "?n e = 0" if "\<not> (e_TenantID e = t \<and> committed e)" for e
    using that bs(3) by (auto simp: charged_to_def)
  have "int (?n e) * minor e \<le> (if e_TenantID e = t \<and> committed e then minor e else 0)" if "e \<in> set (expenses d)" for e
  proof (cases "?n e = 0")
    case True
    with pos that show ?thesis by auto
  next
    case False
    with one [of e] have "?n e = 1" by linarith
    with none [of e] show ?thesis by auto
  qed
  then have "(\<Sum>e\<leftarrow>expenses d. int (?n e) * minor e) \<le> (\<Sum>e\<leftarrow>expenses d. if e_TenantID e = t \<and> committed e then minor e else 0)"
    by (rule sum_list_mono)
  moreover have "(\<Sum>b\<leftarrow>bs. \<Sum>e\<leftarrow>filter (charged_to b) (expenses d). minor e) = (\<Sum>e\<leftarrow>expenses d. int (?n e) * minor e)"
    by (simp add: sum_list_filter_if sum_list_swap [of _ "expenses d"] sum_list_if)
  ultimately show ?thesis by (simp add: sum_list_filter_if)
qed

text \<open>
  C11. No claim is counted twice: in a database any sequence of organisation calls leads to, the departmental
  envelopes of a budget report add up to at most what the organisation has committed, because no claim
  falls into two of them.
\<close>

theorem envelopes_count_claims_once:
  assumes "org_calls d0 d" "budgets_ok d0" and pos: "\<forall>e \<in> set (expenses d). 0 \<le> minor e"
    and "verify_reset env = None" and report: "BudgetConsumption env subject on d = (Inr rows, d')"
  shows "(\<Sum>c\<leftarrow>filter (\<lambda>c. co_DepartmentID c \<noteq> None) rows. sint (Minor (co_Consumed c))) \<le>
    (\<Sum>e\<leftarrow>filter (\<lambda>e. e_TenantID e = sub_TenantID subject \<and> committed e) (expenses d). minor e)"
proof -
  let ?t = "sub_TenantID subject" and ?tc = "read_conn env subject"
  let ?bs = "filter (\<lambda>b. b_TenantID b = ?t \<and> rls ?tc (b_TenantID b) \<and> in_effect on b) (budgets d)"
  have ok: "budgets_ok d" using org_calls_kept [OF assms(1)] assms(2) by (simp add: org_kept_def)
  from report [unfolded BudgetConsumption_def Scope_Read_Inr [OF assms(4)]] obtain cs Q where
    t: "?t \<noteq> nil_uuid" and cs: "collect (consumption_of ?tc d) ?bs = Inr cs"
    and rows: "rows = filter Q (sort_key (consumption_order ?tc) cs)"
    by (fastforce simp: go_result Repo_Consumption_def Q_BudgetConsumption_def split: option.splits if_splits intro: filter_True [symmetric])
  let ?f = "\<lambda>c. sint (Minor (co_Consumed c))" and ?g = "\<lambda>b. \<Sum>e\<leftarrow>filter (charged_to b) (expenses d). minor e"
  have g: "?g b = (\<Sum>e\<leftarrow>filter (\<lambda>e. rls ?tc (e_TenantID e) \<and> charged_to b e) (expenses d). minor e)" if "b_TenantID b = ?t" for b
    using that t by (intro arg_cong [where f = sum_list] arg_cong2 [where f = map] filter_cong) (auto simp: charged_to_def rls_def)
  have "list_all2 (\<lambda>b c. (if b_DepartmentID b \<noteq> None then ?g b else 0) = (if co_DepartmentID c \<noteq> None then ?f c else 0) \<and> 0 \<le> ?f c) ?bs cs"
    using collect_Inr [OF cs]
  proof (rule list.rel_mono_strong)
    fix b c assume b: "b \<in> set ?bs" and c: "consumption_of ?tc d b = Inr c"
    have "?f c = ?g b" using consumption_of_Inr(4) [OF c] g [of b] b by simp
    moreover have "0 \<le> ?g b" using pos by (intro sum_list_nonneg) auto
    ultimately show "(if b_DepartmentID b \<noteq> None then ?g b else 0) = (if co_DepartmentID c \<noteq> None then ?f c else 0) \<and> 0 \<le> ?f c"
      using consumption_of_Inr(2) [OF c] by simp
  qed
  note rel = this
  have eq: "(\<Sum>b\<leftarrow>?bs. if b_DepartmentID b \<noteq> None then ?g b else 0) = (\<Sum>c\<leftarrow>cs. if co_DepartmentID c \<noteq> None then ?f c else 0)"
    by (rule sum_list_all2, rule list_all2_mono [OF rel]) simp
  have nonneg: "0 \<le> ?f c" if "c \<in> set cs" for c
    using list_all2_right [OF rel that] by blast
  have "(\<Sum>c\<leftarrow>filter (\<lambda>c. co_DepartmentID c \<noteq> None) rows. ?f c) \<le> (\<Sum>c\<leftarrow>filter (\<lambda>c. co_DepartmentID c \<noteq> None) (sort_key (consumption_order ?tc) cs). ?f c)"
    unfolding rows using nonneg by (intro sum_list_filter_le) simp
  also have "\<dots> = (\<Sum>b\<leftarrow>filter (\<lambda>b. b_DepartmentID b \<noteq> None) ?bs. ?g b)"
    unfolding sum_list_filter_if [where P = "\<lambda>c. co_DepartmentID c \<noteq> None"] sum_list_filter_if [where P = "\<lambda>b. b_DepartmentID b \<noteq> None"]
      sum_list_sort by (rule eq [symmetric])
  also have "\<dots> \<le> (\<Sum>e\<leftarrow>filter (\<lambda>e. e_TenantID e = ?t \<and> committed e) (expenses d). minor e)"
    using ok pos by (intro departmental_total) (auto simp: budgets_ok_def distinct_map)
  finally show ?thesis .
qed

section \<open>Currencies\<close>

text \<open>The same claims with their currencies exchanged for others.\<close>

definition relabel :: "(Expense \<Rightarrow> Currency) \<Rightarrow> db \<Rightarrow> db" where
  "relabel g d = d\<lparr>expenses := map (\<lambda>e. e\<lparr>e_Amount := (e_Amount e)\<lparr>Currency := g e\<rparr>\<rparr>) (expenses d)\<rparr>"

lemma consumption_of_relabel: "consumption_of tc (relabel g d) b = consumption_of tc d b"
  by (simp add: consumption_of_def relabel_def Let_def bigint_sum_def charged_to_def committed_def filter_map comp_def department_name_def
      cong: option.case_cong)

lemma commutes_Scope_Read:
  assumes "\<And>tc. commutes v (ResolveActor tc (sub_UserID subject))" "\<And>tc actor. commutes v (work tc actor)"
  shows "commutes_act v (Scope_Read env subject work)"
proof -
  let ?b = "no_binding\<lparr>bi_TenantID := sub_TenantID subject, bi_ReadOnly := True\<rparr>"
  have "commutes v (Scope_body subject work (bindSession env ?b False))"
    unfolding Scope_body_def by (intro commuting assms)
  from runTx_loop_commutes [of v "Scope_body subject work", OF this] show ?thesis
    by (auto simp: commutes_act_def Scope_Read_def Scope_run_def WithTenantTx_def runTx_def fail_act_def)
qed

lemma BudgetConsumption_relabel: "commutes_act (relabel g) (BudgetConsumption env subject on)"
proof -
  have "commutes (relabel g) (ResolveActor tc u)" for tc u
    unfolding ResolveActor_def Q_ResolveActor_def
    by (intro commuting commutes_asks) (simp add: relabel_def)
  moreover have "consumption_of tc (relabel g d) = consumption_of tc d" for tc d
    by (simp add: fun_eq_iff consumption_of_relabel)
  then have "commutes (relabel g) (Repo_Consumption tc on)" for tc
    unfolding Repo_Consumption_def Q_BudgetConsumption_def
    by (intro commuting commutes_asks) (simp add: relabel_def)
  ultimately show ?thesis unfolding BudgetConsumption_def
    by (intro commutes_Scope_Read) (auto intro!: commuting split: option.splits)
qed

text \<open>
  The report is blind to currencies: exchanging the currency of every claim for any other, claim by
  claim, changes nothing in the budget report. A claim of 100 yen and one of 100 dollars use up the
  same share of an envelope in euros.
\<close>

theorem consumption_ignores_currency:
  "fst (BudgetConsumption env subject on (relabel g d)) = fst (BudgetConsumption env subject on d)"
  using BudgetConsumption_relabel [of g env subject on] by (simp add: commutes_act_def)

end
