(* ===== verification/Org_Demo.thy ===== *)
theory Org_Demo
  imports Org_Budgets Demo_World
begin

text \<open>The theorems on the organisation service at work in the demonstration organisation.\<close>

definition demo_department :: DepartmentDraft where
  "demo_department = \<lparr>dd_Name = ''Sales'', dd_ParentID = None, dd_HeadUserID = None\<rparr>"

definition demo_sales :: Department where
  "demo_sales = \<lparr>dp_ID = 1000, dp_TenantID = 1, dp_Name = ''Sales'', dp_ParentID = None, dp_HeadUserID = None,
     dp_ArchivedAt = None, dp_CreatedAt = 100 * day, dp_UpdatedAt = 100 * day\<rparr>"

lemma demo_free: "GetEntitlement (write_conn demo_env (demo_subject 6)) d = Inr (FreeEntitlement, d)" if "tenant_subs d = []"
  using that by (simp add: GetEntitlement_def Q_GetTenantEntitlement_def bind_tx_def try_tx_def one_row_def lift_res_def translate_def)

lemma demo_tables [simp]:
  "tenants demo_db = [demo_tenant]" "departments demo_db = []" "budgets demo_db = []" "tenant_subs demo_db = []"
  "expenses demo_db = []" "t_ID demo_tenant = 1" "sub_TenantID (demo_subject i) = 1"
  by (simp_all add: demo_db_def empty_db_def demo_tenant_def demo_subject_def)

lemma demo_valid: "DepartmentDraft_Validate demo_department = (Inr (), demo_department)"
proof -
  have "TrimSpace ''Sales'' = ''Sales''" "rune_count ''Sales'' = 5" by code_simp+
  then show ?thesis by (simp add: DepartmentDraft_Validate_def demo_department_def Let_def)
qed

lemma demo_room:
  "enforceLimit (write_conn demo_env (demo_subject 6)) s p l_Departments CountLiveDepartments demo_db = Inr ((), demo_db)"
  by (simp add: enforceLimit_def bind_tx_def demo_free Let_def CountLiveDepartments_def Q_CountLiveDepartments_def map_err_def
      live_departments_def Within_def Entitlement_Limits_def FreeEntitlement_def EffectivePlan_def plan_row_def IsLive_def)

lemma demo_insert:
  "Repo_CreateDepartment (write_conn demo_env (demo_subject 6)) 1000 demo_department demo_db = Inr (demo_sales, demo_db\<lparr>departments := [demo_sales]\<rparr>)"
proof -
  have "btrim_len_between 1 120 ''Sales''" by code_simp
  then show ?thesis
    by (simp add: Repo_CreateDepartment_def Q_CreateDepartment_def go_result Let_def demo_department_def demo_sales_def rls_def
        first_failing_None has_tenant_def fk_opt_def demo_env_def)
qed

lemma demo_create_department:
  "CreateDepartment demo_env (demo_subject 6) demo_department demo_db = (Inr demo_sales, demo_db\<lparr>departments := [demo_sales]\<rparr>)"
proof -
  have "acts_as demo_db (demo_subject 6) (write_conn demo_env (demo_subject 6)) (demo_actor 6 RoleOwner)"
    by (rule demo_acts) simp_all
  moreover have "Can (demo_actor 6 RoleOwner) PermDepartmentManage" "fresh_id demo_env 0 = 1000" by code_simp+
  ultimately show ?thesis unfolding CreateDepartment_def Scope_Write_Inr [OF demo_runs(2)]
    using demo_room demo_insert demo_valid by (auto simp: go_result)
qed

lemma demo_org_calls: "org_calls demo_db (demo_db\<lparr>departments := [demo_sales]\<rparr>)"
  using org_create_department [OF org_start, of demo_db demo_env "demo_subject 6" demo_department] by (simp add: demo_create_department)

theorem ownership_is_fixed_witness: "owners (demo_db\<lparr>departments := [demo_sales]\<rparr>) = [demo_member 6 RoleOwner]"
proof -
  have "members_ok demo_db" "owners demo_db = [demo_member 6 RoleOwner]"
    by (simp_all add: members_ok_def owners_def demo_db_def empty_db_def demo_member_def)
  then show ?thesis using ownership_is_fixed [OF demo_org_calls] by simp
qed


section \<open>Seats\<close>

text \<open>The free plan's three seats are taken; the submitter is suspended.\<close>

definition demo_full_db :: db where
  "demo_full_db = demo_db\<lparr>memberships := [(demo_member 3 RoleMember)\<lparr>m_Status := MembershipSuspended\<rparr>,
     demo_member 4 RoleManager, demo_member 5 RoleFinance, demo_member 6 RoleOwner]\<rparr>"

lemma demo_full_acts: "acts_as demo_full_db (demo_subject 6) (write_conn demo_env (demo_subject 6)) (demo_actor 6 RoleOwner)"
  by (simp add: demo_full_db_def acts_as_def ResolveActor_def Q_ResolveActor_def demo_defs map_err_def bind_tx_def lift_res_def
      one_row_def rls_def demo_actor_def Active_def)

lemma demo_reactivate:
  "\<exists>m d'. UpdateMember demo_env (demo_subject 6) 3 RoleMember MembershipActive None None demo_full_db = (Inr m, d')"
proof -
  have "Can (demo_actor 6 RoleOwner) PermMemberManage" by code_simp
  then show ?thesis
    unfolding UpdateMember_def Scope_Write_Inr [OF demo_runs(2)]
    using demo_full_acts
    by (auto simp: go_result demo_full_db_def GetMember_def Q_GetMembership_def Repo_UpdateMember_def Q_UpdateMembership_def
        member_checks_def member_row_def Let_def rls_def demo_member_def OutranksStrictly_def SameMembership_def demo_actor_def
        first_failing_None fk_opt_def other_owner_def intro!: exI [of _ "demo_actor 6 RoleOwner"])
qed

theorem reactivation_ignores_plan_witness:
  "\<exists>m d'. UpdateMember demo_env (demo_subject 6) 3 RoleMember MembershipActive None None demo_full_db = (Inr m, d') \<and>
    l_Seats (Entitlement_Limits (entitlement_of 1 demo_full_db)) = 3 \<and>
    length (seats_taken 1 demo_full_db) = 3 \<and> length (seats_taken 1 d') = 4"
proof -
  obtain m d' where call: "UpdateMember demo_env (demo_subject 6) 3 RoleMember MembershipActive None None demo_full_db = (Inr m, d')"
    using demo_reactivate by blast
  have ok: "members_ok demo_full_db" by (simp add: members_ok_def demo_full_db_def demo_member_def)
  have "length (seats_taken 1 demo_full_db) = 3" by (simp add: seats_taken_def demo_full_db_def demo_member_def)
  moreover have "l_Seats (Entitlement_Limits (entitlement_of 1 demo_full_db)) = 3"
    by (simp add: entitlement_of_def demo_full_db_def Entitlement_Limits_def FreeEntitlement_def EffectivePlan_def plan_row_def IsLive_def)
  ultimately show ?thesis
    using reactivation_ignores_plan [OF demo_runs(2) ok, of "(demo_member 3 RoleMember)\<lparr>m_Status := MembershipSuspended\<rparr>"
        "demo_subject 6" RoleMember None None m d'] call
    by (auto simp: demo_full_db_def demo_member_def)
qed

section \<open>An envelope\<close>

definition demo_envelope :: Budget where
  "demo_envelope = \<lparr>b_ID = 50, b_TenantID = 1, b_DepartmentID = Some 1000, b_PeriodStart = 0, b_PeriodEnd = 90 * day,
     b_Amount = \<lparr>Minor = 900000, Currency = ''EUR''\<rparr>, b_AlertThresholdBps = 8000, b_CreatedAt = 0, b_UpdatedAt = 0\<rparr>"

definition demo_charge :: Expense where
  "demo_charge = demo_approved\<lparr>e_TenantID := 1, e_DepartmentID := Some 1000, e_Status := StatusApproved, e_SpentAt := 5 * day,
     e_Amount := \<lparr>Minor = 1250, Currency = ''USD''\<rparr>\<rparr>"

definition demo_budget_db :: db where
  "demo_budget_db = demo_db\<lparr>departments := [demo_sales], budgets := [demo_envelope], expenses := [demo_charge]\<rparr>"

lemma demo_budget_acts: "acts_as demo_budget_db (demo_subject 6) (read_conn demo_env (demo_subject 6)) (demo_actor 6 RoleOwner)"
  by (rule demo_acts) (simp_all add: demo_budget_db_def)

lemma demo_report:
  "\<exists>c. BudgetConsumption demo_env (demo_subject 6) None demo_budget_db = (Inr [c], demo_budget_db) \<and>
    co_DepartmentID c = Some 1000 \<and> sint (Minor (co_Consumed c)) = 1250"
proof -
  let ?tc = "read_conn demo_env (demo_subject 6)"
  have "charged_to demo_envelope demo_charge" "rls ?tc (e_TenantID demo_charge)" "minor demo_charge = 1250" "in_int64 1250"
    by (simp_all add: charged_to_def committed_def demo_envelope_def demo_charge_def rls_def day_def in_int64_def)
  then obtain c where c: "consumption_of ?tc demo_budget_db demo_envelope = Inr c" "co_DepartmentID c = Some 1000" "sint (Minor (co_Consumed c)) = 1250"
    by (simp add: consumption_of_def demo_budget_db_def bigint_sum_def Let_def demo_envelope_def)
  then have "Repo_Consumption ?tc None demo_budget_db = Inr ([c], demo_budget_db)"
    by (simp add: Repo_Consumption_def Q_BudgetConsumption_def go_result demo_budget_db_def demo_envelope_def in_effect_def narg_def rls_def)
  moreover have "Can (demo_actor 6 RoleOwner) PermExpenseReadTeam" by code_simp
  moreover have "a_DepartmentID (demo_actor 6 RoleOwner) = None" by (simp add: demo_actor_def)
  ultimately have "BudgetConsumption demo_env (demo_subject 6) None demo_budget_db = (Inr [c], demo_budget_db)"
    unfolding BudgetConsumption_def Scope_Read_Inr [OF demo_runs(2)] using demo_budget_acts by (auto simp: go_result)
  with c show ?thesis by blast
qed

theorem envelopes_count_claims_once_witness:
  "\<exists>c. BudgetConsumption demo_env (demo_subject 6) None demo_budget_db = (Inr [c], demo_budget_db) \<and>
    sint (Minor (co_Consumed c)) = 1250 \<and>
    sint (Minor (co_Consumed c)) \<le> (\<Sum>e\<leftarrow>filter (\<lambda>e. e_TenantID e = 1 \<and> committed e) (expenses demo_budget_db). minor e)"
proof -
  obtain c where c: "BudgetConsumption demo_env (demo_subject 6) None demo_budget_db = (Inr [c], demo_budget_db)"
    "co_DepartmentID c = Some 1000" "sint (Minor (co_Consumed c)) = 1250"
    using demo_report by blast
  have ok: "budgets_ok demo_budget_db"
    by (simp add: budgets_ok_def budget_ok_def demo_budget_db_def demo_envelope_def day_def word_sless_alt word_sle_eq)
  have pos: "\<forall>e \<in> set (expenses demo_budget_db). 0 \<le> minor e" by (simp add: demo_budget_db_def demo_charge_def)
  from envelopes_count_claims_once [OF org_start ok pos demo_runs(2) c(1)] c show ?thesis by auto
qed

end
