(* ===== verification/Notify.thy ===== *)
theory Notify
  imports Expense
begin

text \<open>
  \<^verbatim>\<open>internal/notify/notify.go\<close>: what a notification carries and whom it reaches. Whether an
  address parses (\<^verbatim>\<open>net/mail\<close>), how a message is rendered and how it is sent are parameters.
\<close>

record Recipient =
  rc_Email :: string
  rc_Name :: string

definition Recipient_Valid :: "(string \<Rightarrow> bool) \<Rightarrow> Recipient \<Rightarrow> bool" where
  "Recipient_Valid parses r = (if rc_Email r = [] then False else parses (rc_Email r))"

record ExpenseEvent =
  xe_To :: "Recipient list"
  xe_TenantName :: string
  xe_ExpenseID :: uuid
  xe_Action :: Action
  xe_Status :: Status
  xe_Merchant :: string
  xe_Amount :: Money
  xe_SpentAt :: time
  xe_SubmitterName :: string
  xe_DecidedByName :: string
  xe_DecisionNote :: "string option"
  xe_PaymentRef :: "string option"
  xe_DepartmentName :: "string option"
  xe_Revision :: int32

record BudgetEvent =
  ge_To :: "Recipient list"
  ge_TenantName :: string
  ge_DepartmentName :: string
  ge_Budget :: Money
  ge_Consumed :: Money
  ge_Remaining :: Money
  ge_UsageBps :: int64
  ge_ThresholdBps :: int32
  ge_PeriodStart :: time
  ge_PeriodEnd :: time

text \<open>The loop of \<^verbatim>\<open>deliverable\<close> with the set of addresses seen so far, compared in lower case.\<close>

fun deliverable_from :: "(string \<Rightarrow> bool) \<Rightarrow> (string \<Rightarrow> string) \<Rightarrow> string list \<Rightarrow> Recipient list \<Rightarrow> Recipient list" where
  "deliverable_from parses lower seen [] = []"
| "deliverable_from parses lower seen (r # rs) =
    (if \<not> Recipient_Valid parses r then deliverable_from parses lower seen rs
     else let key = ToLower lower (rc_Email r) in
       if key \<in> set seen then deliverable_from parses lower seen rs
       else r # deliverable_from parses lower (key # seen) rs)"

definition deliverable :: "(string \<Rightarrow> bool) \<Rightarrow> (string \<Rightarrow> string) \<Rightarrow> Recipient list \<Rightarrow> Recipient list" where
  "deliverable parses lower rs = deliverable_from parses lower [] rs"

text \<open>
  The outside world of a notifier: the rendering of a message for its recipients, and the delivery,
  whose outcome is an error or nothing.
\<close>

record 'm Mailer =
  ml_parses :: "string \<Rightarrow> bool"
  ml_lower :: "string \<Rightarrow> string"
  ml_expense :: "ExpenseEvent \<Rightarrow> Recipient list \<Rightarrow> (err, 'm) res"
  ml_budget :: "BudgetEvent \<Rightarrow> Recipient list \<Rightarrow> (err, 'm) res"
  ml_send :: "'m \<Rightarrow> (err, unit) res"

definition Notifier_ExpenseTransition :: "'m Mailer \<Rightarrow> ExpenseEvent \<Rightarrow> (err, unit) res" where
  "Notifier_ExpenseTransition n e =
    (let to = deliverable (ml_parses n) (ml_lower n) (xe_To e) in
     if to = [] then Inr () else bind_res (ml_expense n e to) (ml_send n))"

definition Notifier_BudgetThreshold :: "'m Mailer \<Rightarrow> BudgetEvent \<Rightarrow> (err, unit) res" where
  "Notifier_BudgetThreshold n e =
    (let to = deliverable (ml_parses n) (ml_lower n) (ge_To e) in
     if to = [] then Inr () else bind_res (ml_budget n e to) (ml_send n))"

section \<open>Properties\<close>

lemma deliverable_from_set:
  "r \<in> set (deliverable_from parses lower seen rs) \<Longrightarrow>
    r \<in> set rs \<and> Recipient_Valid parses r \<and> ToLower lower (rc_Email r) \<notin> set seen"
  by (induction rs arbitrary: seen) (fastforce simp: Let_def split: if_splits)+

lemma deliverable_from_keys:
  "(\<lambda>r. ToLower lower (rc_Email r)) ` set (deliverable_from parses lower seen rs) =
    (\<lambda>r. ToLower lower (rc_Email r)) ` {r \<in> set rs. Recipient_Valid parses r} - set seen"
  by (induction rs arbitrary: seen) (auto simp: Let_def)

lemma deliverable_from_distinct:
  "distinct (map (\<lambda>r. ToLower lower (rc_Email r)) (deliverable_from parses lower seen rs))"
  by (induction rs arbitrary: seen) (auto simp: Let_def dest: deliverable_from_set)

text \<open>
  Everybody with a usable address is told once: the recipients kept are among the given ones, their
  addresses are valid and differ when case is ignored, and every valid address is among them.
\<close>

theorem deliverable_once_each:
  "set (deliverable parses lower rs) \<subseteq> {r \<in> set rs. Recipient_Valid parses r} \<and>
   distinct (map (\<lambda>r. ToLower lower (rc_Email r)) (deliverable parses lower rs)) \<and>
   (\<lambda>r. ToLower lower (rc_Email r)) ` {r \<in> set rs. Recipient_Valid parses r} \<subseteq>
     (\<lambda>r. ToLower lower (rc_Email r)) ` set (deliverable parses lower rs)"
  unfolding deliverable_def
  using deliverable_from_set [of _ parses lower "[]" rs] deliverable_from_distinct [of lower parses "[]" rs]
    deliverable_from_keys [of lower parses "[]" rs]
  by auto

end
