(* ===== verification/Worker.thy ===== *)
theory Worker
  imports Org_Repo Billing_Service Notify
begin

text \<open>
  \<^verbatim>\<open>internal/worker/handlers.go\<close>: the recurring sweep, which files a draft claim for every vendor
  charge that is due, and the jobs behind the notifications, the reconciliation and the session
  clean-up. A handler's job payload is already decoded: \<open>None\<close> is a payload that does not parse.
\<close>

section \<open>The recurring sweep\<close>

definition RecurringBatchSize :: int32 where
  "RecurringBatchSize = 100"

definition claimDue :: "Runtime \<Rightarrow> time \<Rightarrow> DueSubscription list act" where
  "claimDue env today = WithSystemTx env no_binding (\<lambda>tc. ClaimDue tc today RecurringBatchSize)"

definition due_draft :: "DueSubscription \<Rightarrow> Draft" where
  "due_draft sub =
    \<lparr>d_DepartmentID = ds_DepartmentID sub, d_Category = CategorySoftware, d_Amount = ds_Amount sub,
     d_Merchant = ds_Vendor sub, d_Description = ds_PlanName sub, d_SpentAt = ds_NextChargeOn sub\<rparr>"

definition materialise :: "Runtime \<Rightarrow> DueSubscription \<Rightarrow> TenantConn \<Rightarrow> unit tx" where
  "materialise env sub tc =
    (case ds_OwnerID sub of
       None \<Rightarrow> Advance tc (ds_ID sub) (NextChargeDate (ds_NextChargeOn sub) (ds_Cadence sub))
     | Some owner \<Rightarrow>
         bind_tx (lift_res (New (fresh_id env 0) (ds_TenantID sub) owner (due_draft sub) (clock env))) (\<lambda>(claim, event).
         bind_tx (try_tx (Repo_CreateRecurring tc (claim\<lparr>e_SourceSubscriptionID := Some (ds_ID sub)\<rparr>) (event\<lparr>ev_ActorID := None\<rparr>))) (\<lambda>r.
         bind_tx (lift_res (case r of
             Inr _ \<Rightarrow> Inr ()
           | Inl err \<Rightarrow> if errors_is err ErrAlreadyMaterialised then Inr () else Inl err)) (\<lambda>_.
         Advance tc (ds_ID sub) (NextChargeDate (ds_NextChargeOn sub) (ds_Cadence sub))))))"

definition materialiseOne :: "Runtime \<Rightarrow> DueSubscription \<Rightarrow> unit act" where
  "materialiseOne env sub = WithSystemTx env (no_binding\<lparr>bi_TenantID := ds_TenantID sub\<rparr>) (materialise env sub)"

text \<open>The inner loop: a charge that fails is logged, the rest of the batch goes on.\<close>

fun materialise_each :: "(nat \<Rightarrow> Runtime) \<Rightarrow> nat \<Rightarrow> DueSubscription list \<Rightarrow> db \<Rightarrow> db" where
  "materialise_each envs k [] d = d"
| "materialise_each envs k (sub # subs) d = materialise_each envs (Suc k) subs (snd (materialiseOne (envs k) sub d))"

text \<open>
  The outer loop takes batches until one is short. It may run for ever, so its value is an option:
  \<open>None\<close> is not returning. The \<open>i\<close>-th batch is claimed in the surroundings \<open>envs i 0\<close> and its
  charges are filed in \<open>envs i 1\<close>, \<open>envs i 2\<close> and so on.
\<close>

partial_function (option) sweep_loop ::
    "(nat \<Rightarrow> nat \<Rightarrow> Runtime) \<Rightarrow> time \<Rightarrow> nat \<Rightarrow> db \<Rightarrow> ((err, unit) res \<times> db) option" where
  "sweep_loop envs today i d =
    (case claimDue (envs i 0) today d of
       (Inl err, d1) \<Rightarrow> Some (Inl err, d1)
     | (Inr due, d1) \<Rightarrow>
         let d2 = materialise_each (envs i) 1 due d1 in
         if int (length due) < sint RecurringBatchSize then Some (Inr (), d2)
         else sweep_loop envs today (Suc i) d2)"

definition HandleRecurringSweep :: "time \<Rightarrow> (nat \<Rightarrow> nat \<Rightarrow> Runtime) \<Rightarrow> db \<Rightarrow> ((err, unit) res \<times> db) option" where
  "HandleRecurringSweep now envs d = sweep_loop envs (truncate_to day now) 0 d"

section \<open>Notifications\<close>

definition SkipRetry :: err where
  "SkipRetry = Opaque (Text ''skip retry for the task'')"

definition errSkip :: err where
  "errSkip = Opaque (Text ''nothing to notify about'')"

definition displayName :: "string \<Rightarrow> string option \<Rightarrow> string" where
  "displayName email fullName =
    (case fullName of
       Some n \<Rightarrow> (if n \<noteq> [] then n else (let l = takeWhile (\<lambda>c. c \<noteq> CHR ''@'') email in if l \<noteq> [] then l else email))
     | None \<Rightarrow> (let l = takeWhile (\<lambda>c. c \<noteq> CHR ''@'') email in if l \<noteq> [] then l else email))"

definition contact_name :: "Contact \<Rightarrow> string" where
  "contact_name c = displayName (ct_Email c) (ct_FullName c)"

definition zero_contact :: Contact where
  "zero_contact = \<lparr>ct_Email = [], ct_FullName = None, ct_MembershipID = nil_uuid, ct_Role = RoleOther []\<rparr>"

text \<open>A contact that is not found leaves the zero value; any other failure is returned.\<close>

definition contact_or_zero :: "TenantConn \<Rightarrow> uuid \<Rightarrow> Contact tx" where
  "contact_or_zero tc i =
    bind_tx (try_tx (Repo_Contact tc i)) (\<lambda>r.
    case r of
      Inr c \<Rightarrow> ret c
    | Inl err \<Rightarrow> if errors_is err ErrNotFound then ret zero_contact else lift_res (Inl err))"

definition approver_recipients :: "TenantConn \<Rightarrow> Expense \<Rightarrow> Recipient list tx" where
  "approver_recipients tc claim =
    bind_tx (Approvers tc (e_DepartmentID claim)) (\<lambda>approvers.
    ret (map (\<lambda>a. \<lparr>rc_Email = ct_Email a, rc_Name = contact_name a\<rparr>)
      (filter (\<lambda>a. ct_MembershipID a \<noteq> e_SubmitterID claim) approvers)))"

definition buildExpenseEvent :: "TenantConn \<Rightarrow> string \<Rightarrow> Expense \<Rightarrow> Action \<Rightarrow> ExpenseEvent tx" where
  "buildExpenseEvent tc tenantName claim action =
    bind_tx (contact_or_zero tc (e_SubmitterID claim)) (\<lambda>submitter.
    bind_tx (case e_DecidedBy claim of
        None \<Rightarrow> ret []
      | Some m \<Rightarrow> bind_tx (contact_or_zero tc m) (\<lambda>decider. ret (contact_name decider))) (\<lambda>decidedBy.
    bind_tx (case e_DepartmentID claim of
        None \<Rightarrow> ret None
      | Some dep \<Rightarrow> bind_tx (try_tx (GetDepartment tc dep)) (\<lambda>r.
          ret (case r of Inr dept \<Rightarrow> Some (dp_Name dept) | Inl _ \<Rightarrow> None))) (\<lambda>departmentName.
    bind_tx (case action of
        ActionSubmit \<Rightarrow> approver_recipients tc claim
      | ActionWithdraw \<Rightarrow> approver_recipients tc claim
      | ActionApprove \<Rightarrow> ret (if ct_Email submitter \<noteq> [] then [\<lparr>rc_Email = ct_Email submitter, rc_Name = contact_name submitter\<rparr>] else [])
      | ActionReject \<Rightarrow> ret (if ct_Email submitter \<noteq> [] then [\<lparr>rc_Email = ct_Email submitter, rc_Name = contact_name submitter\<rparr>] else [])
      | ActionPay \<Rightarrow> ret (if ct_Email submitter \<noteq> [] then [\<lparr>rc_Email = ct_Email submitter, rc_Name = contact_name submitter\<rparr>] else [])
      | _ \<Rightarrow> ret []) (\<lambda>to.
    ret \<lparr>xe_To = to, xe_TenantName = tenantName, xe_ExpenseID = e_ID claim, xe_Action = action, xe_Status = e_Status claim,
         xe_Merchant = e_Merchant claim, xe_Amount = e_Amount claim, xe_SpentAt = e_SpentAt claim,
         xe_SubmitterName = contact_name submitter, xe_DecidedByName = decidedBy, xe_DecisionNote = e_DecisionNote claim,
         xe_PaymentRef = e_PaymentRef claim, xe_DepartmentName = departmentName, xe_Revision = e_Revision claim\<rparr>))))"

text \<open>What a notification job finds out in its read-only transaction.\<close>

definition expense_event :: "Runtime \<Rightarrow> uuid \<Rightarrow> uuid \<Rightarrow> Action \<Rightarrow> ExpenseEvent act" where
  "expense_event env tenantID expenseID action =
    WithTenantTx env (no_binding\<lparr>bi_TenantID := tenantID, bi_ReadOnly := True\<rparr>) (\<lambda>tc.
      bind_tx (map_err (\<lambda>err. if errors_is err ErrNotFound then errSkip else err) (Repo_Get tc expenseID)) (\<lambda>claim.
      bind_tx (GetTenant tc) (\<lambda>org.
      buildExpenseEvent tc (t_Name org) claim action)))"

definition HandleExpenseTransition ::
    "(ExpenseEvent \<Rightarrow> (err, unit) res) option \<Rightarrow> Runtime \<Rightarrow> (uuid \<times> uuid \<times> Action) option \<Rightarrow> unit act" where
  "HandleExpenseTransition notifier env payload =
    (case payload of
       None \<Rightarrow> fail_act SkipRetry
     | Some (tenantID, expenseID, action) \<Rightarrow>
         (case notifier of
            None \<Rightarrow> ret_act ()
          | Some send \<Rightarrow>
              bind_act (try_act (expense_event env tenantID expenseID action)) (\<lambda>r.
              case r of
                Inl err \<Rightarrow> if err = errSkip then ret_act () else fail_act err
              | Inr event \<Rightarrow> lift_act (send event))))"

fun sameDepartment :: "uuid option \<Rightarrow> uuid option \<Rightarrow> bool" where
  "sameDepartment (Some a) (Some b) = (a = b)"
| "sameDepartment a b = (a = None \<and> b = None)"

definition derefOr :: "string option \<Rightarrow> string \<Rightarrow> string" where
  "derefOr s fallback = (case s of None \<Rightarrow> fallback | Some t \<Rightarrow> if t = [] then fallback else t)"

text \<open>
  The envelopes of the department at or past their threshold, and whom to tell. An attempt of the
  transaction that fails does so before the work in this model, so the lists the closure appends to are
  filled once.
\<close>

definition budget_events :: "Runtime \<Rightarrow> bool \<Rightarrow> uuid \<Rightarrow> uuid option \<Rightarrow> BudgetEvent list act" where
  "budget_events env notifying tenantID departmentID =
    WithTenantTx env (no_binding\<lparr>bi_TenantID := tenantID, bi_ReadOnly := True\<rparr>) (\<lambda>tc.
      bind_tx (Repo_Consumption tc (Some (clock env))) (\<lambda>envelopes.
      let breached = filter (\<lambda>c. \<not> (departmentID \<noteq> None \<and> \<not> sameDepartment (co_DepartmentID c) departmentID) \<and>
            BreachesThreshold c) envelopes in
      if breached = [] \<or> \<not> notifying then ret []
      else bind_tx (GetTenant tc) (\<lambda>org.
        bind_tx (Finance tc) (\<lambda>contacts.
        ret (map (\<lambda>c. \<lparr>ge_To = map (\<lambda>a. \<lparr>rc_Email = ct_Email a, rc_Name = contact_name a\<rparr>) contacts,
              ge_TenantName = t_Name org, ge_DepartmentName = derefOr (co_DepartmentName c) ''Organisation-wide'',
              ge_Budget = co_Budget c, ge_Consumed = co_Consumed c, ge_Remaining = Remaining c, ge_UsageBps = UsageBps c,
              ge_ThresholdBps = co_AlertThresholdBps c, ge_PeriodStart = co_PeriodStart c, ge_PeriodEnd = co_PeriodEnd c\<rparr>)
            breached)))))"

fun send_all :: "('e \<Rightarrow> (err, unit) res) \<Rightarrow> 'e list \<Rightarrow> (err, unit) res" where
  "send_all send [] = Inr ()"
| "send_all send (e # es) = bind_res (send e) (\<lambda>_. send_all send es)"

definition HandleBudgetThreshold ::
    "(BudgetEvent \<Rightarrow> (err, unit) res) option \<Rightarrow> Runtime \<Rightarrow> (uuid \<times> uuid option) option \<Rightarrow> unit act" where
  "HandleBudgetThreshold notifier env payload =
    (case payload of
       None \<Rightarrow> fail_act SkipRetry
     | Some (tenantID, departmentID) \<Rightarrow>
         bind_act (budget_events env (notifier \<noteq> None) tenantID departmentID) (\<lambda>es.
         case notifier of None \<Rightarrow> ret_act () | Some send \<Rightarrow> lift_act (send_all send es)))"

section \<open>Maintenance\<close>

definition HandleBillingReconcile :: "Gateway option \<Rightarrow> Codec \<Rightarrow> Runtime \<Rightarrow> (uuid \<times> string) option \<Rightarrow> unit act" where
  "HandleBillingReconcile client codec env payload =
    (case payload of None \<Rightarrow> fail_act SkipRetry | Some (tenantID, customerRef) \<Rightarrow> Reconcile client codec env tenantID customerRef)"

text \<open>The fan-out: which reconciliations are enqueued, whatever becomes of the others.\<close>

definition HandleBillingReconcileSweep :: "bool \<Rightarrow> Runtime \<Rightarrow> (uuid \<rightharpoonup> string) act" where
  "HandleBillingReconcileSweep queue env =
    (if \<not> queue then ret_act Map.empty else TenantsToReconcile env)"

definition RefreshTokenGrace :: duration where
  "RefreshTokenGrace = 30 * day"

definition HandleSessionCleanup :: "Runtime \<Rightarrow> unit act" where
  "HandleSessionCleanup env = bind_act (on_pool env (PurgeExpiredRefreshTokens RefreshTokenGrace)) (\<lambda>_. ret_act ())"

end
