(* ===== verification/Worker_Props.thy ===== *)
theory Worker_Props
  imports Worker Billing_Props
begin

text \<open>
  What the recurring sweep does with a charge that is due: it files one claim for it, however often it
  is taken, moves the subscription on, and comes back; and the two ways it does not: a subscription
  taken by two sweeps at once stops being charged, and a batch of charges that cannot be filed keeps the
  sweep going for ever.
\<close>

section \<open>One charge\<close>

definition claim_for :: "DueSubscription \<Rightarrow> Expense \<Rightarrow> bool" where
  "claim_for sub e =
    (e_SourceSubscriptionID e = Some (ds_ID sub) \<and> e_TenantID e = ds_TenantID sub \<and>
     e_SpentAt e = truncate_to day (ds_NextChargeOn sub))"

definition advanced :: "TenantConn \<Rightarrow> time \<Rightarrow> VendorSubscription \<Rightarrow> VendorSubscription" where
  "advanced tc next r = r\<lparr>vs_LastGeneratedOn := Some (vs_NextChargeOn r), vs_NextChargeOn := truncate_to day next,
     vs_UpdatedAt := tc_now tc\<rparr>"

lemma Advance_Inr [go_result]:
  "Advance tc i next d = Inr (u, d') \<longleftrightarrow>
    \<not> tc_readOnly tc \<and> (\<exists>r \<in> set (vendor_subs d). vendor_row tc i r) \<and>
    d' = d\<lparr>vendor_subs := update_rows (vendor_row tc i) (advanced tc next) (vendor_subs d)\<rparr>"
proof -
  have "(\<exists>r rest. filter P xs = r # rest) \<longleftrightarrow> (\<exists>r \<in> set xs. P r)" for P and xs :: "VendorSubscription list"
    by (metis filter_empty_conv list.exhaust list.distinct(1))
  then show ?thesis
    by (auto simp: Advance_def Q_AdvanceVendorSubscription_def go_result Let_def advanced_def [abs_def])
qed

lemma CreateRecurringExpense_NoRows:
  assumes "CreateRecurringExpense tc e d = Inl err" "translate err = Sentinel ErrNotFound"
  shows "\<exists>x \<in> set (expenses d). same_charge (inserted_row tc e) x"
  using assms
  by (auto simp: CreateRecurringExpense_def go_result Let_def row_admissible_def writable_def translate_def pg_def policy_error_def
      constraint_error_def split: if_splits option.splits)

lemma translate_PgErr: "\<not> errors_is (translate (PgErr p)) ErrAlreadyMaterialised"
  by (simp add: translate_def constraint_error_def split: option.splits)

lemma Append_refusal: "AppendExpenseEvent tc ev d = Inl e \<Longrightarrow> \<not> errors_is (translate e) ErrAlreadyMaterialised"
  by (auto simp: AppendExpenseEvent_def Let_def go_result writable_def pg_def policy_error_def translate_PgErr)

lemma CreateRecurring_refusal:
  "CreateRecurringExpense tc x d = Inl e \<Longrightarrow> translate e = Sentinel ErrNotFound \<or> \<not> errors_is (translate e) ErrAlreadyMaterialised"
  by (auto simp: CreateRecurringExpense_def row_admissible_def Let_def go_result writable_def pg_def policy_error_def translate_PgErr)
    (simp_all add: translate_def)

lemma CreateRecurring_Inr:
  assumes "Repo_CreateRecurring tc e ev d = Inr (row, d')"
  shows "expenses d' = expenses d @ [inserted_row tc e]" "vendor_subs d' = vendor_subs d"
    "\<forall>x \<in> set (expenses d). \<not> same_charge (inserted_row tc e) x"
  using assms
  by (auto simp: Repo_CreateRecurring_def CreateRecurringExpense_def appendEvent_def AppendExpenseEvent_def row_admissible_def go_result Let_def)

lemma New_fields:
  assumes "New i t owner draft now = Inr (e, ev)"
  shows "e_ID e = i" "e_TenantID e = t" "e_SubmitterID e = owner" "e_SpentAt e = truncate_to day (d_SpentAt draft)" "e_Status e = StatusDraft"
    "ev_ExpenseID ev = i" "ev_ToStatus ev = StatusDraft" "ev_FromStatus ev = None"
  using assms by (auto simp: New_def Draft_validate_def Let_def split: sum.splits prod.splits)

lemma same_charge_claim_for:
  assumes "New i (ds_TenantID sub) owner (due_draft sub) now = Inr (e, ev)" "tc_tenantID tc = ds_TenantID sub"
  shows "same_charge (inserted_row tc (e\<lparr>e_SourceSubscriptionID := Some (ds_ID sub)\<rparr>)) x = claim_for sub x"
    "claim_for sub (inserted_row tc (e\<lparr>e_SourceSubscriptionID := Some (ds_ID sub)\<rparr>))"
  using New_fields [OF assms(1)] assms(2)
  by (auto simp: same_charge_def inserted_row_def claim_for_def due_draft_def)

text \<open>A charge that has been filed leaves the claims alone; one that has not adds its claim.\<close>

lemma materialise_Inr:
  assumes "materialise env sub tc d = Inr (u, d')" "ds_OwnerID sub = Some owner" "tc_tenantID tc = ds_TenantID sub"
  shows "(\<exists>x \<in> set (expenses d). claim_for sub x) \<and> expenses d' = expenses d \<and> events d' = events d \<or>
    (\<forall>x \<in> set (expenses d). \<not> claim_for sub x) \<and> (\<exists>row. claim_for sub row \<and> e_ID row = fresh_id env 0 \<and> expenses d' = expenses d @ [row])"
    and "vendor_subs d' = update_rows (vendor_row tc (ds_ID sub))
      (advanced tc (NextChargeDate (ds_NextChargeOn sub) (ds_Cadence sub))) (vendor_subs d)"
proof -
  from assms(1,2) obtain e ev r d1 where new: "New (fresh_id env 0) (ds_TenantID sub) owner (due_draft sub) (clock env) = Inr (e, ev)"
    and made: "try_tx (Repo_CreateRecurring tc (e\<lparr>e_SourceSubscriptionID := Some (ds_ID sub)\<rparr>) (ev\<lparr>ev_ActorID := None\<rparr>)) d = Inr (r, d1)"
    and r: "(case r of Inr _ \<Rightarrow> Inr () | Inl err \<Rightarrow> if errors_is err ErrAlreadyMaterialised then Inr () else Inl err) = Inr ()"
    and adv: "Advance tc (ds_ID sub) (NextChargeDate (ds_NextChargeOn sub) (ds_Cadence sub)) d1 = Inr (u, d')"
    by (auto simp: materialise_def bind_tx_Inr lift_res_Inr)
  have "(\<exists>x \<in> set (expenses d). claim_for sub x) \<and> d1 = d \<or>
    (\<forall>x \<in> set (expenses d). \<not> claim_for sub x) \<and> vendor_subs d1 = vendor_subs d \<and> (\<exists>row. claim_for sub row \<and> e_ID row = fresh_id env 0 \<and> expenses d1 = expenses d @ [row])"
  proof (cases "Repo_CreateRecurring tc (e\<lparr>e_SourceSubscriptionID := Some (ds_ID sub)\<rparr>) (ev\<lparr>ev_ActorID := None\<rparr>) d")
    case (Inl err)
    with made r have "errors_is err ErrAlreadyMaterialised" and d1: "d1 = d" by (auto simp: try_tx_def split: if_splits)
    with Inl have "\<exists>err'. CreateRecurringExpense tc (e\<lparr>e_SourceSubscriptionID := Some (ds_ID sub)\<rparr>) d = Inl err' \<and> translate err' = Sentinel ErrNotFound"
      by (auto simp: Repo_CreateRecurring_def appendEvent_def bind_tx_Inl map_err_Inl split: if_splits dest: CreateRecurring_refusal Append_refusal)
    then show ?thesis using CreateRecurringExpense_NoRows same_charge_claim_for(1) [OF new assms(3)] d1 by blast
  next
    case (Inr p)
    then have "Repo_CreateRecurring tc (e\<lparr>e_SourceSubscriptionID := Some (ds_ID sub)\<rparr>) (ev\<lparr>ev_ActorID := None\<rparr>) d = Inr (fst p, d1)"
      using made by (auto simp: try_tx_def split: prod.splits)
    from CreateRecurring_Inr [OF this] show ?thesis using same_charge_claim_for [OF new assms(3)] New_fields(1) [OF new] by (auto simp: inserted_row_def)
  qed
  with adv show "(\<exists>x \<in> set (expenses d). claim_for sub x) \<and> expenses d' = expenses d \<and> events d' = events d \<or>
    (\<forall>x \<in> set (expenses d). \<not> claim_for sub x) \<and> (\<exists>row. claim_for sub row \<and> e_ID row = fresh_id env 0 \<and> expenses d' = expenses d @ [row])"
    and "vendor_subs d' = update_rows (vendor_row tc (ds_ID sub))
      (advanced tc (NextChargeDate (ds_NextChargeOn sub) (ds_Cadence sub))) (vendor_subs d)"
    by (auto simp: go_result)
qed

lemma materialiseOne_Inr:
  assumes "verify_reset env = None"
  shows "materialiseOne env sub d = (Inr u, d') \<longleftrightarrow> runs env \<and>
    materialise env sub (bindSession env (no_binding\<lparr>bi_TenantID := ds_TenantID sub\<rparr>) True) d = Inr (u, d')"
  using assms by (simp add: materialiseOne_def WithSystemTx_Inr)

lemma materialiseOne_failed:
  assumes "verify_reset env = None" "materialiseOne env sub d = (Inl e, d')"
  shows "d' = d"
  using assms(1) assms(2) [unfolded materialiseOne_def WithSystemTx_def] by (rule runTx_cases) simp_all

lemma already_filed:
  assumes "verify_reset env = None" "ds_OwnerID sub \<noteq> None" "\<exists>x \<in> set (expenses d). claim_for sub x" "materialiseOne env sub d = (r, d')"
  shows "expenses d' = expenses d \<and> events d' = events d"
proof (cases r)
  case (Inl e)
  then show ?thesis using materialiseOne_failed assms(1,4) by metis
next
  case (Inr u)
  with assms obtain owner where "ds_OwnerID sub = Some owner"
    "materialise env sub (bindSession env (no_binding\<lparr>bi_TenantID := ds_TenantID sub\<rparr>) True) d = Inr (u, d')"
    by (auto simp: materialiseOne_Inr)
  from materialise_Inr(1) [OF this(2,1)] assms(3) show ?thesis by auto
qed

text \<open>
  C25. A charge is filed once: a run that files a due charge leaves a claim for it, and as long as that claim
  is there no further run for the same charge, failed or successful, adds a claim or an event.
\<close>

theorem charge_filed_once:
  assumes "verify_reset env = None" "ds_OwnerID sub \<noteq> None" "materialiseOne env sub d = (Inr (), d1)"
  shows "(\<exists>x \<in> set (expenses d1). claim_for sub x) \<and>
    (\<forall>env' d2 r d3. verify_reset env' = None \<longrightarrow> (\<exists>x \<in> set (expenses d2). claim_for sub x) \<longrightarrow>
       materialiseOne env' sub d2 = (r, d3) \<longrightarrow> expenses d3 = expenses d2 \<and> events d3 = events d2)"
proof -
  from assms obtain owner where "ds_OwnerID sub = Some owner"
    "materialise env sub (bindSession env (no_binding\<lparr>bi_TenantID := ds_TenantID sub\<rparr>) True) d = Inr ((), d1)"
    by (auto simp: materialiseOne_Inr)
  from materialise_Inr(1) [OF this(2,1)] have "\<exists>x \<in> set (expenses d1). claim_for sub x" by auto
  then show ?thesis using already_filed assms(2) by metis
qed

section \<open>Two sweeps at once\<close>

lemma update_rows_hit: "x \<in> set xs \<Longrightarrow> P x \<Longrightarrow> f x \<in> set (update_rows P f xs)"
  by (auto simp: update_rows_mem)

lemma materialise_advances:
  assumes "materialise env sub tc d = Inr (u, d')" "tc_tenantID tc = ds_TenantID sub"
  shows "vendor_subs d' = update_rows (vendor_row tc (ds_ID sub))
      (advanced tc (NextChargeDate (ds_NextChargeOn sub) (ds_Cadence sub))) (vendor_subs d)"
proof (cases "ds_OwnerID sub")
  case None
  with assms show ?thesis by (auto simp: materialise_def go_result)
qed (use materialise_Inr(2) assms in blast)

text \<open>
  Two sweeps that take the same charge stop the subscription: the second finds the claim and counts it
  as its own success, but moves the subscription on again, so that its last generated date is its next
  charge date. From then on it is not due on any day.
\<close>

theorem raced_sweep_stops_subscription:
  assumes "verify_reset env1 = None" "verify_reset env2 = None" "r \<in> set (vendor_subs d)"
    and first: "materialiseOne env1 (to_due r) d = (Inr (), d1)"
    and second: "materialiseOne env2 (to_due r) d1 = (Inr (), d2)"
  shows "\<exists>r' \<in> set (vendor_subs d2). vs_ID r' = vs_ID r \<and> vs_TenantID r' = vs_TenantID r \<and> vs_Status r' = vs_Status r \<and>
    (\<forall>dueOn. \<not> due_charge dueOn r')"
proof -
  let ?tc = "\<lambda>env. bindSession env (no_binding\<lparr>bi_TenantID := vs_TenantID r\<rparr>) True"
  let ?n = "NextChargeDate (vs_NextChargeOn r) (vs_Cadence r)"
  have "vendor_subs d1 = update_rows (vendor_row (?tc env1) (vs_ID r)) (advanced (?tc env1) ?n) (vendor_subs d)"
    using materialise_advances [of env1 "to_due r" "?tc env1" d] first assms(1) by (auto simp: materialiseOne_Inr to_due_def)
  then have "advanced (?tc env1) ?n r \<in> set (vendor_subs d1)"
    using assms(3) by (simp only:) (rule update_rows_hit, simp_all add: vendor_row_def rls_def)
  moreover have "vendor_subs d2 = update_rows (vendor_row (?tc env2) (vs_ID r)) (advanced (?tc env2) ?n) (vendor_subs d1)"
    using materialise_advances [of env2 "to_due r" "?tc env2" d1] second assms(2) by (auto simp: materialiseOne_Inr to_due_def)
  ultimately have "advanced (?tc env2) ?n (advanced (?tc env1) ?n r) \<in> set (vendor_subs d2)"
    by (simp only:) (rule update_rows_hit, simp_all add: vendor_row_def rls_def advanced_def)
  then show ?thesis by (rule bexI [rotated]) (simp add: advanced_def due_charge_def)
qed

section \<open>A batch that cannot be filed\<close>

text \<open>A vendor's name may have 200 characters, a claim's merchant 200 bytes.\<close>

lemma long_vendor_refused:
  assumes "ds_OwnerID sub \<noteq> None" "200 < length (TrimSpace (ds_Vendor sub))"
  shows "\<exists>e. materialiseOne env sub d = (Inl e, d)"
proof -
  have "\<not> (\<exists>u d'. Draft_validate (due_draft sub) now = (Inr u, d'))" for now
    using assms(2) Draft_validate_Inr(1,3) [of "due_draft sub" now] by (fastforce simp: due_draft_def)
  then have "New i t owner (due_draft sub) now \<noteq> Inr p" for i t owner now p
    by (auto simp: New_def split: prod.splits sum.splits)
  then have "materialise env sub tc d' \<noteq> Inr q" for tc d' q
    using assms(1) by (auto simp: materialise_def bind_tx_def lift_res_def split: sum.splits option.splits)
  then show ?thesis unfolding materialiseOne_def WithSystemTx_def by (intro runTx_never) simp
qed

lemma materialise_each_stuck:
  assumes "\<forall>sub \<in> set subs. ds_OwnerID sub \<noteq> None \<and> 200 < length (TrimSpace (ds_Vendor sub))"
  shows "materialise_each envs k subs d = d"
  using assms
proof (induction subs arbitrary: k)
  case (Cons sub subs)
  then have "snd (materialiseOne (envs k) sub d) = d" using long_vendor_refused [of sub "envs k" d] by auto
  with Cons show ?case by simp
qed simp

lemma claimDue_runs:
  assumes "runs env"
  shows "claimDue env today d = (Inr (map to_due (take 100 (sort_key vs_NextChargeOn
      (filter (\<lambda>r. due_charge (truncate_to day today) r \<and> \<not> locked_rows env (vs_ID r)) (vendor_subs d))))), d)"
  unfolding claimDue_def WithSystemTx_def
  by (rule runTx_runs [OF assms])
    (simp add: ClaimDue_def Q_ClaimDueVendorSubscriptions_def RecurringBatchSize_def go_result no_binding_def rls_def)

text \<open>
  C34. A full batch of charges that cannot be filed keeps the sweep from ever returning: a hundred due
  subscriptions whose vendor is longer than a claim's merchant may be are claimed again and again, and
  nothing changes.
\<close>

theorem sweep_never_returns:
  assumes "\<And>i. runs (envs i 0)" "\<And>i. locked_rows (envs i 0) = (\<lambda>_. False)"
    and "100 \<le> length (filter (due_charge (truncate_to day now)) (vendor_subs d))"
    and "\<forall>r \<in> set (vendor_subs d). due_charge (truncate_to day now) r \<longrightarrow>
      vs_OwnerID r \<noteq> None \<and> 200 < length (TrimSpace (vs_Vendor r))"
  shows "HandleRecurringSweep now envs d = None"
proof -
  let ?due = "map to_due (take 100 (sort_key vs_NextChargeOn (filter (due_charge (truncate_to day now)) (vendor_subs d))))"
  have claim: "claimDue (envs i 0) (truncate_to day now) d = (Inr ?due, d)" for i
    using claimDue_runs [OF assms(1)] by (simp add: assms(2))
  have full: "length ?due = 100" using assms(3) by simp
  have each: "materialise_each (envs i) 1 ?due d = d" for i
    using assms(4) by (intro materialise_each_stuck) (auto simp: to_due_def dest!: in_set_takeD)
  have "\<not> (e = envs \<and> t = truncate_to day now \<and> b = d)" if "sweep_loop e t i b = Some y" for e t i b y
    using that
  proof (rule sweep_loop.raw_induct [where P = "\<lambda>e t i b y. \<not> (e = envs \<and> t = truncate_to day now \<and> b = d)", rotated], intro notI)
    fix loop e t i b y
    assume IH: "\<And>e t i b y. loop e t i b = Some y \<Longrightarrow> \<not> (e = envs \<and> t = truncate_to day now \<and> b = d)"
      and step: "(case claimDue (e i 0) t b of (Inl err, d1) \<Rightarrow> Some (Inl err, d1)
        | (Inr due, d1) \<Rightarrow> let d2 = materialise_each (e i) 1 due d1 in
            if int (length due) < sint RecurringBatchSize then Some (Inr (), d2) else loop e t (Suc i) d2) = Some y"
      and eq: "e = envs \<and> t = truncate_to day now \<and> b = d"
    from step eq full each claim have "loop envs (truncate_to day now) (Suc i) d = Some y"
      by (simp add: RecurringBatchSize_def Let_def del: length_map length_take)
    with IH show False by blast
  qed
  then show ?thesis unfolding HandleRecurringSweep_def by (metis option.exhaust)
qed

section \<open>A batch that can be filed\<close>

text \<open>
  What a charge needs to be filed: an owner among the members, a department of the organisation or none,
  and the values a claim accepts at the time of the sweep.
\<close>

definition fileable :: "db \<Rightarrow> Runtime \<Rightarrow> DueSubscription \<Rightarrow> bool" where
  "fileable d env sub =
    ((\<exists>owner. ds_OwnerID sub = Some owner \<and> has_member d (ds_TenantID sub) owner) \<and> has_tenant d (ds_TenantID sub) \<and>
     has_vendor_sub d (ds_TenantID sub) (ds_ID sub) \<and> fk_opt (has_department d (ds_TenantID sub)) (ds_DepartmentID sub) \<and>
     fst (Draft_validate (due_draft sub) (clock env)) = Inr () \<and> btrim_len_between 1 200 (TrimSpace (ds_Vendor sub)) \<and>
     truncate_to day (ds_NextChargeOn sub) \<le> truncate_to day (db_clock env) + day)"

definition charge_claim :: "uuid \<Rightarrow> DueSubscription \<Rightarrow> uuid \<Rightarrow> time \<Rightarrow> Expense" where
  "charge_claim i sub owner now =
    \<lparr>e_ID = i, e_TenantID = ds_TenantID sub, e_SubmitterID = owner, e_DepartmentID = ds_DepartmentID sub,
     e_Status = StatusDraft, e_Category = CategorySoftware, e_Amount = ds_Amount sub,
     e_Merchant = TrimSpace (ds_Vendor sub), e_Description = trim_opt (ds_PlanName sub),
     e_SpentAt = truncate_to day (ds_NextChargeOn sub), e_SubmittedAt = None, e_DecidedAt = None, e_DecidedBy = None,
     e_DecisionNote = None, e_PaidAt = None, e_PaymentRef = None, e_Revision = 1, e_Version = 1,
     e_SourceSubscriptionID = None, e_CreatedAt = now, e_UpdatedAt = now\<rparr>"

lemma fileable_New:
  assumes "fst (Draft_validate (due_draft sub) now) = Inr ()"
  shows "\<exists>ev. New i (ds_TenantID sub) owner (due_draft sub) now = Inr (charge_claim i sub owner now, ev) \<and>
    Currency_Valid (Currency (ds_Amount sub)) \<and> IsPositive (ds_Amount sub)"
proof -
  obtain d' where v: "Draft_validate (due_draft sub) now = (Inr (), d')"
    using assms by (metis prod.collapse)
  with Draft_validate_Inr(1) [OF v] Draft_validate_Inr(5,6) [OF v] show ?thesis
    by (simp add: New_def due_draft_def charge_claim_def Let_def)
qed

lemma charge_row_admissible:
  assumes "Currency_Valid (Currency (ds_Amount sub))" "IsPositive (ds_Amount sub)" "btrim_len_between 1 200 (TrimSpace (ds_Vendor sub))"
    and "truncate_to day (ds_NextChargeOn sub) \<le> truncate_to day (tc_now tc) + day" "tc_tenantID tc = ds_TenantID sub" "tc_system tc"
  shows "row_admissible tc (inserted_row tc ((charge_claim i sub owner now)\<lparr>e_SourceSubscriptionID := Some (ds_ID sub)\<rparr>)) d = Inr ((), d)"
  using assms by (simp add: row_admissible_def go_result inserted_row_def charge_claim_def expense_checks_def first_failing_None rls_def
      Category_Valid_def AllCategories_def IsPositive_def word_sle_eq)

lemma file_charge:
  assumes "fileable d env sub" "tc = bindSession env (no_binding\<lparr>bi_TenantID := ds_TenantID sub\<rparr>) True"
    and "fresh_id env 0 \<notin> e_ID ` set (expenses d)"
  shows "\<exists>d'. materialise env sub tc d = Inr ((), d')"
proof -
  from assms(1) obtain owner where o: "ds_OwnerID sub = Some owner" "has_member d (ds_TenantID sub) owner"
    by (auto simp: fileable_def)
  from assms(1) have "fst (Draft_validate (due_draft sub) (clock env)) = Inr ()" by (simp add: fileable_def)
  from fileable_New [OF this, of "fresh_id env 0" owner] obtain ev where
    new: "New (fresh_id env 0) (ds_TenantID sub) owner (due_draft sub) (clock env) = Inr (charge_claim (fresh_id env 0) sub owner (clock env), ev)"
    and ok: "Currency_Valid (Currency (ds_Amount sub))" "IsPositive (ds_Amount sub)" by auto
  let ?e = "(charge_claim (fresh_id env 0) sub owner (clock env))\<lparr>e_SourceSubscriptionID := Some (ds_ID sub)\<rparr>"
  let ?d = "d\<lparr>expenses := expenses d @ [inserted_row tc ?e]\<rparr>"
  have adm: "row_admissible tc (inserted_row tc ?e) d = Inr ((), d)"
    using assms(1) by (intro charge_row_admissible ok) (simp_all add: fileable_def assms(2))
  have t: "tc_tenantID tc = ds_TenantID sub" "tc_system tc" "\<not> tc_readOnly tc" using assms(2) by (simp_all add: no_binding_def)
  have fks: "first_failing (expense_fks d (inserted_row tc ?e)) = None"
    using assms(1) o t by (auto simp: expense_fks_def first_failing_None inserted_row_def charge_claim_def fileable_def fk_opt_def)
  have key: "\<forall>x \<in> set (expenses d). e_ID x \<noteq> e_ID (inserted_row tc ?e)"
    using assms(3) by (fastforce simp: inserted_row_def charge_claim_def image_iff)
  have ins: "CreateRecurringExpense tc ?e d = (if \<exists>x \<in> set (expenses d). claim_for sub x then Inl NoRows else Inr (inserted_row tc ?e, ?d))"
    using adm fks key t same_charge_claim_for(1) [OF new t(1)]
    by (simp add: CreateRecurringExpense_def Let_def bind_tx_def writable_def reject_if_def lift_res_def fail_if_def constraints_def first_failing.simps)
  have "has_expense ?d (ds_TenantID sub) (ev_ExpenseID ev)"
    using New_fields(6) [OF new] t by (auto simp: has_expense_def inserted_row_def charge_claim_def)
  then have app: "\<exists>d2. appendEvent tc (ev\<lparr>ev_ActorID := None\<rparr>) ?d = Inr ((), d2) \<and> vendor_subs d2 = vendor_subs d"
    using New_fields(7,8) [OF new] t assms(1)
    by (auto simp: appendEvent_def AppendExpenseEvent_def go_result Let_def rls_def first_failing_None fk_opt_def fileable_def has_tenant_def)
  have made: "\<exists>r d1. try_tx (Repo_CreateRecurring tc ?e (ev\<lparr>ev_ActorID := None\<rparr>)) d = Inr (r, d1) \<and> vendor_subs d1 = vendor_subs d \<and>
      (case r of Inr _ \<Rightarrow> Inr () | Inl err \<Rightarrow> if errors_is err ErrAlreadyMaterialised then Inr () else Inl err) = Inr ()"
  proof (cases "\<exists>x \<in> set (expenses d). claim_for sub x")
    case True
    then show ?thesis by (simp add: Repo_CreateRecurring_def ins bind_tx_def map_err_def try_tx_def translate_def)
  next
    case False
    with app show ?thesis by (auto simp: Repo_CreateRecurring_def ins bind_tx_def map_err_def try_tx_def)
  qed
  moreover have "\<exists>r \<in> set (vendor_subs d). vendor_row tc (ds_ID sub) r"
    using assms(1) t by (auto simp: fileable_def has_vendor_sub_def vendor_row_def rls_def)
  ultimately show ?thesis
    using o new t by (force simp: materialise_def bind_tx_Inr lift_res_Inr Advance_Inr)
qed

text \<open>What filing a charge leaves as it was.\<close>

definition filing_effect :: "db \<Rightarrow> db \<Rightarrow> bool" where
  "filing_effect d d' =
    (tenants d' = tenants d \<and> memberships d' = memberships d \<and> departments d' = departments d \<and>
     (\<forall>t i. has_vendor_sub d' t i = has_vendor_sub d t i) \<and> set (expenses d) \<subseteq> set (expenses d'))"

interpretation filing: effect_relation filing_effect
  by unfold_locales (auto simp: filing_effect_def)

lemma materialise_filing: "keeps filing_effect (materialise env sub tc)"
proof -
  have vs: "has_vendor_sub d t i \<longleftrightarrow> (i, t) \<in> (\<lambda>r. (vs_ID r, vs_TenantID r)) ` set (vendor_subs d)" for d t i
    by (auto simp: has_vendor_sub_def image_iff)
  have adv: "keeps filing_effect (Advance tc i next)" for i "next"
    by (auto simp: keeps_def Advance_Inr filing_effect_def vs image_update_rows advanced_def)
  have "keeps filing_effect (Repo_CreateRecurring tc e ev)" for e ev
    by (auto simp: keeps_def Repo_CreateRecurring_def CreateRecurringExpense_def appendEvent_def AppendExpenseEvent_def row_admissible_def
        go_result Let_def filing_effect_def has_vendor_sub_def)
  with adv show ?thesis unfolding materialise_def
    by (auto intro!: filing.keeps_intros split: option.splits prod.splits)
qed

lemma fileable_stays: "filing_effect d d' \<Longrightarrow> fileable d' env sub = fileable d env sub"
  by (simp add: filing_effect_def fileable_def has_member_def has_tenant_def has_department_def [abs_def])

lemma file_one:
  assumes "runs env" "fileable d env sub" "fresh_id env 0 \<notin> e_ID ` set (expenses d)"
  shows "\<exists>d'. materialiseOne env sub d = (Inr (), d') \<and> (\<exists>x \<in> set (expenses d'). claim_for sub x) \<and> filing_effect d d' \<and>
    e_ID ` set (expenses d') \<subseteq> insert (fresh_id env 0) (e_ID ` set (expenses d))"
proof -
  have vr: "verify_reset env = None" using assms(1) by (simp add: runs_def)
  obtain owner where o: "ds_OwnerID sub = Some owner" using assms(2) by (auto simp: fileable_def)
  obtain d' where m: "materialise env sub (bindSession env (no_binding\<lparr>bi_TenantID := ds_TenantID sub\<rparr>) True) d = Inr ((), d')"
    using file_charge [OF assms(2) refl assms(3)] by blast
  from materialise_Inr(1) [OF m o] have "(\<exists>x \<in> set (expenses d'). claim_for sub x) \<and>
      e_ID ` set (expenses d') \<subseteq> insert (fresh_id env 0) (e_ID ` set (expenses d))" by auto
  moreover have "filing_effect d d'" using materialise_filing m by (auto simp: keeps_def)
  ultimately show ?thesis using m assms(1) vr by (auto simp: materialiseOne_Inr)
qed

lemma file_each:
  assumes "\<forall>j \<in> {k..<k + length subs}. runs (envs j)" "\<forall>sub \<in> set subs. \<forall>j \<in> {k..<k + length subs}. fileable d (envs j) sub"
    and "inj_on (\<lambda>j. fresh_id (envs j) 0) {k..<k + length subs}"
    and "\<forall>j \<in> {k..<k + length subs}. fresh_id (envs j) 0 \<notin> e_ID ` set (expenses d)"
  shows "filing_effect d (materialise_each envs k subs d) \<and>
    (\<forall>sub \<in> set subs. \<exists>x \<in> set (expenses (materialise_each envs k subs d)). claim_for sub x)"
  using assms
proof (induction subs arbitrary: k d)
  case (Cons sub subs)
  obtain d' where d': "materialiseOne (envs k) sub d = (Inr (), d')" "\<exists>x \<in> set (expenses d'). claim_for sub x" "filing_effect d d'"
    "e_ID ` set (expenses d') \<subseteq> insert (fresh_id (envs k) 0) (e_ID ` set (expenses d))"
    using file_one [of "envs k" d sub] Cons.prems by auto
  have rest: "filing_effect d' (materialise_each envs (Suc k) subs d') \<and>
      (\<forall>sub \<in> set subs. \<exists>x \<in> set (expenses (materialise_each envs (Suc k) subs d')). claim_for sub x)"
  proof (rule Cons.IH)
    show "\<forall>j \<in> {Suc k..<Suc k + length subs}. fresh_id (envs j) 0 \<notin> e_ID ` set (expenses d')"
    proof
      fix j assume j: "j \<in> {Suc k..<Suc k + length subs}"
      then have "fresh_id (envs j) 0 \<noteq> fresh_id (envs k) 0"
        using inj_onD [OF Cons.prems(3), of j k] by auto
      moreover have "fresh_id (envs j) 0 \<notin> e_ID ` set (expenses d)" using Cons.prems(4) j by simp
      ultimately show "fresh_id (envs j) 0 \<notin> e_ID ` set (expenses d')" using d'(4) by blast
    qed
    show "inj_on (\<lambda>j. fresh_id (envs j) 0) {Suc k..<Suc k + length subs}"
      using Cons.prems(3) by (rule inj_on_subset) auto
  qed (use Cons.prems fileable_stays [OF d'(3)] in auto)
  moreover have "set (expenses d') \<subseteq> set (expenses (materialise_each envs (Suc k) subs d'))"
    using rest by (simp add: filing_effect_def)
  ultimately show ?case using d' filing.effect_trans by auto
qed (simp add: filing.effect_refl)


end
