(* ===== verification/Worker_Notify.thy ===== *)
theory Worker_Notify
  imports Worker_Props Expense_Props
begin

text \<open>Whom a notification reaches.\<close>

lemma contacts_whereI:
  assumes "m \<in> set (memberships d)" "m_TenantID m = tc_tenantID tc" "rls tc (m_TenantID m)" "P m"
    and "u \<in> set (users d)" "u_ID u = m_UserID m" "u_DeletedAt u = None" "contacts_where tc P d = Inr (cs, d')"
  shows "\<lparr>ct_Email = u_Email u, ct_FullName = u_FullName u, ct_MembershipID = m_ID m, ct_Role = m_Role m\<rparr> \<in> set cs"
  using assms by (auto simp: contacts_where_def intro!: exI [of _ m] image_eqI [of _ _ u])

text \<open>Reading is the relation that changes nothing.\<close>

interpretation reads: effect_relation "\<lambda>d d'. d' = d"
  by unfold_locales simp_all

lemma contact_reads: "keeps (\<lambda>d d'. d' = d) (contact_or_zero tc i)"
  unfolding contact_or_zero_def Repo_Contact_def Q_GetMemberContact_def contacts_where_def
  by (auto intro!: reads.keeps_intros split: sum.splits)

lemma department_reads: "keeps (\<lambda>d d'. d' = d) (GetDepartment tc i)"
  unfolding GetDepartment_def Q_GetDepartment_def by (intro reads.keeps_intros)

lemma contact_or_zero_reads: "contact_or_zero tc i d = Inr (c, d') \<Longrightarrow> d' = d"
  using contact_reads by (auto simp: keeps_def)

lemma optional_reads:
  "(case v of None \<Rightarrow> ret x | Some i \<Rightarrow> bind_tx (contact_or_zero tc i) (\<lambda>c. ret (f c))) d = Inr (y, d') \<Longrightarrow> d' = d"
  "(case w of None \<Rightarrow> ret z | Some i \<Rightarrow> bind_tx (try_tx (GetDepartment tc i)) (\<lambda>r. ret (g r))) d = Inr (q, d') \<Longrightarrow> d' = d"
proof -
  have "keeps (\<lambda>d d'. d' = d) (case v of None \<Rightarrow> ret x | Some i \<Rightarrow> bind_tx (contact_or_zero tc i) (\<lambda>c. ret (f c)))"
    "keeps (\<lambda>d d'. d' = d) (case w of None \<Rightarrow> ret z | Some i \<Rightarrow> bind_tx (try_tx (GetDepartment tc i)) (\<lambda>r. ret (g r)))"
    by (auto intro!: reads.keeps_intros contact_reads department_reads split: option.splits)
  then show "(case v of None \<Rightarrow> ret x | Some i \<Rightarrow> bind_tx (contact_or_zero tc i) (\<lambda>c. ret (f c))) d = Inr (y, d') \<Longrightarrow> d' = d"
    "(case w of None \<Rightarrow> ret z | Some i \<Rightarrow> bind_tx (try_tx (GetDepartment tc i)) (\<lambda>r. ret (g r))) d = Inr (q, d') \<Longrightarrow> d' = d"
    by (auto simp: keeps_def)
qed

lemma Approvers_reads: "Approvers tc dep d = Inr (cs, d') \<Longrightarrow> Approvers tc dep d = Inr (cs, d) \<and> d' = d"
  by (auto simp: Approvers_def Q_ListApprovers_def contacts_where_def go_result)

lemma can_approve:
  assumes "Apply e \<lparr>c_Action = ActionApprove, c_Actor = a, c_Reason = r, c_PaymentRef = p\<rparr> now = (Inr ev, e')"
  shows "Active a" "a_Role a \<in> {RoleOwner, RoleAdmin, RoleManager}" "a_MembershipID a \<noteq> e_SubmitterID e"
    "a_DepartmentID a = None \<or> a_DepartmentID a = e_DepartmentID e"
proof -
  from assms obtain t where t: "t \<in> set transitions" "tr_Action t = ActionApprove" and can: "Can a (tr_Permission t)"
    and g: "checkGuards e t \<lparr>c_Action = ActionApprove, c_Actor = a, c_Reason = r, c_PaymentRef = p\<rparr> = Inr ()"
    by (auto simp: Apply_Inr)
  from t have e: "tr_Permission t = PermExpenseApprove" "MustNotBeSubmitter t" "WithinDepartmentScope t"
    by (cases rule: transitions_cases; simp add: edge_def)+
  from can e have "Active a" "Role_Allows (a_Role a) PermExpenseApprove" by (auto simp: Can_def split: if_splits)
  then show "Active a" "a_Role a \<in> {RoleOwner, RoleAdmin, RoleManager}" by (cases "a_Role a"; simp add: Role_Allows_def)+
  from g e show "a_MembershipID a \<noteq> e_SubmitterID e" "a_DepartmentID a = None \<or> a_DepartmentID a = e_DepartmentID e"
    by (auto simp: checkGuards_def Let_def SameMembership_def GovernsDepartment_def split: if_splits option.splits)
qed

text \<open>
  C35. Whoever may approve a claim is told of its submission: when the message about a submitted claim is
  built, every member with a live account who could approve the claim at that moment is among its
  recipients.
\<close>

theorem approvers_are_told:
  assumes "verify_reset env = None" "expense_event env t (e_ID e) ActionSubmit d = (Inr event, d')"
    and e: "e \<in> set (expenses d)" "e_TenantID e = t" "distinct (map e_ID (expenses d))"
    and m: "m \<in> set (memberships d)" "m_TenantID m = t" and u: "u \<in> set (users d)" "u_ID u = m_UserID m" "u_DeletedAt u = None"
    and a: "a_MembershipID a = m_ID m" "a_Role a = m_Role m" "a_Status a = m_Status m" "a_DepartmentID a = m_DepartmentID m"
    and apply_ok: "Apply e \<lparr>c_Action = ActionApprove, c_Actor = a, c_Reason = r, c_PaymentRef = p\<rparr> now = (Inr ev, e')"
  shows "u_Email u \<in> rc_Email ` set (xe_To event)"
proof -
  let ?tc = "bindSession env (no_binding\<lparr>bi_TenantID := t, bi_ReadOnly := True\<rparr>) False"
  from assms(2) have t: "t \<noteq> nil_uuid" by (auto simp: expense_event_def WithTenantTx_def)
  with assms(1,2) obtain claim tn d1 where get: "Repo_Get ?tc (e_ID e) d = Inr (claim, d)"
    and build: "buildExpenseEvent ?tc tn claim ActionSubmit d = Inr (event, d1)"
    by (auto simp: expense_event_def WithTenantTx_def runTx_Inr go_result GetTenant_def Q_GetTenant_def Repo_Get_def GetExpense_def)
  have "claim \<in> set (expenses d)" "e_ID claim = e_ID e"
    using get by (auto simp: Repo_Get_def GetExpense_def go_result claim_row_def dest!: filter_ConsD)
  then have claim: "claim = e" using e by (auto simp: distinct_map dest: inj_onD)
  have rls: "rls ?tc t" using t by (simp add: rls_def)
  note ap = can_approve [OF apply_ok]
  have act: "m_Status m = MembershipActive" using ap(1) a by (simp add: Active_def)
  from build [unfolded buildExpenseEvent_def bind_tx_Inr claim] obtain c d2 by' d3 dn d4 to d5 where
    r1: "contact_or_zero ?tc (e_SubmitterID e) d = Inr (c, d2)"
    and r2: "(case e_DecidedBy e of None \<Rightarrow> ret [] | Some m \<Rightarrow> bind_tx (contact_or_zero ?tc m) (\<lambda>decider. ret (contact_name decider))) d2 = Inr (by', d3)"
    and r3: "(case e_DepartmentID e of None \<Rightarrow> ret None | Some dep \<Rightarrow> bind_tx (try_tx (GetDepartment ?tc dep)) (\<lambda>r.
        ret (case r of Inr dept \<Rightarrow> Some (dp_Name dept) | Inl _ \<Rightarrow> None))) d3 = Inr (dn, d4)"
    and ar: "approver_recipients ?tc e d4 = Inr (to, d5)" and ev: "xe_To event = to"
    by auto
  have "d4 = d" using contact_or_zero_reads [OF r1] optional_reads(1) [OF r2] optional_reads(2) [OF r3] by simp
  with ar ev obtain cs d6 where cs6: "Approvers ?tc (e_DepartmentID e) d = Inr (cs, d6)"
    and to: "xe_To event = map (\<lambda>a. \<lparr>rc_Email = ct_Email a, rc_Name = contact_name a\<rparr>) (filter (\<lambda>a. ct_MembershipID a \<noteq> e_SubmitterID e) cs)"
    by (auto simp: approver_recipients_def bind_tx_Inr ret_Inr)
  then have cs: "Approvers ?tc (e_DepartmentID e) d = Inr (cs, d)" using Approvers_reads by blast
  have "\<lparr>ct_Email = u_Email u, ct_FullName = u_FullName u, ct_MembershipID = m_ID m, ct_Role = m_Role m\<rparr> \<in> set cs"
    using cs by (intro contacts_whereI [OF m(1) _ _ _ u]) (use m rls ap act a in \<open>auto simp: Approvers_def Q_ListApprovers_def go_result\<close>)
  then show ?thesis unfolding to using ap(3) a by force
qed

end
