(* ===== verification/Worker_Demo.thy ===== *)
theory Worker_Demo
  imports Worker_Notify Demo_World
begin

text \<open>The theorems on the worker at work in the demonstration organisation.\<close>

definition demo_vendor :: VendorSubscription where
  "demo_vendor = \<lparr>vs_ID = 77, vs_TenantID = 1, vs_Vendor = ''Rail'', vs_PlanName = None, vs_DepartmentID = None, vs_OwnerID = Some 3,
     vs_Amount = \<lparr>Minor = 1250, Currency = ''USD''\<rparr>, vs_Cadence = CadenceMonthly, vs_Status = VendorActive,
     vs_NextChargeOn = 99 * day, vs_LastGeneratedOn = None, vs_AutoCreateExpense = True, vs_CancelledAt = None,
     vs_CreatedAt = 0, vs_UpdatedAt = 0\<rparr>"

definition demo_due_db :: db where
  "demo_due_db = demo_db\<lparr>vendor_subs := [demo_vendor]\<rparr>"

definition demo_envs :: "nat \<Rightarrow> nat \<Rightarrow> Runtime" where
  "demo_envs i j = demo_env\<lparr>fresh_id := (\<lambda>k. of_nat (2000 + j))\<rparr>"

lemma demo_envs_run [simp]: "runs (demo_envs i j)" "verify_reset (demo_envs i j) = None" "locked_rows (demo_envs i j) = (\<lambda>_. False)"
  "fresh_id (demo_envs i j) k = of_nat (2000 + j)"
  by (simp_all add: demo_envs_def runs_no_fault demo_env_def)

lemma demo_fileable: "fileable demo_due_db (demo_envs i j) (to_due demo_vendor)"
proof -
  have "btrim_len_between 1 200 ''Rail''" by code_simp
  then show ?thesis
    by (simp add: fileable_def to_due_def demo_vendor_def demo_due_db_def demo_defs has_member_def has_tenant_def has_vendor_sub_def fk_opt_def
        Draft_validate_def due_draft_def trim_opt_def Category_Valid_def AllCategories_def Currency_Valid_def IsPositive_def maxFutureSkew_def
        day_def word_sless_alt demo_envs_def demo_env_def truncate_to_def Let_def)
qed

lemma demo_expenses: "expenses demo_due_db = []"
  by (simp add: demo_due_db_def demo_db_def empty_db_def)

lemma demo_first:
  "\<exists>d1. materialiseOne (demo_envs 0 1) (to_due demo_vendor) demo_due_db = (Inr (), d1) \<and> filing_effect demo_due_db d1 \<and>
    e_ID ` set (expenses d1) \<subseteq> {2001}"
  using file_one [OF demo_envs_run(1) demo_fileable, of 0 1] by (auto simp: demo_expenses)

theorem charge_filed_once_witness:
  "\<exists>d1. materialiseOne (demo_envs 0 1) (to_due demo_vendor) demo_due_db = (Inr (), d1) \<and> (\<exists>x \<in> set (expenses d1). claim_for (to_due demo_vendor) x)"
proof -
  have o: "ds_OwnerID (to_due demo_vendor) \<noteq> None" by (simp add: to_due_def demo_vendor_def)
  obtain d1 where d1: "materialiseOne (demo_envs 0 1) (to_due demo_vendor) demo_due_db = (Inr (), d1)" using demo_first by blast
  from charge_filed_once [OF demo_envs_run(2) o d1] d1 show ?thesis by auto
qed

theorem raced_sweep_stops_subscription_witness:
  "\<exists>d1 d2. materialiseOne (demo_envs 0 1) (to_due demo_vendor) demo_due_db = (Inr (), d1) \<and>
    materialiseOne (demo_envs 0 2) (to_due demo_vendor) d1 = (Inr (), d2) \<and>
    (\<exists>r' \<in> set (vendor_subs d2). vs_ID r' = 77 \<and> vs_Status r' = VendorActive \<and> (\<forall>dueOn. \<not> due_charge dueOn r'))"
proof -
  obtain d1 where d1: "materialiseOne (demo_envs 0 1) (to_due demo_vendor) demo_due_db = (Inr (), d1)" "filing_effect demo_due_db d1"
    "e_ID ` set (expenses d1) \<subseteq> {2001}" using demo_first by blast
  have "fileable d1 (demo_envs 0 2) (to_due demo_vendor)" using fileable_stays [OF d1(2)] demo_fileable by simp
  moreover have "fresh_id (demo_envs 0 2) 0 \<notin> e_ID ` set (expenses d1)" using d1(3) by auto
  ultimately obtain d2 where d2: "materialiseOne (demo_envs 0 2) (to_due demo_vendor) d1 = (Inr (), d2)"
    using file_one [OF demo_envs_run(1)] by blast
  have "demo_vendor \<in> set (vendor_subs demo_due_db)" by (simp add: demo_due_db_def)
  from raced_sweep_stops_subscription [OF demo_envs_run(2) demo_envs_run(2) this d1(1) d2] d1(1) d2 show ?thesis
    by (auto simp: demo_vendor_def)
qed


section \<open>A full batch of unusable names\<close>

definition demo_long :: "nat \<Rightarrow> VendorSubscription" where
  "demo_long i = demo_vendor\<lparr>vs_ID := of_nat i, vs_Vendor := CHR ''a'' # replicate 200 CHR ''a''\<rparr>"

theorem sweep_never_returns_witness:
  "HandleRecurringSweep (100 * day) demo_envs (demo_db\<lparr>vendor_subs := map demo_long [0..<100]\<rparr>) = None"
proof (rule sweep_never_returns)
  have due: "due_charge (truncate_to day (100 * day)) (demo_long i)" for i
    by (simp add: due_charge_def demo_long_def demo_vendor_def truncate_to_def day_def)
  have r: "rev (CHR ''a'' # replicate 200 CHR ''a'') = CHR ''a'' # replicate 200 CHR ''a''"
    by (simp add: replicate_append_same)
  have "TrimSpace (CHR ''a'' # replicate 200 CHR ''a'') = CHR ''a'' # replicate 200 CHR ''a''"
    by (rule TrimSpace_no_space) (simp_all only: r, simp_all add: match_prefix_def go_spaces_def del: replicate.simps)
  then show "\<forall>r \<in> set (vendor_subs (demo_db\<lparr>vendor_subs := map demo_long [0..<100]\<rparr>)). due_charge (truncate_to day (100 * day)) r \<longrightarrow>
      vs_OwnerID r \<noteq> None \<and> 200 < length (TrimSpace (vs_Vendor r))"
    by (simp add: demo_long_def demo_vendor_def del: replicate.simps)
  show "100 \<le> length (filter (due_charge (truncate_to day (100 * day))) (vendor_subs (demo_db\<lparr>vendor_subs := map demo_long [0..<100]\<rparr>)))"
    by (simp add: filter_map comp_def due)
qed simp_all

section \<open>Who is told of a submission\<close>

definition demo_submitted_db :: db where
  "demo_submitted_db = demo_db\<lparr>expenses := [demo_submitted]\<rparr>"

lemma demo_submission_event: "\<exists>event. expense_event demo_env 1 9 ActionSubmit demo_submitted_db = (Inr event, demo_submitted_db)"
proof -
  let ?tc = "bindSession demo_env (no_binding\<lparr>bi_TenantID := 1, bi_ReadOnly := True\<rparr>) False"
  have claim: "Repo_Get ?tc 9 demo_submitted_db = Inr (demo_submitted, demo_submitted_db)"
    by (simp add: Repo_Get_def GetExpense_def demo_submitted_db_def demo_submitted_eq demo_claim map_err_def asks_def bind_tx_def lift_res_def
        one_row_def rls_def claim_row_def)
  have org: "GetTenant ?tc demo_submitted_db = Inr (demo_tenant, demo_submitted_db)"
    by (simp add: GetTenant_def Q_GetTenant_def own_tenant_def demo_submitted_db_def demo_defs map_err_def asks_def bind_tx_def lift_res_def one_row_def rls_def)
  have contact: "\<exists>c. contact_or_zero ?tc 3 demo_submitted_db = Inr (c, demo_submitted_db)"
    by (simp add: contact_or_zero_def Repo_Contact_def Q_GetMemberContact_def contacts_where_def demo_submitted_db_def demo_defs map_err_def
        asks_def bind_tx_def lift_res_def one_row_def rls_def try_tx_def ret_def)
  have "\<exists>to. approver_recipients ?tc demo_submitted demo_submitted_db = Inr (to, demo_submitted_db)"
    by (simp add: approver_recipients_def Approvers_def Q_ListApprovers_def contacts_where_def asks_def bind_tx_def ret_def map_err_def)
  then have "\<exists>event. buildExpenseEvent ?tc (t_Name demo_tenant) demo_submitted ActionSubmit demo_submitted_db = Inr (event, demo_submitted_db)"
    using contact by (auto simp: buildExpenseEvent_def bind_tx_def ret_def demo_submitted_eq demo_claim)
  then show ?thesis
    using claim org by (simp add: expense_event_def WithTenantTx_def runTx_Inr bind_tx_def map_err_def)
qed

theorem approvers_are_told_witness:
  "\<exists>event. expense_event demo_env 1 9 ActionSubmit demo_submitted_db = (Inr event, demo_submitted_db) \<and>
    ''m@acme.test'' \<in> rc_Email ` set (xe_To event)"
proof -
  obtain event where ev: "expense_event demo_env 1 9 ActionSubmit demo_submitted_db = (Inr event, demo_submitted_db)"
    using demo_submission_event by blast
  obtain aev where ap: "Apply demo_submitted \<lparr>c_Action = ActionApprove, c_Actor = demo_actor 4 RoleManager, c_Reason = None, c_PaymentRef = Some ''R1''\<rparr>
      (8 * day) = (Inr aev, demo_approved)"
    using demo_step2 by (auto simp: demo_cmd_def)
  have id: "e_ID demo_submitted = 9" "e_TenantID demo_submitted = 1" by (simp_all add: demo_submitted_eq demo_claim)
  have "u_Email (demo_user 4 ''m@acme.test'') \<in> rc_Email ` set (xe_To event)"
    by (rule approvers_are_told [where t = 1 and m = "demo_member 4 RoleManager" and e = demo_submitted and d = demo_submitted_db, OF demo_runs(2) _ _ _ _ _ _ _ _ _ _ _ _ _ ap])
      (use ev in \<open>simp_all add: id\<close>, simp_all add: id demo_submitted_db_def demo_defs demo_actor_def)
  then have "''m@acme.test'' \<in> rc_Email ` set (xe_To event)" by (simp add: demo_user_def)
  with ev show ?thesis by blast
qed

end
