(* ===== verification/Attachment_Repo.thy ===== *)
theory Attachment_Repo
  imports Expense_Repo
begin

text \<open>
  \<^verbatim>\<open>internal/repository/postgres/attachment_repo.go\<close> with the statements on receipts of
  \<^verbatim>\<open>db/queries/expenses.sql\<close> and the constraints and policies of migrations 00004 and 00006: a
  receipt may be deleted only while its claim is a draft.
\<close>

record AttachmentWithClaim =
  aw_Attachment :: Attachment
  aw_ExpenseStatus :: Status
  aw_ExpenseSubmitterID :: uuid
  aw_ExpenseDepartmentID :: "uuid option"

definition MaxAttachmentsPerClaim :: int where
  "MaxAttachmentsPerClaim = 10"

section \<open>Statements\<close>

definition receipt_of :: "TenantConn \<Rightarrow> uuid \<Rightarrow> Attachment \<Rightarrow> bool" where
  "receipt_of tc expenseID a = (at_TenantID a = tc_tenantID tc \<and> at_ExpenseID a = expenseID \<and> rls tc (at_TenantID a))"

definition receipt_row :: "TenantConn \<Rightarrow> uuid \<Rightarrow> Attachment \<Rightarrow> bool" where
  "receipt_row tc i a = (at_TenantID a = tc_tenantID tc \<and> at_ID a = i \<and> rls tc (at_TenantID a))"

definition AddExpenseAttachment :: "TenantConn \<Rightarrow> Attachment \<Rightarrow> Attachment tx" where
  "AddExpenseAttachment tc r =
    bind_tx (writable tc) (\<lambda>_.
    bind_tx (reject_if (\<not> rls tc (at_TenantID r)) policy_error) (\<lambda>_.
    bind_tx (constraints ''23514''
      [(''expense_attachments_checksum_chk'', length (at_Checksum r) = 32),
       (''expense_attachments_size_chk'', 1 \<le> sint (at_SizeBytes r) \<and> sint (at_SizeBytes r) \<le> 26214400)]) (\<lambda>_.
    bind_tx (asks (\<lambda>d. d)) (\<lambda>d.
    bind_tx (constraints ''23505''
      [(''expense_attachments_pkey'', \<forall>x \<in> set (attachments d). at_ID x \<noteq> at_ID r),
       (''expense_attachments_object_key_key'', \<forall>x \<in> set (attachments d). at_ObjectKey x \<noteq> at_ObjectKey r)]) (\<lambda>_.
    bind_tx (constraints ''23503''
      [(''expense_attachments_tenant_id_fkey'', has_tenant d (at_TenantID r)),
       (''expense_attachments_expense_fk'', has_expense d (at_TenantID r) (at_ExpenseID r)),
       (''expense_attachments_uploader_fk'', has_member d (at_TenantID r) (at_UploadedBy r))]) (\<lambda>_ d.
    Inr (r, d\<lparr>attachments := attachments d @ [r]\<rparr>)))))))"

definition CountExpenseAttachments :: "TenantConn \<Rightarrow> uuid \<Rightarrow> int tx" where
  "CountExpenseAttachments tc expenseID = asks (\<lambda>d. int (length (filter (receipt_of tc expenseID) (attachments d))))"

definition ListExpenseAttachments :: "TenantConn \<Rightarrow> uuid \<Rightarrow> Attachment list tx" where
  "ListExpenseAttachments tc expenseID =
    asks (\<lambda>d. sort_key at_CreatedAt (filter (receipt_of tc expenseID) (attachments d)))"

definition GetExpenseAttachment :: "TenantConn \<Rightarrow> uuid \<Rightarrow> AttachmentWithClaim tx" where
  "GetExpenseAttachment tc i =
    bind_tx (asks (\<lambda>d. concat (map (\<lambda>a.
        map (\<lambda>e. \<lparr>aw_Attachment = a, aw_ExpenseStatus = e_Status e, aw_ExpenseSubmitterID = e_SubmitterID e,
                   aw_ExpenseDepartmentID = e_DepartmentID e\<rparr>)
          (filter (\<lambda>e. e_ID e = at_ExpenseID a \<and> e_TenantID e = at_TenantID a \<and> rls tc (e_TenantID e)) (expenses d)))
        (filter (receipt_row tc i) (attachments d))))) (\<lambda>rs. lift_res (one_row rs))"

text \<open>The policy \<^verbatim>\<open>expense_attachments_delete_drafts_only\<close> is part of the rows a delete sees.\<close>

definition deletable_receipt :: "TenantConn \<Rightarrow> db \<Rightarrow> Attachment \<Rightarrow> bool" where
  "deletable_receipt tc d a =
    (\<exists>e \<in> set (expenses d). rls tc (e_TenantID e) \<and> e_ID e = at_ExpenseID a \<and> e_Status e = StatusDraft)"

definition DeleteExpenseAttachment :: "TenantConn \<Rightarrow> uuid \<Rightarrow> nat tx" where
  "DeleteExpenseAttachment tc i =
    bind_tx (writable tc) (\<lambda>_ d.
      let gone = (\<lambda>a. receipt_row tc i a \<and> deletable_receipt tc d a) in
      Inr (length (filter gone (attachments d)), d\<lparr>attachments := filter (\<lambda>a. \<not> gone a) (attachments d)\<rparr>))"

section \<open>Repository\<close>

definition Attachment_Add :: "TenantConn \<Rightarrow> Attachment \<Rightarrow> Attachment tx" where
  "Attachment_Add tc r = map_err translate (AddExpenseAttachment tc (r\<lparr>at_TenantID := tc_tenantID tc, at_CreatedAt := tc_now tc\<rparr>))"

definition Attachment_Count :: "TenantConn \<Rightarrow> uuid \<Rightarrow> int tx" where
  "Attachment_Count tc expenseID = map_err translate (CountExpenseAttachments tc expenseID)"

definition Attachment_List :: "TenantConn \<Rightarrow> uuid \<Rightarrow> Attachment list tx" where
  "Attachment_List tc expenseID = map_err translate (ListExpenseAttachments tc expenseID)"

definition Attachment_Get :: "TenantConn \<Rightarrow> uuid \<Rightarrow> AttachmentWithClaim tx" where
  "Attachment_Get tc i = map_err translate (GetExpenseAttachment tc i)"

definition Attachment_Delete :: "TenantConn \<Rightarrow> uuid \<Rightarrow> unit tx" where
  "Attachment_Delete tc i =
    bind_tx (map_err translate (DeleteExpenseAttachment tc i)) (\<lambda>n.
    bind_tx (reject_if (n = 0) (Sentinel ErrNotFound)) (\<lambda>_. ret ()))"

end
