(* ===== verification/Storage.thy ===== *)
theory Storage
  imports Errors Encoding Paging
begin

text \<open>
  \<^verbatim>\<open>internal/storage/store.go\<close>: what the program needs of an object store, the keys receipts are
  stored under and the content types it accepts. The store itself is a parameter with a state of its
  own; \<^verbatim>\<open>path.Ext\<close> and \<^verbatim>\<open>filepath.Base\<close> are modelled for Unix paths.
\<close>

definition MaxObjectBytes :: int where
  "MaxObjectBytes = 26214400"

record ObjectInfo =
  oi_Key :: string
  oi_SizeBytes :: int64
  oi_ContentType :: string
  oi_ChecksumSHA256 :: string

record PresignedRequest =
  pr_URL :: string
  pr_Method :: string
  pr_Headers :: "(string \<times> string) list"
  pr_ExpiresAt :: time

record PutConstraints =
  pc_ContentType :: string
  pc_ChecksumSHA256 :: string

text \<open>The interface \<^verbatim>\<open>Store\<close> over the store's state.\<close>

record 'o Store =
  PresignPut :: "'o \<Rightarrow> string \<Rightarrow> duration \<Rightarrow> PutConstraints \<Rightarrow> (err, PresignedRequest) res"
  PresignGet :: "'o \<Rightarrow> string \<Rightarrow> duration \<Rightarrow> string \<Rightarrow> (err, string) res"
  Stat :: "'o \<Rightarrow> string \<Rightarrow> (err, ObjectInfo) res"
  st_Delete :: "'o \<Rightarrow> string \<Rightarrow> (err, unit) res \<times> 'o"

definition Ext :: "string \<Rightarrow> string" where
  "Ext s = (let tail = takeWhile (\<lambda>c. c \<noteq> CHR ''/'') (rev s) in
     if CHR ''.'' \<in> set tail then CHR ''.'' # rev (takeWhile (\<lambda>c. c \<noteq> CHR ''.'') tail) else [])"

definition Base :: "string \<Rightarrow> string" where
  "Base s =
    (if s = [] then ''.''
     else let b = rev (takeWhile (\<lambda>c. c \<noteq> CHR ''/'') (dropWhile (\<lambda>c. c = CHR ''/'') (rev s))) in
       if b = [] then ''/'' else b)"

text \<open>A rune outside ASCII is no lower-case letter or digit, and neither is any of its bytes.\<close>

definition safe_char :: "char \<Rightarrow> bool" where
  "safe_char c = (let n = (of_char c :: nat) in 97 \<le> n \<and> n \<le> 122 \<or> 48 \<le> n \<and> n \<le> 57)"

definition safeExtension :: "string \<Rightarrow> bool" where
  "safeExtension ext = (ext \<noteq> [] \<and> list_all safe_char (tl ext))"

definition key_prefix :: "(uuid \<Rightarrow> string) \<Rightarrow> uuid \<Rightarrow> uuid \<Rightarrow> string" where
  "key_prefix txt tenantID expenseID = ''tenants/'' @ txt tenantID @ ''/expenses/'' @ txt expenseID @ ''/''"

definition ObjectKey :: "(uuid \<Rightarrow> string) \<Rightarrow> (string \<Rightarrow> string) \<Rightarrow> uuid \<Rightarrow> uuid \<Rightarrow> uuid \<Rightarrow> string \<Rightarrow> string" where
  "ObjectKey txt lower newID tenantID expenseID filename =
    (let ext0 = ToLower lower (Ext filename);
         ext = (if 10 < length ext0 \<or> \<not> safeExtension ext0 then [] else ext0) in
     key_prefix txt tenantID expenseID @ txt newID @ ext)"

definition AllowedContentTypes :: "string list" where
  "AllowedContentTypes =
    [''application/pdf'', ''image/jpeg'', ''image/png'', ''image/webp'', ''image/heic'', ''image/tiff'']"

definition ContentTypeAllowed :: "(string \<Rightarrow> string) \<Rightarrow> string \<Rightarrow> bool" where
  "ContentTypeAllowed lower ct = (ToLower lower (TrimSpace ct) \<in> set AllowedContentTypes)"

section \<open>Keys\<close>

text \<open>
  A base name is never a path: it has no slash, unless it is the slash that \<^verbatim>\<open>validateUpload\<close>
  refuses.
\<close>

lemma Base_plain: "b = Base s \<Longrightarrow> CHR ''/'' \<in> set b \<Longrightarrow> b = ''/''"
  by (auto simp: Base_def Let_def dest: set_takeWhileD split: if_splits)

lemma ObjectKey_under_prefix: "\<exists>rest. ObjectKey txt lower newID t e f = key_prefix txt t e @ rest"
  by (simp add: ObjectKey_def Let_def)

end
