(* ===== verification/Attachment_Service.thy ===== *)
theory Attachment_Service
  imports Attachment_Repo Storage Expense_Service Relay
begin

text \<open>
  \<^verbatim>\<open>internal/service/attachment_service.go\<close>: receipts are uploaded straight to the object store
  against a signed request and recorded once the store confirms them. \<open>lower\<close> is Go's Unicode
  lower-casing and \<open>txt\<close> the text of a UUID.
\<close>

record 'o AttachmentService =
  ats_store :: "'o Store option"
  ats_uploadTTL :: duration
  ats_downloadTTL :: duration
  ats_lower :: "string \<Rightarrow> string"
  ats_txt :: "uuid \<Rightarrow> string"

record UploadTicket =
  ut_ObjectKey :: string
  ut_Upload :: PresignedRequest

record UploadRequest =
  ur_Filename :: string
  ur_ContentType :: string
  ur_SizeBytes :: int64
  ur_ChecksumSHA256 :: string

definition digest_of :: "string \<Rightarrow> string option" where
  "digest_of checksum =
    (case b64_decode StdEncoding checksum of
       None \<Rightarrow> None
     | Some raw \<Rightarrow> if length raw = 32 then Some raw else None)"

definition upload_filename :: "UploadRequest \<Rightarrow> string" where
  "upload_filename req =
    Base (TrimSpace (map (\<lambda>c. if c = CHR 0x5C then CHR ''/'' else c) (ur_Filename req)))"

definition validateUpload :: "(string \<Rightarrow> string) \<Rightarrow> UploadRequest \<Rightarrow> (err, string \<times> string) res" where
  "validateUpload lower req =
    (let filename = upload_filename req;
         checksum = TrimSpace (ur_ChecksumSHA256 req);
         absent = (filename = [] \<or> filename = ''.'' \<or> filename = ''/'');
         v1 = add_if absent ''filename'' ''is required'' [];
         v2 = add_if (\<not> absent \<and> 255 < rune_count filename) ''filename'' ''must be at most 255 characters'' v1;
         v3 = add_if (\<not> ContentTypeAllowed lower (ur_ContentType req)) ''content_type''
                ''must be a PDF or an image (pdf, jpeg, png, webp, heic, tiff)'' v2;
         v4 = add_if (sint (ur_SizeBytes req) \<le> 0) ''size_bytes'' ''must be greater than zero'' v3;
         v5 = add_if (MaxObjectBytes < sint (ur_SizeBytes req)) ''size_bytes'' ''must be at most 25 MiB'' v4;
         v6 = add_if (digest_of checksum = None) ''checksum_sha256'' ''must be the base64-encoded SHA-256 of the file'' v5
     in bind_res (Err v6) (\<lambda>_. Inr (filename, checksum)))"

definition mayAttach :: "Actor \<Rightarrow> Expense \<Rightarrow> (err, unit) res" where
  "mayAttach actor claim =
    (if \<not> SameMembership actor (e_SubmitterID claim)
     then Inl (Wrap ErrForbidden (Text ''only the person who filed a claim may attach receipts to it''))
     else if \<not> Editable (e_Status claim)
     then Inl (Wrap ErrConflict (Text ''a claim that has been submitted cannot gain new receipts''))
     else Inr ())"

definition mayRead :: "Actor \<Rightarrow> Expense \<Rightarrow> (err, unit) res" where
  "mayRead actor claim =
    (if SameMembership actor (e_SubmitterID claim) \<and> Can actor PermExpenseReadOwn then Inr ()
     else if Can actor PermExpenseReadAll then Inr ()
     else if Can actor PermExpenseReadTeam \<and> GovernsDepartment actor (e_DepartmentID claim) then Inr ()
     else Inl (Sentinel ErrNotFound))"

text \<open>The composite literal of \<^verbatim>\<open>mayReadAttachment\<close>: the fields it leaves out are zero.\<close>

definition zero_claim :: Expense where
  "zero_claim = \<lparr>e_ID = nil_uuid, e_TenantID = nil_uuid, e_SubmitterID = nil_uuid, e_DepartmentID = None,
     e_Status = StatusOther [], e_Category = CategoryUnknown [], e_Amount = \<lparr>Minor = 0, Currency = []\<rparr>, e_Merchant = [],
     e_Description = None, e_SpentAt = 0, e_SubmittedAt = None, e_DecidedAt = None, e_DecidedBy = None, e_DecisionNote = None,
     e_PaidAt = None, e_PaymentRef = None, e_Revision = 0, e_Version = 0, e_SourceSubscriptionID = None, e_CreatedAt = 0,
     e_UpdatedAt = 0\<rparr>"

definition mayReadAttachment :: "Actor \<Rightarrow> AttachmentWithClaim \<Rightarrow> (err, unit) res" where
  "mayReadAttachment actor a =
    mayRead actor (zero_claim\<lparr>e_SubmitterID := aw_ExpenseSubmitterID a, e_DepartmentID := aw_ExpenseDepartmentID a\<rparr>)"

definition PrepareUpload ::
    "'o AttachmentService \<Rightarrow> Runtime \<Rightarrow> 'o \<Rightarrow> Subject \<Rightarrow> uuid \<Rightarrow> UploadRequest \<Rightarrow> UploadTicket act" where
  "PrepareUpload s env o1 subject expenseID req =
    (case ats_store s of
       None \<Rightarrow> fail_act (Sentinel ErrStorageDisabled)
     | Some store \<Rightarrow>
         bind_act (lift_act (validateUpload (ats_lower s) req)) (\<lambda>(filename, checksum).
         Scope_Read env subject (\<lambda>tc actor.
           bind_tx (Repo_Get tc expenseID) (\<lambda>claim.
           bind_tx (lift_res (mayAttach actor claim)) (\<lambda>_.
           bind_tx (Attachment_Count tc expenseID) (\<lambda>count.
           bind_tx (reject_if (MaxAttachmentsPerClaim \<le> count)
             (Wrap ErrConflict (Fmt ''a claim may carry at most %d receipts'' [''10'']))) (\<lambda>_.
           let key = ObjectKey (ats_txt s) (ats_lower s) (fresh_id env 0) (tc_tenantID tc) expenseID filename in
           bind_tx (lift_res (PresignPut store o1 key (ats_uploadTTL s)
             \<lparr>pc_ContentType = ur_ContentType req, pc_ChecksumSHA256 = checksum\<rparr>)) (\<lambda>signed.
           ret \<lparr>ut_ObjectKey = key, ut_Upload = signed\<rparr>))))))))"

text \<open>What the store has to say about an upload before it is recorded.\<close>

definition stored_upload :: "'o Store \<Rightarrow> 'o \<Rightarrow> string \<Rightarrow> string \<Rightarrow> UploadRequest \<Rightarrow> (err, ObjectInfo) res" where
  "stored_upload store o1 objectKey checksum req =
    (case Stat store o1 objectKey of
       Inl err \<Rightarrow>
         if errors_is err ErrStorageNotFound
         then Inl (FieldErr \<lparr>Field = ''object_key'', Detail = Text ''no upload was found at this key''\<rparr>)
         else Inl err
     | Inr info \<Rightarrow>
         if oi_SizeBytes info \<noteq> ur_SizeBytes req
         then Inl (FieldErr \<lparr>Field = ''size_bytes'', Detail = Fmt ''the stored object is %d bytes, not %d''
           [itoa (sint (oi_SizeBytes info)), itoa (sint (ur_SizeBytes req))]\<rparr>)
         else if MaxObjectBytes < sint (oi_SizeBytes info)
         then Inl (FieldErr \<lparr>Field = ''size_bytes'', Detail = Text ''the stored object exceeds the 25 MiB limit''\<rparr>)
         else if oi_ChecksumSHA256 info \<noteq> [] \<and> oi_ChecksumSHA256 info \<noteq> checksum
         then Inl (FieldErr \<lparr>Field = ''checksum_sha256'', Detail = Text ''does not match the stored object''\<rparr>)
         else Inr info)"

text \<open>The work of a confirmation: the claim is locked and looked at again before the row is written.\<close>

definition Receipt_Add_row :: "TenantConn \<Rightarrow> Actor \<Rightarrow> Attachment \<Rightarrow> Attachment tx" where
  "Receipt_Add_row tc actor r =
    bind_tx (GetForUpdate tc (at_ExpenseID r)) (\<lambda>claim.
    bind_tx (lift_res (mayAttach actor claim)) (\<lambda>_.
    Attachment_Add tc r))"

definition ConfirmUpload ::
    "'o AttachmentService \<Rightarrow> Runtime \<Rightarrow> 'o \<Rightarrow> Subject \<Rightarrow> uuid \<Rightarrow> string \<Rightarrow> UploadRequest \<Rightarrow> Attachment act" where
  "ConfirmUpload s env o1 subject expenseID objectKey req =
    (case ats_store s of
       None \<Rightarrow> fail_act (Sentinel ErrStorageDisabled)
     | Some store \<Rightarrow>
         bind_act (lift_act (validateUpload (ats_lower s) req)) (\<lambda>(filename, checksum).
         case digest_of checksum of
           None \<Rightarrow> fail_act (FieldErr \<lparr>Field = ''checksum_sha256'', Detail = Text ''must be a base64-encoded SHA-256 digest''\<rparr>)
         | Some rawChecksum \<Rightarrow>
             if \<not> HasPrefix objectKey (key_prefix (ats_txt s) (sub_TenantID subject) expenseID)
             then fail_act (FieldErr \<lparr>Field = ''object_key'', Detail = Text ''does not belong to this claim''\<rparr>)
             else
               bind_act (lift_act (stored_upload store o1 objectKey checksum req)) (\<lambda>info.
               Scope_Write env subject (\<lambda>tc actor.
                 Receipt_Add_row tc actor
                   \<lparr>at_ID = fresh_id env 0, at_TenantID = tc_tenantID tc, at_ExpenseID = expenseID, at_ObjectKey = objectKey,
                    at_Filename = filename, at_ContentType = ur_ContentType req, at_SizeBytes = oi_SizeBytes info,
                    at_Checksum = rawChecksum, at_UploadedBy = a_MembershipID actor, at_CreatedAt = 0\<rparr>))))"

definition Receipts_List :: "Runtime \<Rightarrow> Subject \<Rightarrow> uuid \<Rightarrow> Attachment list act" where
  "Receipts_List env subject expenseID =
    Scope_Read env subject (\<lambda>tc actor.
      bind_tx (Repo_Get tc expenseID) (\<lambda>claim.
      bind_tx (lift_res (mayRead actor claim)) (\<lambda>_.
      Attachment_List tc expenseID)))"

definition DownloadURL :: "'o AttachmentService \<Rightarrow> Runtime \<Rightarrow> 'o \<Rightarrow> Subject \<Rightarrow> uuid \<Rightarrow> string act" where
  "DownloadURL s env o1 subject i =
    (case ats_store s of
       None \<Rightarrow> fail_act (Sentinel ErrStorageDisabled)
     | Some store \<Rightarrow>
         bind_act (Scope_Read env subject (\<lambda>tc actor.
           bind_tx (Attachment_Get tc i) (\<lambda>found.
           bind_tx (lift_res (mayReadAttachment actor found)) (\<lambda>_.
           ret (at_ObjectKey (aw_Attachment found), at_Filename (aw_Attachment found)))))) (\<lambda>(key, filename).
         lift_act (PresignGet store o1 key (ats_downloadTTL s) filename)))"

text \<open>Removing a receipt: the row first, then the object, whose deletion may fail without failing the call.\<close>

definition Receipt_Delete_row :: "uuid \<Rightarrow> TenantConn \<Rightarrow> Actor \<Rightarrow> string tx" where
  "Receipt_Delete_row i tc actor =
     (bind_tx (Attachment_Get tc i) (\<lambda>found.
      bind_tx (reject_if (\<not> SameMembership actor (aw_ExpenseSubmitterID found))
        (Wrap ErrForbidden (Text ''only the person who filed a claim may remove its receipts''))) (\<lambda>_.
      bind_tx (reject_if (\<not> Editable (aw_ExpenseStatus found))
        (Wrap ErrConflict (Text ''a receipt on a submitted claim is evidence and cannot be removed''))) (\<lambda>_.
      bind_tx (Attachment_Delete tc i) (\<lambda>_.
      ret (at_ObjectKey (aw_Attachment found)))))))"

definition Receipt_Delete ::
    "'o AttachmentService \<Rightarrow> Runtime \<Rightarrow> Subject \<Rightarrow> uuid \<Rightarrow> db \<times> 'o \<Rightarrow> (err, unit) res \<times> db \<times> 'o" where
  "Receipt_Delete s env subject i = (\<lambda>(d, o1).
    case Scope_Write env subject (Receipt_Delete_row i) d of
      (Inl err, d') \<Rightarrow> (Inl err, d', o1)
    | (Inr objectKey, d') \<Rightarrow>
        (Inr (), d', case ats_store s of None \<Rightarrow> o1 | Some store \<Rightarrow> snd (st_Delete store o1 objectKey)))"

end
