(* ===== verification/Attachment_Props.thy ===== *)
theory Attachment_Props
  imports Attachment_Service Isolation
begin

text \<open>
  Receipts as evidence: who may see one, that a submitted claim's receipts are fixed, and that every
  recorded receipt is an object of the store under its claim's own prefix.
\<close>

section \<open>Who sees a receipt\<close>

lemma known_roles_read_own: "Role_Valid r \<Longrightarrow> Role_Allows r PermExpenseReadOwn"
  by (cases r) (simp_all add: Role_Allows_def)

text \<open>
  A receipt is seen by whoever sees its claim: for an active member with a known role the receipt's
  check gives the claim's answer, errors included.
\<close>

theorem receipts_read_like_claims:
  assumes "Active a" "Role_Valid (a_Role a)"
  shows "mayRead a e = canRead a e"
  using known_roles_read_own [OF assms(2)] assms(1) by (simp add: mayRead_def canRead_def Can_def)

section \<open>Evidence is fixed\<close>

definition receipts :: "Expense \<Rightarrow> db \<Rightarrow> Attachment list" where
  "receipts e d = filter (\<lambda>a. at_ExpenseID a = e_ID e \<and> at_TenantID a = e_TenantID e) (attachments d)"

definition evidence_effect :: "db \<Rightarrow> db \<Rightarrow> bool" where
  "evidence_effect d d' =
    (distinct (map e_ID (expenses d)) \<longrightarrow>
      distinct (map e_ID (expenses d')) \<and>
      (\<forall>e \<in> set (expenses d). e_Status e \<noteq> StatusDraft \<longrightarrow> e \<in> set (expenses d') \<and> receipts e d' = receipts e d))"

interpretation evidence: effect_relation evidence_effect
  by unfold_locales (auto simp: evidence_effect_def)

lemma Add_evidence: "keeps evidence_effect (Receipt_Add_row tc actor r)"
proof -
  have "receipts e (d\<lparr>attachments := attachments d @ [x]\<rparr>) = receipts e d"
    if "claim_row tc (at_ExpenseID x) claim" "claim \<in> set (expenses d)" "e_Status claim = StatusDraft" "distinct (map e_ID (expenses d))"
      "e \<in> set (expenses d)" "e_Status e \<noteq> StatusDraft" for e d claim x
    using that by (auto simp: receipts_def claim_row_def distinct_map dest: inj_onD)
  then show ?thesis
    by (auto simp: keeps_def evidence_effect_def go_result Receipt_Add_row_def GetForUpdate_def GetExpenseForUpdate_def GetExpense_def
        mayAttach_def Editable_def Attachment_Add_def AddExpenseAttachment_def dest!: filter_ConsD split: if_splits)
qed

lemma Delete_evidence: "keeps evidence_effect (Receipt_Delete_row i tc actor)"
proof -
  have "receipts e (d\<lparr>attachments := filter (\<lambda>a. \<not> (receipt_row tc i a \<and> deletable_receipt tc d a)) (attachments d)\<rparr>) = receipts e d"
    if "distinct (map e_ID (expenses d))" "e \<in> set (expenses d)" "e_Status e \<noteq> StatusDraft" for e d
    using that by (auto simp: receipts_def deletable_receipt_def distinct_map intro!: filter_cong dest: inj_onD)
  then show ?thesis
    by (auto simp: keeps_def evidence_effect_def go_result Receipt_Delete_row_def Attachment_Get_def GetExpenseAttachment_def
        Attachment_Delete_def DeleteExpenseAttachment_def Let_def)
qed

context effect_relation
begin

lemma keeps_after_check: "(\<And>x. r = Inr x \<Longrightarrow> keeps_act R (f x)) \<Longrightarrow> keeps_act R (bind_act (lift_act r) f)"
  by (cases r) (auto simp: keeps_act_def bind_act_def lift_act_def effect_refl)

lemma keeps_ConfirmUpload:
  assumes "\<And>tc actor r store info. \<lbrakk>\<not> tc_system tc; tc_tenantID tc = sub_TenantID subject;
      HasPrefix (at_ObjectKey r) (key_prefix (ats_txt s) (sub_TenantID subject) (at_ExpenseID r));
      ats_store s = Some store; Stat store o1 (at_ObjectKey r) = Inr info\<rbrakk> \<Longrightarrow> keeps R (Receipt_Add_row tc actor r)"
  shows "keeps_act R (ConfirmUpload s env o1 subject i key req)"
  unfolding ConfirmUpload_def stored_upload_def
  by (auto intro!: keeps_after_check keeps_act_fail keeps_Scope_Write assms split: option.splits prod.splits sum.splits if_splits)

lemma keeps_receipt_reads:
  "keeps_act R (PrepareUpload s env o1 subject i req)" "keeps_act R (Receipts_List env subject i)"
  "keeps_act R (DownloadURL s env o1 subject j)"
  unfolding PrepareUpload_def Receipts_List_def DownloadURL_def Attachment_Count_def CountExpenseAttachments_def Attachment_List_def
    ListExpenseAttachments_def Attachment_Get_def GetExpenseAttachment_def Let_def
  by (auto intro!: keeps_intros keeps_Scope_Read keeps_Repo_Get split: option.splits prod.splits)

end

text \<open>The calls on receipts, on the database and the object store together.\<close>

inductive receipt_call :: "'o AttachmentService \<Rightarrow> Subject \<Rightarrow> db \<times> 'o \<Rightarrow> db \<times> 'o \<Rightarrow> bool"
  for s :: "'o AttachmentService" and subject :: Subject where
  "receipt_call s subject (d, o1) (snd (PrepareUpload s env o1 subject i req d), o1)"
| "receipt_call s subject (d, o1) (snd (ConfirmUpload s env o1 subject i key req d), o1)"
| "receipt_call s subject (d, o1) (snd (Receipts_List env subject i d), o1)"
| "receipt_call s subject (d, o1) (snd (DownloadURL s env o1 subject j d), o1)"
| "receipt_call s subject (d, o1) (snd (Receipt_Delete s env subject j (d, o1)))"

lemma act_keeps: "keeps_act R a \<Longrightarrow> R d (snd (a d))"
  by (simp add: keeps_act_def)

lemma receipt_call_evidence: "receipt_call s subject x y \<Longrightarrow> evidence_effect (fst x) (fst y)"
proof (induction rule: receipt_call.cases)
  case (5 d o1 env j)
  have "evidence_effect d (snd (Scope_Write env subject (Receipt_Delete_row j) d))"
    by (intro act_keeps evidence.keeps_Scope_Write Delete_evidence)
  with 5 show ?case by (auto simp: Receipt_Delete_def split_beta split: sum.splits)
qed (auto intro!: act_keeps evidence.keeps_receipt_reads evidence.keeps_ConfirmUpload Add_evidence)

text \<open>The calls on claims: only discarding a draft touches receipts, and it takes those of the draft only.\<close>

interpretation receipts_kept: effect_relation "\<lambda>d d'. attachments d' = attachments d"
  by unfold_locales simp_all

lemma appendEvent_receipts: "keeps (\<lambda>d d'. attachments d' = attachments d) (appendEvent tc ev)"
  by (auto simp: keeps_def appendEvent_def AppendExpenseEvent_def go_result Let_def)

lemma claim_writes_receipts:
  "keeps (\<lambda>d d'. attachments d' = attachments d) (CreateExpense tc e)"
  "keeps (\<lambda>d d'. attachments d' = attachments d) (TransitionExpense tc e v)"
  by (auto simp: keeps_def CreateExpense_def TransitionExpense_def UpdateExpenseRow_def row_admissible_def go_result Let_def)

lemma Create_receipts: "keeps_act (\<lambda>d d'. attachments d' = attachments d) (Service_Create env subject draft)"
  unfolding Service_Create_def Repo_Create_def split_beta
  by (intro receipts_kept.keeps_Scope_Write receipts_kept.keeps_intros claim_writes_receipts appendEvent_receipts)

lemma Transition_receipts: "keeps_act (\<lambda>d d'. attachments d' = attachments d) (Service_Transition env subject i action reason ref)"
  unfolding Service_Transition_def Transition_body_def Save_def Let_def split_beta
  by (intro receipts_kept.keeps_Scope_Write receipts_kept.keeps_intros receipts_kept.keeps_GetForUpdate claim_writes_receipts
      appendEvent_receipts)

lemma Discard_evidence: "keeps_act evidence_effect (Service_Delete env subject i)"
proof -
  have "keeps evidence_effect (DeleteExpenseDraft tc j)" for tc j
  proof -
    have "receipts e (d\<lparr>expenses := xs, attachments := filter (\<lambda>a. \<not> (at_ExpenseID a = j \<and> at_TenantID a = tc_tenantID tc)) (attachments d), events := ys\<rparr>)
        = receipts e d"
      if "claim_row tc j g" "e_Status g = StatusDraft" "g \<in> set (expenses d)" "distinct (map e_ID (expenses d))"
        "e \<in> set (expenses d)" "e_Status e \<noteq> StatusDraft" for e d g xs ys
      using that by (auto simp: receipts_def claim_row_def distinct_map intro!: filter_cong dest: inj_onD)
    moreover have "\<exists>g. claim_row tc j g \<and> e_Status g = StatusDraft \<and> g \<in> set (expenses d)"
      if "filter (\<lambda>r. claim_row tc j r \<and> e_Status r = StatusDraft) (expenses d) \<noteq> []" for d
      using that by (auto simp: filter_empty_conv)
    ultimately show ?thesis
      by (auto simp: keeps_def evidence_effect_def DeleteExpenseDraft_def go_result Let_def distinct_map_filter split: if_splits) blast+
  qed
  then show ?thesis
    unfolding Service_Delete_def Delete_body_def DeleteDraft_def
    by (intro evidence.keeps_Scope_Write evidence.keeps_intros evidence.keeps_GetForUpdate)
qed

text \<open>
  C14. Receipts of a submitted claim are evidence: no call of the expense service or of the attachment
  service, by whomever, adds or removes a receipt of a claim that is not a draft.
\<close>

theorem evidence_is_fixed:
  fixes s :: "'o AttachmentService"
  assumes "claim_call subject d d' \<or> receipt_call s subject (d, o1) (d', o2)"
    and "distinct (map e_ID (expenses d))" "e \<in> set (expenses d)" "e_Status e \<noteq> StatusDraft"
  shows "receipts e d' = receipts e d"
proof -
  have "attachments d' = attachments d \<or> evidence_effect d d'" using assms(1)
  proof
    assume "claim_call subject d d'"
    then show ?thesis
      by cases (use Create_receipts Transition_receipts Discard_evidence receipts_kept.keeps_reads receipts_kept.keeps_Service_Update
          in \<open>auto simp: keeps_act_def\<close>)
  next
    assume "receipt_call s subject (d, o1) (d', o2)"
    from receipt_call_evidence [OF this] show ?thesis by simp
  qed
  then show ?thesis using assms(2-4) by (auto simp: evidence_effect_def receipts_def)
qed

section \<open>Rows and objects\<close>

definition present :: "'o Store \<Rightarrow> 'o \<Rightarrow> string \<Rightarrow> bool" where
  "present store o1 k = (\<exists>info. Stat store o1 k = Inr info)"

text \<open>What is documented of an object store: deleting an object leaves the other objects alone.\<close>

definition store_ok :: "'o Store \<Rightarrow> bool" where
  "store_ok store = (\<forall>o1 k k'. k' \<noteq> k \<longrightarrow> present store o1 k' \<longrightarrow> present store (snd (st_Delete store o1 k)) k')"

definition placed :: "'o AttachmentService \<Rightarrow> 'o Store \<Rightarrow> 'o \<Rightarrow> db \<Rightarrow> bool" where
  "placed s store o1 d =
    (distinct (map at_ObjectKey (attachments d)) \<and>
     (\<forall>a \<in> set (attachments d).
        HasPrefix (at_ObjectKey a) (key_prefix (ats_txt s) (at_TenantID a) (at_ExpenseID a)) \<and>
        present store o1 (at_ObjectKey a) \<and> length (at_Checksum a) = 32 \<and>
        1 \<le> sint (at_SizeBytes a) \<and> sint (at_SizeBytes a) \<le> MaxObjectBytes))"

text \<open>
  The course of events around receipts: calls of the service, uploads by clients straight to the store,
  and rows that go with their claim.
\<close>

inductive receipt_history :: "'o AttachmentService \<Rightarrow> 'o Store \<Rightarrow> db \<times> 'o \<Rightarrow> bool" for s :: "'o AttachmentService" and store :: "'o Store" where
  start: "attachments d = [] \<Longrightarrow> receipt_history s store (d, o1)"
| call: "receipt_history s store x \<Longrightarrow> receipt_call s subject x y \<Longrightarrow> receipt_history s store y"
| upload: "receipt_history s store (d, o1) \<Longrightarrow> (\<And>k. present store o1 k \<Longrightarrow> present store o2 k) \<Longrightarrow> receipt_history s store (d, o2)"
| elsewhere: "receipt_history s store (d, o1) \<Longrightarrow> attachments d' = filter P (attachments d) \<Longrightarrow> receipt_history s store (d', o1)"

lemma Add_placed:
  assumes "HasPrefix (at_ObjectKey r) (key_prefix (ats_txt s) (tc_tenantID tc) (at_ExpenseID r))" "present store o1 (at_ObjectKey r)"
  shows "keeps (invariant_effect (placed s store o1)) (Receipt_Add_row tc actor r)"
  using assms
  by (auto simp: keeps_def invariant_effect_def placed_def go_result Receipt_Add_row_def GetForUpdate_def GetExpenseForUpdate_def GetExpense_def
      Attachment_Add_def AddExpenseAttachment_def MaxObjectBytes_def first_failing_None) blast

lemma head_in: "xs = x # ys \<Longrightarrow> x \<in> set xs"
  by simp

lemma Delete_row_Inr:
  assumes "Receipt_Delete_row i tc actor d = Inr (k, d')"
  obtains a P where "a \<in> set (attachments d)" "at_ObjectKey a = k" "d' = d\<lparr>attachments := filter P (attachments d)\<rparr>" "\<not> P a"
proof -
  from assms obtain found where f: "found \<in> set (concat (map (\<lambda>a.
        map (\<lambda>e. \<lparr>aw_Attachment = a, aw_ExpenseStatus = e_Status e, aw_ExpenseSubmitterID = e_SubmitterID e,
                   aw_ExpenseDepartmentID = e_DepartmentID e\<rparr>)
          (filter (\<lambda>e. e_ID e = at_ExpenseID a \<and> e_TenantID e = at_TenantID a \<and> rls tc (e_TenantID e)) (expenses d)))
        (filter (receipt_row tc i) (attachments d))))" and st: "aw_ExpenseStatus found = StatusDraft" and k: "k = at_ObjectKey (aw_Attachment found)"
    and d': "d' = d\<lparr>attachments := filter (\<lambda>a. \<not> (receipt_row tc i a \<and> deletable_receipt tc d a)) (attachments d)\<rparr>"
    by (auto simp: Receipt_Delete_row_def Attachment_Get_def GetExpenseAttachment_def Attachment_Delete_def DeleteExpenseAttachment_def
        go_result Let_def Editable_def simp del: set_concat set_map set_filter dest!: head_in)
  from f st have "aw_Attachment found \<in> set (attachments d)" "receipt_row tc i (aw_Attachment found)" "deletable_receipt tc d (aw_Attachment found)"
    by (auto simp: deletable_receipt_def)
  with k d' show thesis by (intro that [of "aw_Attachment found"]) auto
qed

lemma Scope_Write_verified: "Scope_Write env subject work d = (Inr x, d') \<Longrightarrow> verify_reset env = None"
proof -
  have "verify_reset env = None" if "runTx_loop n i env b sys fn d = (Inr x, d')" for n i b sys fn d
    using that by (induction n arbitrary: i d) (auto simp: attemptTx_def split: option.splits sum.splits prod.splits if_splits)
  then show "Scope_Write env subject work d = (Inr x, d') \<Longrightarrow> verify_reset env = None"
    by (auto simp: Scope_Write_def Scope_run_def WithTenantTx_def runTx_def fail_act_def split: if_splits)
qed

lemma Delete_placed:
  assumes "store_ok store" "ats_store s = Some store" "placed s store o1 d" "Receipt_Delete s env subject i (d, o1) = (r, d', o2)"
  shows "placed s store o2 d'"
proof (cases "Scope_Write env subject (Receipt_Delete_row i) d")
  case (Pair q d1)
  show ?thesis
  proof (cases q)
    case (Inl e)
    have "keeps (invariant_effect (placed s store o1)) (Receipt_Delete_row i tc actor)" for tc actor
      by (auto simp: keeps_def invariant_effect_def placed_def distinct_map_filter elim!: Delete_row_Inr)
    then have "invariant_effect (placed s store o1) d (snd (Scope_Write env subject (Receipt_Delete_row i) d))"
      by (rule act_keeps [OF inv_effect.keeps_Scope_Write])
    with Inl Pair assms(3,4) show ?thesis by (simp add: Receipt_Delete_def invariant_effect_def)
  next
    case (Inr k)
    with Pair have w: "Scope_Write env subject (Receipt_Delete_row i) d = (Inr k, d1)" by simp
    from w [unfolded Scope_Write_Inr [OF Scope_Write_verified [OF w]]] obtain tc actor where
      "Receipt_Delete_row i tc actor d = Inr (k, d1)" by blast
    then obtain a P where a: "a \<in> set (attachments d)" "at_ObjectKey a = k" "d1 = d\<lparr>attachments := filter P (attachments d)\<rparr>" "\<not> P a"
      by (rule Delete_row_Inr)
    moreover have "at_ObjectKey x \<noteq> k" if "x \<in> set (attachments d)" "P x" for x
      using that a assms(3) by (auto simp: placed_def distinct_map dest: inj_onD)
    ultimately show ?thesis using assms w by (auto simp: Receipt_Delete_def placed_def store_ok_def distinct_map_filter)
  qed
qed

text \<open>
  C15. Every recorded receipt is a file: through any course of calls and uploads, a row points at an object
  that is in the store, under the prefix of its own organisation and claim, with a full digest and a
  size within the limit, and no two rows share an object.
\<close>

theorem receipts_have_objects:
  assumes "receipt_history s store x" "ats_store s = Some store" "store_ok store"
  shows "placed s store (snd x) (fst x)"
  using assms(1)
proof induction
  case (call x subject y)
  from call(2) show ?case
  proof cases
    case (2 d o1 env i key req)
    have "invariant_effect (placed s store o1) d (snd (ConfirmUpload s env o1 subject i key req d))"
      by (rule act_keeps, intro inv_effect.keeps_ConfirmUpload Add_placed) (use assms(2) in \<open>auto simp: present_def\<close>)
    with 2 call show ?thesis by (simp add: invariant_effect_def)
  next
    case (5 d o1 env j)
    with call Delete_placed [OF assms(3,2)] show ?thesis by (metis fst_conv prod.collapse snd_conv)
  qed (use call in \<open>simp_all add: placed_def receipts_kept.keeps_receipt_reads [THEN act_keeps]\<close>)
qed (auto simp: placed_def distinct_map_filter)

section \<open>From ticket to receipt\<close>

lemma validateUpload_Inr:
  "validateUpload lower req = Inr (filename, checksum) \<Longrightarrow>
    (\<exists>raw. digest_of checksum = Some raw \<and> length raw = 32) \<and> 1 \<le> sint (ur_SizeBytes req) \<and> sint (ur_SizeBytes req) \<le> MaxObjectBytes"
  by (auto simp: validateUpload_def Let_def go_result bind_res_Inr digest_of_def split: option.splits if_splits)

lemma acts_as_conn:
  assumes "tc_tenantID tc = tc_tenantID tc'" "tc_system tc = tc_system tc'" "memberships d = memberships d'" "tenants d = tenants d'"
  shows "acts_as d subject tc a = acts_as d' subject tc' a"
  using assms
  by (simp add: acts_as_def ResolveActor_def Q_ResolveActor_def rls_def map_err_def bind_tx_def asks_def lift_res_def one_row_def split: list.split)

lemma Add_row_runs:
  assumes "claim_row tc (at_ExpenseID r) claim" "filter (claim_row tc (at_ExpenseID r)) (expenses d) = claim # rest" "mayAttach actor claim = Inr ()"
    and "\<not> tc_readOnly tc" "\<not> tc_locked tc (at_ExpenseID r)" "has_tenant d (tc_tenantID tc)" "has_member d (tc_tenantID tc) (at_UploadedBy r)"
    and "length (at_Checksum r) = 32" "1 \<le> sint (at_SizeBytes r)" "sint (at_SizeBytes r) \<le> MaxObjectBytes"
    and "\<forall>x \<in> set (attachments d). at_ID x \<noteq> at_ID r \<and> at_ObjectKey x \<noteq> at_ObjectKey r"
  shows "\<exists>a d'. Receipt_Add_row tc actor r d = Inr (a, d') \<and> a \<in> set (attachments d') \<and> at_ObjectKey a = at_ObjectKey r \<and>
    at_ExpenseID a = at_ExpenseID r"
proof -
  have "has_expense d (tc_tenantID tc) (at_ExpenseID r)" "rls tc (tc_tenantID tc)"
    using assms(1) filter_eq_ConsD [OF assms(2)] by (force simp: has_expense_def claim_row_def)+
  then show ?thesis
    using assms
    by (simp add: go_result Receipt_Add_row_def GetForUpdate_def GetExpenseForUpdate_def GetExpense_def Attachment_Add_def
        AddExpenseAttachment_def MaxObjectBytes_def first_failing_None)
qed

lemma ticket_honoured:
  assumes "verify_reset env1 = None" "runs env2" "ats_store s = Some store"
    and ticket: "PrepareUpload s env1 o1 subject i req d = (Inr t, d1)"
    and upload: "Stat store o2 (ut_ObjectKey t) = Inr info" "oi_SizeBytes info = ur_SizeBytes req"
      "oi_ChecksumSHA256 info = [] \<or> oi_ChecksumSHA256 info = TrimSpace (ur_ChecksumSHA256 req)"
    and "\<not> locked_rows env2 i"
    and same: "expenses d' = expenses d" "memberships d' = memberships d" "tenants d' = tenants d"
    and fresh: "\<forall>x \<in> set (attachments d'). at_ID x \<noteq> fresh_id env2 0 \<and> at_ObjectKey x \<noteq> ut_ObjectKey t"
  shows "\<exists>a d2. ConfirmUpload s env2 o2 subject i (ut_ObjectKey t) req d' = (Inr a, d2) \<and> a \<in> set (attachments d2) \<and>
    at_ObjectKey a = ut_ObjectKey t \<and> at_ExpenseID a = i"
proof -
  from ticket assms(3) obtain f c where v: "validateUpload (ats_lower s) req = Inr (f, c)"
    and read: "Scope_Read env1 subject (\<lambda>tc actor.
           bind_tx (Repo_Get tc i) (\<lambda>claim.
           bind_tx (lift_res (mayAttach actor claim)) (\<lambda>_.
           bind_tx (Attachment_Count tc i) (\<lambda>count.
           bind_tx (reject_if (MaxAttachmentsPerClaim \<le> count)
             (Wrap ErrConflict (Fmt ''a claim may carry at most %d receipts'' [''10'']))) (\<lambda>_.
           let key = ObjectKey (ats_txt s) (ats_lower s) (fresh_id env1 0) (tc_tenantID tc) i f in
           bind_tx (lift_res (PresignPut store o1 key (ats_uploadTTL s)
             \<lparr>pc_ContentType = ur_ContentType req, pc_ChecksumSHA256 = c\<rparr>)) (\<lambda>signed.
           ret \<lparr>ut_ObjectKey = key, ut_Upload = signed\<rparr>)))))) d = (Inr t, d1)"
    by (auto simp: PrepareUpload_def go_result)
  from v have c: "c = TrimSpace (ur_ChecksumSHA256 req)" by (auto simp: validateUpload_def Let_def bind_res_Inr)
  from validateUpload_Inr [OF v] obtain raw where raw: "digest_of c = Some raw" "length raw = 32"
    and size: "1 \<le> sint (ur_SizeBytes req)" "sint (ur_SizeBytes req) \<le> MaxObjectBytes" by blast
  from read [unfolded Scope_Read_Inr [OF assms(1)]] obtain a claim where t: "sub_TenantID subject \<noteq> nil_uuid"
    and act: "acts_as d subject (read_conn env1 subject) a" and d1: "d1 = d"
    and claim: "Repo_Get (read_conn env1 subject) i d = Inr (claim, d)" and may: "mayAttach a claim = Inr ()"
    and key: "ut_ObjectKey t = ObjectKey (ats_txt s) (ats_lower s) (fresh_id env1 0) (sub_TenantID subject) i f"
    by (auto simp: go_result Let_def Repo_Get_def GetExpense_def Attachment_Count_def CountExpenseAttachments_def)
  let ?tc = "write_conn env2 subject" and ?r = "\<lparr>at_ID = fresh_id env2 0, at_TenantID = sub_TenantID subject, at_ExpenseID = i,
      at_ObjectKey = ut_ObjectKey t, at_Filename = f, at_ContentType = ur_ContentType req, at_SizeBytes = oi_SizeBytes info,
      at_Checksum = raw, at_UploadedBy = a_MembershipID a, at_CreatedAt = 0\<rparr>"
  have act2: "acts_as d' subject ?tc a" using act acts_as_conn [of "read_conn env1 subject" ?tc d d'] same by simp
  from claim same obtain rest where rows: "filter (claim_row ?tc i) (expenses d') = claim # rest" and row: "claim_row ?tc i claim"
    by (auto simp: Repo_Get_def GetExpense_def go_result claim_row_def rls_def dest: filter_eq_ConsD)
  have "has_tenant d' (sub_TenantID subject)" "has_member d' (sub_TenantID subject) (a_MembershipID a)"
    using acts_as_resolves [OF act2] by (auto simp: resolves_def has_tenant_def has_member_def)
  then obtain att d2 where add: "Receipt_Add_row ?tc a ?r d' = Inr (att, d2)" "att \<in> set (attachments d2)"
      "at_ObjectKey att = ut_ObjectKey t" "at_ExpenseID att = i"
    using Add_row_runs [of ?tc ?r claim d' rest a] rows row may assms(8) raw size upload fresh by auto
  let ?row = "\<lambda>tc actor. \<lparr>at_ID = fresh_id env2 0, at_TenantID = tc_tenantID tc, at_ExpenseID = i, at_ObjectKey = ut_ObjectKey t,
      at_Filename = f, at_ContentType = ur_ContentType req, at_SizeBytes = oi_SizeBytes info, at_Checksum = raw,
      at_UploadedBy = a_MembershipID actor, at_CreatedAt = 0\<rparr>"
  have "Scope_Write env2 subject (\<lambda>tc actor. Receipt_Add_row tc actor (?row tc actor)) d' = (Inr att, d2)"
    using assms(2) act2 add(1) t by (subst Scope_Write_Inr) (auto simp: runs_def)
  moreover have "stored_upload store o2 (ut_ObjectKey t) c req = Inr info" using upload size c by (auto simp: stored_upload_def)
  moreover have "HasPrefix (ut_ObjectKey t) (key_prefix (ats_txt s) (sub_TenantID subject) i)"
    using ObjectKey_under_prefix key by (metis HasPrefix_def append_eq_conv_conj)
  ultimately show ?thesis using assms(3) v raw(1) add by (simp add: ConfirmUpload_def bind_act_def lift_act_def)
qed

text \<open>
  C31. The ticket is honoured: when a member was given a ticket for a receipt, uploads what was declared and
  confirms it while the claim and the memberships are as they were, the receipt is recorded under the
  ticket's key. How many receipts the claim has by then does not matter: the limit of ten is looked at
  only when the ticket is given.
\<close>

theorem ticket_becomes_receipt:
  assumes "verify_reset env1 = None" "runs env2" "ats_store s = Some store"
    and ticket: "PrepareUpload s env1 o1 subject i req d = (Inr t, d1)"
    and upload: "Stat store o2 (ut_ObjectKey t) = Inr info" "oi_SizeBytes info = ur_SizeBytes req"
      "oi_ChecksumSHA256 info = [] \<or> oi_ChecksumSHA256 info = TrimSpace (ur_ChecksumSHA256 req)"
    and "\<not> locked_rows env2 i"
    and same: "expenses d' = expenses d" "memberships d' = memberships d" "tenants d' = tenants d"
    and fresh: "\<forall>x \<in> set (attachments d'). at_ID x \<noteq> fresh_id env2 0 \<and> at_ObjectKey x \<noteq> ut_ObjectKey t"
  shows "\<exists>a d2. ConfirmUpload s env2 o2 subject i (ut_ObjectKey t) req d' = (Inr a, d2) \<and> a \<in> set (attachments d2) \<and>
    at_ObjectKey a = ut_ObjectKey t \<and> at_ExpenseID a = i"
  using assms by (rule ticket_honoured)

end
