(* ===== verification/Attachment_Demo.thy ===== *)
theory Attachment_Demo
  imports Attachment_Props
begin

text \<open>The theorems on receipts at work: a small object store and a receipt for the demonstration claim.\<close>

type_synonym shelf = "(string \<times> ObjectInfo) list"

definition demo_store :: "shelf Store" where
  "demo_store =
    \<lparr>PresignPut = (\<lambda>o1 k ttl c. Inr \<lparr>pr_URL = k, pr_Method = ''PUT'', pr_Headers = [], pr_ExpiresAt = 0\<rparr>),
     PresignGet = (\<lambda>o1 k ttl n. Inr k),
     Stat = (\<lambda>o1 k. case map_of o1 k of None \<Rightarrow> Inl (Sentinel ErrStorageNotFound) | Some i \<Rightarrow> Inr i),
     st_Delete = (\<lambda>o1 k. (Inr (), filter (\<lambda>p. fst p \<noteq> k) o1))\<rparr>"

definition demo_receipts :: "shelf AttachmentService" where
  "demo_receipts = \<lparr>ats_store = Some demo_store, ats_uploadTTL = 900 * second, ats_downloadTTL = 300 * second, ats_lower = (\<lambda>x. x),
     ats_txt = (\<lambda>i. ''u'')\<rparr>"

definition demo_checksum :: string where
  "demo_checksum = b64_encode StdEncoding (replicate 32 CHR ''a'')"

definition demo_upload :: UploadRequest where
  "demo_upload = \<lparr>ur_Filename = ''C:'' @ [CHR 0x5C] @ ''receipt.PDF'', ur_ContentType = ''application/pdf'', ur_SizeBytes = 3,
     ur_ChecksumSHA256 = demo_checksum\<rparr>"

lemma map_of_filter_other: "k' \<noteq> k \<Longrightarrow> map_of (filter (\<lambda>p. fst p \<noteq> k) xs) k' = map_of xs k'"
  by (induction xs) auto

lemma demo_store_ok: "store_ok demo_store"
  by (auto simp: store_ok_def present_def demo_store_def map_of_filter_other split: option.splits)

lemma demo_upload_valid: "validateUpload (\<lambda>x. x) demo_upload = Inr (''receipt.PDF'', demo_checksum)"
proof -
  have "upload_filename demo_upload = ''receipt.PDF''" unfolding upload_filename_def demo_upload_def by code_simp
  moreover have "ContentTypeAllowed (\<lambda>x. x) ''application/pdf''" by code_simp
  moreover have "TrimSpace demo_checksum = demo_checksum" by code_simp
  moreover have "digest_of demo_checksum = Some (replicate 32 CHR ''a'')" by (simp add: digest_of_def demo_checksum_def)
  moreover have "rune_count ''receipt.PDF'' \<le> 255" using rune_count_le [of "''receipt.PDF''"] by simp
  ultimately show ?thesis by (simp add: validateUpload_def Let_def demo_upload_def MaxObjectBytes_def bind_res_def)
qed

theorem receipts_read_like_claims_witness:
  "mayRead (demo_actor 4 RoleManager) (fst demo_filed) = canRead (demo_actor 4 RoleManager) (fst demo_filed)"
  by (rule receipts_read_like_claims) (simp_all add: demo_actor_def Active_def)

lemma demo_prepare:
  "\<exists>t. PrepareUpload demo_receipts demo_env [] (demo_subject 3) 9 demo_upload demo_draft_db = (Inr t, demo_draft_db)"
proof -
  let ?tc = "read_conn demo_env (demo_subject 3)"
  have act: "acts_as demo_draft_db (demo_subject 3) ?tc (demo_actor 3 RoleMember)"
    by (rule demo_acts) (simp_all add: demo_draft_db_def demo_subject_def)
  have claim: "Repo_Get ?tc 9 demo_draft_db = Inr (fst demo_filed, demo_draft_db)"
    by (simp add: Repo_Get_def GetExpense_def demo_draft_db_def demo_claim map_err_def asks_def bind_tx_def lift_res_def
        one_row_def rls_def claim_row_def demo_subject_def)
  have may: "mayAttach (demo_actor 3 RoleMember) (fst demo_filed) = Inr ()"
    by (simp add: mayAttach_def SameMembership_def demo_actor_def demo_claim Editable_def)
  have "attachments demo_draft_db = []" by (simp add: demo_draft_db_def demo_defs)
  then show ?thesis
    using act claim may demo_upload_valid
    by (auto simp: PrepareUpload_def demo_receipts_def demo_store_def go_result Scope_Read_Inr Attachment_Count_def CountExpenseAttachments_def
        MaxAttachmentsPerClaim_def Let_def demo_subject_def intro!: exI)
qed

definition demo_info :: "string \<Rightarrow> ObjectInfo" where
  "demo_info k = \<lparr>oi_Key = k, oi_SizeBytes = 3, oi_ContentType = ''application/pdf'', oi_ChecksumSHA256 = demo_checksum\<rparr>"

definition demo_shelf :: "string \<Rightarrow> shelf" where
  "demo_shelf k = [(k, demo_info k)]"

text \<open>What a confirmation relies on holds for the upload of the demonstration.\<close>

lemma demo_upload_facts:
  "ats_store demo_receipts = Some demo_store" "Stat demo_store (demo_shelf k) k = Inr (demo_info k)"
  "oi_SizeBytes (demo_info k) = ur_SizeBytes demo_upload"
  "oi_ChecksumSHA256 (demo_info k) = [] \<or> oi_ChecksumSHA256 (demo_info k) = TrimSpace (ur_ChecksumSHA256 demo_upload)"
  "\<not> locked_rows demo_env 9"
  "\<forall>x \<in> set (attachments demo_draft_db). at_ID x \<noteq> fresh_id demo_env 0 \<and> at_ObjectKey x \<noteq> k'"
proof -
  have "TrimSpace demo_checksum = demo_checksum" by code_simp
  then show "oi_ChecksumSHA256 (demo_info k) = [] \<or> oi_ChecksumSHA256 (demo_info k) = TrimSpace (ur_ChecksumSHA256 demo_upload)"
    by (simp add: demo_info_def demo_upload_def)
qed (simp_all add: demo_receipts_def demo_store_def demo_shelf_def demo_info_def demo_upload_def demo_env_def demo_draft_db_def demo_defs)

theorem ticket_becomes_receipt_witness:
  "\<exists>t a d2. PrepareUpload demo_receipts demo_env [] (demo_subject 3) 9 demo_upload demo_draft_db = (Inr t, demo_draft_db) \<and>
    ConfirmUpload demo_receipts demo_env (demo_shelf (ut_ObjectKey t)) (demo_subject 3) 9 (ut_ObjectKey t) demo_upload demo_draft_db = (Inr a, d2) \<and>
    a \<in> set (attachments d2)"
  using demo_prepare ticket_becomes_receipt [OF demo_runs(2,1) demo_upload_facts(1) _ demo_upload_facts(2-5) refl refl refl demo_upload_facts(6)] by metis

theorem receipts_have_objects_witness:
  "\<exists>d o1. receipt_history demo_receipts demo_store (d, o1) \<and> attachments d \<noteq> [] \<and> placed demo_receipts demo_store o1 d"
proof -
  obtain t a d2 where t: "PrepareUpload demo_receipts demo_env [] (demo_subject 3) 9 demo_upload demo_draft_db = (Inr t, demo_draft_db)"
    and c: "ConfirmUpload demo_receipts demo_env (demo_shelf (ut_ObjectKey t)) (demo_subject 3) 9 (ut_ObjectKey t) demo_upload demo_draft_db = (Inr a, d2)"
    and a: "a \<in> set (attachments d2)"
    using demo_prepare ticket_honoured [OF demo_runs(2,1) demo_upload_facts(1) _ demo_upload_facts(2-5) refl refl refl demo_upload_facts(6)] by metis
  have "receipt_history demo_receipts demo_store (demo_draft_db, demo_shelf (ut_ObjectKey t))"
    by (rule receipt_history.start) (simp add: demo_draft_db_def demo_defs)
  moreover have "receipt_call demo_receipts (demo_subject 3) (demo_draft_db, demo_shelf (ut_ObjectKey t)) (d2, demo_shelf (ut_ObjectKey t))"
    using receipt_call.intros(2) [of demo_receipts "demo_subject 3" demo_draft_db "demo_shelf (ut_ObjectKey t)" demo_env 9 "ut_ObjectKey t" demo_upload]
    by (simp add: c)
  ultimately have h: "receipt_history demo_receipts demo_store (d2, demo_shelf (ut_ObjectKey t))" by (rule receipt_history.call)
  from receipts_have_objects [OF h _ demo_store_ok] have "placed demo_receipts demo_store (demo_shelf (ut_ObjectKey t)) d2"
    by (simp add: demo_receipts_def)
  with h a show ?thesis by (metis empty_iff list.set(1))
qed

definition demo_evidence :: Attachment where
  "demo_evidence = \<lparr>at_ID = 80, at_TenantID = 1, at_ExpenseID = 9, at_ObjectKey = ''k'', at_Filename = ''r.pdf'',
     at_ContentType = ''application/pdf'', at_SizeBytes = 3, at_Checksum = replicate 32 CHR ''a'', at_UploadedBy = 3, at_CreatedAt = 0\<rparr>"

theorem evidence_is_fixed_witness:
  "receipts demo_submitted (fst (snd (Receipt_Delete demo_receipts demo_env (demo_subject 3) 80
      (demo_pending_db\<lparr>attachments := [demo_evidence]\<rparr>, [])))) = [demo_evidence]"
proof -
  let ?d = "demo_pending_db\<lparr>attachments := [demo_evidence]\<rparr>"
  let ?y = "snd (Receipt_Delete demo_receipts demo_env (demo_subject 3) 80 (?d, []))"
  have "receipt_call demo_receipts (demo_subject 3) (?d, []) (fst ?y, snd ?y)" using receipt_call.intros(5) by (metis prod.collapse)
  then have "receipts demo_submitted (fst ?y) = receipts demo_submitted ?d"
    by (intro evidence_is_fixed [where s = demo_receipts and subject = "demo_subject 3" and ?o1.0 = "[]" and ?o2.0 = "snd ?y"])
      (simp_all add: demo_pending_db_def demo_submitted_eq)
  then show ?thesis by (simp add: receipts_def demo_evidence_def demo_submitted_eq demo_claim)
qed

end
