(* ===== verification/Runes.thy ===== *)
theory Runes
  imports Prelude
begin

text \<open>
  Go's \<^verbatim>\<open>for _, r := range s\<close>: the runes of a string, each with the bytes it was read from. A byte
  that starts no well-formed UTF-8 sequence is read as the replacement character.
\<close>

function rune_pieces :: "string \<Rightarrow> string list" where
  "rune_pieces s = (if s = [] then [] else take (rune_width s) s # rune_pieces (drop (rune_width s) s))"
  by pat_completeness auto
termination
  by (relation "measure length") (use rune_width_pos in auto)

declare rune_pieces.simps [simp del]

lemma rune_pieces_Nil [simp]: "rune_pieces [] = []"
  by (simp add: rune_pieces.simps)

definition RuneError :: nat where
  "RuneError = 0xFFFD"

fun rune_value :: "string \<Rightarrow> nat" where
  "rune_value [a] = (let n = of_char a in if n < 128 then n else RuneError)"
| "rune_value [a, b] = (of_char a - 0xC0) * 64 + (of_char b - 0x80)"
| "rune_value [a, b, c] = (of_char a - 0xE0) * 4096 + (of_char b - 0x80) * 64 + (of_char c - 0x80)"
| "rune_value [a, b, c, e] =
    (of_char a - 0xF0) * 262144 + (of_char b - 0x80) * 4096 + (of_char c - 0x80) * 64 + (of_char e - 0x80)"
| "rune_value _ = RuneError"

text \<open>\<^verbatim>\<open>WriteRune\<close> of a rune that was read: its bytes, or those of the replacement character.\<close>

definition rune_text :: "string \<Rightarrow> string" where
  "rune_text p = (if rune_value p = RuneError then [CHR 0xEF, CHR 0xBF, CHR 0xBD] else p)"

lemma concat_rune_pieces [simp]: "concat (rune_pieces s) = s"
  by (induction s rule: rune_pieces.induct) (metis append_take_drop_id concat.simps(2) rune_pieces.simps concat.simps(1))

lemma length_rune_pieces: "length (rune_pieces s) = rune_count s"
  by (induction s rule: rune_pieces.induct) (metis length_Cons list.size(3) rune_pieces.simps rune_count.simps)

lemma rune_pieces_ascii: "is_ascii s \<Longrightarrow> rune_pieces s = map (\<lambda>c. [c]) s"
proof (induction s)
  case (Cons c s)
  then have "rune_width (c # s) = 1" by (intro rune_width_ascii) (simp_all add: is_ascii_def)
  then show ?case using Cons by (simp add: rune_pieces.simps [of "c # s"] is_ascii_def)
qed simp

text \<open>A character below 128 is a rune of its own; the bytes of longer runes are all above.\<close>

lemma byte_in_high:
  "byte_in 0x80 0xBF s i \<Longrightarrow> byte_in 128 255 s i" "byte_in 0xC2 0xDF s i \<Longrightarrow> byte_in 128 255 s i"
  "byte_in 0xE0 0xE0 s i \<Longrightarrow> byte_in 128 255 s i" "byte_in 0xA0 0xBF s i \<Longrightarrow> byte_in 128 255 s i"
  "byte_in 0xED 0xED s i \<Longrightarrow> byte_in 128 255 s i" "byte_in 0x80 0x9F s i \<Longrightarrow> byte_in 128 255 s i"
  "byte_in 0xE1 0xEC s i \<Longrightarrow> byte_in 128 255 s i" "byte_in 0xEE 0xEF s i \<Longrightarrow> byte_in 128 255 s i"
  "byte_in 0xF0 0xF0 s i \<Longrightarrow> byte_in 128 255 s i" "byte_in 0x90 0xBF s i \<Longrightarrow> byte_in 128 255 s i"
  "byte_in 0xF1 0xF3 s i \<Longrightarrow> byte_in 128 255 s i" "byte_in 0xF4 0xF4 s i \<Longrightarrow> byte_in 128 255 s i"
  "byte_in 0x80 0x8F s i \<Longrightarrow> byte_in 128 255 s i"
  by (simp_all add: byte_in_def)

lemma rune_width_cases:
  assumes "Q 1"
    and "byte_in 128 255 s 0 \<Longrightarrow> byte_in 128 255 s 1 \<Longrightarrow> Q 2"
    and "byte_in 128 255 s 0 \<Longrightarrow> byte_in 128 255 s 1 \<Longrightarrow> byte_in 128 255 s 2 \<Longrightarrow> Q 3"
    and "byte_in 128 255 s 0 \<Longrightarrow> byte_in 128 255 s 1 \<Longrightarrow> byte_in 128 255 s 2 \<Longrightarrow> byte_in 128 255 s 3 \<Longrightarrow> Q 4"
  shows "Q (rune_width s)"
proof -
  have choice: "(c \<Longrightarrow> Q a) \<Longrightarrow> Q b \<Longrightarrow> Q (if c then a else b)" for c a b by simp
  show ?thesis
    unfolding rune_width_def Let_def by (intro choice; (elim conjE disjE)?; intro assms; erule byte_in_high)
qed

lemma rune_width_bytes:
  assumes "i < rune_width s"
  shows "rune_width s = 1 \<or> byte_in 128 255 s i"
proof -
  have n: "i < 2 \<Longrightarrow> i = 0 \<or> i = 1" "i < 3 \<Longrightarrow> i = 0 \<or> i = 1 \<or> i = 2" "i < 4 \<Longrightarrow> i = 0 \<or> i = 1 \<or> i = 2 \<or> i = 3"
    by auto
  have "i < rune_width s \<longrightarrow> rune_width s = 1 \<or> byte_in 128 255 s i"
    by (rule rune_width_cases [where s = s and Q = "\<lambda>k. i < k \<longrightarrow> k = 1 \<or> byte_in 128 255 s i"]) (use n in auto)
  with assms show ?thesis by blast
qed

lemma rune_pieces_bytes:
  assumes "p \<in> set (rune_pieces s)"
  shows "(\<exists>c. p = [c]) \<or> (\<forall>c \<in> set p. 128 \<le> (of_char c :: nat))"
  using assms
proof (induction s rule: rune_pieces.induct)
  case (1 s)
  have high: "rune_width s = 1 \<or> (\<forall>c \<in> set (take (rune_width s) s). 128 \<le> (of_char c :: nat))"
    using rune_width_bytes by (fastforce simp: in_set_conv_nth byte_in_def)
  from 1(2) have "s \<noteq> []" and "p = take (rune_width s) s \<or> p \<in> set (rune_pieces (drop (rune_width s) s))"
    by (auto simp: rune_pieces.simps [of s] split: if_splits)
  then show ?case using 1(1) high by (cases s) auto
qed

section \<open>Runes that were written back\<close>

text \<open>Whether the bytes read as one rune, whatever follows them.\<close>

definition whole_rune :: "string \<Rightarrow> bool" where
  "whole_rune p = (rune_width p = length p \<and> (length p = 1 \<longrightarrow> (of_char (hd p) :: nat) < 128))"

lemma byte_in_take: "take n t = take n s \<Longrightarrow> i < n \<Longrightarrow> byte_in lo hi t i = byte_in lo hi s i"
  by (metis byte_in_def length_take min_less_iff_conj nth_take)

lemma rune_width_2:
  "rune_width s = 2 \<longleftrightarrow> byte_in 0xC2 0xDF s 0 \<and> byte_in 0x80 0xBF s 1"
  by (simp add: rune_width_def Let_def)

lemma rune_width_3:
  "rune_width s = 3 \<longleftrightarrow> rune_width s \<noteq> 2 \<and>
    (byte_in 0xE0 0xE0 s 0 \<and> byte_in 0xA0 0xBF s 1 \<and> byte_in 0x80 0xBF s 2 \<or>
     byte_in 0xED 0xED s 0 \<and> byte_in 0x80 0x9F s 1 \<and> byte_in 0x80 0xBF s 2 \<or>
     (byte_in 0xE1 0xEC s 0 \<or> byte_in 0xEE 0xEF s 0) \<and> byte_in 0x80 0xBF s 1 \<and> byte_in 0x80 0xBF s 2)"
proof -
  have three: "(if a then 2 else if b then 3 else if c then 3 else if d then 3 else if e then 4 else if f then 4 else if g then 4 else 1) = (3 :: nat) \<longleftrightarrow>
      (if a then 2 else if b then 3 else if c then 3 else if d then 3 else if e then 4 else if f then 4 else if g then 4 else 1) \<noteq> (2 :: nat) \<and> (b \<or> c \<or> d)"
    for a b c d e f g by simp
  show ?thesis unfolding rune_width_def Let_def by (rule three)
qed

lemma rune_width_4:
  "rune_width s = 4 \<longleftrightarrow> rune_width s \<noteq> 2 \<and> rune_width s \<noteq> 3 \<and>
    (byte_in 0xF0 0xF0 s 0 \<and> byte_in 0x90 0xBF s 1 \<and> byte_in 0x80 0xBF s 2 \<and> byte_in 0x80 0xBF s 3 \<or>
     byte_in 0xF1 0xF3 s 0 \<and> byte_in 0x80 0xBF s 1 \<and> byte_in 0x80 0xBF s 2 \<and> byte_in 0x80 0xBF s 3 \<or>
     byte_in 0xF4 0xF4 s 0 \<and> byte_in 0x80 0x8F s 1 \<and> byte_in 0x80 0xBF s 2 \<and> byte_in 0x80 0xBF s 3)"
proof -
  have four: "(if a then 2 else if b then 3 else if c then 3 else if d then 3 else if e then 4 else if f then 4 else if g then 4 else 1) =
      (4 :: nat) \<longleftrightarrow> (if a then 2 else if b then 3 else if c then 3 else if d then 3 else if e then 4 else if f then 4 else if g then 4 else 1) \<noteq> (2 :: nat) \<and>
      (if a then 2 else if b then 3 else if c then 3 else if d then 3 else if e then 4 else if f then 4 else if g then 4 else 1) \<noteq> (3 :: nat) \<and> (e \<or> f \<or> g)"
    for a b c d e f g by simp
  show ?thesis unfolding rune_width_def Let_def by (rule four)
qed

lemma rune_width_le_4: "rune_width s = 1 \<or> rune_width s = 2 \<or> rune_width s = 3 \<or> rune_width s = 4"
  by (rule rune_width_cases [where s = s]) simp_all

lemma rune_width_local:
  assumes "rune_width s = n" "1 < n" "take n t = take n s"
  shows "rune_width t = n"
proof -
  have b: "byte_in lo hi t i = byte_in lo hi s i" if "i < n" for lo hi i using assms(3) that by (rule byte_in_take)
  consider "n = 2" | "n = 3" | "n = 4" using rune_width_le_4 [of s] assms(1,2) by auto
  then show ?thesis
  proof cases
    case 1
    then show ?thesis using assms(1) b by (simp add: rune_width_2)
  next
    case 2
    then have "(rune_width t = 2) = (rune_width s = 2)" using b by (simp add: rune_width_2)
    then show ?thesis using assms(1) b 2 by (simp add: rune_width_3 [of t] rune_width_3 [of s])
  next
    case 3
    then have two: "(rune_width t = 2) = (rune_width s = 2)" using b by (simp add: rune_width_2)
    with 3 have "(rune_width t = 3) = (rune_width s = 3)" using b by (simp add: rune_width_3 [of t] rune_width_3 [of s])
    with two show ?thesis using assms(1) b 3 by (simp add: rune_width_4 [of t] rune_width_4 [of s])
  qed
qed

lemma whole_rune_width: "whole_rune p \<Longrightarrow> rune_width (p @ s) = length p"
proof -
  assume w: "whole_rune p"
  have "0 < length p" using w rune_width_pos [of p] by (simp add: whole_rune_def)
  then have "length p = 1 \<or> 1 < length p" by linarith
  then show ?thesis
  proof
    assume "length p = 1"
    then obtain c where "p = [c]" by (cases p) auto
    then show ?thesis using w rune_width_ascii [of "c # s"] by (simp add: whole_rune_def)
  next
    assume "1 < length p"
    then show ?thesis using w by (auto simp: whole_rune_def intro: rune_width_local [of p])
  qed
qed

lemma rune_pieces_whole: "\<forall>p \<in> set ps. whole_rune p \<Longrightarrow> rune_pieces (concat ps @ s) = ps @ rune_pieces s"
proof (induction ps)
  case (Cons p ps)
  then have "whole_rune p" by simp
  then have "p \<noteq> []" using rune_width_pos [of p] by (auto simp: whole_rune_def)
  then have "rune_pieces (p @ concat ps @ s) = p # rune_pieces (concat ps @ s)"
    by (subst rune_pieces.simps) (simp add: whole_rune_width [OF \<open>whole_rune p\<close>])
  with Cons show ?case by simp
qed simp

lemma whole_replacement: "whole_rune [CHR 0xEF, CHR 0xBF, CHR 0xBD]" "rune_value [CHR 0xEF, CHR 0xBF, CHR 0xBD] = RuneError"
  by (simp_all add: whole_rune_def rune_width_def byte_in_def RuneError_def)

lemma rune_text_whole:
  assumes "p \<in> set (rune_pieces s)"
  shows "whole_rune (rune_text p) \<and> rune_value (rune_text p) = rune_value p"
  using assms
proof (induction s rule: rune_pieces.induct)
  case (1 s)
  have "whole_rune (rune_text (take (rune_width s) s))" if ne: "s \<noteq> []"
  proof (cases "rune_width s = 1")
    case True
    then obtain c where c: "take (rune_width s) s = [c]" using ne by (cases s) auto
    show ?thesis
    proof (cases "(of_char c :: nat) < 128")
      case True
      then show ?thesis using c by (simp add: rune_text_def RuneError_def whole_rune_def rune_width_ascii)
    next
      case False
      then show ?thesis using c whole_replacement by (simp add: rune_text_def)
    qed
  next
    case False
    have "length (take (rune_width s) s) = rune_width s"
      using rune_width_bytes [of "rune_width s - 1" s] rune_width_pos [of s] False by (auto simp: byte_in_def)
    moreover have "rune_width (take (rune_width s) s) = rune_width s"
      by (rule rune_width_local [of s]) (use rune_width_pos [of s] False in auto)
    ultimately have "whole_rune (take (rune_width s) s)" using False by (simp add: whole_rune_def)
    then show ?thesis by (simp add: rune_text_def whole_replacement)
  qed
  moreover have "rune_value (rune_text q) = rune_value q" for q by (simp add: rune_text_def RuneError_def)
  moreover have "s \<noteq> [] \<and> (p = take (rune_width s) s \<or> p \<in> set (rune_pieces (drop (rune_width s) s)))"
    using 1(2) by (auto simp: rune_pieces.simps [of s] split: if_splits)
  ultimately show ?case using 1(1) by blast
qed

text \<open>Only a single byte stands for a rune below 128.\<close>

lemma rune_value_multi:
  assumes "1 < rune_width s"
  shows "128 \<le> rune_value (take (rune_width s) s)"
proof -
  consider "rune_width s = 2" | "rune_width s = 3" | "rune_width s = 4" using rune_width_le_4 [of s] assms by auto
  then show ?thesis
  proof cases
    case 1
    then have w: "byte_in 0xC2 0xDF s 0" "byte_in 0x80 0xBF s 1" by (auto simp: rune_width_2)
    then obtain a b t where "s = a # b # t" by (cases s; cases "tl s") (auto simp: byte_in_def)
    then show ?thesis using w 1 by (simp add: byte_in_def) arith
  next
    case 2
    then have w: "byte_in 0xE0 0xE0 s 0 \<and> byte_in 0xA0 0xBF s 1 \<or> byte_in 0xE1 0xEF s 0" "byte_in 0x80 0xBF s 2"
      unfolding rune_width_3 by (auto simp: byte_in_def)
    then obtain a b c t where "s = a # b # c # t"
      by (cases s; cases "tl s"; cases "tl (tl s)") (auto simp: byte_in_def)
    then show ?thesis using w 2 by (auto simp: byte_in_def)
  next
    case 3
    then have w: "byte_in 0xF0 0xF0 s 0 \<and> byte_in 0x90 0xBF s 1 \<or> byte_in 0xF1 0xF4 s 0" "byte_in 0x80 0xBF s 3"
      unfolding rune_width_4 by (auto simp: byte_in_def)
    then obtain a b c e t where "s = a # b # c # e # t"
      by (cases s; cases "tl s"; cases "tl (tl s)"; cases "tl (tl (tl s))") (auto simp: byte_in_def)
    then show ?thesis using w 3 by (auto simp: byte_in_def)
  qed
qed

lemma rune_below_128:
  assumes "p \<in> set (rune_pieces s)" "rune_value p < 128"
  shows "\<exists>c. p = [c] \<and> rune_value p = of_char c"
  using assms
proof (induction s rule: rune_pieces.induct)
  case (1 s)
  have s: "s \<noteq> []" "p = take (rune_width s) s \<or> p \<in> set (rune_pieces (drop (rune_width s) s))"
    using 1(2) by (auto simp: rune_pieces.simps [of s] split: if_splits)
  have "\<exists>c. p = [c] \<and> rune_value p = of_char c" if p: "p = take (rune_width s) s"
  proof -
    have "rune_width s = 1" using rune_value_multi [of s] rune_width_pos [of s] 1(3) p by fastforce
    then obtain c where "p = [c]" using p s(1) by (cases s) auto
    then show ?thesis using 1(3) by (auto simp: Let_def RuneError_def split: if_splits)
  qed
  then show ?case using 1 s by blast
qed

end
