(* ===== verification/Export.thy ===== *)
theory Export
  imports Complex_Main Paging Calendar Runes Relay
begin

text \<open>
  \<^verbatim>\<open>internal/export/report.go\<close> and \<^verbatim>\<open>csv.go\<close>: the typed cells of a report and the CSV encoder over
  \<^verbatim>\<open>encoding/csv\<close>. \<open>csv_read\<close> is a reader for RFC 4180 text; it is not part of the program and states
  what a written file means.
\<close>

section \<open>Reports (\<^verbatim>\<open>report.go\<close>)\<close>

datatype Format = FormatCSV | FormatXLSX | FormatPDF

definition ParseFormat :: "string \<Rightarrow> (err, Format) res" where
  "ParseFormat s =
    (if s = ''csv'' then Inr FormatCSV else if s = ''xlsx'' then Inr FormatXLSX else if s = ''pdf'' then Inr FormatPDF
     else Inl (FieldErr \<lparr>Field = ''format'', Detail = Text ''must be one of csv, xlsx or pdf''\<rparr>))"

datatype CellKind = KindText | KindMoney | KindDate | KindDateTime | KindInt

text \<open>The tagged union \<^verbatim>\<open>Cell\<close>, with the constructors the code has for it.\<close>

datatype Cell = TextCell string | MoneyCell Money | DateCell time | DateTimeCell time | IntCell int64

definition TextPtr :: "string option \<Rightarrow> Cell" where
  "TextPtr s = (case s of None \<Rightarrow> TextCell [] | Some t \<Rightarrow> TextCell t)"

definition DateTimePtr :: "time option \<Rightarrow> Cell" where
  "DateTimePtr t = (case t of None \<Rightarrow> TextCell [] | Some x \<Rightarrow> DateTimeCell x)"

record Column =
  cn_Header :: string
  cn_Kind :: CellKind
  cn_Width :: rat

record Report =
  rp_Title :: string
  rp_Subtitle :: string
  rp_Columns :: "Column list"
  rp_Generated :: time
  rp_TenantName :: string

section \<open>Dates\<close>

text \<open>\<^verbatim>\<open>t.UTC().Format("2006-01-02")\<close> and the clock of \<^verbatim>\<open>"15:04"\<close>.\<close>

definition year_text :: "int \<Rightarrow> string" where
  "year_text y = (if y < 0 then CHR ''-'' # pad0 4 (digits (nat (- y))) else pad0 4 (digits (nat y)))"

definition FormatDate :: "time \<Rightarrow> string" where
  "FormatDate t =
    (let (y, m, d) = civil (t div day) in
     year_text y @ ''-'' @ pad0 2 (digits m) @ ''-'' @ pad0 2 (digits (nat d)))"

definition FormatClock :: "time \<Rightarrow> string" where
  "FormatClock t =
    (let mins = nat ((t mod day) div (60 * second)) in pad0 2 (digits (mins div 60)) @ '':'' @ pad0 2 (digits (mins mod 60)))"

section \<open>CSV (\<^verbatim>\<open>csv.go\<close>)\<close>

definition sanitizeFormula :: "string \<Rightarrow> string" where
  "sanitizeFormula s =
    (case s of
       [] \<Rightarrow> []
     | c # _ \<Rightarrow> if c \<in> {CHR ''='', CHR ''+'', CHR ''-'', CHR ''@'', CHR 0x09, CHR 0x0D} then CHR 0x09 # s else s)"

definition csvValue :: "Codec \<Rightarrow> Cell \<Rightarrow> string" where
  "csvValue codec c =
    (case c of
       TextCell t \<Rightarrow> sanitizeFormula t
     | MoneyCell m \<Rightarrow> Money_String m
     | IntCell v \<Rightarrow> itoa (sint v)
     | DateCell t \<Rightarrow> if t = zero_time then [] else FormatDate t
     | DateTimeCell t \<Rightarrow> if t = zero_time then [] else rfc3339 codec t)"

text \<open>\<^verbatim>\<open>csv.Writer\<close> with its default separator and line ending.\<close>

definition csv_special :: "char set" where
  "csv_special = {CHR 0x0A, CHR 0x0D, CHR 0x22, CHR '',''}"

definition fieldNeedsQuotes :: "string \<Rightarrow> bool" where
  "fieldNeedsQuotes f =
    (f \<noteq> [] \<and> (f = [CHR 0x5C, CHR ''.''] \<or> (\<exists>c \<in> set f. c \<in> csv_special) \<or> (\<exists>sp \<in> set go_spaces. take (length sp) f = sp)))"

fun double_quotes :: "string \<Rightarrow> string" where
  "double_quotes [] = []"
| "double_quotes (c # s) = (if c = CHR 0x22 then [CHR 0x22, CHR 0x22] else [c]) @ double_quotes s"

definition csv_field :: "string \<Rightarrow> string" where
  "csv_field f = (if fieldNeedsQuotes f then CHR 0x22 # double_quotes f @ [CHR 0x22] else f)"

fun csv_line :: "string list \<Rightarrow> string" where
  "csv_line [] = [CHR 0x0A]"
| "csv_line [f] = csv_field f @ [CHR 0x0A]"
| "csv_line (f # g # fs) = csv_field f @ CHR '','' # csv_line (g # fs)"

definition utf8_bom :: string where
  "utf8_bom = [CHR 0xEF, CHR 0xBB, CHR 0xBF]"

text \<open>The state of the encoder is the number of columns; what a call writes is its second result.\<close>

definition CSV_Open :: "Report \<Rightarrow> nat \<times> string" where
  "CSV_Open r = (length (rp_Columns r), utf8_bom @ csv_line (map cn_Header (rp_Columns r)))"

definition row_mismatch :: "nat \<Rightarrow> nat \<Rightarrow> err" where
  "row_mismatch n cols = Opaque (Fmt ''export: row has %d cells, report declares %d columns'' [digits n, digits cols])"

definition CSV_Write :: "Codec \<Rightarrow> nat \<Rightarrow> Cell list \<Rightarrow> (err, nat \<times> string) res" where
  "CSV_Write codec cols row =
    (if length row \<noteq> cols then Inl (row_mismatch (length row) cols)
     else Inr (cols, csv_line (map (csvValue codec) row)))"

definition CSV_Close :: "nat \<Rightarrow> string" where
  "CSV_Close cols = []"

section \<open>Reading CSV\<close>

datatype csv_mode = AtField | InBare | InQuoted | AfterQuote

text \<open>The field, the fields of the line and the lines read so far, each in reverse.\<close>

fun csv_read :: "csv_mode \<Rightarrow> string \<Rightarrow> string list \<Rightarrow> string list list \<Rightarrow> string \<Rightarrow> string list list option" where
  "csv_read m f fs ls [] = (if m = AtField \<and> f = [] \<and> fs = [] then Some (rev ls) else None)"
| "csv_read InQuoted f fs ls (c # s) =
    (if c = CHR 0x22 then csv_read AfterQuote f fs ls s else csv_read InQuoted (c # f) fs ls s)"
| "csv_read m f fs ls (c # s) =
    (if c = CHR '','' then csv_read AtField [] (rev f # fs) ls s
     else if c = CHR 0x0A then csv_read AtField [] [] (rev (rev f # fs) # ls) s
     else if c = CHR 0x22
     then (if m = AtField then csv_read InQuoted f fs ls s
           else if m = AfterQuote then csv_read InQuoted (c # f) fs ls s else None)
     else if m = AfterQuote then None
     else csv_read InBare (c # f) fs ls s)"

lemma csv_read_bare:
  "\<forall>c \<in> set f. c \<notin> csv_special \<Longrightarrow> m = AtField \<or> m = InBare \<Longrightarrow>
   csv_read m g fs ls (f @ s) = csv_read (if f = [] then m else InBare) (rev f @ g) fs ls s"
  by (induction f arbitrary: g m) (auto simp: csv_special_def)

lemma csv_read_quoted:
  "csv_read InQuoted g fs ls (double_quotes f @ CHR 0x22 # s) = csv_read AfterQuote (rev f @ g) fs ls s"
  by (induction f arbitrary: g) auto

lemma csv_read_field:
  assumes "c = CHR '','' \<or> c = CHR 0x0A"
  shows "csv_read AtField [] fs ls (csv_field f @ c # s) =
    (if c = CHR '','' then csv_read AtField [] (f # fs) ls s else csv_read AtField [] [] (rev (f # fs) # ls) s)"
proof (cases "fieldNeedsQuotes f")
  case True
  then show ?thesis using assms by (auto simp: csv_field_def csv_read_quoted)
next
  case False
  then have "\<forall>x \<in> set f. x \<notin> csv_special" by (auto simp: fieldNeedsQuotes_def)
  with assms False show ?thesis by (auto simp: csv_field_def csv_read_bare)
qed

lemma csv_read_line:
  "row \<noteq> [] \<Longrightarrow> csv_read AtField [] fs ls (csv_line row @ s) = csv_read AtField [] [] ((rev fs @ row) # ls) s"
  by (induction row arbitrary: fs rule: csv_line.induct) (simp_all add: csv_read_field)

lemma csv_read_lines:
  "\<forall>row \<in> set rows. row \<noteq> [] \<Longrightarrow> csv_read AtField [] [] ls (concat (map csv_line rows)) = Some (rev ls @ rows)"
  by (induction rows arbitrary: ls) (simp_all add: csv_read_line)

text \<open>A text cell never starts a formula.\<close>

lemma sanitizeFormula_inert:
  "sanitizeFormula s = [] \<or> hd (sanitizeFormula s) \<notin> {CHR ''='', CHR ''+'', CHR ''-'', CHR ''@''}"
  by (cases s) (auto simp: sanitizeFormula_def)

lemma sanitizeFormula_keeps: "sanitizeFormula s = s \<or> sanitizeFormula s = CHR 0x09 # s"
  by (cases s) (auto simp: sanitizeFormula_def)

end
