(* ===== verification/Export_Xlsx.thy ===== *)
theory Export_Xlsx
  imports Export
begin

text \<open>
  \<^verbatim>\<open>internal/export/xlsx.go\<close>: the parts of a workbook and the worksheet that is streamed into it. What
  the encoder hands to \<^verbatim>\<open>archive/zip\<close> is kept as the calls it makes; \<open>float_text\<close> is the shortest
  decimal that reads back as the float64 (\<^verbatim>\<open>FormatFloat(x, 'f', -1, 64)\<close>).
\<close>

datatype chunk =
    Bytes string
  | ZipPart string string
  | ZipEntry string time
  | EntryBytes string
  | ZipEnd

section \<open>Text\<close>

text \<open>\<^verbatim>\<open>%.kf\<close> of a number, rounded to the nearest.\<close>

definition fixed :: "nat \<Rightarrow> rat \<Rightarrow> string" where
  "fixed k x =
    (let n = nat \<lfloor>abs x * 10 ^ k + 1 / 2\<rfloor>; m = 10 ^ k;
         sign = (if x < 0 \<and> 0 < n then ''-'' else [])
     in sign @ digits (n div m) @ (if k = 0 then [] else CHR ''.'' # pad0 k (digits (n mod m))))"

function colName_rev :: "int \<Rightarrow> string" where
  "colName_rev i = (if i < 0 then [] else char_of (65 + nat (i mod 26)) # colName_rev (i div 26 - 1))"
  by pat_completeness auto
termination
proof (relation "measure (\<lambda>i. nat (i + 1))")
  fix i :: int
  assume "\<not> i < 0"
  then have "i div 26 \<le> i" by (simp add: int_div_less_self zdiv_mono2 order_trans)
  then show "(i div 26 - 1, i) \<in> measure (\<lambda>i. nat (i + 1))" using \<open>\<not> i < 0\<close> by simp
qed simp

declare colName_rev.simps [simp del]

definition colName :: "int \<Rightarrow> string" where
  "colName i = rev (colName_rev i)"

definition xml_rune :: "string \<Rightarrow> string" where
  "xml_rune p =
    (let r = rune_value p in
     if p = ''&'' then ''&amp;''
     else if p = ''<'' then ''&lt;''
     else if p = ''>'' then ''&gt;''
     else if p = [CHR 0x22] then ''&quot;''
     else if p = [CHR 0x27] then ''&apos;''
     else if r = 9 \<or> r = 10 \<or> r = 13 then p
     else if r < 0x20 \<or> (0x7F \<le> r \<and> r \<le> 0x9F) \<or> r = 0xFFFE \<or> r = 0xFFFF then []
     else if r = RuneError then []
     else p)"

definition xmlEscape :: "string \<Rightarrow> string" where
  "xmlEscape s = concat (map xml_rune (rune_pieces s))"

definition xmlAttr :: "string \<Rightarrow> string" where
  "xmlAttr s = xmlEscape s"

definition sheetTitle :: "string \<Rightarrow> string" where
  "sheetTitle title0 =
    (let title = (if title0 = [] then ''Report'' else title0);
         cleaned = map (\<lambda>p. if p \<in> {'':'', [CHR 0x5C], ''/'', ''?'', ''*'', ''['', '']''} then ''-'' else rune_text p) (rune_pieces title)
     in TrimSpace (concat (take 31 cleaned)))"

definition defaultWidth :: "Column \<Rightarrow> rat" where
  "defaultWidth c =
    (let base = of_nat (rune_count (cn_Header c)) + 4;
         wide = (case cn_Kind c of KindMoney \<Rightarrow> max base 14 | KindDate \<Rightarrow> max base 12 | KindDateTime \<Rightarrow> max base 20
                   | KindText \<Rightarrow> max base 18 | KindInt \<Rightarrow> base)
     in min wide 60)"

section \<open>Serial dates (\<^verbatim>\<open>report.go\<close>)\<close>

definition excelEpoch :: time where
  "excelEpoch = days_of_civil 1899 12 30 * day"

text \<open>\<^verbatim>\<open>Time.Sub\<close> saturates at the bounds of a duration, which are those of an int64 of nanoseconds.\<close>

definition time_Sub :: "time \<Rightarrow> time \<Rightarrow> duration" where
  "time_Sub t u = max (- (2 ^ 63 div 1000)) (min (2 ^ 63 div 1000) (t - u))"

definition excelSerial :: "time \<Rightarrow> rat" where
  "excelSerial t = of_int (time_Sub t excelEpoch) / of_int (3600 * second) / 24"

section \<open>Static parts\<close>

definition lines_text :: "string list \<Rightarrow> string" where
  "lines_text ls = (case ls of [] \<Rightarrow> [] | l # ls \<Rightarrow> l @ concat (map (\<lambda>x. CHR 0x0A # x) ls))"

definition xmlDecl :: string where
  "xmlDecl = ''<?xml version=\"1.0\" encoding=\"UTF-8\" standalone=\"yes\"?>''"

definition contentTypesXML :: string where
  "contentTypesXML = xmlDecl @ lines_text
     [[],
      ''<Types xmlns=\"http://schemas.openxmlformats.org/package/2006/content-types\">'',
      ''  <Default Extension=\"rels\" ContentType=\"application/vnd.openxmlformats-package.relationships+xml\"/>'',
      ''  <Default Extension=\"xml\" ContentType=\"application/xml\"/>'',
      ''  <Override PartName=\"/xl/workbook.xml\" ContentType=\"application/vnd.openxmlformats-officedocument.spreadsheetml.sheet.main+xml\"/>'',
      ''  <Override PartName=\"/xl/worksheets/sheet1.xml\" ContentType=\"application/vnd.openxmlformats-officedocument.spreadsheetml.worksheet+xml\"/>'',
      ''  <Override PartName=\"/xl/styles.xml\" ContentType=\"application/vnd.openxmlformats-officedocument.spreadsheetml.styles+xml\"/>'',
      ''</Types>'']"

definition rootRelsXML :: string where
  "rootRelsXML = xmlDecl @ lines_text
     [[],
      ''<Relationships xmlns=\"http://schemas.openxmlformats.org/package/2006/relationships\">'',
      ''  <Relationship Id=\"rId1\" Type=\"http://schemas.openxmlformats.org/officeDocument/2006/relationships/officeDocument\" Target=\"xl/workbook.xml\"/>'',
      ''</Relationships>'']"

definition workbookXML :: "string \<Rightarrow> string" where
  "workbookXML name = xmlDecl @ lines_text
     [[],
      ''<workbook xmlns=\"http://schemas.openxmlformats.org/spreadsheetml/2006/main\"'',
      ''          xmlns:r=\"http://schemas.openxmlformats.org/officeDocument/2006/relationships\">'',
      ''  <sheets><sheet name=\"''] @ name @ lines_text
     [''\" sheetId=\"1\" r:id=\"rId1\"/></sheets>'',
      ''</workbook>'']"

definition workbookRelsXML :: string where
  "workbookRelsXML = xmlDecl @ lines_text
     [[],
      ''<Relationships xmlns=\"http://schemas.openxmlformats.org/package/2006/relationships\">'',
      ''  <Relationship Id=\"rId1\" Type=\"http://schemas.openxmlformats.org/officeDocument/2006/relationships/worksheet\" Target=\"worksheets/sheet1.xml\"/>'',
      ''  <Relationship Id=\"rId2\" Type=\"http://schemas.openxmlformats.org/officeDocument/2006/relationships/styles\" Target=\"styles.xml\"/>'',
      ''</Relationships>'']"

definition stylesXML :: string where
  "stylesXML = xmlDecl @ lines_text
     [[],
      ''<styleSheet xmlns=\"http://schemas.openxmlformats.org/spreadsheetml/2006/main\">'',
      ''  <numFmts count=\"3\">'',
      ''    <numFmt numFmtId=\"164\" formatCode=\"yyyy'' @ [CHR 0x5C] @ ''-mm'' @ [CHR 0x5C] @ ''-dd\"/>'',
      ''    <numFmt numFmtId=\"165\" formatCode=\"yyyy'' @ [CHR 0x5C] @ ''-mm'' @ [CHR 0x5C] @ ''-dd'' @ [CHR 0x5C] @ '' hh:mm\"/>'',
      ''    <numFmt numFmtId=\"166\" formatCode=\"#,##0.00\"/>'',
      ''  </numFmts>'',
      ''  <fonts count=\"2\">'',
      ''    <font><sz val=\"11\"/><name val=\"Calibri\"/></font>'',
      ''    <font><b/><sz val=\"11\"/><color rgb=\"FFFFFFFF\"/><name val=\"Calibri\"/></font>'',
      ''  </fonts>'',
      ''  <fills count=\"3\">'',
      ''    <fill><patternFill patternType=\"none\"/></fill>'',
      ''    <fill><patternFill patternType=\"gray125\"/></fill>'',
      ''    <fill><patternFill patternType=\"solid\"><fgColor rgb=\"FF1F3864\"/><bgColor indexed=\"64\"/></patternFill></fill>'',
      ''  </fills>'',
      ''  <borders count=\"1\"><border><left/><right/><top/><bottom/><diagonal/></border></borders>'',
      ''  <cellStyleXfs count=\"1\"><xf numFmtId=\"0\" fontId=\"0\" fillId=\"0\" borderId=\"0\"/></cellStyleXfs>'',
      ''  <cellXfs count=\"6\">'',
      ''    <xf numFmtId=\"0\"   fontId=\"0\" fillId=\"0\" borderId=\"0\" xfId=\"0\"/>'',
      ''    <xf numFmtId=\"0\"   fontId=\"1\" fillId=\"2\" borderId=\"0\" xfId=\"0\" applyFont=\"1\" applyFill=\"1\"/>'',
      ''    <xf numFmtId=\"164\" fontId=\"0\" fillId=\"0\" borderId=\"0\" xfId=\"0\" applyNumberFormat=\"1\"/>'',
      ''    <xf numFmtId=\"165\" fontId=\"0\" fillId=\"0\" borderId=\"0\" xfId=\"0\" applyNumberFormat=\"1\"/>'',
      ''    <xf numFmtId=\"166\" fontId=\"0\" fillId=\"0\" borderId=\"0\" xfId=\"0\" applyNumberFormat=\"1\"/>'',
      ''    <xf numFmtId=\"1\"   fontId=\"0\" fillId=\"0\" borderId=\"0\" xfId=\"0\" applyNumberFormat=\"1\"/>'',
      ''  </cellXfs>'',
      ''  <!-- The \"Normal\" named style. Excel tolerates its absence; other readers'',
      ''       warn that the workbook has no default style and substitute their own,'',
      ''       which changes the font of every unstyled cell. -->'',
      ''  <cellStyles count=\"1\"><cellStyle name=\"Normal\" xfId=\"0\" builtinId=\"0\"/></cellStyles>'',
      ''</styleSheet>'']"

section \<open>Cells\<close>

definition style_attr :: "nat \<Rightarrow> string" where
  "style_attr style = (if style = 0 then [] else '' s=\"'' @ digits style @ ''\"'')"

definition styleHeader :: nat where "styleHeader = 1"
definition styleDate :: nat where "styleDate = 2"
definition styleDateTime :: nat where "styleDateTime = 3"
definition styleMoney :: nat where "styleMoney = 4"
definition styleInt :: nat where "styleInt = 5"

definition writeInlineString :: "string \<Rightarrow> nat \<Rightarrow> nat \<Rightarrow> string \<Rightarrow> string" where
  "writeInlineString col row style t =
    ''<c r=\"'' @ col @ digits row @ ''\" t=\"inlineStr\"'' @ style_attr style @ ''><is><t xml:space=\"preserve\">'' @
    xmlEscape (sanitizeFormula t) @ ''</t></is></c>''"

definition writeNumber :: "string \<Rightarrow> nat \<Rightarrow> nat \<Rightarrow> string \<Rightarrow> string" where
  "writeNumber col row style v =
    ''<c r=\"'' @ col @ digits row @ ''\"'' @ style_attr style @ ''><v>'' @ v @ ''</v></c>''"

definition xlsx_cell :: "(rat \<Rightarrow> string) \<Rightarrow> nat \<Rightarrow> nat \<Rightarrow> Cell \<Rightarrow> string" where
  "xlsx_cell float_text row i cell =
    (let ref = colName (int i) in
     case cell of
       TextCell t \<Rightarrow> if t = [] then [] else writeInlineString ref row 0 t
     | MoneyCell m \<Rightarrow> writeNumber ref row styleMoney (Money_String m)
     | IntCell v \<Rightarrow> writeNumber ref row styleInt (itoa (sint v))
     | DateCell t \<Rightarrow> if t = zero_time then [] else writeNumber ref row styleDate (float_text (excelSerial t))
     | DateTimeCell t \<Rightarrow> if t = zero_time then [] else writeNumber ref row styleDateTime (float_text (excelSerial t)))"

section \<open>The encoder\<close>

record XLSXEncoder =
  xe_cols :: "Column list"
  xe_rowIndex :: nat
  xe_closed :: bool

definition column_xml :: "nat \<Rightarrow> Column \<Rightarrow> string" where
  "column_xml i c =
    (let width = (if cn_Width c \<le> 0 then defaultWidth c else cn_Width c) in
     ''<col min=\"'' @ digits (i + 1) @ ''\" max=\"'' @ digits (i + 1) @ ''\" width=\"'' @ fixed 2 width @ ''\" customWidth=\"1\"/>'')"

definition sheetPrologue :: "Column list \<Rightarrow> string" where
  "sheetPrologue cols =
    xmlDecl @ ''<worksheet xmlns=\"http://schemas.openxmlformats.org/spreadsheetml/2006/main\">'' @
    ''<sheetViews><sheetView workbookViewId=\"0\">'' @
    ''<pane ySplit=\"1\" topLeftCell=\"A2\" activePane=\"bottomLeft\" state=\"frozen\"/>'' @
    ''</sheetView></sheetViews>'' @ ''<sheetFormatPr defaultRowHeight=\"15\"/>'' @ ''<cols>'' @
    concat (map (\<lambda>(i, c). column_xml i c) (enumerate 0 cols)) @ ''</cols>'' @ ''<sheetData>''"

definition headerRow :: "Column list \<Rightarrow> string" where
  "headerRow cols =
    ''<row r=\"1\" s=\"1\" customFormat=\"1\">'' @
    concat (map (\<lambda>(i, c). writeInlineString (colName (int i)) 1 styleHeader (cn_Header c)) (enumerate 0 cols)) @ ''</row>''"

definition XLSX_Open :: "XLSXEncoder \<Rightarrow> Report \<Rightarrow> XLSXEncoder \<times> chunk list" where
  "XLSX_Open e r =
    (e\<lparr>xe_cols := rp_Columns r, xe_rowIndex := 1\<rparr>,
     [ZipPart ''[Content_Types].xml'' contentTypesXML, ZipPart ''_rels/.rels'' rootRelsXML,
      ZipPart ''xl/workbook.xml'' (workbookXML (xmlAttr (sheetTitle (rp_Title r)))),
      ZipPart ''xl/_rels/workbook.xml.rels'' workbookRelsXML, ZipPart ''xl/styles.xml'' stylesXML,
      ZipEntry ''xl/worksheets/sheet1.xml'' (rp_Generated r),
      EntryBytes (sheetPrologue (rp_Columns r)), EntryBytes (headerRow (rp_Columns r))])"

definition xlsx_row :: "(rat \<Rightarrow> string) \<Rightarrow> nat \<Rightarrow> Cell list \<Rightarrow> string" where
  "xlsx_row float_text n row =
    ''<row r=\"'' @ digits n @ ''\">'' @ concat (map (\<lambda>(i, c). xlsx_cell float_text n i c) (enumerate 0 row)) @ ''</row>''"

definition XLSX_Write :: "(rat \<Rightarrow> string) \<Rightarrow> XLSXEncoder \<Rightarrow> Cell list \<Rightarrow> (err, XLSXEncoder \<times> chunk list) res" where
  "XLSX_Write float_text e row =
    (if length row \<noteq> length (xe_cols e) then Inl (row_mismatch (length row) (length (xe_cols e)))
     else let n = xe_rowIndex e + 1 in Inr (e\<lparr>xe_rowIndex := n\<rparr>, [EntryBytes (xlsx_row float_text n row)]))"

definition XLSX_Close :: "XLSXEncoder \<Rightarrow> XLSXEncoder \<times> chunk list" where
  "XLSX_Close e =
    (if xe_closed e then (e, [])
     else (e\<lparr>xe_closed := True\<rparr>,
       [EntryBytes (''</sheetData>'' @
          (if 1 \<le> xe_rowIndex e \<and> xe_cols e \<noteq> []
           then ''<autoFilter ref=\"A1:'' @ colName (int (length (xe_cols e)) - 1) @ digits (xe_rowIndex e) @ ''\"/>'' else []) @
          ''</worksheet>''), ZipEnd]))"

section \<open>Columns have names of their own\<close>

text \<open>The number a column label stands for: bijective base 26, read from the left.\<close>

fun col_value :: "string \<Rightarrow> int" where
  "col_value [] = - 1"
| "col_value (c # s) = int (of_char c) - 65 + 26 * (col_value s + 1)"

lemma of_char_of_small: "n < 256 \<Longrightarrow> (of_char (char_of n :: char) :: nat) = n"
  by (simp add: of_char_of)

lemma col_value_rev: "- 1 \<le> i \<Longrightarrow> col_value (colName_rev i) = i"
proof (induction i rule: colName_rev.induct)
  case (1 i)
  show ?case
  proof (cases "i < 0")
    case False
    have "col_value (colName_rev (i div 26 - 1)) = i div 26 - 1" using 1 False by (simp add: pos_imp_zdiv_nonneg_iff)
    moreover have "(of_char (char_of (65 + nat (i mod 26)) :: char) :: nat) = 65 + nat (i mod 26)"
      by (rule of_char_of_small) (simp add: nat_less_iff)
    moreover have "colName_rev i = char_of (65 + nat (i mod 26)) # colName_rev (i div 26 - 1)"
      using False by (simp add: colName_rev.simps [of i])
    ultimately show ?thesis by simp
  qed (use 1 in \<open>simp add: colName_rev.simps [of i]\<close>)
qed

lemma colName_inj: "0 \<le> i \<Longrightarrow> 0 \<le> j \<Longrightarrow> colName i = colName j \<Longrightarrow> i = j"
proof -
  assume "0 \<le> i" "0 \<le> j" "colName i = colName j"
  have "colName_rev i = colName_rev j" using \<open>colName i = colName j\<close> unfolding colName_def by (rule rev_is_rev_conv [THEN iffD1])
  moreover have "col_value (colName_rev i) = i" by (rule col_value_rev) (use \<open>0 \<le> i\<close> in linarith)
  moreover have "col_value (colName_rev j) = j" by (rule col_value_rev) (use \<open>0 \<le> j\<close> in linarith)
  ultimately show "i = j" by metis
qed

section \<open>Escaped text reads back\<close>

text \<open>A reader of XML character data: the predefined entities, and no markup.\<close>

fun xml_entity :: "string \<Rightarrow> (char \<times> nat) option" where
  "xml_entity s =
    (if take 4 s = ''amp;'' then Some (CHR ''&'', 4)
     else if take 3 s = ''lt;'' then Some (CHR ''<'', 3)
     else if take 3 s = ''gt;'' then Some (CHR ''>'', 3)
     else if take 5 s = ''quot;'' then Some (CHR 0x22, 5)
     else if take 5 s = ''apos;'' then Some (CHR 0x27, 5)
     else None)"

function xml_read :: "string \<Rightarrow> string option" where
  "xml_read [] = Some []"
| "xml_read (c # s) =
    (if c = CHR ''<'' then None
     else if c = CHR ''&''
     then (case xml_entity s of None \<Rightarrow> None | Some (x, n) \<Rightarrow> map_option ((#) x) (xml_read (drop n s)))
     else map_option ((#) c) (xml_read s))"
  by pat_completeness auto
termination
  by (relation "measure length") auto

definition xml_kept :: "string \<Rightarrow> bool" where
  "xml_kept p = (xml_rune p \<noteq> [])"

lemma xml_read_plain: "CHR ''<'' \<notin> set p \<Longrightarrow> CHR ''&'' \<notin> set p \<Longrightarrow> xml_read (p @ s) = map_option ((@) p) (xml_read s)"
  by (induction p; cases "xml_read s") (auto simp del: xml_entity.simps)

lemma xml_read_rune:
  assumes "(\<exists>c. p = [c]) \<or> (\<forall>c \<in> set p. 128 \<le> (of_char c :: nat))"
  shows "xml_read (xml_rune p @ s) = map_option ((@) (if xml_kept p then p else [])) (xml_read s)"
proof -
  consider "p = ''&''" | "p = ''<''" | "p = ''>''" | "p = [CHR 0x22]" | "p = [CHR 0x27]"
    | "p \<noteq> ''&''" "p \<noteq> ''<''" "p \<noteq> ''>''" "p \<noteq> [CHR 0x22]" "p \<noteq> [CHR 0x27]" by blast
  then show ?thesis
  proof cases
    case 6
    then have "xml_rune p = (if xml_kept p then p else [])" by (auto simp: xml_kept_def xml_rune_def Let_def)
    moreover have "CHR ''<'' \<notin> set p" "CHR ''&'' \<notin> set p" using assms 6 by auto
    ultimately show ?thesis by (cases "xml_read s") (simp_all add: xml_read_plain)
  qed (cases "xml_read s"; simp add: xml_rune_def xml_kept_def)+
qed

lemma xml_read_escape: "xml_read (xmlEscape s) = Some (concat (filter xml_kept (rune_pieces s)))"
proof -
  have "\<forall>p \<in> set ps. (\<exists>c. p = [c]) \<or> (\<forall>c \<in> set p. 128 \<le> (of_char c :: nat)) \<Longrightarrow>
    xml_read (concat (map xml_rune ps)) = Some (concat (filter xml_kept ps))" for ps
    by (induction ps) (simp_all add: xml_read_rune)
  then show ?thesis unfolding xmlEscape_def using rune_pieces_bytes by blast
qed

end
