(* ===== verification/Export_Pdf.thy ===== *)
theory Export_Pdf
  imports Export_Xlsx
begin

text \<open>
  \<^verbatim>\<open>internal/export/pdf.go\<close>: the paginated table, the objects it is written as and the cross-reference
  table at the end. Coordinates are rationals, the code's are float64. \<open>pe_out\<close> is what went through the
  counting writer since the document was opened, so \<^verbatim>\<open>e.w.n\<close> is its length.
\<close>

section \<open>Measures\<close>

definition pageWidth :: rat where "pageWidth = 842"
definition pageHeight :: rat where "pageHeight = 595"
definition marginX :: rat where "marginX = 28"
definition marginY :: rat where "marginY = 28"
definition titleSize :: rat where "titleSize = 14"
definition metaSize :: rat where "metaSize = 8"
definition headerSize :: rat where "headerSize = 8"
definition bodySize :: rat where "bodySize = 8"
definition rowHeight :: rat where "rowHeight = 13"
definition headerHeight :: rat where "headerHeight = 16"

section \<open>Text\<close>

definition helveticaWidths :: "nat list" where
  "helveticaWidths =
    [278, 278, 355, 556, 556, 889, 667, 191, 333, 333, 389, 584, 278, 333, 278, 278,
     556, 556, 556, 556, 556, 556, 556, 556, 556, 556, 278, 278, 584, 584, 584, 556,
     1015, 667, 667, 722, 722, 667, 611, 778, 722, 278, 500, 667, 556, 833, 722, 778,
     667, 778, 722, 667, 611, 722, 667, 944, 667, 667, 611, 278, 278, 278, 469, 556,
     333, 556, 556, 500, 556, 556, 278, 556, 556, 222, 222, 500, 222, 833, 556, 556,
     556, 556, 333, 500, 278, 556, 500, 722, 500, 500, 500, 334, 260, 334, 584]"

definition runeWidth :: "nat \<Rightarrow> nat" where
  "runeWidth r =
    (if 32 \<le> r \<and> r \<le> 126 then helveticaWidths ! (r - 32)
     else if 0xA0 \<le> r \<and> r \<le> 0xFF then 556
     else helveticaWidths ! (63 - 32))"

definition pieces_width :: "string list \<Rightarrow> rat \<Rightarrow> rat" where
  "pieces_width ps sz = of_nat (sum_list (map (\<lambda>p. runeWidth (rune_value p)) ps)) * sz / 1000"

definition textWidth :: "string \<Rightarrow> rat \<Rightarrow> rat" where
  "textWidth s sz = pieces_width (rune_pieces s) sz"

text \<open>The loop of \<^verbatim>\<open>fit\<close>: the runes kept so far, in reverse, and their width.\<close>

fun fit_loop :: "string \<Rightarrow> rat \<Rightarrow> rat \<Rightarrow> string list \<Rightarrow> rat \<Rightarrow> string list \<Rightarrow> string" where
  "fit_loop s width sz kept acc [] = s"
| "fit_loop s width sz kept acc (p # ps) =
    (let w = of_nat (runeWidth (rune_value p)) * sz / 1000 in
     if width < acc + w + textWidth ''...'' sz
     then (if kept = [] then [] else concat (map rune_text (rev kept)) @ ''...'')
     else fit_loop s width sz (p # kept) (acc + w) ps)"

definition fit :: "string \<Rightarrow> rat \<Rightarrow> rat \<Rightarrow> string" where
  "fit s width sz =
    (if width \<le> 0 then [] else if textWidth s sz \<le> width then s
     else fit_loop s width sz [] 0 (rune_pieces s))"

definition pdf_rune :: "string \<Rightarrow> string" where
  "pdf_rune p =
    (let r = rune_value p in
     if p = [CHR 0x5C] then [CHR 0x5C, CHR 0x5C]
     else if p = ''('' then CHR 0x5C # ''(''
     else if p = '')'' then CHR 0x5C # '')''
     else if r = 10 \<or> r = 13 \<or> r = 9 then '' ''
     else if r < 0x20 then []
     else if r < 0x7F then p
     else if 0xA0 \<le> r \<and> r \<le> 0xFF then [char_of r]
     else ''?'')"

definition pdfString :: "string \<Rightarrow> string" where
  "pdfString s = concat (map pdf_rune (rune_pieces s))"

definition pdfValue :: "Cell \<Rightarrow> string" where
  "pdfValue c =
    (case c of
       TextCell t \<Rightarrow> t
     | MoneyCell m \<Rightarrow> Money_String m @ '' '' @ Currency m
     | IntCell v \<Rightarrow> itoa (sint v)
     | DateCell t \<Rightarrow> if t = zero_time then [] else FormatDate t
     | DateTimeCell t \<Rightarrow> if t = zero_time then [] else FormatDate t @ '' '' @ FormatClock t)"

section \<open>The encoder\<close>

record PDFEncoder =
  pe_out :: string
  pe_rep :: Report
  pe_offsets :: "nat list"
  pe_nextObj :: nat
  pe_pageObjs :: "nat list"
  pe_page :: string
  pe_pageRows :: nat
  pe_pageNum :: nat
  pe_colX :: "rat list"
  pe_colW :: "rat list"
  pe_y :: rat
  pe_closed :: bool
  pe_openPages :: bool

definition nl :: string where "nl = [CHR 0x0A]"

definition pe_write :: "string \<Rightarrow> PDFEncoder \<Rightarrow> PDFEncoder" where
  "pe_write s e = e\<lparr>pe_out := pe_out e @ s\<rparr>"

definition draw :: "string \<Rightarrow> PDFEncoder \<Rightarrow> PDFEncoder" where
  "draw s e = e\<lparr>pe_page := pe_page e @ s\<rparr>"

definition down :: "rat \<Rightarrow> PDFEncoder \<Rightarrow> PDFEncoder" where
  "down dy e = e\<lparr>pe_y := pe_y e - dy\<rparr>"

definition recordOffset :: "nat \<Rightarrow> PDFEncoder \<Rightarrow> PDFEncoder" where
  "recordOffset num e =
    e\<lparr>pe_offsets := (pe_offsets e @ replicate (num + 1 - length (pe_offsets e)) 0)[num := length (pe_out e)]\<rparr>"

definition writeObject :: "nat \<Rightarrow> string \<Rightarrow> PDFEncoder \<Rightarrow> PDFEncoder" where
  "writeObject num body e = pe_write (digits num @ '' 0 obj'' @ nl @ body @ nl @ ''endobj'' @ nl) (recordOffset num e)"

definition writeStreamObject :: "nat \<Rightarrow> string \<Rightarrow> PDFEncoder \<Rightarrow> PDFEncoder" where
  "writeStreamObject num data e =
    pe_write (nl @ ''endstream'' @ nl @ ''endobj'' @ nl) (pe_write data
      (pe_write (digits num @ '' 0 obj'' @ nl @ ''<< /Length '' @ digits (length data) @ '' >>'' @ nl @ ''stream'' @ nl)
        (recordOffset num e)))"

definition textColored :: "rat \<Rightarrow> rat \<Rightarrow> rat \<Rightarrow> bool \<Rightarrow> rat \<Rightarrow> rat \<Rightarrow> rat \<Rightarrow> string \<Rightarrow> PDFEncoder \<Rightarrow> PDFEncoder" where
  "textColored x y sz bold r g b s e =
    (if s = [] then e
     else draw (fixed 3 r @ '' '' @ fixed 3 g @ '' '' @ fixed 3 b @ '' rg'' @ nl @ ''BT /'' @ (if bold then ''F2'' else ''F1'') @ '' '' @
       fixed 1 sz @ '' Tf '' @ fixed 2 x @ '' '' @ fixed 2 y @ '' Td ('' @ pdfString s @ '') Tj ET'' @ nl) e)"

definition pe_text :: "rat \<Rightarrow> rat \<Rightarrow> rat \<Rightarrow> bool \<Rightarrow> string \<Rightarrow> PDFEncoder \<Rightarrow> PDFEncoder" where
  "pe_text x y sz bold s e = textColored x y sz bold 0 0 0 s e"

definition column_weight :: "Column \<Rightarrow> rat" where
  "column_weight c = (if cn_Width c \<le> 0 then defaultWidth c else cn_Width c)"

fun place_columns :: "rat \<Rightarrow> rat list \<Rightarrow> rat list" where
  "place_columns x [] = []"
| "place_columns x (w # ws) = x # place_columns (x + w) ws"

definition layoutColumns :: "PDFEncoder \<Rightarrow> PDFEncoder" where
  "layoutColumns e =
    (let weights = map column_weight (rp_Columns (pe_rep e));
         widths = map (\<lambda>w. (pageWidth - 2 * marginX) * (w / sum_list weights)) weights
     in e\<lparr>pe_colX := place_columns marginX widths, pe_colW := widths\<rparr>)"

definition band :: "string \<Rightarrow> rat \<Rightarrow> rat \<Rightarrow> string" where
  "band colour y h =
    colour @ '' rg'' @ nl @ fixed 2 marginX @ '' '' @ fixed 2 y @ '' '' @ fixed 2 (pageWidth - 2 * marginX) @ '' '' @ fixed 2 h @ '' re f'' @ nl"

definition header_cell :: "nat \<Rightarrow> PDFEncoder \<Rightarrow> PDFEncoder" where
  "header_cell i e =
    textColored (pe_colX e ! i + 3) (pe_y e - headerHeight + 8) headerSize True 1 1 1
      (fit (cn_Header (rp_Columns (pe_rep e) ! i)) (pe_colW e ! i - 6) headerSize) e"

definition writeColumnHeaders :: "PDFEncoder \<Rightarrow> PDFEncoder" where
  "writeColumnHeaders e =
    down (headerHeight + 2)
      (fold header_cell [0..<length (rp_Columns (pe_rep e))]
        (draw (band ''0.122 0.220 0.392'' (pe_y e - headerHeight + 4) headerHeight) e))"

text \<open>A line at the margin, below what is there.\<close>

definition margin_line :: "rat \<Rightarrow> rat \<Rightarrow> bool \<Rightarrow> string \<Rightarrow> PDFEncoder \<Rightarrow> PDFEncoder" where
  "margin_line dy sz bold s e = (let e1 = down dy e in pe_text marginX (pe_y e1) sz bold s e1)"

definition beginPage :: "PDFEncoder \<Rightarrow> PDFEncoder" where
  "beginPage e0 =
    (let rep = pe_rep e0;
         e1 = e0\<lparr>pe_page := [], pe_pageRows := 0, pe_pageNum := pe_pageNum e0 + 1, pe_openPages := True, pe_y := pageHeight - marginY\<rparr>;
         e2 = margin_line titleSize titleSize True (rp_Title rep) e1;
         e3 = (if rp_Subtitle rep = [] then e2 else margin_line (metaSize + 3) metaSize False (rp_Subtitle rep) e2);
         e4 = margin_line (metaSize + 3) metaSize False
                (rp_TenantName rep @ '' '' @ '' '' @ [CHR 0xC2, CHR 0xB7] @ '' '' @ '' generated '' @
                 FormatDate (rp_Generated rep) @ '' '' @ FormatClock (rp_Generated rep) @ '' UTC'') e3
     in writeColumnHeaders (down 10 e4))"

definition page_footer :: "PDFEncoder \<Rightarrow> PDFEncoder" where
  "page_footer e =
    (let footer = ''page '' @ digits (pe_pageNum e) in
     textColored (pageWidth - marginX - textWidth footer metaSize) marginY metaSize False (4/10) (4/10) (4/10) footer e)"

definition flushPage :: "PDFEncoder \<Rightarrow> PDFEncoder" where
  "flushPage e0 =
    (if \<not> pe_openPages e0 then e0
     else
       let e1 = page_footer (e0\<lparr>pe_openPages := False\<rparr>);
           contentObj = pe_nextObj e1;
           pageObj = contentObj + 1;
           e2 = writeStreamObject contentObj (pe_page e1) (e1\<lparr>pe_nextObj := contentObj + 2\<rparr>);
           e3 = writeObject pageObj (''<< /Type /Page /Parent 3 0 R /MediaBox [0 0 '' @ fixed 0 pageWidth @ '' '' @ fixed 0 pageHeight @
                  ''] /Resources << /Font << /F1 1 0 R /F2 2 0 R >> >> /Contents '' @ digits contentObj @ '' 0 R >>'') e2
       in e3\<lparr>pe_pageObjs := pe_pageObjs e3 @ [pageObj], pe_page := []\<rparr>)"

definition PDF_Open :: "PDFEncoder \<Rightarrow> Report \<Rightarrow> PDFEncoder" where
  "PDF_Open e r =
    (let e1 = layoutColumns (e\<lparr>pe_out := [], pe_rep := r, pe_offsets := replicate 5 0, pe_nextObj := 5\<rparr>);
         e2 = pe_write (''%PDF-1.7'' @ nl @ ''%'' @ [CHR 0xE2, CHR 0xE3, CHR 0xCF, CHR 0xD3] @ nl) e1;
         e3 = writeObject 1 ''<< /Type /Font /Subtype /Type1 /BaseFont /Helvetica /Encoding /WinAnsiEncoding >>'' e2;
         e4 = writeObject 2 ''<< /Type /Font /Subtype /Type1 /BaseFont /Helvetica-Bold /Encoding /WinAnsiEncoding >>'' e3
     in beginPage e4)"

definition right_aligned :: "Cell \<Rightarrow> bool" where
  "right_aligned c = (case c of MoneyCell _ \<Rightarrow> True | IntCell _ \<Rightarrow> True | _ \<Rightarrow> False)"

definition body_cell :: "nat \<times> Cell \<Rightarrow> PDFEncoder \<Rightarrow> PDFEncoder" where
  "body_cell = (\<lambda>(i, cell) e.
    let t0 = pdfValue cell in
    if t0 = [] then e
    else
      let t = fit t0 (pe_colW e ! i - 6) bodySize;
          x = (if right_aligned cell then pe_colX e ! i + pe_colW e ! i - 3 - textWidth t bodySize else pe_colX e ! i + 3)
      in pe_text x (pe_y e - rowHeight + 7) bodySize False t e)"

definition PDF_Write :: "PDFEncoder \<Rightarrow> Cell list \<Rightarrow> (err, PDFEncoder) res" where
  "PDF_Write e0 row =
    (if length row \<noteq> length (rp_Columns (pe_rep e0)) then Inl (row_mismatch (length row) (length (rp_Columns (pe_rep e0))))
     else
       let e1 = (if pe_y e0 - rowHeight < marginY + 16 then beginPage (flushPage e0) else e0);
           e2 = (if pe_pageRows e1 mod 2 = 1 then draw (band ''0.949 0.953 0.961'' (pe_y e1 - rowHeight + 3) rowHeight) e1 else e1);
           e3 = fold body_cell (enumerate 0 row) e2
       in Inr (down rowHeight (e3\<lparr>pe_pageRows := pe_pageRows e3 + 1\<rparr>)))"

definition xref_line :: "nat \<Rightarrow> string" where
  "xref_line off = pad0 10 (digits off) @ '' 00000 n '' @ nl"

definition xref_table :: "nat list \<Rightarrow> nat \<Rightarrow> string" where
  "xref_table offsets sz =
    ''xref'' @ nl @ ''0 '' @ digits sz @ nl @ ''0000000000 65535 f '' @ nl @
    concat (map (\<lambda>i. xref_line (if i < length offsets then offsets ! i else 0)) [1..<sz])"

definition writeXref :: "PDFEncoder \<Rightarrow> PDFEncoder" where
  "writeXref e =
    (let start = length (pe_out e); sz = pe_nextObj e in
     pe_write (xref_table (pe_offsets e) sz @ ''trailer'' @ nl @ ''<< /Size '' @ digits sz @ '' /Root 4 0 R >>'' @ nl @
       ''startxref'' @ nl @ digits start @ nl @ ''%%EOF'' @ nl) e)"

fun spaced :: "string list \<Rightarrow> string" where
  "spaced [] = []"
| "spaced [s] = s"
| "spaced (s # t # ss) = s @ '' '' @ spaced (t # ss)"

definition PDF_Close :: "PDFEncoder \<Rightarrow> PDFEncoder" where
  "PDF_Close e0 =
    (if pe_closed e0 then e0
     else
       let e1 = flushPage (e0\<lparr>pe_closed := True\<rparr>);
           e2 = (if pe_pageObjs e1 = []
                 then (let e = beginPage e1 in
                   flushPage (pe_text marginX (pe_y e - 20) bodySize False (''No claims matched this report'' @ [CHR 0x27] @ ''s filters.'') e))
                 else e1);
           kids = map (\<lambda>obj. digits obj @ '' 0 R'') (pe_pageObjs e2);
           e3 = writeObject 3 (''<< /Type /Pages /Count '' @ digits (length kids) @ '' /Kids ['' @ spaced kids @ ''] >>'') e2;
           e4 = writeObject 4 ''<< /Type /Catalog /Pages 3 0 R >>'' e3
       in writeXref e4)"

definition new_pdf :: PDFEncoder where
  "new_pdf = \<lparr>pe_out = [], pe_rep = \<lparr>rp_Title = [], rp_Subtitle = [], rp_Columns = [], rp_Generated = zero_time, rp_TenantName = []\<rparr>,
     pe_offsets = [], pe_nextObj = 0, pe_pageObjs = [], pe_page = [], pe_pageRows = 0, pe_pageNum = 0, pe_colX = [], pe_colW = [],
     pe_y = 0, pe_closed = False, pe_openPages = False\<rparr>"

end
