(* ===== verification/Http.thy ===== *)
theory Http
  imports Attachment_Service Org_Service Billing_Service Auth_Service
begin

text \<open>
  \<^verbatim>\<open>internal/transport/http/handler/response.go\<close>: what the program uses of a request, the
  response envelope, the mapping of errors to status codes, the decoding of a JSON body and the reading
  of query parameters. The JSON decoder is a parameter: on a body it delivers a value and the rest of
  the stream, or one of the failures the code distinguishes.
\<close>

record Request =
  rq_Header :: "string \<Rightarrow> string"
  rq_Query :: "string \<Rightarrow> string list"
  rq_Cookie :: "string \<Rightarrow> string option"
  rq_Body :: string
  rq_ContentLength :: int
  rq_TLS :: bool
  rq_RemoteAddr :: string
  rq_ID :: string

text \<open>The text of a response: a constant of the program, or what \<^verbatim>\<open>err.Error()\<close> gives.\<close>

datatype message = Fixed string | ErrorText err

record errorBody =
  eb_Status :: int
  eb_Message :: message
  eb_Fields :: "FieldError list"
  eb_TraceID :: string

datatype 'p body = NoBody | Payload 'p | ErrorBody errorBody

record Cookie =
  ck_Name :: string
  ck_Value :: string
  ck_Path :: string
  ck_HttpOnly :: bool
  ck_Secure :: bool
  ck_MaxAge :: int

record 'p Response =
  rs_Status :: int
  rs_Headers :: "(string \<times> string) list"
  rs_Cookies :: "Cookie list"
  rs_Body :: "'p body"

text \<open>Every cookie the program sets is \<^verbatim>\<open>SameSite=Lax\<close>.\<close>

definition json_headers :: "(string \<times> string) list" where
  "json_headers = [(''Content-Type'', ''application/json; charset=utf-8''), (''X-Content-Type-Options'', ''nosniff'')]"

definition writeJSON :: "int \<Rightarrow> 'p body \<Rightarrow> 'p Response" where
  "writeJSON status payload = \<lparr>rs_Status = status, rs_Headers = json_headers, rs_Cookies = [], rs_Body = payload\<rparr>"

definition WriteHeader :: "int \<Rightarrow> 'p Response" where
  "WriteHeader status = \<lparr>rs_Status = status, rs_Headers = [], rs_Cookies = [], rs_Body = NoBody\<rparr>"

section \<open>Errors\<close>

fun planLimit :: "err \<Rightarrow> bool" where
  "planLimit (ErrPlanLimit p) = True"
| "planLimit _ = False"

definition classify :: "err \<Rightarrow> int \<times> message" where
  "classify err =
    (if errors_is err ErrNotFound then (404, Fixed ''not found'')
     else if errors_is err ErrForbidden then (403, ErrorText err)
     else if errors_is err ErrConflict \<or> errors_is err ErrStaleWrite then (409, ErrorText err)
     else if errors_is err ErrValidation then (422, ErrorText err)
     else if planLimit err then (402, ErrorText err)
     else if errors_is err ErrExportTooLarge then (413, ErrorText err)
     else if errors_is err ErrStorageDisabled then (501, ErrorText err)
     else if errors_is err ErrStorageUnavailable then (503, Fixed ''receipt storage is temporarily unavailable'')
     else if errors_is err ErrGatewayUnavailable then (503, Fixed ''the payment service is temporarily unavailable'')
     else if errors_is err ErrGatewayRejected then (502, ErrorText err)
     else if errors_is err ErrTenantMismatch \<or> errors_is err ErrNoTenantContext then (500, Fixed ''internal server error'')
     else if errors_is err ErrNoSubject then (500, Fixed ''internal server error'')
     else (500, Fixed ''internal server error''))"

definition field_response :: "Request \<Rightarrow> FieldError list \<Rightarrow> 'p Response" where
  "field_response r fs =
    writeJSON 422 (ErrorBody \<lparr>eb_Status = 422, eb_Message = Fixed ''the request could not be processed'', eb_Fields = fs, eb_TraceID = rq_ID r\<rparr>)"

definition writeError :: "Request \<Rightarrow> err \<Rightarrow> 'p Response" where
  "writeError r err =
    (case err of
       FieldErrs fs \<Rightarrow> field_response r fs
     | FieldErr f \<Rightarrow> field_response r [f]
     | _ \<Rightarrow>
         (let (status, message0) = classify err;
              message = (if 500 \<le> status then Fixed ''internal server error'' else message0)
          in writeJSON status (ErrorBody \<lparr>eb_Status = status, eb_Message = message, eb_Fields = [], eb_TraceID = rq_ID r\<rparr>)))"

definition WriteNotFound :: "Request \<Rightarrow> 'p Response" where
  "WriteNotFound r = writeJSON 404 (ErrorBody \<lparr>eb_Status = 404, eb_Message = Fixed ''not found'', eb_Fields = [], eb_TraceID = rq_ID r\<rparr>)"

definition WriteMethodNotAllowed :: "Request \<Rightarrow> 'p Response" where
  "WriteMethodNotAllowed r =
    writeJSON 405 (ErrorBody \<lparr>eb_Status = 405, eb_Message = Fixed ''method not allowed'', eb_Fields = [], eb_TraceID = rq_ID r\<rparr>)"

section \<open>Bodies\<close>

definition MaxRequestBytes :: nat where
  "MaxRequestBytes = 1048576"

datatype 'v decoded = Decoded 'v string | DecodeEOF | DecodeTooLarge | DecodeBad string

text \<open>
  \<^verbatim>\<open>Decoder.More\<close> outside an array or object: something other than a closing bracket follows the
  white space.
\<close>

definition More :: "string \<Rightarrow> bool" where
  "More rest =
    (case dropWhile (\<lambda>c. c \<in> {CHR '' '', CHR 0x09, CHR 0x0A, CHR 0x0D}) rest of
       [] \<Rightarrow> False
     | c # _ \<Rightarrow> c \<noteq> CHR '']'' \<and> c \<noteq> CHR ''}'')"

definition decodeJSON :: "(string \<Rightarrow> 'v decoded) \<Rightarrow> Request \<Rightarrow> (err, 'v) res" where
  "decodeJSON dec r =
    (let ct = rq_Header r ''Content-Type'' in
     if ct \<noteq> [] \<and> TrimSpace (hd (Split CHR '';'' ct)) \<noteq> ''application/json''
     then Inl (FieldErr \<lparr>Field = ''content-type'', Detail = Text ''must be application/json''\<rparr>)
     else
       case dec (rq_Body r) of
         DecodeEOF \<Rightarrow> Inl (FieldErr \<lparr>Field = ''body'', Detail = Text ''is required''\<rparr>)
       | DecodeTooLarge \<Rightarrow> Inl (FieldErr \<lparr>Field = ''body'', Detail = Fmt ''must be at most %d bytes'' [digits MaxRequestBytes]\<rparr>)
       | DecodeBad m \<Rightarrow> Inl (FieldErr \<lparr>Field = ''body'', Detail = Fmt ''is not valid json: %s'' [m]\<rparr>)
       | Decoded v rest \<Rightarrow>
           if More rest then Inl (FieldErr \<lparr>Field = ''body'', Detail = Text ''must contain exactly one json document''\<rparr>) else Inr v)"

section \<open>Query parameters\<close>

text \<open>A reading of a parameter: its value and the errors found so far.\<close>

type_synonym 'a reading = "Validator \<Rightarrow> 'a \<times> Validator"

definition raw :: "Request \<Rightarrow> string \<Rightarrow> string" where
  "raw r name = (case rq_Query r name of [] \<Rightarrow> [] | v # _ \<Rightarrow> TrimSpace v)"

definition optional :: "Request \<Rightarrow> string \<Rightarrow> (string \<Rightarrow> 'a option) \<Rightarrow> string \<Rightarrow> 'a option reading" where
  "optional r name parse complaint errs =
    (let s = raw r name in
     if s = [] then (None, errs)
     else case parse s of None \<Rightarrow> (None, Add errs name (Text complaint)) | Some v \<Rightarrow> (Some v, errs))"

definition digit_value :: "char \<Rightarrow> nat option" where
  "digit_value c = (let n = of_char c in if 48 \<le> n \<and> n \<le> (57 :: nat) then Some (n - 48) else None)"

fun number :: "nat \<Rightarrow> string \<Rightarrow> nat option" where
  "number acc [] = Some acc"
| "number acc (c # s) = (case digit_value c of None \<Rightarrow> None | Some v \<Rightarrow> number (10 * acc + v) s)"

text \<open>\<^verbatim>\<open>time.Parse("2006-01-02", s)\<close>: four, two and two digits that name a day.\<close>

definition ParseDate :: "string \<Rightarrow> time option" where
  "ParseDate s =
    (if length s = 10 \<and> s ! 4 = CHR ''-'' \<and> s ! 7 = CHR ''-''
     then (case (number 0 (take 4 s), number 0 (take 2 (drop 5 s)), number 0 (drop 8 s)) of
             (Some y, Some m, Some d) \<Rightarrow>
               if valid_date (int y) m (int d) then Some (days_of_civil (int y) m (int d) * day) else None
           | _ \<Rightarrow> None)
     else None)"

definition q_uuid :: "Codec \<Rightarrow> Request \<Rightarrow> string \<Rightarrow> uuid option reading" where
  "q_uuid codec r name = optional r name (uuid_parse codec) ''is not a valid id''"

definition q_date :: "Request \<Rightarrow> string \<Rightarrow> time option reading" where
  "q_date r name = optional r name ParseDate ''must be a date in YYYY-MM-DD form''"

definition q_int64 :: "Request \<Rightarrow> string \<Rightarrow> int64 option reading" where
  "q_int64 r name = optional r name (\<lambda>s. map_option word_of_int (ParseInt s)) ''must be a whole number''"

definition intDefault :: "Request \<Rightarrow> string \<Rightarrow> int \<Rightarrow> int reading" where
  "intDefault r name def errs =
    (let s = raw r name in
     if s = [] then (def, errs)
     else case ParseInt s of None \<Rightarrow> (def, Add errs name (Text ''must be a whole number'')) | Some v \<Rightarrow> (v, errs))"

definition q_status :: "Request \<Rightarrow> string \<Rightarrow> Status option reading" where
  "q_status r name =
    optional r name (\<lambda>s. case ParseStatus s of Inl _ \<Rightarrow> None | Inr st \<Rightarrow> Some st) ''is not a known status''"

fun category_str :: "Category \<Rightarrow> string" where
  "category_str CategoryTravel = ''travel''"
| "category_str CategoryMeals = ''meals''"
| "category_str CategoryAccommodation = ''accommodation''"
| "category_str CategorySoftware = ''software''"
| "category_str CategoryHardware = ''hardware''"
| "category_str CategoryMarketing = ''marketing''"
| "category_str CategoryTraining = ''training''"
| "category_str CategoryOffice = ''office''"
| "category_str CategoryContractor = ''contractor''"
| "category_str CategoryOther = ''other''"
| "category_str (CategoryUnknown s) = s"

text \<open>The conversion \<^verbatim>\<open>expense.Category(s)\<close>.\<close>

definition category_of :: "string \<Rightarrow> Category" where
  "category_of s = (case List.find (\<lambda>c. category_str c = s) AllCategories of Some c \<Rightarrow> c | None \<Rightarrow> CategoryUnknown s)"

definition q_category :: "Request \<Rightarrow> string \<Rightarrow> Category option reading" where
  "q_category r name =
    optional r name (\<lambda>s. let c = category_of s in if Category_Valid c then Some c else None) ''is not a known category''"

definition q_search :: "Request \<Rightarrow> string \<Rightarrow> string option reading" where
  "q_search r name = optional r name (\<lambda>s. if 100 < length s then None else Some s) ''must be at most 100 characters''"

definition q_cursor :: "Codec \<Rightarrow> Request \<Rightarrow> string \<Rightarrow> Cursor option reading" where
  "q_cursor codec r name =
    optional r name (\<lambda>s. case DecodeCursor codec s of Inl _ \<Rightarrow> None | Inr c \<Rightarrow> Some c) ''is not a valid pagination cursor''"

definition q_filter :: "Codec \<Rightarrow> Request \<Rightarrow> Filter reading" where
  "q_filter codec r e0 =
    (let (st, e1) = q_status r ''status'' e0;
         (cat, e2) = q_category r ''category'' e1;
         (dep, e3) = q_uuid codec r ''department_id'' e2;
         (sub, e4) = q_uuid codec r ''submitter_id'' e3;
         (from, e5) = q_date r ''from'' e4;
         (to, e6) = q_date r ''to'' e5;
         (lo, e7) = q_int64 r ''min_amount_minor'' e6;
         (hi, e8) = q_int64 r ''max_amount_minor'' e7;
         (search, e9) = q_search r ''q'' e8
     in (\<lparr>f_Status = st, f_Category = cat, f_DepartmentID = dep, f_SubmitterID = sub, f_SpentFrom = from, f_SpentTo = to,
          f_MinMinor = lo, f_MaxMinor = hi, f_Search = search\<rparr>, e9))"

text \<open>\<^verbatim>\<open>chi.URLParam\<close> hands over the segment of the path.\<close>

definition pathUUID :: "Codec \<Rightarrow> string \<Rightarrow> (err, uuid) res" where
  "pathUUID codec seg =
    (case uuid_parse codec seg of
       None \<Rightarrow> Inl (FieldErr \<lparr>Field = ''id'', Detail = Text ''is not a valid id''\<rparr>)
     | Some i \<Rightarrow> Inr i)"

end
