(* ===== verification/Report_Service.thy ===== *)
theory Report_Service
  imports Export_Pdf Http Expense_Service Billing_Repo
begin

text \<open>
  \<^verbatim>\<open>internal/service/report_service.go\<close> over \<^verbatim>\<open>repository/postgres/export_query.go\<close> and the encoders.
  An export writes to the client while its transaction is open, and the transaction may be tried again, so
  what was sent is a state of its own beside the database. \<open>Wire\<close> says, per attempt, after how many rows the
  stream breaks off and whether the commit fails.
\<close>

section \<open>Encoders\<close>

datatype Encoder = CSVEnc nat | XLSXEnc XLSXEncoder | PDFEnc PDFEncoder

definition NewEncoder :: "Format \<Rightarrow> Encoder" where
  "NewEncoder f =
    (case f of
       FormatCSV \<Rightarrow> CSVEnc 0
     | FormatXLSX \<Rightarrow> XLSXEnc \<lparr>xe_cols = [], xe_rowIndex = 0, xe_closed = False\<rparr>
     | FormatPDF \<Rightarrow> PDFEnc new_pdf)"

definition Extension :: "Format \<Rightarrow> string" where
  "Extension f = (case f of FormatCSV \<Rightarrow> ''csv'' | FormatXLSX \<Rightarrow> ''xlsx'' | FormatPDF \<Rightarrow> ''pdf'')"

definition ContentType :: "Format \<Rightarrow> string" where
  "ContentType f =
    (case f of FormatCSV \<Rightarrow> ''text/csv; charset=utf-8''
     | FormatXLSX \<Rightarrow> ''application/vnd.openxmlformats-officedocument.spreadsheetml.sheet''
     | FormatPDF \<Rightarrow> ''application/pdf'')"

definition Enc_Open :: "Encoder \<Rightarrow> Report \<Rightarrow> Encoder \<times> chunk list" where
  "Enc_Open enc r =
    (case enc of
       CSVEnc _ \<Rightarrow> (let (n, s) = CSV_Open r in (CSVEnc n, [Bytes s]))
     | XLSXEnc e \<Rightarrow> (let (e', out) = XLSX_Open e r in (XLSXEnc e', out))
     | PDFEnc e \<Rightarrow> (let e' = PDF_Open e r in (PDFEnc e', [Bytes (pe_out e')])))"

definition Enc_Write :: "Codec \<Rightarrow> (rat \<Rightarrow> string) \<Rightarrow> Encoder \<Rightarrow> Cell list \<Rightarrow> (err, Encoder \<times> chunk list) res" where
  "Enc_Write codec float_text enc row =
    (case enc of
       CSVEnc n \<Rightarrow> bind_res (CSV_Write codec n row) (\<lambda>(n', s). Inr (CSVEnc n', [Bytes s]))
     | XLSXEnc e \<Rightarrow> bind_res (XLSX_Write float_text e row) (\<lambda>(e', out). Inr (XLSXEnc e', out))
     | PDFEnc e \<Rightarrow> bind_res (PDF_Write e row) (\<lambda>e'. Inr (PDFEnc e', [Bytes (drop (length (pe_out e)) (pe_out e'))])))"

definition Enc_Close :: "Encoder \<Rightarrow> Encoder \<times> chunk list" where
  "Enc_Close enc =
    (case enc of
       CSVEnc n \<Rightarrow> (CSVEnc n, [Bytes (CSV_Close n)])
     | XLSXEnc e \<Rightarrow> (let (e', out) = XLSX_Close e in (XLSXEnc e', out))
     | PDFEnc e \<Rightarrow> (let e' = PDF_Close e in (PDFEnc e', [Bytes (drop (length (pe_out e)) (pe_out e'))])))"

section \<open>The query (\<^verbatim>\<open>export_query.go\<close>)\<close>

record ExportRow =
  er_ID :: uuid
  er_Status :: Status
  er_Category :: Category
  er_Amount :: Money
  er_Merchant :: string
  er_Description :: "string option"
  er_SpentAt :: time
  er_SubmittedAt :: "time option"
  er_DecidedAt :: "time option"
  er_PaidAt :: "time option"
  er_PaymentRef :: "string option"
  er_Revision :: int32
  er_DepartmentName :: "string option"
  er_SubmitterEmail :: "string option"
  er_SubmitterName :: "string option"
  er_DeciderEmail :: "string option"

text \<open>The joins over a membership to its user.\<close>

definition member_user :: "TenantConn \<Rightarrow> db \<Rightarrow> uuid \<Rightarrow> uuid option \<Rightarrow> User option" where
  "member_user tc d t mid =
    (case mid of
       None \<Rightarrow> None
     | Some k \<Rightarrow>
         (case List.find (\<lambda>m. m_ID m = k \<and> m_TenantID m = t \<and> rls tc (m_TenantID m)) (memberships d) of
            None \<Rightarrow> None
          | Some m \<Rightarrow> List.find (\<lambda>u. u_ID u = m_UserID m) (users d)))"

definition export_row :: "TenantConn \<Rightarrow> db \<Rightarrow> Expense \<Rightarrow> ExportRow" where
  "export_row tc d e =
    (let submitter = member_user tc d (e_TenantID e) (Some (e_SubmitterID e));
         decider = member_user tc d (e_TenantID e) (e_DecidedBy e)
     in \<lparr>er_ID = e_ID e, er_Status = e_Status e, er_Category = e_Category e, er_Amount = e_Amount e, er_Merchant = e_Merchant e,
         er_Description = e_Description e, er_SpentAt = e_SpentAt e, er_SubmittedAt = e_SubmittedAt e, er_DecidedAt = e_DecidedAt e,
         er_PaidAt = e_PaidAt e, er_PaymentRef = e_PaymentRef e, er_Revision = e_Revision e,
         er_DepartmentName = department_name tc d (e_TenantID e) (e_DepartmentID e),
         er_SubmitterEmail = map_option u_Email submitter,
         er_SubmitterName = (case submitter of None \<Rightarrow> None | Some u \<Rightarrow> u_FullName u),
         er_DeciderEmail = map_option u_Email decider\<rparr>)"

definition exported :: "TenantConn \<Rightarrow> Filter \<Rightarrow> Expense \<Rightarrow> bool" where
  "exported tc f r =
    (e_TenantID r = tc_tenantID tc \<and> rls tc (e_TenantID r) \<and>
     narg (\<lambda>s. e_Status r = s) (f_Status f) \<and>
     narg (\<lambda>dp. e_DepartmentID r = Some dp) (f_DepartmentID f) \<and>
     narg (\<lambda>t. truncate_to day t \<le> e_SpentAt r) (f_SpentFrom f) \<and>
     narg (\<lambda>t. e_SpentAt r \<le> truncate_to day t) (f_SpentTo f))"

definition exportQuery :: "TenantConn \<Rightarrow> Filter \<Rightarrow> ExportRow list tx" where
  "exportQuery tc f =
    bind_tx (reject_if (\<not> fk_opt Status_Valid (f_Status f)) (pg ''22P02'' [])) (\<lambda>_.
    asks (\<lambda>d. map (export_row tc d) (sort_key (\<lambda>r. (e_SpentAt r, e_ID r)) (filter (exported tc f) (expenses d)))))"

section \<open>The report\<close>

definition exportColumns :: "Column list" where
  "exportColumns =
    [\<lparr>cn_Header = ''Date'', cn_Kind = KindDate, cn_Width = 0\<rparr>,
     \<lparr>cn_Header = ''Merchant'', cn_Kind = KindText, cn_Width = 26\<rparr>,
     \<lparr>cn_Header = ''Category'', cn_Kind = KindText, cn_Width = 14\<rparr>,
     \<lparr>cn_Header = ''Department'', cn_Kind = KindText, cn_Width = 18\<rparr>,
     \<lparr>cn_Header = ''Submitted by'', cn_Kind = KindText, cn_Width = 26\<rparr>,
     \<lparr>cn_Header = ''Status'', cn_Kind = KindText, cn_Width = 16\<rparr>,
     \<lparr>cn_Header = ''Amount'', cn_Kind = KindMoney, cn_Width = 0\<rparr>,
     \<lparr>cn_Header = ''Currency'', cn_Kind = KindText, cn_Width = 9\<rparr>,
     \<lparr>cn_Header = ''Rev'', cn_Kind = KindInt, cn_Width = 6\<rparr>,
     \<lparr>cn_Header = ''Approved by'', cn_Kind = KindText, cn_Width = 26\<rparr>,
     \<lparr>cn_Header = ''Decided'', cn_Kind = KindDateTime, cn_Width = 0\<rparr>,
     \<lparr>cn_Header = ''Paid'', cn_Kind = KindDateTime, cn_Width = 0\<rparr>,
     \<lparr>cn_Header = ''Payment ref'', cn_Kind = KindText, cn_Width = 20\<rparr>,
     \<lparr>cn_Header = ''Description'', cn_Kind = KindText, cn_Width = 40\<rparr>]"

definition toCells :: "ExportRow \<Rightarrow> Cell list" where
  "toCells r =
    (let submitter = (case er_SubmitterName r of None \<Rightarrow> er_SubmitterEmail r
           | Some n \<Rightarrow> if n = [] then er_SubmitterEmail r else Some n)
     in [DateCell (er_SpentAt r), TextCell (er_Merchant r), TextCell (category_str (er_Category r)), TextPtr (er_DepartmentName r),
         TextPtr submitter, TextCell (status_str (er_Status r)), MoneyCell (er_Amount r), TextCell (Currency (er_Amount r)),
         IntCell (scast (er_Revision r)), TextPtr (er_DeciderEmail r), DateTimePtr (er_DecidedAt r), DateTimePtr (er_PaidAt r),
         TextPtr (er_PaymentRef r), TextPtr (er_Description r)])"

definition narrow :: "Actor \<Rightarrow> Filter \<Rightarrow> (err, Filter) res" where
  "narrow actor f =
    (if Can actor PermExpenseReadAll then Inr f
     else if Can actor PermExpenseReadTeam \<and> a_DepartmentID actor \<noteq> None then Inr (f\<lparr>f_DepartmentID := a_DepartmentID actor\<rparr>)
     else Inl (Wrap ErrForbidden (Fmt ''role %s may not export claims'' [role_str (a_Role actor)])))"

definition describeFilter :: "Filter \<Rightarrow> string" where
  "describeFilter f =
    (let dates = (case (f_SpentFrom f, f_SpentTo f) of
           (Some a, Some b) \<Rightarrow> FormatDate a @ '' to '' @ FormatDate b
         | (Some a, None) \<Rightarrow> ''from '' @ FormatDate a
         | (None, Some b) \<Rightarrow> ''up to '' @ FormatDate b
         | (None, None) \<Rightarrow> ''all dates'');
         status = (case f_Status f of Some s \<Rightarrow> ''status '' @ status_str s | None \<Rightarrow> ''all statuses'');
         department = (case f_DepartmentID f of Some _ \<Rightarrow> ''one department'' | None \<Rightarrow> ''all departments'');
         sep = ''  '' @ [CHR 0xC2, CHR 0xB7] @ ''  ''
     in dates @ sep @ status @ sep @ department)"

record ExportRequest =
  xr_Format :: Format
  xr_Filter :: Filter

text \<open>Everything that is decided before a byte is written: the report, the rows the plan allows, the filter.\<close>

definition export_setup :: "time \<Rightarrow> ExportRequest \<Rightarrow> TenantConn \<Rightarrow> Actor \<Rightarrow> (Report \<times> int \<times> Filter) tx" where
  "export_setup now req tc actor =
    bind_tx (lift_res (Require actor PermReportExport)) (\<lambda>_.
    bind_tx (GetEntitlement tc) (\<lambda>entitlement.
    bind_tx (reject_if (\<not> Allows entitlement FeatureStreamingExport)
      (Wrap ErrForbidden (Text ''this plan does not include exports''))) (\<lambda>_.
    bind_tx (GetTenant tc) (\<lambda>org.
    bind_tx (lift_res (narrow actor (xr_Filter req))) (\<lambda>flt.
    ret (\<lparr>rp_Title = ''Expense claims'', rp_Subtitle = describeFilter flt, rp_Columns = exportColumns,
          rp_Generated = now, rp_TenantName = t_Name org\<rparr>, l_ExportRows (Entitlement_Limits entitlement), flt))))))"

section \<open>Streaming\<close>

record Wire =
  wi_stream :: "nat \<Rightarrow> (nat \<times> err) option"
  wi_commit :: "nat \<Rightarrow> err option"

text \<open>What the client has been sent, the rows counted, and the report the headers were written for.\<close>

record Transfer =
  tr_out :: "chunk list"
  tr_rows :: nat
  tr_prepared :: "Report option"
  tr_enc :: Encoder

definition sent :: "Encoder \<times> chunk list \<Rightarrow> Transfer \<Rightarrow> Transfer" where
  "sent = (\<lambda>(enc, out) tr. tr\<lparr>tr_enc := enc, tr_out := tr_out tr @ out\<rparr>)"

definition broken :: "(nat \<times> err) option \<Rightarrow> err option" where
  "broken fault = (case fault of Some (n, e) \<Rightarrow> if n = 0 then Some (translate e) else None | None \<Rightarrow> None)"

fun stream_rows :: "Codec \<Rightarrow> (rat \<Rightarrow> string) \<Rightarrow> int \<Rightarrow> (nat \<times> err) option \<Rightarrow> ExportRow list \<Rightarrow> Transfer \<Rightarrow> (err, unit) res \<times> Transfer" where
  "stream_rows codec ft maxRows fault [] tr =
    (case broken fault of Some e \<Rightarrow> (Inl e, tr) | None \<Rightarrow> (Inr (), tr))"
| "stream_rows codec ft maxRows fault (r # rows) tr =
    (case broken fault of
       Some e \<Rightarrow> (Inl e, tr)
     | None \<Rightarrow>
         (if maxRows \<noteq> Unlimited \<and> maxRows \<le> int (tr_rows tr) then (Inl (Sentinel ErrExportTooLarge), tr)
          else
            let tr1 = tr\<lparr>tr_rows := tr_rows tr + 1\<rparr> in
            case Enc_Write codec ft (tr_enc tr1) (toCells r) of
              Inl e \<Rightarrow> (Inl e, tr1)
            | Inr w \<Rightarrow> stream_rows codec ft maxRows (map_option (apfst (\<lambda>k. k - 1)) fault) rows (sent w tr1)))"

definition StreamForExport ::
    "Codec \<Rightarrow> (rat \<Rightarrow> string) \<Rightarrow> (nat \<times> err) option \<Rightarrow> TenantConn \<Rightarrow> Filter \<Rightarrow> db \<Rightarrow> int \<Rightarrow> Transfer \<Rightarrow> (err, unit) res \<times> Transfer" where
  "StreamForExport codec ft fault tc f d maxRows tr =
    (case exportQuery tc f d of
       Inl e \<Rightarrow> (Inl (translate e), tr)
     | Inr (rows, _) \<Rightarrow> stream_rows codec ft maxRows fault rows tr)"

definition export_work ::
    "Codec \<Rightarrow> (rat \<Rightarrow> string) \<Rightarrow> (nat \<times> err) option \<Rightarrow> time \<Rightarrow> Subject \<Rightarrow> ExportRequest \<Rightarrow> db \<Rightarrow> TenantConn \<Rightarrow> Transfer \<Rightarrow> (err, unit) res \<times> Transfer" where
  "export_work codec ft fault now subject req d tc tr =
    (case Scope_body subject (export_setup now req) tc d of
       Inl e \<Rightarrow> (Inl e, tr)
     | Inr ((meta, maxRows, flt), _) \<Rightarrow>
         let tr1 = tr\<lparr>tr_prepared := Some meta\<rparr>;
             tr2 = sent (Enc_Open (tr_enc tr1) meta) tr1;
             (streamErr, tr3) = StreamForExport codec ft fault tc flt d maxRows tr2
         in (streamErr, sent (Enc_Close (tr_enc tr3)) tr3))"

text \<open>The transaction runner over work that writes outside the database.\<close>

definition export_attempt :: "Runtime \<Rightarrow> Wire \<Rightarrow> nat \<Rightarrow> (Transfer \<Rightarrow> (err, unit) res \<times> Transfer) \<Rightarrow> Transfer \<Rightarrow> (err, unit) res \<times> Transfer" where
  "export_attempt env wire i work tr =
    (case tx_fault env i of
       Some e \<Rightarrow> (Inl e, tr)
     | None \<Rightarrow>
         (case work tr of
            (Inl e, tr') \<Rightarrow> (Inl e, tr')
          | (Inr _, tr') \<Rightarrow>
              (case wi_commit wire i of
                 Some e \<Rightarrow> (Inl e, tr')
               | None \<Rightarrow> (case verify_reset env of None \<Rightarrow> (Inr (), tr') | Some e \<Rightarrow> (Inl e, tr')))))"

fun export_loop :: "nat \<Rightarrow> nat \<Rightarrow> Runtime \<Rightarrow> Wire \<Rightarrow> (nat \<Rightarrow> Transfer \<Rightarrow> (err, unit) res \<times> Transfer) \<Rightarrow> Transfer \<Rightarrow> (err, unit) res \<times> Transfer" where
  "export_loop 0 i env wire work tr = (Inl (Opaque (Fmt ''transaction failed after %d attempts: %w'' [''3''])), tr)"
| "export_loop (Suc n) i env wire work tr =
    (case export_attempt env wire i (work i) tr of
       (Inr x, tr') \<Rightarrow> (Inr x, tr')
     | (Inl e, tr') \<Rightarrow>
         (if \<not> isRetryable e then (Inl e, tr')
          else if tx_cancelled env i then (Inl e, tr')
          else export_loop n (i + 1) env wire work tr'))"

definition StreamExport ::
    "Codec \<Rightarrow> (rat \<Rightarrow> string) \<Rightarrow> Runtime \<Rightarrow> Wire \<Rightarrow> Subject \<Rightarrow> ExportRequest \<Rightarrow> db \<Rightarrow> (err, unit) res \<times> Transfer" where
  "StreamExport codec ft env wire subject req d =
    (let tr = \<lparr>tr_out = [], tr_rows = 0, tr_prepared = None, tr_enc = NewEncoder (xr_Format req)\<rparr> in
     if sub_TenantID subject = nil_uuid
     then (Inl (Wrap ErrNoTenantContext (Text ''the token carried no tenant'')), tr)
     else
       let tc = bindSession env (no_binding\<lparr>bi_TenantID := sub_TenantID subject, bi_ReadOnly := True\<rparr>) False in
       export_loop MaxSerializationRetries 1 env wire
         (\<lambda>i. export_work codec ft (wi_stream wire i) (clock env) subject req d tc) tr)"

end
