(* ===== verification/Rate_Limit.thy ===== *)
theory Rate_Limit
  imports Prelude Complex_Main
begin

text \<open>
  \<^verbatim>\<open>internal/transport/http/middleware/ratelimit.go\<close>: a token bucket per key, with a sweep that
  forgets idle keys. The \<^verbatim>\<open>float64\<close> arithmetic on tokens is modelled by exact rationals; the
  clock is the argument of each operation. The wait of a refusal is in nanoseconds, as a
  \<^verbatim>\<open>time.Duration\<close>.
\<close>

record bucket =
  bk_tokens :: rat
  bk_last :: time

record RateLimiter =
  rl_buckets :: "string \<rightharpoonup> bucket"
  rl_rate :: rat
  rl_capacity :: rat
  rl_ttl :: duration

definition NewRateLimiter :: "rat \<Rightarrow> int \<Rightarrow> RateLimiter" where
  "NewRateLimiter perSecond burst =
    \<lparr>rl_buckets = Map.empty, rl_rate = (if perSecond \<le> 0 then 1 else perSecond),
     rl_capacity = of_int (if burst < 1 then 1 else burst), rl_ttl = 600 * second\<rparr>"

text \<open>\<^verbatim>\<open>now.Sub(b.last).Seconds()\<close>\<close>

definition seconds_since :: "time \<Rightarrow> time \<Rightarrow> rat" where
  "seconds_since now since = of_int (now - since) / of_int second"

definition filled :: "RateLimiter \<Rightarrow> time \<Rightarrow> bucket option \<Rightarrow> bucket" where
  "filled rl now b =
    (case b of
       None \<Rightarrow> \<lparr>bk_tokens = rl_capacity rl, bk_last = now\<rparr>
     | Some b \<Rightarrow>
         (let tokens = bk_tokens b + seconds_since now (bk_last b) * rl_rate rl in
          \<lparr>bk_tokens = (if tokens > rl_capacity rl then rl_capacity rl else tokens), bk_last = now\<rparr>))"

definition Allow :: "RateLimiter \<Rightarrow> time \<Rightarrow> string \<Rightarrow> (bool \<times> int) \<times> RateLimiter" where
  "Allow rl now key =
    (let b = filled rl now (rl_buckets rl key) in
     if bk_tokens b < 1
     then let deficit = 1 - bk_tokens b in
       ((False, \<lfloor>deficit / rl_rate rl * 1000000000\<rfloor> + 1000000), rl\<lparr>rl_buckets := (rl_buckets rl)(key \<mapsto> b)\<rparr>)
     else ((True, 0), rl\<lparr>rl_buckets := (rl_buckets rl)(key \<mapsto> b\<lparr>bk_tokens := bk_tokens b - 1\<rparr>)\<rparr>))"

definition swept :: "RateLimiter \<Rightarrow> time \<Rightarrow> bucket \<Rightarrow> bool" where
  "swept rl now b =
    (bk_last b < now - rl_ttl rl \<and> rl_capacity rl \<le> bk_tokens b + seconds_since now (bk_last b) * rl_rate rl)"

definition Sweep :: "RateLimiter \<Rightarrow> time \<Rightarrow> RateLimiter" where
  "Sweep rl now =
    rl\<lparr>rl_buckets := (\<lambda>key. case rl_buckets rl key of None \<Rightarrow> None | Some b \<Rightarrow> if swept rl now b then None else Some b)\<rparr>"

definition retry_after_header :: "int \<Rightarrow> int" where
  "retry_after_header retryAfter = retryAfter div 1000000000 + 1"

section \<open>What a limiter does\<close>

text \<open>
  The level of a key at a later time, had nothing happened in between. It is all that decides a
  request.
\<close>

definition level :: "RateLimiter \<Rightarrow> string \<Rightarrow> time \<Rightarrow> rat" where
  "level rl key now = bk_tokens (filled rl now (rl_buckets rl key))"

definition rl_ok :: "RateLimiter \<Rightarrow> time \<Rightarrow> bool" where
  "rl_ok rl now =
    (0 < rl_rate rl \<and> 1 \<le> rl_capacity rl \<and> 0 \<le> rl_ttl rl \<and>
     (\<forall>key b. rl_buckets rl key = Some b \<longrightarrow> 0 \<le> bk_tokens b \<and> bk_tokens b \<le> rl_capacity rl \<and> bk_last b \<le> now))"

lemma rl_ok_later: "rl_ok rl now \<Longrightarrow> now \<le> t \<Longrightarrow> rl_ok rl t"
  by (fastforce simp: rl_ok_def)

lemma rl_ok_New: "rl_ok (NewRateLimiter perSecond burst) now"
  by (simp add: rl_ok_def NewRateLimiter_def second_def)

lemma seconds_since_nonneg: "since \<le> now \<Longrightarrow> 0 \<le> seconds_since now since"
  by (simp add: seconds_since_def second_def)

lemma level_bounds: "rl_ok rl now \<Longrightarrow> 0 \<le> level rl key now \<and> level rl key now \<le> rl_capacity rl"
  by (auto simp: rl_ok_def level_def filled_def Let_def split: option.splits) (meson add_nonneg_nonneg less_imp_le mult_nonneg_nonneg seconds_since_nonneg)

lemma Allow_parts [simp]:
  "rl_rate (snd (Allow rl now key)) = rl_rate rl" "rl_capacity (snd (Allow rl now key)) = rl_capacity rl" "rl_ttl (snd (Allow rl now key)) = rl_ttl rl"
  "rl_rate (Sweep rl now) = rl_rate rl" "rl_capacity (Sweep rl now) = rl_capacity rl" "rl_ttl (Sweep rl now) = rl_ttl rl"
  by (simp_all add: Allow_def Sweep_def Let_def)

lemma Allow_iff: "fst (fst (Allow rl now key)) \<longleftrightarrow> 1 \<le> level rl key now"
  by (auto simp: Allow_def level_def Let_def)

lemma rl_ok_Allow: "rl_ok rl now \<Longrightarrow> rl_ok (snd (Allow rl now key)) now"
  using level_bounds [of rl now key]
  by (auto simp: rl_ok_def Allow_def level_def Let_def filled_def split: option.splits if_splits)

lemma rl_ok_Sweep: "rl_ok rl now \<Longrightarrow> rl_ok (Sweep rl now) now"
  by (auto simp: rl_ok_def Sweep_def split: option.splits if_splits)

lemma seconds_since_add: "seconds_since t since = seconds_since t now + seconds_since now since"
  by (simp add: seconds_since_def diff_divide_distrib)

lemma seconds_since_self [simp]: "seconds_since t t = 0"
  by (simp add: seconds_since_def)

lemma refill_split: "seconds_since t1 t0 * r = seconds_since t1 t * r + seconds_since t t0 * r"
  by (simp add: seconds_since_add [of t1 t0 t] distrib_right)

text \<open>The level rises with time up to the capacity.\<close>

lemma level_later:
  assumes "rl_ok rl now" "now \<le> t"
  shows "level rl key t = min (rl_capacity rl) (level rl key now + seconds_since t now * rl_rate rl)"
proof (cases "rl_buckets rl key")
  case None
  then show ?thesis using assms seconds_since_nonneg [OF assms(2)] by (simp add: level_def filled_def rl_ok_def min_def)
next
  case (Some b)
  have "0 \<le> seconds_since t now * rl_rate rl" using assms seconds_since_nonneg [OF assms(2)] by (simp add: rl_ok_def)
  with Some show ?thesis
    by (auto simp: level_def filled_def Let_def min_def seconds_since_add [of t "bk_last b" now] algebra_simps)
qed

lemma level_Allow:
  assumes "rl_ok rl now" "now \<le> t"
  shows "level (snd (Allow rl now key)) k t =
    (if k = key \<and> 1 \<le> level rl key now then min (rl_capacity rl) (level rl key now - 1 + seconds_since t now * rl_rate rl) else level rl k t)"
proof -
  have "level (snd (Allow rl now key)) k now = (if k = key \<and> 1 \<le> level rl key now then level rl key now - 1 else level rl k now)"
    using level_bounds [OF assms(1), of key] by (auto simp: level_def Allow_def Let_def filled_def seconds_since_def split: option.splits)
  then show ?thesis using level_later [OF rl_ok_Allow [OF assms(1)] assms(2)] level_later [OF assms] by auto
qed

text \<open>Forgetting a key that has refilled changes no level.\<close>

lemma level_Sweep:
  assumes "rl_ok rl now" "now \<le> t"
  shows "level (Sweep rl now) key t = level rl key t"
proof -
  have "level (Sweep rl now) key now = level rl key now"
    by (auto simp: level_def Sweep_def swept_def filled_def Let_def split: option.splits)
  then show ?thesis using level_later [OF rl_ok_Sweep [OF assms(1)] assms(2)] level_later [OF assms] by simp
qed

text \<open>A course of requests and sweeps: who was let through, and the limiter afterwards.\<close>

datatype limiter_op = Hit string | SweepNow

fun run_limiter :: "RateLimiter \<Rightarrow> (time \<times> limiter_op) list \<Rightarrow> bool list" where
  "run_limiter rl [] = []"
| "run_limiter rl ((t, Hit k) # ops) = fst (fst (Allow rl t k)) # run_limiter (snd (Allow rl t k)) ops"
| "run_limiter rl ((t, SweepNow) # ops) = run_limiter (Sweep rl t) ops"

fun after_ops :: "RateLimiter \<Rightarrow> (time \<times> limiter_op) list \<Rightarrow> RateLimiter" where
  "after_ops rl [] = rl"
| "after_ops rl ((t, Hit k) # ops) = after_ops (snd (Allow rl t k)) ops"
| "after_ops rl ((t, SweepNow) # ops) = after_ops (Sweep rl t) ops"

fun granted :: "string \<Rightarrow> RateLimiter \<Rightarrow> (time \<times> limiter_op) list \<Rightarrow> nat" where
  "granted k rl [] = 0"
| "granted k rl ((t, Hit k') # ops) =
    (if k' = k \<and> fst (fst (Allow rl t k')) then 1 else 0) + granted k (snd (Allow rl t k')) ops"
| "granted k rl ((t, SweepNow) # ops) = granted k (Sweep rl t) ops"

definition same_levels :: "time \<Rightarrow> RateLimiter \<Rightarrow> RateLimiter \<Rightarrow> bool" where
  "same_levels t0 rl rl' =
    (rl_ok rl t0 \<and> rl_ok rl' t0 \<and> rl_rate rl = rl_rate rl' \<and> rl_capacity rl = rl_capacity rl' \<and>
     (\<forall>k. level rl k t0 = level rl' k t0))"

lemma same_levels_later: "same_levels t0 rl rl' \<Longrightarrow> t0 \<le> t \<Longrightarrow> same_levels t rl rl'"
  using level_later [of rl t0 t] level_later [of rl' t0 t] rl_ok_later [of rl t0 t] rl_ok_later [of rl' t0 t] by (simp add: same_levels_def)

lemma same_levels_Allow: "same_levels t rl rl' \<Longrightarrow> same_levels t (snd (Allow rl t k)) (snd (Allow rl' t k))"
  by (simp add: same_levels_def rl_ok_Allow level_Allow)

lemma same_levels_Sweep: "same_levels t rl rl' \<Longrightarrow> same_levels t (Sweep rl t) rl'"
  by (simp add: same_levels_def rl_ok_Sweep level_Sweep)

lemma run_without_sweeps:
  assumes "same_levels t0 rl rl'" "sorted (map fst ops)" "\<forall>x \<in> set ops. t0 \<le> fst x"
  shows "run_limiter rl ops = run_limiter rl' (filter (\<lambda>x. snd x \<noteq> SweepNow) ops)"
  using assms
proof (induction ops arbitrary: rl rl' t0)
  case (Cons x ops)
  obtain t op where x: "x = (t, op)" by fastforce
  have same: "same_levels t rl rl'" using same_levels_later Cons.prems x by auto
  show ?case
  proof (cases op)
    case (Hit k)
    have "fst (fst (Allow rl t k)) = fst (fst (Allow rl' t k))" using same by (simp add: Allow_iff same_levels_def)
    with Cons.IH [OF same_levels_Allow [OF same]] Cons.prems x Hit show ?thesis by auto
  next
    case SweepNow
    with Cons.IH [OF same_levels_Sweep [OF same]] Cons.prems x show ?thesis by auto
  qed
qed simp

lemma rl_ok_after: "rl_ok rl t0 \<Longrightarrow> sorted (map fst ops) \<Longrightarrow> \<forall>x \<in> set ops. t0 \<le> fst x \<and> fst x \<le> t1 \<Longrightarrow> t0 \<le> t1 \<Longrightarrow> rl_ok (after_ops rl ops) t1"
proof (induction rl ops arbitrary: t0 rule: after_ops.induct)
  case (1 rl)
  then show ?case by (simp add: rl_ok_later)
next
  case (2 rl t k ops)
  then show ?case using rl_ok_Allow rl_ok_later by fastforce
next
  case (3 rl t ops)
  then show ?case using rl_ok_Sweep rl_ok_later by fastforce
qed

lemma after_parts [simp]: "rl_rate (after_ops rl ops) = rl_rate rl" "rl_capacity (after_ops rl ops) = rl_capacity rl"
  by (induction rl ops rule: after_ops.induct) auto

lemma granted_bound:
  assumes "rl_ok rl t0" "sorted (map fst ops)" "\<forall>x \<in> set ops. t0 \<le> fst x \<and> fst x \<le> t1" "t0 \<le> t1"
  shows "of_nat (granted k rl ops) \<le> level rl k t0 + seconds_since t1 t0 * rl_rate rl"
  using assms
proof (induction k rl ops arbitrary: t0 rule: granted.induct)
  case (1 k rl)
  then show ?case using level_bounds [OF 1(1)] seconds_since_nonneg [OF 1(4)] by (simp add: rl_ok_def)
next
  case (2 k rl t k' ops)
  have t: "t0 \<le> t" "t \<le> t1" "rl_ok rl t" using 2 rl_ok_later by auto
  have "of_nat (granted k (snd (Allow rl t k')) ops) \<le> level (snd (Allow rl t k')) k t + seconds_since t1 t * rl_rate rl"
    using 2 t rl_ok_Allow [OF t(3)] by (intro order_trans [OF 2(1) [of t]]) auto
  moreover have "level rl k t \<le> level rl k t0 + seconds_since t t0 * rl_rate rl" using level_later [OF 2(2) t(1)] by simp
  ultimately show ?case
    using level_Allow [OF t(3) order_refl, of k' k] level_bounds [OF t(3), of k] refill_split [of t1 t0 "rl_rate rl" t]
    by (auto simp: Allow_iff split: if_splits)
next
  case (3 k rl t ops)
  have t: "t0 \<le> t" "t \<le> t1" "rl_ok rl t" using 3 rl_ok_later by auto
  have "of_nat (granted k (Sweep rl t) ops) \<le> level (Sweep rl t) k t + seconds_since t1 t * rl_rate rl"
    using 3 t rl_ok_Sweep [OF t(3)] by (intro order_trans [OF 3(1) [of t]]) auto
  with level_Sweep [OF t(3) order_refl, of k] level_later [OF 3(2) t(1), of k] refill_split [of t1 t0 "rl_rate rl" t] show ?case
    by auto
qed

section \<open>Properties\<close>

text \<open>
  C32. Sweeping is invisible: whatever requests arrive in the order of the clock, each gets the decision it
  would have got from a limiter that never forgets a key.
\<close>

theorem sweeping_is_invisible:
  assumes "sorted (map fst ops)"
  shows "run_limiter (NewRateLimiter perSecond burst) ops =
    run_limiter (NewRateLimiter perSecond burst) (filter (\<lambda>x. snd x \<noteq> SweepNow) ops)"
proof (cases ops)
  case (Cons x xs)
  then show ?thesis
    using assms by (intro run_without_sweeps [of "fst x"]) (auto simp: same_levels_def rl_ok_New)
qed simp

text \<open>
  The promise of the limiter: in any stretch of time, whatever came before and whatever sweeps happen,
  a key is let through at most the burst plus the rate times the length of the stretch.
\<close>

theorem burst_and_rate_bound:
  assumes "sorted (map fst (before @ stretch))" "\<forall>x \<in> set before. fst x \<le> t0"
    and "\<forall>x \<in> set stretch. t0 \<le> fst x \<and> fst x \<le> t1" "t0 \<le> t1" "0 < perSecond" "1 \<le> burst"
  shows "of_nat (granted key (after_ops (NewRateLimiter perSecond burst) before) stretch) \<le>
    of_int burst + seconds_since t1 t0 * perSecond"
proof -
  let ?rl = "after_ops (NewRateLimiter perSecond burst) before"
  have parts: "rl_rate ?rl = perSecond" "rl_capacity ?rl = of_int burst" using assms(5,6) by (simp_all add: NewRateLimiter_def)
  obtain s0 where s0: "\<forall>x \<in> set before. s0 \<le> fst x" "s0 \<le> t0"
    using assms(1,2) by (cases before) (auto simp: sorted_append)
  have "rl_ok ?rl t0"
    by (rule rl_ok_after [of _ s0]) (use assms s0 in \<open>auto simp: rl_ok_New sorted_append\<close>)
  from granted_bound [OF this _ assms(3,4), of key] level_bounds [OF this, of key] parts assms(1) show ?thesis
    by (auto simp: sorted_append)
qed

text \<open>
  A refusal says how long to wait: whoever comes back after the number of seconds of the
  \<^verbatim>\<open>Retry-After\<close> header, with no request of that key in between, is let through.
\<close>

theorem retry_after_is_honest:
  assumes "rl_ok rl now" "Allow rl now key = ((False, retryAfter), rl')" "now + retry_after_header retryAfter * second \<le> later"
  shows "fst (fst (Allow rl' later key))"
proof -
  let ?l = "level rl key now" and ?r = "rl_rate rl"
  have l: "?l < 1" "retryAfter = \<lfloor>(1 - ?l) / ?r * 1000000000\<rfloor> + 1000000" "rl' = snd (Allow rl now key)"
    using assms(2) by (auto simp: Allow_def level_def Let_def split: if_splits)
  have r: "0 < ?r" "1 \<le> rl_capacity rl" using assms(1) by (auto simp: rl_ok_def)
  have "(1 - ?l) / ?r * 1000000000 < of_int retryAfter" unfolding l(2) by linarith
  moreover have "retryAfter \<le> retry_after_header retryAfter * 1000000000" by (simp add: retry_after_header_def)
  then have "(of_int retryAfter :: rat) \<le> of_int (retry_after_header retryAfter * 1000000000)" by (rule of_int_le_iff [THEN iffD2])
  then have "(of_int retryAfter :: rat) \<le> of_int (retry_after_header retryAfter) * 1000000000" by simp
  ultimately have "(1 - ?l) / ?r * 1000000000 < of_int (retry_after_header retryAfter) * 1000000000" by (rule less_le_trans)
  then have w: "(1 - ?l) / ?r < of_int (retry_after_header retryAfter)" by (rule mult_right_less_imp_less) simp
  have "retry_after_header retryAfter * second \<le> later - now" using assms(3) by simp
  then have "(of_int (retry_after_header retryAfter * second) :: rat) \<le> of_int (later - now)" by (rule of_int_le_iff [THEN iffD2])
  then have "of_int (retry_after_header retryAfter) \<le> seconds_since later now"
    by (simp add: seconds_since_def second_def field_simps)
  with w have "(1 - ?l) / ?r \<le> seconds_since later now" by linarith
  then have "1 - ?l \<le> seconds_since later now * ?r" using r by (simp add: pos_divide_le_eq)
  moreover have "0 < retry_after_header retryAfter" using order_le_less_trans [OF _ w, of 0] l(1) r by simp
  then have "now \<le> later" using assms(3) by (simp add: second_def)
  ultimately show ?thesis
    using level_Allow [OF assms(1), of later key key] level_later [OF assms(1), of later key] l r by (simp add: Allow_iff)
qed

section \<open>A limiter at work\<close>

definition demo_ops :: "(time \<times> limiter_op) list" where
  "demo_ops = [(0, Hit ''a''), (0, Hit ''a''), (0, Hit ''a''), (700 * second, SweepNow), (701 * second, Hit ''a'')]"

theorem sweeping_is_invisible_witness:
  "run_limiter (NewRateLimiter 1 2) demo_ops = run_limiter (NewRateLimiter 1 2) (filter (\<lambda>x. snd x \<noteq> SweepNow) demo_ops)"
  by (rule sweeping_is_invisible) (simp add: demo_ops_def second_def)

theorem burst_and_rate_bound_witness:
  "of_nat (granted ''a'' (after_ops (NewRateLimiter 1 2) []) demo_ops) \<le> (of_int 2 + seconds_since (701 * second) 0 * 1 :: rat)"
  by (rule burst_and_rate_bound) (simp_all add: demo_ops_def second_def)

lemma demo_refused:
  "Allow (after_ops (NewRateLimiter 1 1) [(0, Hit ''a'')]) 0 ''a'' =
    ((False, 1001000000), after_ops (NewRateLimiter 1 1) [(0, Hit ''a'')])"
  by (simp add: Allow_def NewRateLimiter_def filled_def Let_def)

theorem retry_after_is_honest_witness:
  "fst (fst (Allow (after_ops (NewRateLimiter 1 1) [(0, Hit ''a'')]) (2 * second) ''a''))"
  by (rule retry_after_is_honest [OF _ demo_refused]) (simp_all add: rl_ok_Allow rl_ok_New retry_after_header_def)

end
