(* ===== verification/Http_Middleware.thy ===== *)
theory Http_Middleware
  imports Http Rate_Limit
begin

text \<open>
  \<^verbatim>\<open>internal/transport/http/middleware\<close>: bearer and download tokens, the address a request comes
  from, the request id, the CORS policy and the limits. Whether a text is an address
  (\<^verbatim>\<open>net.ParseIP\<close>), the splitting of host and port and the canonical form of a query
  (\<^verbatim>\<open>url.Values.Encode\<close>) are the fields of \<open>Net\<close>.
\<close>

record Net =
  nt_split_host :: "string \<Rightarrow> string option"
  nt_parse_ip :: "string \<Rightarrow> bool"
  nt_encode :: "(string \<Rightarrow> string list) \<Rightarrow> string"
  nt_fold :: "string \<Rightarrow> string \<Rightarrow> bool"

definition writeProblem :: "int \<Rightarrow> string \<Rightarrow> 'p Response" where
  "writeProblem status detail =
    writeJSON status (ErrorBody \<lparr>eb_Status = status, eb_Message = Fixed detail, eb_Fields = [], eb_TraceID = []\<rparr>)"

definition with_header :: "string \<Rightarrow> string \<Rightarrow> 'p Response \<Rightarrow> 'p Response" where
  "with_header k v resp = resp\<lparr>rs_Headers := (k, v) # rs_Headers resp\<rparr>"

section \<open>Authentication (\<^verbatim>\<open>auth.go\<close>)\<close>

definition bearerToken :: "Net \<Rightarrow> Request \<Rightarrow> string option" where
  "bearerToken net r =
    (let header = rq_Header r ''Authorization'' in
     if header = [] then None
     else case Cut CHR '' '' header of
       None \<Rightarrow> None
     | Some (scheme, token0) \<Rightarrow>
         if \<not> EqualFold (nt_fold net) scheme ''bearer'' then None
         else let token = TrimSpace token0 in if token = [] then None else Some token)"

definition unauthorized :: "string \<Rightarrow> 'p Response" where
  "unauthorized detail =
    with_header ''WWW-Authenticate'' ''Bearer realm=\"api\", error=\"invalid_token\"'' (writeProblem 401 detail)"

text \<open>The middlewares that authenticate: a response that ends the request, or the caller.\<close>

definition RequireAuth :: "Net \<Rightarrow> (string \<Rightarrow> (err, Subject) res) \<Rightarrow> Request \<Rightarrow> 'p Response + Subject" where
  "RequireAuth net parse r =
    (case bearerToken net r of
       None \<Rightarrow> Inl (unauthorized ''missing bearer token'')
     | Some token \<Rightarrow>
         (case parse token of
            Inl _ \<Rightarrow> Inl (unauthorized ''invalid or expired token'')
          | Inr subject \<Rightarrow> Inr subject))"

definition DownloadQueryParam :: string where
  "DownloadQueryParam = ''token''"

definition AllowBearerOrDownloadToken ::
    "Net \<Rightarrow> (string \<Rightarrow> (err, Subject) res) \<Rightarrow> (string \<Rightarrow> string \<Rightarrow> (err, Subject) res) \<Rightarrow> Request \<Rightarrow> 'p Response + Subject" where
  "AllowBearerOrDownloadToken net bearers downloads r =
    (case bearerToken net r of
       Some token \<Rightarrow>
         (case bearers token of
            Inl _ \<Rightarrow> Inl (unauthorized ''invalid or expired token'')
          | Inr subject \<Rightarrow> Inr subject)
     | None \<Rightarrow>
         (let token = (case rq_Query r DownloadQueryParam of [] \<Rightarrow> [] | v # _ \<Rightarrow> v) in
          if token = [] then Inl (unauthorized ''missing bearer token'')
          else case downloads token (nt_encode net ((rq_Query r)(DownloadQueryParam := []))) of
            Inl _ \<Rightarrow> Inl (unauthorized ''invalid or expired download link'')
          | Inr subject \<Rightarrow> Inr subject))"

section \<open>Addresses and ids (\<^verbatim>\<open>observability.go\<close>)\<close>

definition ClientIP :: "Net \<Rightarrow> Request \<Rightarrow> string" where
  "ClientIP net r = (case nt_split_host net (rq_RemoteAddr r) of None \<Rightarrow> rq_RemoteAddr r | Some host \<Rightarrow> host)"

definition TrustedProxyIP :: "Net \<Rightarrow> Request \<Rightarrow> int \<Rightarrow> string" where
  "TrustedProxyIP net r hops =
    (if hops \<le> 0 then ClientIP net r
     else
       let parts = Split CHR '','' (rq_Header r ''X-Forwarded-For''); idx = int (length parts) - hops in
       if idx < 0 \<or> int (length parts) \<le> idx then ClientIP net r
       else let candidate = TrimSpace (parts ! nat idx) in
         if \<not> nt_parse_ip net candidate then ClientIP net r else candidate)"

definition id_char :: "char \<Rightarrow> bool" where
  "id_char c =
    (let n = (of_char c :: nat) in
     97 \<le> n \<and> n \<le> 122 \<or> 65 \<le> n \<and> n \<le> 90 \<or> 48 \<le> n \<and> n \<le> 57 \<or> c = CHR ''-'' \<or> c = CHR ''_'')"

definition sanitizeRequestID :: "string \<Rightarrow> string" where
  "sanitizeRequestID s = filter id_char (take 64 s)"

definition RequestID :: "string \<Rightarrow> Request \<Rightarrow> Request" where
  "RequestID fresh r =
    (let i = sanitizeRequestID (rq_Header r ''X-Request-Id'') in r\<lparr>rq_ID := (if i = [] then fresh else i)\<rparr>)"

definition SecurityHeaders :: "Request \<Rightarrow> (string \<times> string) list" where
  "SecurityHeaders r =
    [(''X-Content-Type-Options'', ''nosniff''), (''X-Frame-Options'', ''DENY''), (''Referrer-Policy'', ''no-referrer'')] @
    (if rq_TLS r then [(''Strict-Transport-Security'', ''max-age=31536000; includeSubDomains'')] else [])"

section \<open>Limits (\<^verbatim>\<open>ratelimit.go\<close>)\<close>

definition ClientKeyFunc :: "Net \<Rightarrow> int \<Rightarrow> Request \<Rightarrow> string" where
  "ClientKeyFunc net trustedProxies r = TrustedProxyIP net r trustedProxies"

definition TenantKeyFunc :: "(uuid \<Rightarrow> string) \<Rightarrow> (Request \<Rightarrow> string) \<Rightarrow> Subject option \<Rightarrow> Request \<Rightarrow> string" where
  "TenantKeyFunc txt fallback subject r =
    (case subject of Some s \<Rightarrow> ''tenant:'' @ txt (sub_TenantID s) | None \<Rightarrow> fallback r)"

definition Limiter_Middleware :: "time \<Rightarrow> string \<Rightarrow> RateLimiter \<Rightarrow> 'p Response option \<times> RateLimiter" where
  "Limiter_Middleware now key rl =
    (case Allow rl now key of ((ok, retryAfter), rl') \<Rightarrow>
       (if ok then None
        else Some (with_header ''Retry-After'' (itoa (retry_after_header retryAfter)) (writeProblem 429 ''too many requests'')), rl'))"

section \<open>CORS (\<^verbatim>\<open>cors.go\<close>)\<close>

record CORSConfig =
  AllowedOrigins :: "string list"
  AllowedMethods :: "string list"
  AllowedHeaders :: "string list"
  ExposedHeaders :: "string list"
  MaxAgeSeconds :: int

definition cors_defaults :: "CORSConfig \<Rightarrow> CORSConfig" where
  "cors_defaults c = c
    \<lparr>AllowedMethods := (if AllowedMethods c = [] then [''GET'', ''POST'', ''PATCH'', ''PUT'', ''DELETE'', ''OPTIONS''] else AllowedMethods c),
     AllowedHeaders := (if AllowedHeaders c = [] then [''Authorization'', ''Content-Type'', ''X-Request-Id'', ''Idempotency-Key''] else AllowedHeaders c),
     ExposedHeaders := (if ExposedHeaders c = [] then [''X-Request-Id'', ''Content-Disposition''] else ExposedHeaders c),
     MaxAgeSeconds := (if MaxAgeSeconds c \<le> 0 then 600 else MaxAgeSeconds c)\<rparr>"

fun Join :: "string \<Rightarrow> string list \<Rightarrow> string" where
  "Join sep [] = []"
| "Join sep [s] = s"
| "Join sep (s # t # ss) = s @ sep @ Join sep (t # ss)"

definition TrimRight_slash :: "string \<Rightarrow> string" where
  "TrimRight_slash s = rev (dropWhile (\<lambda>c. c = CHR ''/'') (rev s))"

text \<open>The headers added to the response, and the response to a preflight.\<close>

definition CORS :: "CORSConfig \<Rightarrow> string \<Rightarrow> Request \<Rightarrow> (string \<times> string) list \<times> 'p Response option" where
  "CORS cfg0 method r =
    (let cfg = cors_defaults cfg0;
         allowed = map (\<lambda>o1. TrimRight_slash (TrimSpace o1)) (AllowedOrigins cfg);
         origin = rq_Header r ''Origin'';
         ok = List.member allowed (TrimRight_slash origin);
         base = (if origin \<noteq> [] \<and> ok
           then [(''Access-Control-Allow-Origin'', origin), (''Access-Control-Allow-Credentials'', ''true''),
                 (''Access-Control-Expose-Headers'', Join '', '' (ExposedHeaders cfg)), (''Vary'', ''Origin'')]
           else [])
     in if method = ''OPTIONS'' \<and> rq_Header r ''Access-Control-Request-Method'' \<noteq> []
        then (base @ (if ok
               then [(''Access-Control-Allow-Methods'', Join '', '' (AllowedMethods cfg)),
                     (''Access-Control-Allow-Headers'', Join '', '' (AllowedHeaders cfg)),
                     (''Access-Control-Max-Age'', itoa (MaxAgeSeconds cfg)),
                     (''Vary'', ''Access-Control-Request-Method''), (''Vary'', ''Access-Control-Request-Headers'')]
               else []), Some (WriteHeader 204))
        else (base, None))"

section \<open>Properties\<close>

lemma sanitizeRequestID_safe: "length (sanitizeRequestID s) \<le> 64" "c \<in> set (sanitizeRequestID s) \<Longrightarrow> id_char c"
  by (auto simp: sanitizeRequestID_def intro: order_trans [OF length_filter_le])

lemma Split_nonempty [simp]: "Split c s \<noteq> []"
  by (cases s) auto

lemma Split_append_sep: "Split c (s @ c # t) = Split c s @ Split c t"
  by (induction s) (simp_all add: hd_append)

lemma Split_Join: "ss \<noteq> [] \<Longrightarrow> \<forall>x \<in> set ss. c \<notin> set x \<Longrightarrow> Split c (Join [c] ss) = ss"
  by (induction "[c]" ss rule: Join.induct) (simp_all add: Split_none Split_append)

text \<open>
  The client cannot choose its address: behind a known number of proxies, each of which appends what it
  saw to the header, the address is the one the outermost of them saw, whatever the client had written
  into the header before.
\<close>

theorem forwarded_address_is_seen:
  assumes "length seen = nat hops" "0 < hops" "\<forall>x \<in> set seen. CHR '','' \<notin> set x"
    and "rq_Header r ''X-Forwarded-For'' = Join '','' seen \<or>
      rq_Header r ''X-Forwarded-For'' = written @ CHR '','' # Join '','' seen"
  shows "TrustedProxyIP net r hops =
    (if nt_parse_ip net (TrimSpace (hd seen)) then TrimSpace (hd seen) else ClientIP net r)"
proof -
  have ne: "seen \<noteq> []" using assms(1,2) by auto
  have "\<exists>pre. Split CHR '','' (rq_Header r ''X-Forwarded-For'') = pre @ seen"
    using assms(4) Split_Join [OF ne assms(3)] Split_append_sep by (metis append_Nil)
  then obtain pre where "Split CHR '','' (rq_Header r ''X-Forwarded-For'') = pre @ seen" by blast
  then show ?thesis using assms(1,2) ne by (simp add: TrustedProxyIP_def Let_def nth_append hd_conv_nth)
qed

definition demo_request :: Request where
  "demo_request = \<lparr>rq_Header = (\<lambda>k. if k = ''X-Forwarded-For'' then ''1.1.1.1,10.0.0.7'' else []), rq_Query = (\<lambda>_. []),
     rq_Cookie = (\<lambda>_. None), rq_Body = [], rq_ContentLength = 0, rq_TLS = False, rq_RemoteAddr = ''proxy'', rq_ID = []\<rparr>"

definition demo_net :: Net where
  "demo_net = \<lparr>nt_split_host = (\<lambda>_. None), nt_parse_ip = (\<lambda>s. s \<noteq> []), nt_encode = (\<lambda>_. []), nt_fold = (\<lambda>_ _. False)\<rparr>"

theorem forwarded_address_is_seen_witness: "TrustedProxyIP demo_net demo_request 1 = ''10.0.0.7''"
proof -
  have trim: "TrimSpace ''10.0.0.7'' = ''10.0.0.7''" by code_simp
  show ?thesis
    using forwarded_address_is_seen [of "[''10.0.0.7'']" 1 demo_request "''1.1.1.1''" demo_net]
    by (simp add: demo_request_def demo_net_def trim)
qed

end
