(* ===== verification/Http_Handlers.thy ===== *)
theory Http_Handlers
  imports Http_Middleware
begin

text \<open>
  \<^verbatim>\<open>internal/transport/http/handler\<close>: the handlers decode, call one service and encode. A handler
  maps the request, the caller and the database to the response and the database afterwards; the
  payload of a response is kept as the value that is encoded.
\<close>

section \<open>Wire shapes\<close>

record draftRequest =
  dq_DepartmentID :: "uuid option"
  dq_Category :: string
  dq_AmountMinor :: int64
  dq_Currency :: string
  dq_Merchant :: string
  dq_Description :: "string option"
  dq_SpentAt :: string

record transitionRequest =
  tq_Reason :: "string option"
  tq_PaymentRef :: "string option"

record budgetRequest =
  bq_DepartmentID :: "uuid option"
  bq_PeriodStart :: string
  bq_PeriodEnd :: string
  bq_AmountMinor :: int64
  bq_Currency :: string
  bq_AlertThresholdBps :: int32

record vendorSubscriptionRequest =
  vq_Vendor :: string
  vq_PlanName :: "string option"
  vq_DepartmentID :: "uuid option"
  vq_OwnerID :: "uuid option"
  vq_AmountMinor :: int64
  vq_Currency :: string
  vq_Cadence :: string
  vq_NextChargeOn :: string
  vq_AutoCreateExpense :: bool
  vq_Status :: string

record inviteRequest =
  iq_Email :: string
  iq_Role :: string
  iq_DepartmentID :: "uuid option"
  iq_ApprovalLimitMinor :: "int64 option"

record updateMemberRequest =
  mq_Role :: string
  mq_Status :: string
  mq_DepartmentID :: "uuid option"
  mq_ApprovalLimitMinor :: "int64 option"

record registerRequest =
  rg_Email :: string
  rg_Password :: string
  rg_FullName :: string
  rg_OrganisationName :: string
  rg_OrganisationSlug :: string
  rg_Currency :: string

record loginRequest =
  lg_Email :: string
  lg_Password :: string
  lg_OrganisationSlug :: string

text \<open>The JSON decoder at each of the types a body is decoded into.\<close>

record Json =
  js_draft :: "string \<Rightarrow> draftRequest decoded"
  js_transition :: "string \<Rightarrow> transitionRequest decoded"
  js_department :: "string \<Rightarrow> DepartmentDraft decoded"
  js_budget :: "string \<Rightarrow> budgetRequest decoded"
  js_vendor :: "string \<Rightarrow> vendorSubscriptionRequest decoded"
  js_invite :: "string \<Rightarrow> inviteRequest decoded"
  js_member :: "string \<Rightarrow> updateMemberRequest decoded"
  js_upload :: "string \<Rightarrow> UploadRequest decoded"
  js_confirm :: "string \<Rightarrow> (string \<times> UploadRequest) decoded"
  js_register :: "string \<Rightarrow> registerRequest decoded"
  js_login :: "string \<Rightarrow> loginRequest decoded"
  js_switch :: "string \<Rightarrow> uuid decoded"
  js_organisation :: "string \<Rightarrow> (string \<times> string) decoded"
  js_password :: "string \<Rightarrow> (string \<times> string) decoded"
  js_checkout :: "string \<Rightarrow> CheckoutRequest decoded"
  js_portal :: "string \<Rightarrow> string decoded"

text \<open>
  What the handlers are built from: the services' configuration, the libraries they use, the secret and
  issuer of download tokens and the verification of relayed deliveries.
\<close>

record 'o Server =
  sv_codec :: Codec
  sv_upper :: "string \<Rightarrow> string"
  sv_lower :: "string \<Rightarrow> string"
  sv_ilike :: "string \<Rightarrow> string \<Rightarrow> bool"
  sv_net :: Net
  sv_json :: Json
  sv_auth :: AuthService
  sv_files :: "'o AttachmentService"
  sv_gateway :: "Gateway option"
  sv_secureCookies :: bool
  sv_trustedProxies :: int
  sv_downloads :: "string \<times> string"
  sv_hmac :: "string \<Rightarrow> string \<Rightarrow> string"
  sv_unmarshal :: "string \<Rightarrow> RelayEvent option"
  sv_jsonb :: jsonb
  sv_relay :: Relay

record consumptionResponse =
  cs_Consumption :: Consumption
  cs_Remaining :: Money
  cs_UsageBps :: int64
  cs_Breached :: bool

record attachmentBody =
  ab_ID :: uuid
  ab_ExpenseID :: uuid
  ab_Filename :: string
  ab_ContentType :: string
  ab_SizeBytes :: int64
  ab_Checksum :: string
  ab_UploadedBy :: uuid
  ab_CreatedAt :: time

text \<open>What \<^verbatim>\<open>respondWithSession\<close> encodes: the session without its refresh token.\<close>

record sessionBody =
  sb_AccessToken :: string
  sb_ExpiresAt :: time
  sb_TenantID :: uuid
  sb_TenantSlug :: string
  sb_Role :: Role

datatype payload =
    ClaimBody Expense
  | ClaimWithActions Expense "Action list"
  | ClaimPage "Expense Page"
  | HistoryBody "EventRecord list"
  | DepartmentBody Department
  | DepartmentsBody "Department list"
  | BudgetBody Budget
  | BudgetsBody "Budget list"
  | ConsumptionBody "consumptionResponse list"
  | VendorBody VendorSubscription
  | VendorsBody "VendorSubscriptionRecord list" int64 string
  | MembershipBody Membership
  | MembersBody "MemberRecord list"
  | SummaryBody Summary
  | TicketBody UploadTicket
  | ReceiptBody attachmentBody
  | ReceiptsBody "attachmentBody list"
  | SessionBody sessionBody
  | TenantsBody "TenantMembership list"
  | ProfileBody Profile
  | OrganisationBody Tenant
  | EntitlementBody Entitlement PlanCode bool bool Limits
  | CheckoutBody CheckoutSession
  | PortalBody string
  | RelayBody RelayOutcome
  | DownloadTicket string time
  | LinkBody string
  | StatusBody string

type_synonym reply = "payload Response"
type_synonym handler = "db \<Rightarrow> reply \<times> db"

text \<open>\<^verbatim>\<open>if err != nil { writeError(w, r, err); return }\<close> after every step of a handler.\<close>

definition respond :: "Request \<Rightarrow> 'a act \<Rightarrow> ('a \<Rightarrow> reply) \<Rightarrow> handler" where
  "respond r call ok d = (case call d of (Inl err, d') \<Rightarrow> (writeError r err, d') | (Inr x, d') \<Rightarrow> (ok x, d'))"

section \<open>Claims (\<^verbatim>\<open>expense.go\<close>)\<close>

definition toDomain :: "(string \<Rightarrow> string) \<Rightarrow> draftRequest \<Rightarrow> (err, Draft) res" where
  "toDomain upper dr =
    (let currency = ParseCurrency upper (dq_Currency dr);
         spentAt = ParseDate (dq_SpentAt dr);
         v1 = add_if (isl currency) ''currency'' ''must be a three-letter ISO 4217 code'' [];
         v2 = add_if (spentAt = None) ''spent_at'' ''must be a date in YYYY-MM-DD form'' v1
     in bind_res (Err v2) (\<lambda>_. Inr
        \<lparr>d_DepartmentID = dq_DepartmentID dr, d_Category = category_of (dq_Category dr),
         d_Amount = \<lparr>Minor = dq_AmountMinor dr, Currency = (case currency of Inr c \<Rightarrow> c | Inl _ \<Rightarrow> [])\<rparr>,
         d_Merchant = dq_Merchant dr, d_Description = dq_Description dr,
         d_SpentAt = (case spentAt of Some t \<Rightarrow> t | None \<Rightarrow> zero_time)\<rparr>))"

definition Handle_Create :: "'o Server \<Rightarrow> Runtime \<Rightarrow> Subject \<Rightarrow> Request \<Rightarrow> handler" where
  "Handle_Create sv env subject r =
    respond r
      (bind_act (lift_act (decodeJSON (js_draft (sv_json sv)) r)) (\<lambda>dr.
       bind_act (lift_act (toDomain (sv_upper sv) dr)) (\<lambda>draft.
       Service_Create env subject draft)))
      (\<lambda>created. with_header ''Location'' (''/api/v1/expenses/'' @ uuid_text (sv_codec sv) (e_ID created))
        (writeJSON 201 (Payload (ClaimBody created))))"

definition Handle_Get :: "'o Server \<Rightarrow> Runtime \<Rightarrow> Subject \<Rightarrow> Request \<Rightarrow> string \<Rightarrow> handler" where
  "Handle_Get sv env subject r seg =
    respond r
      (bind_act (lift_act (pathUUID (sv_codec sv) seg)) (\<lambda>i. Service_Get env subject i))
      (\<lambda>(found, allowed, _). writeJSON 200 (Payload (ClaimWithActions found allowed)))"

definition Handle_Update :: "'o Server \<Rightarrow> Runtime \<Rightarrow> Subject \<Rightarrow> Request \<Rightarrow> string \<Rightarrow> handler" where
  "Handle_Update sv env subject r seg =
    respond r
      (bind_act (lift_act (pathUUID (sv_codec sv) seg)) (\<lambda>i.
       bind_act (lift_act (decodeJSON (js_draft (sv_json sv)) r)) (\<lambda>dr.
       bind_act (lift_act (toDomain (sv_upper sv) dr)) (\<lambda>draft.
       Service_Update env subject i draft))))
      (\<lambda>updated. writeJSON 200 (Payload (ClaimBody updated)))"

definition Handle_Delete :: "'o Server \<Rightarrow> Runtime \<Rightarrow> Subject \<Rightarrow> Request \<Rightarrow> string \<Rightarrow> handler" where
  "Handle_Delete sv env subject r seg =
    respond r
      (bind_act (lift_act (pathUUID (sv_codec sv) seg)) (\<lambda>i. Service_Delete env subject i))
      (\<lambda>_. WriteHeader 204)"

text \<open>The body is looked at only when its length is announced.\<close>

definition Handle_Transition :: "'o Server \<Rightarrow> Runtime \<Rightarrow> Subject \<Rightarrow> Request \<Rightarrow> Action \<Rightarrow> string \<Rightarrow> handler" where
  "Handle_Transition sv env subject r action seg =
    respond r
      (bind_act (lift_act (pathUUID (sv_codec sv) seg)) (\<lambda>i.
       bind_act (if 0 < rq_ContentLength r then lift_act (decodeJSON (js_transition (sv_json sv)) r)
                 else ret_act \<lparr>tq_Reason = None, tq_PaymentRef = None\<rparr>) (\<lambda>req.
       Service_Transition env subject i action (tq_Reason req) (tq_PaymentRef req))))
      (\<lambda>moved. writeJSON 200 (Payload (ClaimBody (fst moved))))"

definition Handle_List :: "'o Server \<Rightarrow> Runtime \<Rightarrow> Subject \<Rightarrow> Request \<Rightarrow> handler" where
  "Handle_List sv env subject r =
    (let (filter, e1) = q_filter (sv_codec sv) r [];
         (cursor, e2) = q_cursor (sv_codec sv) r ''cursor'' e1;
         (limit, e3) = intDefault r ''limit'' DefaultPageSize e2
     in respond r
          (bind_act (lift_act (Err e3)) (\<lambda>_.
           Service_List (sv_codec sv) (sv_ilike sv) env subject \<lparr>q_Filter = filter, q_Cursor = cursor, q_Limit = limit\<rparr>))
          (\<lambda>page. writeJSON 200 (Payload (ClaimPage page))))"

definition Handle_PendingQueue :: "'o Server \<Rightarrow> Runtime \<Rightarrow> Subject \<Rightarrow> Request \<Rightarrow> handler" where
  "Handle_PendingQueue sv env subject r =
    (let (cursor, e1) = q_cursor (sv_codec sv) r ''cursor'' [];
         (limit, e2) = intDefault r ''limit'' DefaultPageSize e1
     in respond r
          (bind_act (lift_act (Err e2)) (\<lambda>_. PendingQueue (sv_codec sv) env subject cursor limit))
          (\<lambda>page. writeJSON 200 (Payload (ClaimPage page))))"

definition Handle_History :: "'o Server \<Rightarrow> Runtime \<Rightarrow> Subject \<Rightarrow> Request \<Rightarrow> string \<Rightarrow> handler" where
  "Handle_History sv env subject r seg =
    respond r
      (bind_act (lift_act (pathUUID (sv_codec sv) seg)) (\<lambda>i. History env subject i))
      (\<lambda>events. writeJSON 200 (Payload (HistoryBody events)))"

end
