(* ===== verification/Http_Org.thy ===== *)
theory Http_Org
  imports Http_Handlers
begin

text \<open>
  \<^verbatim>\<open>internal/transport/http/handler/org.go\<close>: departments, budgets, vendor subscriptions, members and
  the dashboard's summary.
\<close>

section \<open>Requests\<close>

text \<open>The conversions \<^verbatim>\<open>org.Cadence(s)\<close>, \<^verbatim>\<open>org.VendorStatus(s)\<close> and \<^verbatim>\<open>tenant.MembershipStatus(s)\<close>.\<close>

definition cadence_of :: "string \<Rightarrow> Cadence" where
  "cadence_of s = (case List.find (\<lambda>c. cadence_str c = s) AllCadences of Some c \<Rightarrow> c | None \<Rightarrow> CadenceOther s)"

definition vendor_status_of :: "string \<Rightarrow> VendorStatus" where
  "vendor_status_of s =
    (if s = ''active'' then VendorActive else if s = ''paused'' then VendorPaused
     else if s = ''cancelled'' then VendorCancelled else VendorStatusOther s)"

definition member_status_of :: "string \<Rightarrow> MembershipStatus" where
  "member_status_of s =
    (if s = ''invited'' then MembershipInvited else if s = ''active'' then MembershipActive
     else if s = ''suspended'' then MembershipSuspended else MembershipStatusOther s)"

definition currency_or_empty :: "(err, Currency) res \<Rightarrow> Currency" where
  "currency_or_empty c = (case c of Inr x \<Rightarrow> x | Inl _ \<Rightarrow> [])"

definition time_or_zero :: "time option \<Rightarrow> time" where
  "time_or_zero t = (case t of Some x \<Rightarrow> x | None \<Rightarrow> zero_time)"

definition budget_toDraft :: "(string \<Rightarrow> string) \<Rightarrow> budgetRequest \<Rightarrow> (err, BudgetDraft) res" where
  "budget_toDraft upper r =
    (let currency = ParseCurrency upper (bq_Currency r);
         start = ParseDate (bq_PeriodStart r);
         until = ParseDate (bq_PeriodEnd r);
         v1 = add_if (isl currency) ''currency'' ''must be a three-letter ISO 4217 code'' [];
         v2 = add_if (start = None) ''period_start'' ''must be a date in YYYY-MM-DD form'' v1;
         v3 = add_if (until = None) ''period_end'' ''must be a date in YYYY-MM-DD form'' v2
     in bind_res (Err v3) (\<lambda>_. Inr
        \<lparr>bd_DepartmentID = bq_DepartmentID r, bd_PeriodStart = time_or_zero start, bd_PeriodEnd = time_or_zero until,
         bd_Amount = \<lparr>Minor = bq_AmountMinor r, Currency = currency_or_empty currency\<rparr>,
         bd_AlertThresholdBps = bq_AlertThresholdBps r\<rparr>))"

definition vendor_toDraft :: "(string \<Rightarrow> string) \<Rightarrow> vendorSubscriptionRequest \<Rightarrow> (err, VendorSubscriptionDraft) res" where
  "vendor_toDraft upper r =
    (let currency = ParseCurrency upper (vq_Currency r);
         charge = ParseDate (vq_NextChargeOn r);
         v1 = add_if (isl currency) ''currency'' ''must be a three-letter ISO 4217 code'' [];
         v2 = add_if (charge = None) ''next_charge_on'' ''must be a date in YYYY-MM-DD form'' v1
     in bind_res (Err v2) (\<lambda>_. Inr
        \<lparr>vd_Vendor = vq_Vendor r, vd_PlanName = vq_PlanName r, vd_DepartmentID = vq_DepartmentID r, vd_OwnerID = vq_OwnerID r,
         vd_Amount = \<lparr>Minor = vq_AmountMinor r, Currency = currency_or_empty currency\<rparr>,
         vd_Cadence = cadence_of (vq_Cadence r), vd_NextChargeOn = time_or_zero charge,
         vd_AutoCreateExpense = vq_AutoCreateExpense r\<rparr>))"

section \<open>Departments\<close>

definition Handle_CreateDepartment :: "'o Server \<Rightarrow> Runtime \<Rightarrow> Subject \<Rightarrow> Request \<Rightarrow> handler" where
  "Handle_CreateDepartment sv env subject r =
    respond r
      (bind_act (lift_act (decodeJSON (js_department (sv_json sv)) r)) (\<lambda>draft. CreateDepartment env subject draft))
      (\<lambda>created. with_header ''Location'' (''/api/v1/departments/'' @ uuid_text (sv_codec sv) (dp_ID created))
        (writeJSON 201 (Payload (DepartmentBody created))))"

definition Handle_ListDepartments :: "Runtime \<Rightarrow> Subject \<Rightarrow> Request \<Rightarrow> handler" where
  "Handle_ListDepartments env subject r =
    respond r (ListDepartments env subject (raw r ''include_archived'' = ''true''))
      (\<lambda>list. writeJSON 200 (Payload (DepartmentsBody list)))"

definition Handle_UpdateDepartment :: "'o Server \<Rightarrow> Runtime \<Rightarrow> Subject \<Rightarrow> Request \<Rightarrow> string \<Rightarrow> handler" where
  "Handle_UpdateDepartment sv env subject r seg =
    respond r
      (bind_act (lift_act (pathUUID (sv_codec sv) seg)) (\<lambda>i.
       bind_act (lift_act (decodeJSON (js_department (sv_json sv)) r)) (\<lambda>draft.
       UpdateDepartment env subject i draft)))
      (\<lambda>updated. writeJSON 200 (Payload (DepartmentBody updated)))"

definition Handle_ArchiveDepartment :: "'o Server \<Rightarrow> Runtime \<Rightarrow> Subject \<Rightarrow> Request \<Rightarrow> string \<Rightarrow> handler" where
  "Handle_ArchiveDepartment sv env subject r seg =
    respond r
      (bind_act (lift_act (pathUUID (sv_codec sv) seg)) (\<lambda>i. ArchiveDepartment env subject i))
      (\<lambda>_. WriteHeader 204)"

section \<open>Budgets\<close>

definition Handle_CreateBudget :: "'o Server \<Rightarrow> Runtime \<Rightarrow> Subject \<Rightarrow> Request \<Rightarrow> handler" where
  "Handle_CreateBudget sv env subject r =
    respond r
      (bind_act (lift_act (decodeJSON (js_budget (sv_json sv)) r)) (\<lambda>req.
       bind_act (lift_act (budget_toDraft (sv_upper sv) req)) (\<lambda>draft.
       CreateBudget env subject draft)))
      (\<lambda>created. writeJSON 201 (Payload (BudgetBody created)))"

definition Handle_ListBudgets :: "'o Server \<Rightarrow> Runtime \<Rightarrow> Subject \<Rightarrow> Request \<Rightarrow> handler" where
  "Handle_ListBudgets sv env subject r =
    (let (departmentID, e1) = q_uuid (sv_codec sv) r ''department_id'' [];
         (on, e2) = q_date r ''on'' e1
     in respond r (bind_act (lift_act (Err e2)) (\<lambda>_. ListBudgets env subject departmentID on))
          (\<lambda>list. writeJSON 200 (Payload (BudgetsBody list))))"

definition consumption_response :: "Consumption \<Rightarrow> consumptionResponse" where
  "consumption_response c =
    \<lparr>cs_Consumption = c, cs_Remaining = Remaining c, cs_UsageBps = UsageBps c, cs_Breached = BreachesThreshold c\<rparr>"

definition Handle_BudgetConsumption :: "Runtime \<Rightarrow> Subject \<Rightarrow> Request \<Rightarrow> handler" where
  "Handle_BudgetConsumption env subject r =
    (let (on, e1) = q_date r ''on'' []
     in respond r (bind_act (lift_act (Err e1)) (\<lambda>_. BudgetConsumption env subject on))
          (\<lambda>rows. writeJSON 200 (Payload (ConsumptionBody (map consumption_response rows)))))"

definition Handle_UpdateBudget :: "'o Server \<Rightarrow> Runtime \<Rightarrow> Subject \<Rightarrow> Request \<Rightarrow> string \<Rightarrow> handler" where
  "Handle_UpdateBudget sv env subject r seg =
    respond r
      (bind_act (lift_act (pathUUID (sv_codec sv) seg)) (\<lambda>i.
       bind_act (lift_act (decodeJSON (js_budget (sv_json sv)) r)) (\<lambda>req.
       bind_act (lift_act (budget_toDraft (sv_upper sv) req)) (\<lambda>draft.
       UpdateBudget env subject i draft))))
      (\<lambda>updated. writeJSON 200 (Payload (BudgetBody updated)))"

definition Handle_DeleteBudget :: "'o Server \<Rightarrow> Runtime \<Rightarrow> Subject \<Rightarrow> Request \<Rightarrow> string \<Rightarrow> handler" where
  "Handle_DeleteBudget sv env subject r seg =
    respond r
      (bind_act (lift_act (pathUUID (sv_codec sv) seg)) (\<lambda>i. DeleteBudget env subject i))
      (\<lambda>_. WriteHeader 204)"

section \<open>Vendor subscriptions\<close>

definition Handle_CreateVendorSubscription :: "'o Server \<Rightarrow> Runtime \<Rightarrow> Subject \<Rightarrow> Request \<Rightarrow> handler" where
  "Handle_CreateVendorSubscription sv env subject r =
    respond r
      (bind_act (lift_act (decodeJSON (js_vendor (sv_json sv)) r)) (\<lambda>req.
       bind_act (lift_act (vendor_toDraft (sv_upper sv) req)) (\<lambda>draft.
       CreateVendorSubscription env subject draft)))
      (\<lambda>created. writeJSON 201 (Payload (VendorBody created)))"

text \<open>The total over the active subscriptions wraps like the code's, and is labelled with the last one's currency.\<close>

fun annual_total :: "VendorSubscriptionRecord list \<Rightarrow> int64 \<Rightarrow> string \<Rightarrow> int64 \<times> string" where
  "annual_total [] tot currency = (tot, currency)"
| "annual_total (item # items) tot currency =
    (if vs_Status (vr_Subscription item) = VendorActive
     then annual_total items (tot + vr_AnnualisedMinor item) (Currency (vs_Amount (vr_Subscription item)))
     else annual_total items tot currency)"

definition vendor_status_filter :: "Request \<Rightarrow> (err, VendorStatus option) res" where
  "vendor_status_filter r =
    (let s = raw r ''status'' in
     if s = [] then Inr None
     else if \<not> VendorStatus_Valid (vendor_status_of s)
     then Inl (FieldErr \<lparr>Field = ''status'', Detail = Text ''must be one of active, paused or cancelled''\<rparr>)
     else Inr (Some (vendor_status_of s)))"

definition Handle_ListVendorSubscriptions :: "Runtime \<Rightarrow> Subject \<Rightarrow> Request \<Rightarrow> handler" where
  "Handle_ListVendorSubscriptions env subject r =
    respond r
      (bind_act (lift_act (vendor_status_filter r)) (\<lambda>status. ListVendorSubscriptions env subject status))
      (\<lambda>list. let (tot, currency) = annual_total list 0 [] in writeJSON 200 (Payload (VendorsBody list tot currency)))"

definition Handle_UpdateVendorSubscription :: "'o Server \<Rightarrow> Runtime \<Rightarrow> Subject \<Rightarrow> Request \<Rightarrow> string \<Rightarrow> handler" where
  "Handle_UpdateVendorSubscription sv env subject r seg =
    respond r
      (bind_act (lift_act (pathUUID (sv_codec sv) seg)) (\<lambda>i.
       bind_act (lift_act (decodeJSON (js_vendor (sv_json sv)) r)) (\<lambda>req.
       bind_act (lift_act (vendor_toDraft (sv_upper sv) req)) (\<lambda>draft.
       UpdateVendorSubscription env subject i draft
         (if vq_Status req = [] then VendorActive else vendor_status_of (vq_Status req))))))
      (\<lambda>updated. writeJSON 200 (Payload (VendorBody updated)))"

section \<open>Members\<close>

definition Handle_ListMembers :: "Runtime \<Rightarrow> Subject \<Rightarrow> Request \<Rightarrow> handler" where
  "Handle_ListMembers env subject r =
    respond r (Members env subject) (\<lambda>members. writeJSON 200 (Payload (MembersBody members)))"

definition Handle_InviteMember :: "'o Server \<Rightarrow> (nat \<Rightarrow> Runtime) \<Rightarrow> Subject \<Rightarrow> Request \<Rightarrow> handler" where
  "Handle_InviteMember sv envs subject r =
    respond r
      (bind_act (lift_act (decodeJSON (js_invite (sv_json sv)) r)) (\<lambda>req.
       bind_act (lift_act (ParseRole (iq_Role req))) (\<lambda>role.
       InviteMember envs subject (iq_Email req) role (iq_DepartmentID req) (iq_ApprovalLimitMinor req))))
      (\<lambda>invited. writeJSON 201 (Payload (MembershipBody invited)))"

definition known_member_status :: "string \<Rightarrow> (err, MembershipStatus) res" where
  "known_member_status s =
    (case member_status_of s of
       MembershipStatusOther _ \<Rightarrow>
         Inl (FieldErr \<lparr>Field = ''status'', Detail = Text ''must be one of invited, active or suspended''\<rparr>)
     | status \<Rightarrow> Inr status)"

definition Handle_UpdateMember :: "'o Server \<Rightarrow> Runtime \<Rightarrow> Subject \<Rightarrow> Request \<Rightarrow> string \<Rightarrow> handler" where
  "Handle_UpdateMember sv env subject r seg =
    respond r
      (bind_act (lift_act (pathUUID (sv_codec sv) seg)) (\<lambda>i.
       bind_act (lift_act (decodeJSON (js_member (sv_json sv)) r)) (\<lambda>req.
       bind_act (lift_act (ParseRole (mq_Role req))) (\<lambda>role.
       bind_act (lift_act (known_member_status (mq_Status req))) (\<lambda>status.
       UpdateMember env subject i role status (mq_DepartmentID req) (mq_ApprovalLimitMinor req))))))
      (\<lambda>updated. writeJSON 200 (Payload (MembershipBody updated)))"

definition Handle_Summary :: "Runtime \<Rightarrow> Subject \<Rightarrow> Request \<Rightarrow> handler" where
  "Handle_Summary env subject r =
    (let (from, e1) = q_date r ''from'' [];
         (to, e2) = q_date r ''to'' e1
     in respond r (bind_act (lift_act (Err e2)) (\<lambda>_. Service_Summary env subject from to))
          (\<lambda>summary. writeJSON 200 (Payload (SummaryBody summary))))"

end
