(* ===== verification/Http_Accounts.thy ===== *)
theory Http_Accounts
  imports Http_Org
begin

text \<open>
  The handlers \<^verbatim>\<open>auth.go\<close>, \<^verbatim>\<open>account.go\<close>, \<^verbatim>\<open>attachment.go\<close>, \<^verbatim>\<open>billing.go\<close> and
  \<^verbatim>\<open>health.go\<close>. The user agent and address a session is recorded with are left out, as in
  \<open>Auth_Service\<close>.
\<close>

section \<open>Sessions (\<^verbatim>\<open>auth.go\<close>)\<close>

definition refreshCookieName :: string where
  "refreshCookieName = ''bet_refresh''"

definition with_cookie :: "Cookie \<Rightarrow> 'p Response \<Rightarrow> 'p Response" where
  "with_cookie c resp = resp\<lparr>rs_Cookies := rs_Cookies resp @ [c]\<rparr>"

definition clearRefreshCookie :: "bool \<Rightarrow> Cookie" where
  "clearRefreshCookie secure =
    \<lparr>ck_Name = refreshCookieName, ck_Value = [], ck_Path = ''/api/v1/auth'', ck_HttpOnly = True, ck_Secure = secure, ck_MaxAge = -1\<rparr>"

definition respondWithSession :: "'o Server \<Rightarrow> int \<Rightarrow> Session \<Rightarrow> reply" where
  "respondWithSession sv status s =
    with_cookie
      \<lparr>ck_Name = refreshCookieName, ck_Value = se_RefreshToken s, ck_Path = ''/api/v1/auth'', ck_HttpOnly = True,
       ck_Secure = sv_secureCookies sv, ck_MaxAge = 30 * 24 * 60 * 60\<rparr>
      (writeJSON status (Payload (SessionBody
        \<lparr>sb_AccessToken = se_AccessToken s, sb_ExpiresAt = se_ExpiresAt s, sb_TenantID = se_TenantID s,
         sb_TenantSlug = se_TenantSlug s, sb_Role = se_Role s\<rparr>)))"

definition wrong_credentials :: "Request \<Rightarrow> reply" where
  "wrong_credentials r =
    writeJSON 401 (ErrorBody \<lparr>eb_Status = 401, eb_Message = Fixed ''email or password is incorrect'', eb_Fields = [], eb_TraceID = rq_ID r\<rparr>)"

definition writeAuthError :: "Request \<Rightarrow> err \<Rightarrow> reply" where
  "writeAuthError r err =
    (if errors_is err ErrCredentials \<or> errors_is err ErrTokenReuse then wrong_credentials r else writeError r err)"

definition Handle_Register :: "'o Server \<Rightarrow> (nat \<Rightarrow> Runtime) \<Rightarrow> Request \<Rightarrow> handler" where
  "Handle_Register sv envs r =
    respond r
      (bind_act (lift_act (decodeJSON (js_register (sv_json sv)) r)) (\<lambda>req.
       Register (sv_auth sv) (sv_upper sv) (sv_lower sv) envs (rg_Email req) (rg_Password req) (rg_FullName req)
         (rg_OrganisationName req) (rg_OrganisationSlug req) (rg_Currency req)))
      (respondWithSession sv 201)"

definition Handle_Login :: "'o Server \<Rightarrow> (nat \<Rightarrow> Runtime) \<Rightarrow> Request \<Rightarrow> handler" where
  "Handle_Login sv envs r d =
    (case decodeJSON (js_login (sv_json sv)) r of
       Inl err \<Rightarrow> (writeError r err, d)
     | Inr req \<Rightarrow>
         (case Login (sv_auth sv) (sv_lower sv) (nt_fold (sv_net sv)) envs (lg_Email req) (lg_Password req) (lg_OrganisationSlug req) d of
            (Inl err, d') \<Rightarrow> (writeAuthError r err, d')
          | (Inr session, d') \<Rightarrow> (respondWithSession sv 200 session, d')))"

definition Handle_Refresh :: "'o Server \<Rightarrow> (nat \<Rightarrow> Runtime) \<Rightarrow> Request \<Rightarrow> handler" where
  "Handle_Refresh sv envs r d =
    (case rq_Cookie r refreshCookieName of
       None \<Rightarrow> (writeAuthError r (Sentinel ErrCredentials), d)
     | Some token \<Rightarrow>
         if token = [] then (writeAuthError r (Sentinel ErrCredentials), d)
         else
           case Refresh (sv_auth sv) (nt_fold (sv_net sv)) envs token d of
             (Inl err, d') \<Rightarrow> (with_cookie (clearRefreshCookie (sv_secureCookies sv)) (writeAuthError r err), d')
           | (Inr session, d') \<Rightarrow> (respondWithSession sv 200 session, d'))"

definition Handle_Logout :: "'o Server \<Rightarrow> handler" where
  "Handle_Logout sv d = (with_cookie (clearRefreshCookie (sv_secureCookies sv)) (WriteHeader 204), d)"

definition Handle_Tenants :: "(nat \<Rightarrow> Runtime) \<Rightarrow> Subject \<Rightarrow> Request \<Rightarrow> handler" where
  "Handle_Tenants envs subject r =
    respond r (Tenants envs subject) (\<lambda>memberships. writeJSON 200 (Payload (TenantsBody memberships)))"

definition Handle_SwitchTenant :: "'o Server \<Rightarrow> (nat \<Rightarrow> Runtime) \<Rightarrow> Subject \<Rightarrow> Request \<Rightarrow> handler" where
  "Handle_SwitchTenant sv envs subject r =
    respond r
      (bind_act (lift_act (decodeJSON (js_switch (sv_json sv)) r)) (\<lambda>tenantID. SwitchTenant (sv_auth sv) envs subject tenantID))
      (respondWithSession sv 200)"

section \<open>The account (\<^verbatim>\<open>account.go\<close>)\<close>

definition Handle_Me :: "Runtime \<Rightarrow> Subject \<Rightarrow> Request \<Rightarrow> handler" where
  "Handle_Me env subject r = respond r (Me env subject) (\<lambda>profile. writeJSON 200 (Payload (ProfileBody profile)))"

definition Handle_GetOrganisation :: "Runtime \<Rightarrow> Subject \<Rightarrow> Request \<Rightarrow> handler" where
  "Handle_GetOrganisation env subject r =
    respond r (Organisation env subject) (\<lambda>org. writeJSON 200 (Payload (OrganisationBody org)))"

definition Handle_UpdateOrganisation :: "'o Server \<Rightarrow> Runtime \<Rightarrow> Subject \<Rightarrow> Request \<Rightarrow> handler" where
  "Handle_UpdateOrganisation sv env subject r =
    respond r
      (bind_act (lift_act (decodeJSON (js_organisation (sv_json sv)) r)) (\<lambda>(name, currency).
       UpdateOrganisation (sv_upper sv) (sv_lower sv) env subject name currency))
      (\<lambda>org. writeJSON 200 (Payload (OrganisationBody org)))"

definition Handle_ChangePassword :: "'o Server \<Rightarrow> (nat \<Rightarrow> Runtime) \<Rightarrow> Subject \<Rightarrow> Request \<Rightarrow> handler" where
  "Handle_ChangePassword sv envs subject r d =
    (case decodeJSON (js_password (sv_json sv)) r of
       Inl err \<Rightarrow> (writeError r err, d)
     | Inr (current, new) \<Rightarrow>
         (case ChangePassword (sv_auth sv) envs subject current new d of
            (Inl err, d') \<Rightarrow> (if errors_is err ErrCredentials then wrong_credentials r else writeError r err, d')
          | (Inr _, d') \<Rightarrow> (with_cookie (clearRefreshCookie (rq_TLS r)) (WriteHeader 204), d')))"

section \<open>Receipts (\<^verbatim>\<open>attachment.go\<close>)\<close>

definition attachment_body :: "Attachment \<Rightarrow> attachmentBody" where
  "attachment_body a =
    \<lparr>ab_ID = at_ID a, ab_ExpenseID = at_ExpenseID a, ab_Filename = at_Filename a, ab_ContentType = at_ContentType a,
     ab_SizeBytes = at_SizeBytes a, ab_Checksum = EncodeToString (at_Checksum a), ab_UploadedBy = at_UploadedBy a,
     ab_CreatedAt = at_CreatedAt a\<rparr>"

definition Handle_PrepareUpload :: "'o Server \<Rightarrow> Runtime \<Rightarrow> 'o \<Rightarrow> Subject \<Rightarrow> Request \<Rightarrow> string \<Rightarrow> handler" where
  "Handle_PrepareUpload sv env o1 subject r seg =
    respond r
      (bind_act (lift_act (pathUUID (sv_codec sv) seg)) (\<lambda>expenseID.
       bind_act (lift_act (decodeJSON (js_upload (sv_json sv)) r)) (\<lambda>req.
       PrepareUpload (sv_files sv) env o1 subject expenseID req)))
      (\<lambda>ticket. writeJSON 200 (Payload (TicketBody ticket)))"

definition Handle_ConfirmUpload :: "'o Server \<Rightarrow> Runtime \<Rightarrow> 'o \<Rightarrow> Subject \<Rightarrow> Request \<Rightarrow> string \<Rightarrow> handler" where
  "Handle_ConfirmUpload sv env o1 subject r seg =
    respond r
      (bind_act (lift_act (pathUUID (sv_codec sv) seg)) (\<lambda>expenseID.
       bind_act (lift_act (decodeJSON (js_confirm (sv_json sv)) r)) (\<lambda>(objectKey, req).
       ConfirmUpload (sv_files sv) env o1 subject expenseID objectKey req)))
      (\<lambda>created. writeJSON 201 (Payload (ReceiptBody (attachment_body created))))"

definition Handle_ListReceipts :: "'o Server \<Rightarrow> Runtime \<Rightarrow> Subject \<Rightarrow> Request \<Rightarrow> string \<Rightarrow> handler" where
  "Handle_ListReceipts sv env subject r seg =
    respond r
      (bind_act (lift_act (pathUUID (sv_codec sv) seg)) (\<lambda>expenseID. Receipts_List env subject expenseID))
      (\<lambda>list. writeJSON 200 (Payload (ReceiptsBody (map attachment_body list))))"

text \<open>\<^verbatim>\<open>http.Redirect\<close>: the location, and for a GET a short page that links to it.\<close>

definition Redirect :: "string \<Rightarrow> int \<Rightarrow> reply" where
  "Redirect url status =
    \<lparr>rs_Status = status, rs_Headers = [(''Location'', url), (''Content-Type'', ''text/html; charset=utf-8'')], rs_Cookies = [],
     rs_Body = Payload (LinkBody url)\<rparr>"

definition Handle_Download :: "'o Server \<Rightarrow> Runtime \<Rightarrow> 'o \<Rightarrow> Subject \<Rightarrow> Request \<Rightarrow> string \<Rightarrow> handler" where
  "Handle_Download sv env o1 subject r seg =
    respond r
      (bind_act (lift_act (pathUUID (sv_codec sv) seg)) (\<lambda>i. DownloadURL (sv_files sv) env o1 subject i))
      (\<lambda>url. with_header ''Cache-Control'' ''no-store, private'' (with_header ''Referrer-Policy'' ''no-referrer'' (Redirect url 302)))"

definition Handle_DeleteReceipt ::
    "'o Server \<Rightarrow> Runtime \<Rightarrow> Subject \<Rightarrow> Request \<Rightarrow> string \<Rightarrow> db \<times> 'o \<Rightarrow> reply \<times> db \<times> 'o" where
  "Handle_DeleteReceipt sv env subject r seg x =
    (case pathUUID (sv_codec sv) seg of
       Inl err \<Rightarrow> (writeError r err, x)
     | Inr i \<Rightarrow>
         (case Receipt_Delete (sv_files sv) env subject i x of
            (Inl err, x') \<Rightarrow> (writeError r err, x')
          | (Inr _, x') \<Rightarrow> (WriteHeader 204, x')))"

section \<open>Billing (\<^verbatim>\<open>billing.go\<close>)\<close>

definition Handle_Entitlement :: "Runtime \<Rightarrow> Subject \<Rightarrow> Request \<Rightarrow> handler" where
  "Handle_Entitlement env subject r =
    respond r (Service_Entitlement env subject)
      (\<lambda>e. writeJSON 200 (Payload (EntitlementBody e (EffectivePlan e) (InGracePeriod e) (NeedsCheckout e) (Entitlement_Limits e))))"

definition Handle_StartCheckout :: "'o Server \<Rightarrow> (nat \<Rightarrow> Runtime) \<Rightarrow> Subject \<Rightarrow> Request \<Rightarrow> handler" where
  "Handle_StartCheckout sv envs subject r =
    respond r
      (bind_act (lift_act (decodeJSON (js_checkout (sv_json sv)) r)) (\<lambda>req.
       StartCheckout (sv_gateway sv) (sv_codec sv) envs subject req))
      (\<lambda>session. writeJSON 200 (Payload (CheckoutBody session)))"

definition Handle_OpenPortal :: "'o Server \<Rightarrow> Runtime \<Rightarrow> Subject \<Rightarrow> Request \<Rightarrow> handler" where
  "Handle_OpenPortal sv env subject r =
    respond r
      (bind_act (lift_act (decodeJSON (js_portal (sv_json sv)) r)) (\<lambda>returnURL.
       OpenPortal (sv_gateway sv) env subject returnURL))
      (\<lambda>url. writeJSON 200 (Payload (PortalBody url)))"

definition SignatureHeader :: string where
  "SignatureHeader = ''X-Billing-Signature''"

definition relay_refusal :: "nat \<Rightarrow> string \<Rightarrow> reply" where
  "relay_refusal status m =
    writeJSON (int status) (ErrorBody \<lparr>eb_Status = int status, eb_Message = Fixed m, eb_Fields = [], eb_TraceID = []\<rparr>)"

text \<open>The endpoint of \<open>Billing_Service\<close> with the bodies it sends.\<close>

definition Handle_Relay :: "'o Server \<Rightarrow> (nat \<Rightarrow> Runtime) \<Rightarrow> Request \<Rightarrow> handler" where
  "Handle_Relay sv envs r d =
    (case HandleRelay (sv_hmac sv) (sv_unmarshal sv) (sv_jsonb sv) (sv_relay sv) envs (rq_Header r SignatureHeader) (rq_Body r) d of
       ((status, Some outcome), d') \<Rightarrow> (writeJSON (int status) (Payload (RelayBody outcome)), d')
     | ((status, None), d') \<Rightarrow>
         (relay_refusal status
            (if status = 413 then ''relay body is too large''
             else if status = 500 then ''could not process the event'' else ''signature verification failed''), d'))"

section \<open>Probes (\<^verbatim>\<open>health.go\<close>)\<close>

definition Handle_Live :: reply where
  "Handle_Live = writeJSON 200 (Payload (StatusBody ''ok''))"

text \<open>\<open>reachable\<close>: whether the database answers a ping within two seconds.\<close>

definition Handle_Ready :: "bool \<Rightarrow> reply" where
  "Handle_Ready reachable =
    (if \<not> reachable then writeJSON 503 (Payload (StatusBody ''unready'')) else writeJSON 200 (Payload (StatusBody ''ok'')))"

end
