(* ===== verification/Http_Export.thy ===== *)
theory Http_Export
  imports Report_Service Http_Accounts
begin

text \<open>
  \<^verbatim>\<open>internal/transport/http/handler/export.go\<close>. An export that fails before its headers are out is an
  ordinary response; one that fails afterwards is an aborted transfer. Flushing and the write deadline of
  the socket change neither the bytes nor their order.
\<close>

datatype export_reply =
    Refused reply
  | Completed "(string \<times> string) list" "chunk list"
  | Aborted "(string \<times> string) list" "chunk list"

section \<open>The headers\<close>

text \<open>\<^verbatim>\<open>url.PathEscape\<close>: what a path segment may not hold is written in hexadecimal.\<close>

definition path_safe :: "char \<Rightarrow> bool" where
  "path_safe c = (id_char c \<or> c \<in> {CHR ''.'', CHR ''~'', CHR ''$'', CHR ''&'', CHR ''+'', CHR '':'', CHR ''='', CHR ''@''})"

definition upperhex :: "nat \<Rightarrow> char" where
  "upperhex n = ''0123456789ABCDEF'' ! n"

definition PathEscape :: "string \<Rightarrow> string" where
  "PathEscape s =
    concat (map (\<lambda>c. if path_safe c then [c]
      else let n = of_char c in [CHR ''%'', upperhex (n div 16), upperhex (n mod 16)]) s)"

definition disposition_rune :: "string \<Rightarrow> string" where
  "disposition_rune p =
    (let v = rune_value p in
     if v < 0x20 \<or> 0x7E < v \<or> p = [CHR 0x22] \<or> p = [CHR 0x5C] \<or> p = '';'' then ''_'' else p)"

definition contentDisposition :: "string \<Rightarrow> string" where
  "contentDisposition filename =
    (let ascii = concat (map disposition_rune (rune_pieces filename)) in
     ''attachment; filename='' @ [CHR 0x22] @ ascii @ [CHR 0x22] @ ''; filename*=UTF-8'' @ [CHR 0x27, CHR 0x27] @ PathEscape filename)"

definition setDownloadHeaders :: "Format \<Rightarrow> Report \<Rightarrow> (string \<times> string) list" where
  "setDownloadHeaders format meta =
    [(''Content-Type'', ContentType format),
     (''Content-Disposition'', contentDisposition (''expenses-'' @ FormatDate (rp_Generated meta) @ ''.'' @ Extension format)),
     (''Transfer-Encoding'', ''chunked''), (''X-Accel-Buffering'', ''no''),
     (''Cache-Control'', ''no-store, private''), (''X-Content-Type-Options'', ''nosniff'')]"

section \<open>The handlers\<close>

text \<open>What both handlers read of the query before anything else happens.\<close>

definition export_request :: "Codec \<Rightarrow> Request \<Rightarrow> (err, ExportRequest) res" where
  "export_request codec r =
    bind_res (ParseFormat (raw r ''format'')) (\<lambda>format.
    let (flt, errs) = q_filter codec r [] in
    bind_res (Err errs) (\<lambda>_. Inr \<lparr>xr_Format = format, xr_Filter = flt\<rparr>))"

definition HandleExport ::
    "'o Server \<Rightarrow> (rat \<Rightarrow> string) \<Rightarrow> Runtime \<Rightarrow> Wire \<Rightarrow> Subject \<Rightarrow> Request \<Rightarrow> db \<Rightarrow> export_reply" where
  "HandleExport sv ft env wire subject r d =
    (case export_request (sv_codec sv) r of
       Inl err \<Rightarrow> Refused (writeError r err)
     | Inr req \<Rightarrow>
         (case StreamExport (sv_codec sv) ft env wire subject req d of
            (outcome, tr) \<Rightarrow>
              (case tr_prepared tr of
                 None \<Rightarrow>
                   (case outcome of Inl err \<Rightarrow> Refused (writeError r err) | Inr _ \<Rightarrow> Completed [] (tr_out tr))
               | Some meta \<Rightarrow>
                   (case outcome of
                      Inl _ \<Rightarrow> Aborted (setDownloadHeaders (xr_Format req) meta) (tr_out tr)
                    | Inr _ \<Rightarrow> Completed (setDownloadHeaders (xr_Format req) meta) (tr_out tr)))))"

definition IssueDownloadToken :: "'o Server \<Rightarrow> Runtime \<Rightarrow> Subject \<Rightarrow> Request \<Rightarrow> reply" where
  "IssueDownloadToken sv env subject r =
    (case export_request (sv_codec sv) r of
       Inl err \<Rightarrow> writeError r err
     | Inr _ \<Rightarrow>
         (let qry = (rq_Query r)(DownloadQueryParam := []); (secret, issuer) = sv_downloads sv in
          case Download_Issue (as_jwt (sv_auth sv)) secret issuer (fresh_id env 0) (clock env) subject (nt_encode (sv_net sv) qry) of
            Inl err \<Rightarrow> writeError r err
          | Inr (token, expiresAt) \<Rightarrow>
              writeJSON 200 (Payload (DownloadTicket
                (''/api/v1/reports/expenses/export?'' @ nt_encode (sv_net sv) (qry(DownloadQueryParam := [token]))) expiresAt))))"

end
