(* ===== verification/Http_Router.thy ===== *)
theory Http_Router
  imports Http_Export
begin

text \<open>
  \<^verbatim>\<open>internal/transport/http/router.go\<close>: the routes, the group each is mounted in, the middleware chains
  and what a request does to the database, the object store and the rate limits. Which registered
  route a path matches is chi's answer, a parameter. The contexts' deadlines are kept as the
  numbers the groups are mounted with.
\<close>

section \<open>Routes\<close>

datatype Endpoint =
    EpLive
  | EpReady
  | EpRelay
  | EpRegister
  | EpLogin
  | EpRefresh
  | EpLogout
  | EpMe
  | EpGetOrganisation
  | EpTenants
  | EpSwitchTenant
  | EpListExpenses
  | EpPendingQueue
  | EpGetExpense
  | EpHistory
  | EpIssueDownloadToken
  | EpListReceipts
  | EpDownload
  | EpEntitlement
  | EpListDepartments
  | EpListBudgets
  | EpBudgetConsumption
  | EpSummary
  | EpListVendorSubscriptions
  | EpListMembers
  | EpCreateExpense
  | EpUpdateExpense
  | EpDeleteExpense
  | EpTransition Action
  | EpStartCheckout
  | EpOpenPortal
  | EpCreateDepartment
  | EpUpdateDepartment
  | EpArchiveDepartment
  | EpCreateBudget
  | EpUpdateBudget
  | EpDeleteBudget
  | EpCreateVendorSubscription
  | EpUpdateVendorSubscription
  | EpPrepareUpload
  | EpConfirmUpload
  | EpDeleteReceipt
  | EpUpdateOrganisation
  | EpChangePassword
  | EpInviteMember
  | EpUpdateMember
  | EpExport

text \<open>The groups the routes are mounted in.\<close>

datatype Group = Probes | RelayGroup | Credential | LogoutGroup | Reading | Writing | Exporting

fun group_of :: "Endpoint \<Rightarrow> Group" where
  "group_of EpLive = Probes"
| "group_of EpReady = Probes"
| "group_of EpRelay = RelayGroup"
| "group_of EpRegister = Credential"
| "group_of EpLogin = Credential"
| "group_of EpRefresh = Credential"
| "group_of EpLogout = LogoutGroup"
| "group_of EpMe = Reading"
| "group_of EpGetOrganisation = Reading"
| "group_of EpTenants = Reading"
| "group_of EpSwitchTenant = Reading"
| "group_of EpListExpenses = Reading"
| "group_of EpPendingQueue = Reading"
| "group_of EpGetExpense = Reading"
| "group_of EpHistory = Reading"
| "group_of EpIssueDownloadToken = Reading"
| "group_of EpListReceipts = Reading"
| "group_of EpDownload = Reading"
| "group_of EpEntitlement = Reading"
| "group_of EpListDepartments = Reading"
| "group_of EpListBudgets = Reading"
| "group_of EpBudgetConsumption = Reading"
| "group_of EpSummary = Reading"
| "group_of EpListVendorSubscriptions = Reading"
| "group_of EpListMembers = Reading"
| "group_of EpExport = Exporting"
| "group_of _ = Writing"

definition routes :: "(string \<times> string \<times> Endpoint) list" where
  "routes =
    [(''GET'', ''/livez'', EpLive),
     (''GET'', ''/readyz'', EpReady),
     (''POST'', ''/internal/billing/relay'', EpRelay),
     (''POST'', ''/api/v1/auth/register'', EpRegister),
     (''POST'', ''/api/v1/auth/login'', EpLogin),
     (''POST'', ''/api/v1/auth/refresh'', EpRefresh),
     (''POST'', ''/api/v1/auth/logout'', EpLogout),
     (''GET'', ''/api/v1/me'', EpMe),
     (''GET'', ''/api/v1/tenant'', EpGetOrganisation),
     (''GET'', ''/api/v1/auth/tenants'', EpTenants),
     (''POST'', ''/api/v1/auth/switch-tenant'', EpSwitchTenant),
     (''GET'', ''/api/v1/expenses'', EpListExpenses),
     (''GET'', ''/api/v1/expenses/pending'', EpPendingQueue),
     (''GET'', ''/api/v1/expenses/{id}'', EpGetExpense),
     (''GET'', ''/api/v1/expenses/{id}/history'', EpHistory),
     (''GET'', ''/api/v1/reports/expenses/export/token'', EpIssueDownloadToken),
     (''GET'', ''/api/v1/expenses/{id}/attachments'', EpListReceipts),
     (''GET'', ''/api/v1/attachments/{id}/download'', EpDownload),
     (''GET'', ''/api/v1/billing/entitlement'', EpEntitlement),
     (''GET'', ''/api/v1/departments'', EpListDepartments),
     (''GET'', ''/api/v1/budgets'', EpListBudgets),
     (''GET'', ''/api/v1/budgets/consumption'', EpBudgetConsumption),
     (''GET'', ''/api/v1/summary'', EpSummary),
     (''GET'', ''/api/v1/vendor-subscriptions'', EpListVendorSubscriptions),
     (''GET'', ''/api/v1/members'', EpListMembers),
     (''POST'', ''/api/v1/expenses'', EpCreateExpense),
     (''PATCH'', ''/api/v1/expenses/{id}'', EpUpdateExpense),
     (''DELETE'', ''/api/v1/expenses/{id}'', EpDeleteExpense),
     (''POST'', ''/api/v1/expenses/{id}/submit'', EpTransition ActionSubmit),
     (''POST'', ''/api/v1/expenses/{id}/approve'', EpTransition ActionApprove),
     (''POST'', ''/api/v1/expenses/{id}/reject'', EpTransition ActionReject),
     (''POST'', ''/api/v1/expenses/{id}/withdraw'', EpTransition ActionWithdraw),
     (''POST'', ''/api/v1/expenses/{id}/revise'', EpTransition ActionRevise),
     (''POST'', ''/api/v1/expenses/{id}/pay'', EpTransition ActionPay),
     (''POST'', ''/api/v1/billing/checkout'', EpStartCheckout),
     (''POST'', ''/api/v1/billing/portal'', EpOpenPortal),
     (''POST'', ''/api/v1/departments'', EpCreateDepartment),
     (''PATCH'', ''/api/v1/departments/{id}'', EpUpdateDepartment),
     (''DELETE'', ''/api/v1/departments/{id}'', EpArchiveDepartment),
     (''POST'', ''/api/v1/budgets'', EpCreateBudget),
     (''PATCH'', ''/api/v1/budgets/{id}'', EpUpdateBudget),
     (''DELETE'', ''/api/v1/budgets/{id}'', EpDeleteBudget),
     (''POST'', ''/api/v1/vendor-subscriptions'', EpCreateVendorSubscription),
     (''PATCH'', ''/api/v1/vendor-subscriptions/{id}'', EpUpdateVendorSubscription),
     (''POST'', ''/api/v1/expenses/{id}/attachments/presign'', EpPrepareUpload),
     (''POST'', ''/api/v1/expenses/{id}/attachments'', EpConfirmUpload),
     (''DELETE'', ''/api/v1/attachments/{id}'', EpDeleteReceipt),
     (''PATCH'', ''/api/v1/tenant'', EpUpdateOrganisation),
     (''POST'', ''/api/v1/auth/password'', EpChangePassword),
     (''POST'', ''/api/v1/members'', EpInviteMember),
     (''PATCH'', ''/api/v1/members/{id}'', EpUpdateMember),
     (''GET'', ''/api/v1/reports/expenses/export'', EpExport)]"

datatype matched = NotFound | NotAllowed | Found Endpoint string

type_synonym chi = "(string \<times> string \<times> Endpoint) list \<Rightarrow> string \<Rightarrow> string \<Rightarrow> matched"

text \<open>What is found has been registered for the method.\<close>

definition chi_ok :: "chi \<Rightarrow> bool" where
  "chi_ok chi = (\<forall>table m p e seg. chi table m p = Found e seg \<longrightarrow> (\<exists>pat. (m, pat, e) \<in> set table))"

section \<open>Configuration and state\<close>

record RouterConfig =
  rc_APITimeout :: duration
  rc_ExportTimeout :: duration
  rc_RelayTimeout :: duration
  rc_CORS :: CORSConfig
  rc_TrustedProxies :: int

definition withDefaults :: "RouterConfig \<Rightarrow> RouterConfig" where
  "withDefaults c = c
    \<lparr>rc_APITimeout := (if rc_APITimeout c \<le> 0 then 10 * second else rc_APITimeout c),
     rc_ExportTimeout := (if rc_ExportTimeout c \<le> 0 then 600 * second else rc_ExportTimeout c),
     rc_RelayTimeout := (if rc_RelayTimeout c \<le> 0 then 25 * second else rc_RelayTimeout c)\<rparr>"

definition group_timeout :: "RouterConfig \<Rightarrow> Group \<Rightarrow> duration" where
  "group_timeout c g =
    (case g of Probes \<Rightarrow> 3 * second | RelayGroup \<Rightarrow> rc_RelayTimeout (withDefaults c)
     | Exporting \<Rightarrow> rc_ExportTimeout (withDefaults c) | _ \<Rightarrow> rc_APITimeout (withDefaults c))"

record 'o World =
  wo_db :: db
  wo_objects :: 'o
  wo_authLimit :: "RateLimiter option"
  wo_writeLimit :: "RateLimiter option"

text \<open>
  One request: its method and path, the surroundings of the transactions it runs, the identifier drawn
  when it brings none, whether the database answers a ping, and the connection an export is written to.
\<close>

record Call =
  cl_method :: string
  cl_path :: string
  cl_request :: Request
  cl_envs :: "nat \<Rightarrow> Runtime"
  cl_fresh :: string
  cl_reachable :: bool
  cl_wire :: Wire
  cl_float :: "rat \<Rightarrow> string"

datatype answer = Reply reply | Export export_reply

section \<open>Handlers behind the routes\<close>

definition on_db :: "handler \<Rightarrow> db \<times> 'o \<Rightarrow> reply \<times> db \<times> 'o" where
  "on_db h x = (let (resp, d) = h (fst x) in (resp, d, snd x))"

text \<open>The handlers that need no caller, and those that run for one.\<close>

definition public_handler :: "'o Server \<Rightarrow> Call \<Rightarrow> Request \<Rightarrow> Endpoint \<Rightarrow> db \<times> 'o \<Rightarrow> reply \<times> db \<times> 'o" where
  "public_handler sv c r e x =
    (let envs = cl_envs c in
     case e of
       EpLive \<Rightarrow> (Handle_Live, x)
     | EpReady \<Rightarrow> (Handle_Ready (cl_reachable c), x)
     | EpRelay \<Rightarrow> on_db (Handle_Relay sv envs r) x
     | EpRegister \<Rightarrow> on_db (Handle_Register sv envs r) x
     | EpLogin \<Rightarrow> on_db (Handle_Login sv envs r) x
     | EpRefresh \<Rightarrow> on_db (Handle_Refresh sv envs r) x
     | EpLogout \<Rightarrow> on_db (Handle_Logout sv) x
     | _ \<Rightarrow> (WriteNotFound r, x))"

definition member_handler ::
    "'o Server \<Rightarrow> Call \<Rightarrow> Subject \<Rightarrow> Request \<Rightarrow> string \<Rightarrow> Endpoint \<Rightarrow> db \<times> 'o \<Rightarrow> reply \<times> db \<times> 'o" where
  "member_handler sv c subject r seg e x =
    (let envs = cl_envs c; env = envs 0 in
     case e of
       EpMe \<Rightarrow> on_db (Handle_Me env subject r) x
     | EpGetOrganisation \<Rightarrow> on_db (Handle_GetOrganisation env subject r) x
     | EpTenants \<Rightarrow> on_db (Handle_Tenants envs subject r) x
     | EpSwitchTenant \<Rightarrow> on_db (Handle_SwitchTenant sv envs subject r) x
     | EpListExpenses \<Rightarrow> on_db (Handle_List sv env subject r) x
     | EpPendingQueue \<Rightarrow> on_db (Handle_PendingQueue sv env subject r) x
     | EpGetExpense \<Rightarrow> on_db (Handle_Get sv env subject r seg) x
     | EpHistory \<Rightarrow> on_db (Handle_History sv env subject r seg) x
     | EpIssueDownloadToken \<Rightarrow> (IssueDownloadToken sv env subject r, x)
     | EpListReceipts \<Rightarrow> on_db (Handle_ListReceipts sv env subject r seg) x
     | EpDownload \<Rightarrow> on_db (Handle_Download sv env (snd x) subject r seg) x
     | EpEntitlement \<Rightarrow> on_db (Handle_Entitlement env subject r) x
     | EpListDepartments \<Rightarrow> on_db (Handle_ListDepartments env subject r) x
     | EpListBudgets \<Rightarrow> on_db (Handle_ListBudgets sv env subject r) x
     | EpBudgetConsumption \<Rightarrow> on_db (Handle_BudgetConsumption env subject r) x
     | EpSummary \<Rightarrow> on_db (Handle_Summary env subject r) x
     | EpListVendorSubscriptions \<Rightarrow> on_db (Handle_ListVendorSubscriptions env subject r) x
     | EpListMembers \<Rightarrow> on_db (Handle_ListMembers env subject r) x
     | EpCreateExpense \<Rightarrow> on_db (Handle_Create sv env subject r) x
     | EpUpdateExpense \<Rightarrow> on_db (Handle_Update sv env subject r seg) x
     | EpDeleteExpense \<Rightarrow> on_db (Handle_Delete sv env subject r seg) x
     | EpStartCheckout \<Rightarrow> on_db (Handle_StartCheckout sv envs subject r) x
     | EpOpenPortal \<Rightarrow> on_db (Handle_OpenPortal sv env subject r) x
     | EpCreateDepartment \<Rightarrow> on_db (Handle_CreateDepartment sv env subject r) x
     | EpUpdateDepartment \<Rightarrow> on_db (Handle_UpdateDepartment sv env subject r seg) x
     | EpArchiveDepartment \<Rightarrow> on_db (Handle_ArchiveDepartment sv env subject r seg) x
     | EpCreateBudget \<Rightarrow> on_db (Handle_CreateBudget sv env subject r) x
     | EpUpdateBudget \<Rightarrow> on_db (Handle_UpdateBudget sv env subject r seg) x
     | EpDeleteBudget \<Rightarrow> on_db (Handle_DeleteBudget sv env subject r seg) x
     | EpCreateVendorSubscription \<Rightarrow> on_db (Handle_CreateVendorSubscription sv env subject r) x
     | EpUpdateVendorSubscription \<Rightarrow> on_db (Handle_UpdateVendorSubscription sv env subject r seg) x
     | EpPrepareUpload \<Rightarrow> on_db (Handle_PrepareUpload sv env (snd x) subject r seg) x
     | EpConfirmUpload \<Rightarrow> on_db (Handle_ConfirmUpload sv env (snd x) subject r seg) x
     | EpDeleteReceipt \<Rightarrow> Handle_DeleteReceipt sv env subject r seg x
     | EpUpdateOrganisation \<Rightarrow> on_db (Handle_UpdateOrganisation sv env subject r) x
     | EpChangePassword \<Rightarrow> on_db (Handle_ChangePassword sv envs subject r) x
     | EpInviteMember \<Rightarrow> on_db (Handle_InviteMember sv envs subject r) x
     | EpUpdateMember \<Rightarrow> on_db (Handle_UpdateMember sv env subject r seg) x
     | EpTransition action \<Rightarrow> on_db (Handle_Transition sv env subject r action seg) x
     | _ \<Rightarrow> (WriteNotFound r, x))"

section \<open>The chains\<close>

definition run_on :: "(db \<times> 'o \<Rightarrow> reply \<times> db \<times> 'o) \<Rightarrow> 'o World \<Rightarrow> answer \<times> 'o World" where
  "run_on h w = (let (resp, d, o1) = h (wo_db w, wo_objects w) in (Reply resp, w\<lparr>wo_db := d, wo_objects := o1\<rparr>))"

definition limited ::
    "time \<Rightarrow> string \<Rightarrow> RateLimiter option \<Rightarrow> reply option \<times> RateLimiter option" where
  "limited now key limit =
    (case limit of None \<Rightarrow> (None, None) | Some rl \<Rightarrow> (let (refusal, rl') = Limiter_Middleware now key rl in (refusal, Some rl')))"

definition bearer_parser :: "'o Server \<Rightarrow> time \<Rightarrow> string \<Rightarrow> (err, Subject) res" where
  "bearer_parser sv now = Token_Parse (as_jwt (sv_auth sv)) (as_tokens (sv_auth sv)) now"

definition download_parser :: "'o Server \<Rightarrow> time \<Rightarrow> string \<Rightarrow> string \<Rightarrow> (err, Subject) res" where
  "download_parser sv now = Download_Parse (as_jwt (sv_auth sv)) (fst (sv_downloads sv)) (snd (sv_downloads sv)) now"

definition serve_group ::
    "'o Server \<Rightarrow> RouterConfig \<Rightarrow> Call \<Rightarrow> Request \<Rightarrow> Endpoint \<Rightarrow> string \<Rightarrow> 'o World \<Rightarrow> answer \<times> 'o World" where
  "serve_group sv cfg c r e seg w =
    (let now = clock (cl_envs c 0) in
     case group_of e of
       Credential \<Rightarrow>
         (case limited now (ClientKeyFunc (sv_net sv) (rc_TrustedProxies cfg) r) (wo_authLimit w) of
            (Some refusal, l) \<Rightarrow> (Reply refusal, w\<lparr>wo_authLimit := l\<rparr>)
          | (None, l) \<Rightarrow> run_on (public_handler sv c r e) (w\<lparr>wo_authLimit := l\<rparr>))
     | Reading \<Rightarrow>
         (case RequireAuth (sv_net sv) (bearer_parser sv now) r of
            Inl refusal \<Rightarrow> (Reply refusal, w)
          | Inr subject \<Rightarrow> run_on (member_handler sv c subject r seg e) w)
     | Writing \<Rightarrow>
         (case RequireAuth (sv_net sv) (bearer_parser sv now) r of
            Inl refusal \<Rightarrow> (Reply refusal, w)
          | Inr subject \<Rightarrow>
              (case limited now (TenantKeyFunc (uuid_text (sv_codec sv)) (ClientKeyFunc (sv_net sv) (rc_TrustedProxies cfg)) (Some subject) r)
                      (wo_writeLimit w) of
                 (Some refusal, l) \<Rightarrow> (Reply refusal, w\<lparr>wo_writeLimit := l\<rparr>)
               | (None, l) \<Rightarrow> run_on (member_handler sv c subject r seg e) (w\<lparr>wo_writeLimit := l\<rparr>)))
     | Exporting \<Rightarrow>
         (case AllowBearerOrDownloadToken (sv_net sv) (bearer_parser sv now) (download_parser sv now) r of
            Inl refusal \<Rightarrow> (Reply refusal, w)
          | Inr subject \<Rightarrow> (Export (HandleExport sv (cl_float c) (cl_envs c 0) (cl_wire c) subject r (wo_db w)), w))
     | _ \<Rightarrow> run_on (public_handler sv c r e) w)"

fun add_headers :: "(string \<times> string) list \<Rightarrow> answer \<Rightarrow> answer" where
  "add_headers hs (Reply resp) = Reply (resp\<lparr>rs_Headers := hs @ rs_Headers resp\<rparr>)"
| "add_headers hs (Export (Refused resp)) = Export (Refused (resp\<lparr>rs_Headers := hs @ rs_Headers resp\<rparr>))"
| "add_headers hs (Export (Completed h out)) = Export (Completed (hs @ h) out)"
| "add_headers hs (Export (Aborted h out)) = Export (Aborted (hs @ h) out)"

definition NewRouter :: "chi \<Rightarrow> 'o Server \<Rightarrow> RouterConfig \<Rightarrow> Call \<Rightarrow> 'o World \<Rightarrow> answer \<times> 'o World" where
  "NewRouter chi sv cfg c w =
    (let r = RequestID (cl_fresh c) (cl_request c);
         hs = (''X-Request-Id'', rq_ID r) # SecurityHeaders r;
         (cors, preflight) = (if AllowedOrigins (rc_CORS cfg) \<noteq> [] then CORS (rc_CORS cfg) (cl_method c) r else ([], None))
     in apfst (add_headers (hs @ cors))
         (case preflight of
            Some resp \<Rightarrow> (Reply resp, w)
          | None \<Rightarrow>
              (case chi routes (cl_method c) (cl_path c) of
                 NotFound \<Rightarrow> (Reply (WriteNotFound r), w)
               | NotAllowed \<Rightarrow> (Reply (WriteMethodNotAllowed r), w)
               | Found e seg \<Rightarrow> serve_group sv cfg c r e seg w)))"

end
