(* ===== verification/Http_Router_Props.thy ===== *)
theory Http_Router_Props
  imports Http_Router Attachment_Props
begin

text \<open>
  What holds of every request, whatever the route: reading with GET changes nothing, an internal failure
  shows nothing of its cause, credentials are rate limited by address, and a download link admits the
  caller it was made for.
\<close>

section \<open>Handlers that read\<close>

interpretation same: effect_relation "\<lambda>d d'. d = d'"
  by unfold_locales simp_all

abbreviation reading :: "'a act \<Rightarrow> bool" where
  "reading \<equiv> keeps_act (\<lambda>d d'. d = d')"

lemma reading_respond: "reading call \<Longrightarrow> snd (respond r call ok d) = d"
  by (auto simp: keeps_act_def respond_def split: prod.splits sum.splits) (metis snd_conv)+

lemma reading_checked: "(\<And>x. reading (f x)) \<Longrightarrow> reading (bind_act (lift_act r) f)"
  by (rule same.keeps_act_bind [OF same.keeps_act_lift])

lemma reading_org:
  "reading (ListDepartments env subject b)" "reading (ListBudgets env subject dep on)" "reading (BudgetConsumption env subject on)"
  "reading (ListVendorSubscriptions env subject st)" "reading (Members env subject)" "reading (Service_Summary env subject from to)"
  unfolding ListDepartments_def ListBudgets_def BudgetConsumption_def ListVendorSubscriptions_def Members_def Service_Summary_def
    Repo_ListDepartments_def Repo_ListBudgets_def Repo_Consumption_def Repo_ListVendorSubscriptions_def Repo_ListMembers_def
    Repo_Summary_def GetTenant_def Q_GetTenant_def Q_ListDepartments_def Q_ListBudgets_def Q_BudgetConsumption_def
    Q_ListVendorSubscriptions_def Q_ListMemberships_def Q_CountExpensesByStatus_def Q_SpendByDepartment_def
  by (auto intro!: same.keeps_Scope_Read same.keeps_intros split: option.splits prod.splits)

lemma reading_account:
  "reading (Me env subject)" "reading (Organisation env subject)" "reading (Tenants envs subject)" "reading (Service_Entitlement env subject)"
  unfolding Me_def Organisation_def Tenants_def Service_Entitlement_def GetTenant_def Q_GetTenant_def Repo_Contact_def Q_GetMemberContact_def
    contacts_where_def ListTenantsForUser_def ListMembershipsForUser_def GetEntitlement_def Q_GetTenantEntitlement_def
  by (auto intro!: same.keeps_Scope_Read same.keeps_intros split: option.splits prod.splits sum.splits)

lemma reading_claims:
  "reading (Service_Get env subject i)" "reading (Service_List codec ilike env subject q)"
  "reading (PendingQueue codec env subject cursor limit)" "reading (History env subject i)"
  by (rule same.keeps_reads)+

lemma reading_receipts: "reading (Receipts_List env subject i)" "reading (DownloadURL s env o1 subject j)"
  by (rule same.keeps_receipt_reads)+

lemmas reading_calls = reading_checked reading_org reading_account reading_claims reading_receipts

lemma on_db_reads: "snd (h (fst x)) = fst x \<Longrightarrow> snd (on_db h x) = x"
  by (simp add: on_db_def split_beta prod_eq_iff)

text \<open>Every handler registered for GET.\<close>

definition get_endpoints :: "Endpoint list" where
  "get_endpoints = map (\<lambda>(_, _, e). e) (filter (\<lambda>(m, _). m = ''GET'') routes)"

lemma get_handlers_read:
  "snd (Handle_Me env subject r d) = d" "snd (Handle_GetOrganisation env subject r d) = d" "snd (Handle_Tenants envs subject r d) = d"
  "snd (Handle_List sv env subject r d) = d" "snd (Handle_PendingQueue sv env subject r d) = d" "snd (Handle_Get sv env subject r seg d) = d"
  "snd (Handle_History sv env subject r seg d) = d" "snd (Handle_ListReceipts sv env subject r seg d) = d"
  "snd (Handle_Download sv env o1 subject r seg d) = d" "snd (Handle_Entitlement env subject r d) = d"
  "snd (Handle_ListDepartments env subject r d) = d" "snd (Handle_ListBudgets sv env subject r d) = d"
  "snd (Handle_BudgetConsumption env subject r d) = d" "snd (Handle_Summary env subject r d) = d"
  "snd (Handle_ListVendorSubscriptions env subject r d) = d" "snd (Handle_ListMembers env subject r d) = d"
  unfolding Handle_Me_def Handle_GetOrganisation_def Handle_Tenants_def Handle_List_def Handle_PendingQueue_def Handle_Get_def
    Handle_History_def Handle_ListReceipts_def Handle_Download_def Handle_Entitlement_def Handle_ListDepartments_def
    Handle_ListBudgets_def Handle_BudgetConsumption_def Handle_Summary_def Handle_ListVendorSubscriptions_def Handle_ListMembers_def
    Let_def split_beta
  by (intro reading_respond reading_calls)+

lemma get_endpoint_reads:
  assumes "e \<in> set get_endpoints"
  shows "snd (serve_group sv cfg c r e seg w) = w"
proof -
  have e: "e \<in> {EpLive, EpReady, EpMe, EpGetOrganisation, EpTenants, EpListExpenses, EpPendingQueue, EpGetExpense, EpHistory,
      EpIssueDownloadToken, EpListReceipts, EpDownload, EpEntitlement, EpListDepartments, EpListBudgets, EpBudgetConsumption,
      EpSummary, EpListVendorSubscriptions, EpListMembers, EpExport}"
    using assms by (simp add: get_endpoints_def routes_def)
  have run: "snd (h (wo_db w, wo_objects w)) = (wo_db w, wo_objects w) \<Longrightarrow> snd (run_on h w) = w" for h
    by (auto simp: run_on_def split_beta prod_eq_iff)
  from e show ?thesis
    by (elim insertE emptyE; simp add: serve_group_def Let_def split: sum.split; intro allI impI run;
        simp add: public_handler_def member_handler_def on_db_reads get_handlers_read)
qed

lemma CORS_preflight: "CORS cfg m r = (hs, Some resp) \<Longrightarrow> resp = WriteHeader 204"
  by (auto simp: CORS_def Let_def split: if_splits)

lemma NewRouter_cases:
  obtains (preflight) hs where "NewRouter chi sv cfg c w = (add_headers hs (Reply (WriteHeader 204)), w)"
  | (unmatched) hs resp where "NewRouter chi sv cfg c w = (add_headers hs (Reply resp), w)"
      "resp = WriteNotFound (RequestID (cl_fresh c) (cl_request c)) \<or> resp = WriteMethodNotAllowed (RequestID (cl_fresh c) (cl_request c))"
      "\<nexists>e seg. chi routes (cl_method c) (cl_path c) = Found e seg"
  | (found) hs e seg where "chi routes (cl_method c) (cl_path c) = Found e seg"
      "NewRouter chi sv cfg c w = apfst (add_headers hs) (serve_group sv cfg c (RequestID (cl_fresh c) (cl_request c)) e seg w)"
proof -
  let ?r = "RequestID (cl_fresh c) (cl_request c)"
  obtain cors and pre :: "reply option" where cp: "(if AllowedOrigins (rc_CORS cfg) \<noteq> [] then CORS (rc_CORS cfg) (cl_method c) ?r else ([], None)) = (cors, pre)"
    by (rule prod.exhaust)
  define hs where "hs = ((''X-Request-Id'', rq_ID ?r) # SecurityHeaders ?r) @ cors"
  have eq: "NewRouter chi sv cfg c w = apfst (add_headers hs)
      (case pre of
         Some resp \<Rightarrow> (Reply resp, w)
       | None \<Rightarrow>
           (case chi routes (cl_method c) (cl_path c) of
              NotFound \<Rightarrow> (Reply (WriteNotFound ?r), w)
            | NotAllowed \<Rightarrow> (Reply (WriteMethodNotAllowed ?r), w)
            | Found e seg \<Rightarrow> serve_group sv cfg c ?r e seg w))"
    unfolding NewRouter_def Let_def cp hs_def by simp
  show ?thesis
  proof (cases pre)
    case (Some resp)
    with cp have "resp = WriteHeader 204" by (auto split: if_splits dest: CORS_preflight)
    with eq Some show ?thesis by (intro preflight [of hs]) simp
  next
    case None
    show ?thesis
    proof (cases "chi routes (cl_method c) (cl_path c)")
      case NotFound
      with eq None show ?thesis by (intro unmatched [of hs "WriteNotFound ?r"]) simp_all
    next
      case NotAllowed
      with eq None show ?thesis by (intro unmatched [of hs "WriteMethodNotAllowed ?r"]) simp_all
    next
      case (Found e seg)
      with eq None show ?thesis by (intro found [of e seg hs]) simp_all
    qed
  qed
qed

text \<open>
  C17. GET is safe: a request with that method, whoever sends it, leaves the database, the stored objects and
  the rate limits as they were.
\<close>

theorem get_changes_nothing:
  assumes "chi_ok chi" "cl_method c = ''GET''"
  shows "snd (NewRouter chi sv cfg c w) = w"
proof -
  have "e \<in> set get_endpoints" if found: "chi routes ''GET'' p = Found e seg" for p e seg
  proof -
    from assms(1) found have "\<exists>pat. (''GET'', pat, e) \<in> set routes" unfolding chi_ok_def by blast
    then show ?thesis by (force simp: get_endpoints_def)
  qed
  then show ?thesis
    using assms(2) by (cases rule: NewRouter_cases [of chi sv cfg c w]) (auto simp: get_endpoint_reads)
qed

section \<open>What a failure shows\<close>

text \<open>The text of a server error is one of the program's own.\<close>

definition discreet :: "reply \<Rightarrow> bool" where
  "discreet resp = (500 \<le> rs_Status resp \<longrightarrow> (\<forall>b. rs_Body resp = ErrorBody b \<longrightarrow> (\<exists>s. eb_Message b = Fixed s)))"

named_theorems discreet_intros

lemma discreet_writeError [discreet_intros]: "discreet (writeError r err)"
  by (cases err) (auto simp: discreet_def writeError_def field_response_def writeJSON_def Let_def split_beta)

lemma discreet_plain [discreet_intros]:
  "discreet (writeJSON n (Payload x))" "discreet (WriteHeader n)" "discreet (writeProblem n m)" "discreet (wrong_credentials r)"
  "discreet (WriteNotFound r)" "discreet (WriteMethodNotAllowed r)" "discreet (relay_refusal k m)" "discreet (Redirect url n)"
  by (simp_all add: discreet_def writeJSON_def WriteHeader_def writeProblem_def wrong_credentials_def WriteNotFound_def
      WriteMethodNotAllowed_def relay_refusal_def Redirect_def)

lemma discreet_decorated [simp]:
  "discreet (with_header k v resp) = discreet resp" "discreet (with_cookie ck resp) = discreet resp"
  "discreet (resp\<lparr>rs_Headers := hs\<rparr>) = discreet resp"
  by (simp_all add: discreet_def with_header_def with_cookie_def)

lemma discreet_more [discreet_intros]:
  "discreet (writeAuthError r err)" "discreet (respondWithSession sv n ses)" "discreet (unauthorized m)"
  by (simp_all add: writeAuthError_def respondWithSession_def unauthorized_def discreet_intros)

lemma discreet_respond [discreet_intros]: "(\<And>x. discreet (ok x)) \<Longrightarrow> discreet (fst (respond r call ok d))"
  by (auto simp: respond_def discreet_intros split: prod.splits sum.splits)

lemmas handler_defs = Handle_Me_def Handle_GetOrganisation_def Handle_Tenants_def Handle_List_def Handle_PendingQueue_def Handle_Get_def
  Handle_History_def Handle_ListReceipts_def Handle_Download_def Handle_Entitlement_def Handle_ListDepartments_def
  Handle_ListBudgets_def Handle_BudgetConsumption_def Handle_Summary_def Handle_ListVendorSubscriptions_def Handle_ListMembers_def
  Handle_SwitchTenant_def Handle_Create_def Handle_Update_def Handle_Delete_def Handle_Transition_def Handle_StartCheckout_def
  Handle_OpenPortal_def Handle_CreateDepartment_def Handle_UpdateDepartment_def Handle_ArchiveDepartment_def Handle_CreateBudget_def
  Handle_UpdateBudget_def Handle_DeleteBudget_def Handle_CreateVendorSubscription_def Handle_UpdateVendorSubscription_def
  Handle_PrepareUpload_def Handle_ConfirmUpload_def Handle_UpdateOrganisation_def Handle_InviteMember_def Handle_UpdateMember_def

lemma discreet_on_db: "discreet (fst (h (fst x))) \<Longrightarrow> discreet (fst (on_db h x))"
  by (simp add: on_db_def split_beta)

lemma discreet_special:
  "discreet (fst (Handle_ChangePassword sv envs subject r d))" "discreet (fst (Handle_DeleteReceipt sv env subject r seg x))"
  "discreet (IssueDownloadToken sv env subject r)"
  by (auto simp: Handle_ChangePassword_def Handle_DeleteReceipt_def IssueDownloadToken_def Let_def discreet_intros
      split: sum.splits prod.splits)

lemma discreet_member: "discreet (fst (member_handler sv c subject r seg e x))"
  by (cases e; simp add: member_handler_def Let_def discreet_intros discreet_special;
      (rule discreet_on_db, simp add: handler_defs Let_def split_beta discreet_intros discreet_special)?)

lemma discreet_public: "discreet (fst (public_handler sv c r e x))"
  by (cases e; simp add: public_handler_def Let_def discreet_intros Handle_Live_def Handle_Ready_def;
      (rule discreet_on_db)?;
      auto simp: Handle_Relay_def Handle_Register_def Handle_Login_def Handle_Refresh_def Handle_Logout_def discreet_intros
        split: option.splits prod.splits sum.splits)

lemma limited_refusal: "limited now key l = (Some resp, l') \<Longrightarrow> discreet resp \<and> rs_Status resp = 429"
  by (auto simp: limited_def Limiter_Middleware_def Let_def split_beta discreet_intros with_header_def writeProblem_def writeJSON_def
      split: option.splits if_splits) (simp_all add: discreet_def)

fun ordinary :: "answer \<Rightarrow> reply option" where
  "ordinary (Reply resp) = Some resp"
| "ordinary (Export (Refused resp)) = Some resp"
| "ordinary (Export _) = None"

lemma ordinary_headers: "ordinary (add_headers hs a) = map_option (\<lambda>resp. resp\<lparr>rs_Headers := hs @ rs_Headers resp\<rparr>) (ordinary a)"
  by (induction hs a rule: add_headers.induct) simp_all

lemma discreet_run: "(\<And>x. discreet (fst (h x))) \<Longrightarrow> ordinary (fst (run_on h w)) = Some resp \<Longrightarrow> discreet resp"
  by (auto simp: run_on_def Let_def split_beta)

lemma discreet_auth: "RequireAuth net parse r = Inl resp \<Longrightarrow> discreet resp" "AllowBearerOrDownloadToken net p q r = Inl resp \<Longrightarrow> discreet resp"
  by (auto simp: RequireAuth_def AllowBearerOrDownloadToken_def Let_def discreet_intros split: option.splits sum.splits if_splits)

lemma discreet_export: "HandleExport sv ft env wire subject r d = Refused resp \<Longrightarrow> discreet resp"
  by (auto simp: HandleExport_def discreet_intros split: sum.splits prod.splits option.splits)

lemma discreet_group:
  assumes "ordinary (fst (serve_group sv cfg c r e seg w)) = Some resp"
  shows "discreet resp"
proof -
  have m: "ordinary (fst (run_on (member_handler sv c s r seg e) v)) = Some resp \<Longrightarrow> discreet resp" for s v
    by (rule discreet_run [OF discreet_member])
  have p: "ordinary (fst (run_on (public_handler sv c r e) v)) = Some resp \<Longrightarrow> discreet resp" for v
    by (rule discreet_run [OF discreet_public])
  have x: "ordinary (Export y) = Some resp \<Longrightarrow> y = Refused resp" for y by (cases y) auto
  show ?thesis
    using assms m p discreet_auth limited_refusal
    by (cases "group_of e")
       (auto simp: serve_group_def Let_def dest!: x dest: discreet_export split: prod.splits option.splits sum.splits)
qed

text \<open>
  C20. No internal error leaves the service: whatever fails behind whichever route, a response with a status of
  500 or more carries one of the program's fixed texts and never the text of the error.
\<close>

theorem server_errors_are_fixed_texts:
  assumes "ordinary (fst (NewRouter chi sv cfg c w)) = Some resp" "500 \<le> rs_Status resp" "rs_Body resp = ErrorBody b"
  shows "\<exists>s. eb_Message b = Fixed s"
proof -
  have "discreet resp"
    by (cases rule: NewRouter_cases [of chi sv cfg c w])
       (use assms(1) discreet_group in \<open>auto simp: ordinary_headers discreet_intros\<close>)
  then show ?thesis using assms(2,3) by (simp add: discreet_def)
qed

section \<open>Who is let in\<close>

lemma RequireAuth_refused:
  "\<forall>token. bearerToken net r = Some token \<longrightarrow> isl (parse token) \<Longrightarrow>
   \<exists>resp :: reply. RequireAuth net parse r = Inl resp \<and> rs_Status resp = 401"
  by (auto simp: RequireAuth_def unauthorized_def writeProblem_def writeJSON_def with_header_def isl_def split: option.splits sum.splits)

lemma Allow_refused:
  assumes "\<forall>token. bearerToken net r = Some token \<longrightarrow> isl (bearers token)"
    "\<forall>token qry. isl (downloads token qry)"
  shows "\<exists>resp :: reply. AllowBearerOrDownloadToken net bearers downloads r = Inl resp \<and> rs_Status resp = 401"
proof -
  obtain e where "downloads (case rq_Query r DownloadQueryParam of [] \<Rightarrow> [] | v # _ \<Rightarrow> v) (nt_encode net ((rq_Query r)(DownloadQueryParam := []))) = Inl e"
    using assms(2) unfolding isl_def by blast
  with assms(1) show ?thesis
    by (auto simp: AllowBearerOrDownloadToken_def unauthorized_def writeProblem_def writeJSON_def with_header_def isl_def Let_def
        split: option.splits sum.splits)
qed


section \<open>Guessing passwords\<close>

text \<open>The address a request to a credential route is counted under.\<close>

definition credential_key :: "chi \<Rightarrow> 'o Server \<Rightarrow> RouterConfig \<Rightarrow> Call \<Rightarrow> string option" where
  "credential_key chi sv cfg c =
    (case chi routes (cl_method c) (cl_path c) of
       Found e seg \<Rightarrow>
         if group_of e = Credential
         then Some (ClientKeyFunc (sv_net sv) (rc_TrustedProxies cfg) (RequestID (cl_fresh c) (cl_request c))) else None
     | _ \<Rightarrow> None)"

definition answered :: "answer \<Rightarrow> bool" where
  "answered a = (case ordinary a of Some resp \<Rightarrow> rs_Status resp \<noteq> 429 | None \<Rightarrow> True)"

fun attempts :: "chi \<Rightarrow> 'o Server \<Rightarrow> RouterConfig \<Rightarrow> string \<Rightarrow> 'o World \<Rightarrow> Call list \<Rightarrow> nat" where
  "attempts chi sv cfg key w [] = 0"
| "attempts chi sv cfg key w (c # cs) =
    (let (a, w') = NewRouter chi sv cfg c w in
     (if credential_key chi sv cfg c = Some key \<and> answered a then 1 else 0) + attempts chi sv cfg key w' cs)"

definition limiter_hits :: "chi \<Rightarrow> 'o Server \<Rightarrow> RouterConfig \<Rightarrow> Call list \<Rightarrow> (time \<times> limiter_op) list" where
  "limiter_hits chi sv cfg cs =
    concat (map (\<lambda>c. case credential_key chi sv cfg c of None \<Rightarrow> [] | Some k \<Rightarrow> [(clock (cl_envs c 0), Hit k)]) cs)"

lemma credential_is_post: "(m, pat, e) \<in> set routes \<Longrightarrow> group_of e = Credential \<Longrightarrow> m = ''POST''"
  by (auto simp: routes_def)

lemma NewRouter_POST:
  assumes "cl_method c = ''POST''" "chi routes (cl_method c) (cl_path c) = Found e seg"
  shows "\<exists>hs. NewRouter chi sv cfg c w = apfst (add_headers hs) (serve_group sv cfg c (RequestID (cl_fresh c) (cl_request c)) e seg w)"
  using assms by (auto simp: NewRouter_def Let_def CORS_def)

lemma run_on_authLimit: "wo_authLimit (snd (run_on h w)) = wo_authLimit w"
  by (simp add: run_on_def Let_def split_beta)

lemma serve_authLimit: "group_of e \<noteq> Credential \<Longrightarrow> wo_authLimit (snd (serve_group sv cfg c r e seg w)) = wo_authLimit w"
  by (cases "group_of e") (auto simp: serve_group_def Let_def run_on_authLimit split: sum.splits prod.splits option.splits)

lemma serve_credential:
  assumes "group_of e = Credential" "limited (clock (cl_envs c 0)) (ClientKeyFunc (sv_net sv) (rc_TrustedProxies cfg) r) (wo_authLimit w) = (x, l)"
  shows "wo_authLimit (snd (serve_group sv cfg c r e seg w)) = l \<and> (x \<noteq> None \<longrightarrow> \<not> answered (add_headers hs (fst (serve_group sv cfg c r e seg w))))"
  using assms limited_refusal by (cases x) (auto simp: serve_group_def Let_def run_on_authLimit answered_def ordinary_headers)

lemma limited_Some: "limited now key (Some rl) = (x, l) \<Longrightarrow> l = Some (snd (Allow rl now key)) \<and> (x = None \<longleftrightarrow> fst (fst (Allow rl now key)))"
  by (auto simp: limited_def Limiter_Middleware_def Let_def split_beta split: if_splits)

lemma attempts_granted:
  "chi_ok chi \<Longrightarrow> wo_authLimit w = Some rl \<Longrightarrow> attempts chi sv cfg key w cs \<le> granted key rl (limiter_hits chi sv cfg cs)"
proof (induction cs arbitrary: w rl)
  case (Cons c cs)
  obtain a w' where n: "NewRouter chi sv cfg c w = (a, w')" by (rule prod.exhaust)
  show ?case
  proof (cases "credential_key chi sv cfg c")
    case None
    have "wo_authLimit (snd (NewRouter chi sv cfg c w)) = wo_authLimit w"
      by (cases rule: NewRouter_cases [of chi sv cfg c w])
         (use None in \<open>auto simp: credential_key_def serve_authLimit split: if_splits\<close>)
    with Cons n None show ?thesis by (simp add: limiter_hits_def)
  next
    case (Some k)
    then obtain e seg where e: "chi routes (cl_method c) (cl_path c) = Found e seg" "group_of e = Credential"
      "k = ClientKeyFunc (sv_net sv) (rc_TrustedProxies cfg) (RequestID (cl_fresh c) (cl_request c))"
      by (auto simp: credential_key_def split: matched.splits if_splits)
    then have "cl_method c = ''POST''" using Cons.prems(1) credential_is_post unfolding chi_ok_def by blast
    from NewRouter_POST [of c chi e seg sv cfg w, OF this e(1)] n obtain hs
      where s: "(a, w') = apfst (add_headers hs) (serve_group sv cfg c (RequestID (cl_fresh c) (cl_request c)) e seg w)" by metis
    obtain x l where l: "limited (clock (cl_envs c 0)) k (Some rl) = (x, l)" by (rule prod.exhaust)
    let ?now = "clock (cl_envs c 0)"
    have step: "wo_authLimit w' = Some (snd (Allow rl ?now k))" "answered a \<Longrightarrow> fst (fst (Allow rl ?now k))"
      using serve_credential [where hs = hs and seg = seg, OF e(2), of c sv cfg "RequestID (cl_fresh c) (cl_request c)" w x l] l limited_Some [OF l] s e(3) Cons.prems(2)
      by (auto simp: apfst_def map_prod_def split_beta)
    from Cons.IH [OF Cons.prems(1) step(1)] step(2) n Some show ?thesis by (auto simp: limiter_hits_def)
  qed
qed simp

text \<open>
  C19. Passwords cannot be guessed faster than the limit allows: in any stretch of time, of the requests to
  register, log in or refresh that come from one address, at most the burst plus the rate times the length
  of the stretch are answered with anything but 429, whatever other requests are served in between.
\<close>

theorem credential_attempts_bounded:
  assumes "chi_ok chi" "wo_authLimit w = Some rl" "rl_ok rl t0" "t0 \<le> t1"
    and "sorted (map (\<lambda>c. clock (cl_envs c 0)) cs)" "\<forall>c \<in> set cs. t0 \<le> clock (cl_envs c 0) \<and> clock (cl_envs c 0) \<le> t1"
  shows "of_nat (attempts chi sv cfg key w cs) \<le> rl_capacity rl + seconds_since t1 t0 * rl_rate rl"
proof -
  let ?ops = "limiter_hits chi sv cfg cs"
  have times: "\<forall>x \<in> set ?ops. t0 \<le> fst x \<and> fst x \<le> t1"
    using assms(6) by (auto simp: limiter_hits_def split: option.splits)
  have "sorted (map fst ?ops)"
    using assms(5) by (induction cs) (force simp: limiter_hits_def sorted_append split: option.splits)+
  from granted_bound [OF assms(3) this times assms(4), of key] level_bounds [OF assms(3), of key] attempts_granted [OF assms(1,2), of sv cfg key cs]
  show ?thesis by (metis (no_types, opaque_lifting) add_right_mono of_nat_le_iff order_trans)
qed

section \<open>Download links\<close>

text \<open>
  C21. A link made for a report opens that report for the caller it was made for: a request without an access
  token that brings the link's token is admitted as that caller and organisation while the minute lasts and
  its query is the one the link was made for, and is refused otherwise.
\<close>

theorem download_link_admits:
  assumes "jwt_ok (as_jwt (sv_auth sv))" "\<forall>s cl tok. jwt_sign (as_jwt (sv_auth sv)) s cl = Inr tok \<longrightarrow> tok \<noteq> []"
    and "rs_Body (IssueDownloadToken sv env subject r) = Payload (DownloadTicket url expires)" "clock env \<le> later"
  shows "\<exists>token. url = ''/api/v1/reports/expenses/export?'' @ nt_encode (sv_net sv) ((rq_Query r)(DownloadQueryParam := [token])) \<and>
    (\<forall>r'. bearerToken (sv_net sv) r' = None \<and> rq_Query r' DownloadQueryParam = [token] \<longrightarrow>
      (AllowBearerOrDownloadToken (sv_net sv) bearers (download_parser sv later) r' :: reply + Subject) =
      (if later < truncate_to second (clock env + DownloadTokenTTL) \<and>
          nt_encode (sv_net sv) ((rq_Query r')(DownloadQueryParam := [])) = nt_encode (sv_net sv) ((rq_Query r)(DownloadQueryParam := []))
       then Inr \<lparr>sub_UserID = sub_UserID subject, sub_TenantID = sub_TenantID subject, sub_Email = [], sub_TokenID = []\<rparr>
       else Inl (unauthorized ''invalid or expired download link'')))"
proof -
  let ?j = "as_jwt (sv_auth sv)" and ?net = "sv_net sv"
  let ?q = "nt_encode ?net ((rq_Query r)(DownloadQueryParam := []))"
  obtain secret issuer where si: "sv_downloads sv = (secret, issuer)" by (rule prod.exhaust)
  have err: "rs_Body (writeError r err :: reply) \<noteq> Payload x" for err x
    by (cases err) (simp_all add: writeError_def field_response_def writeJSON_def Let_def split_beta)
  from assms(3) obtain token where t: "Download_Issue ?j secret issuer (fresh_id env 0) (clock env) subject ?q = Inr (token, expires)"
    "url = ''/api/v1/reports/expenses/export?'' @ nt_encode ?net ((rq_Query r)(DownloadQueryParam := [token]))"
    using err by (auto simp: IssueDownloadToken_def si Let_def writeJSON_def split: sum.splits prod.splits)
  have ne: "token \<noteq> []" using t(1) assms(2) by (auto simp: Download_Issue_def Let_def bind_res_Inr split: if_splits)
  have parse: "download_parser sv later token q' =
      (if truncate_to second (clock env + DownloadTokenTTL) \<le> later then Inl (Sentinel ErrTokenExpired)
       else if q' \<noteq> ?q then Inl (Wrap ErrTokenInvalid (Text ''this token was issued for a different report''))
       else Inr \<lparr>sub_UserID = sub_UserID subject, sub_TenantID = sub_TenantID subject, sub_Email = [], sub_TokenID = []\<rparr>)" for q'
    using download_token_bound_to_query [OF assms(1) t(1) assms(4), of "\<lparr>tk_Secret = secret, tk_Issuer = [], tk_Audience = [], tk_TTL = 0\<rparr>" q']
    by (simp add: download_parser_def si DownloadTokenAudience_def)
  show ?thesis
    using t(2) ne by (intro exI [of _ token]) (auto simp: AllowBearerOrDownloadToken_def parse)
qed

end
