(* ===== verification/Export_Pdf_Props.thy ===== *)
theory Export_Pdf_Props
  imports Export_Pdf
begin

text \<open>
  What makes a written PDF a PDF: text that is cut to its column fits it, a literal cannot be left from
  inside, and the cross-reference table points at the objects.
\<close>

section \<open>Text fits its column\<close>

lemma pieces_width_simps [simp]:
  "pieces_width [] sz = 0"
  "pieces_width (p # ps) sz = of_nat (runeWidth (rune_value p)) * sz / 1000 + pieces_width ps sz"
  "pieces_width (ps @ qs) sz = pieces_width ps sz + pieces_width qs sz"
  by (simp_all add: pieces_width_def field_simps)

lemma pieces_width_rev [simp]: "pieces_width (rev ps) sz = pieces_width ps sz"
  by (simp add: pieces_width_def rev_map [symmetric])

lemma pieces_width_text:
  "\<forall>p \<in> set ps. rune_value (rune_text p) = rune_value p \<Longrightarrow> pieces_width (map rune_text ps) sz = pieces_width ps sz"
  by (induction ps) simp_all

lemma textWidth_kept:
  assumes "\<forall>p \<in> set ps. whole_rune (rune_text p) \<and> rune_value (rune_text p) = rune_value p"
  shows "textWidth (concat (map rune_text ps) @ t) sz = pieces_width ps sz + textWidth t sz"
  using assms by (simp add: textWidth_def rune_pieces_whole pieces_width_text)

lemma fit_loop_fits:
  assumes "\<forall>p \<in> set (kept @ ps). whole_rune (rune_text p) \<and> rune_value (rune_text p) = rune_value p"
    and "acc = pieces_width kept sz" "kept \<noteq> [] \<Longrightarrow> acc + textWidth ''...'' sz \<le> width" "0 \<le> width"
    and "width < pieces_width (rev kept @ ps) sz" "0 < sz"
  shows "textWidth (fit_loop s width sz kept acc ps) sz \<le> width"
  using assms
proof (induction ps arbitrary: kept acc)
  case Nil
  have "0 \<le> textWidth ''...'' sz" using Nil(6) by (simp add: textWidth_def pieces_width_def)
  with Nil have "kept = []" by (cases kept) auto
  with Nil show ?case by simp
next
  case (Cons p ps)
  let ?w = "of_nat (runeWidth (rune_value p)) * sz / 1000"
  show ?case
  proof (cases "width < acc + ?w + textWidth ''...'' sz")
    case True
    have "textWidth (concat (map rune_text (rev kept)) @ ''...'') sz = acc + textWidth ''...'' sz"
      using Cons.prems(1,2) by (subst textWidth_kept) auto
    then show ?thesis using True Cons.prems by (auto simp: Let_def textWidth_def)
  next
    case False
    have "textWidth (fit_loop s width sz (p # kept) (acc + ?w) ps) sz \<le> width"
      by (rule Cons.IH) (use False Cons.prems in auto)
    then show ?thesis using False by (simp add: Let_def)
  qed
qed

lemma fit_fits: "0 < sz \<Longrightarrow> 0 \<le> width \<Longrightarrow> textWidth (fit s width sz) sz \<le> width"
proof -
  assume a: "0 < sz" "0 \<le> width"
  show ?thesis
  proof (cases "width \<le> 0 \<or> textWidth s sz \<le> width")
    case True
    then show ?thesis using a by (auto simp: fit_def textWidth_def)
  next
    case False
    have "textWidth (fit_loop s width sz [] 0 (rune_pieces s)) sz \<le> width"
      by (rule fit_loop_fits) (use a False rune_text_whole in \<open>auto simp: textWidth_def\<close>)
    then show ?thesis using False by (simp add: fit_def)
  qed
qed

section \<open>Literals\<close>

text \<open>A reader of the text between parentheses: it stops at the closing one.\<close>

fun literal_read :: "string \<Rightarrow> (string \<times> string) option" where
  "literal_read [] = None"
| "literal_read (c # s) =
    (if c = CHR '')'' then Some ([], s)
     else if c = CHR ''('' then None
     else if c = CHR 0x5C
     then (case s of [] \<Rightarrow> None | x # s' \<Rightarrow> map_option (apfst ((#) x)) (literal_read s'))
     else map_option (apfst ((#) c)) (literal_read s))"

text \<open>What a rune becomes in the font's encoding.\<close>

definition win_ansi :: "string \<Rightarrow> string" where
  "win_ansi p =
    (let r = rune_value p in
     if r = 10 \<or> r = 13 \<or> r = 9 then '' '' else if r < 0x20 then [] else if r < 0x7F then p
     else if 0xA0 \<le> r \<and> r \<le> 0xFF then [char_of r] else ''?'')"

lemma literal_read_rune:
  assumes "p \<in> set (rune_pieces src)"
  shows "literal_read (pdf_rune p @ t) = map_option (apfst ((@) (win_ansi p))) (literal_read t)"
proof -
  have plain: "literal_read (c # t) = map_option (apfst ((#) c)) (literal_read t)"
    if "c \<notin> {CHR '')'', CHR ''('', CHR 0x5C}" for c using that by auto
  show ?thesis
  proof (cases "rune_value p < 128")
    case True
    from rune_below_128 [OF assms True] obtain c where "p = [c]" "rune_value p = of_char c" by blast
    then show ?thesis
      by (cases "c \<in> {CHR '')'', CHR ''('', CHR 0x5C}"; cases "literal_read t")
        (auto simp: pdf_rune_def win_ansi_def Let_def)
  next
    case False
    then have "pdf_rune p = win_ansi p" by (auto simp: pdf_rune_def win_ansi_def Let_def)
    moreover have "win_ansi p = ''?'' \<or> win_ansi p = [char_of (rune_value p)] \<and> 0xA0 \<le> rune_value p \<and> rune_value p \<le> 0xFF"
      using False by (auto simp: win_ansi_def Let_def)
    moreover have "(char_of (rune_value p) :: char) \<notin> {CHR '')'', CHR ''('', CHR 0x5C}" if "0xA0 \<le> rune_value p" "rune_value p \<le> 0xFF"
      using that by (auto simp: char_of_eq_iff take_bit_eq_mod)
    ultimately show ?thesis using plain by (cases "literal_read t") auto
  qed
qed

lemma literal_read_string: "literal_read (pdfString s @ CHR '')'' # t) = Some (concat (map win_ansi (rune_pieces s)), t)"
proof -
  have "set ps \<subseteq> set (rune_pieces s) \<Longrightarrow>
    literal_read (concat (map pdf_rune ps) @ CHR '')'' # t) = Some (concat (map win_ansi ps), t)" for ps
    by (induction ps) (simp_all add: literal_read_rune [where src = s])
  then show ?thesis by (simp add: pdfString_def)
qed

section \<open>The cross-reference table\<close>

definition object_tag :: "nat \<Rightarrow> string" where
  "object_tag i = digits i @ '' 0 obj'' @ nl"

text \<open>Object \<open>i\<close> starts at an offset of the file.\<close>

definition object_at :: "string \<Rightarrow> nat \<Rightarrow> nat \<Rightarrow> bool" where
  "object_at file off i = (\<exists>a b. file = a @ object_tag i @ b \<and> length a = off)"

lemma object_at_append: "object_at f off i \<Longrightarrow> object_at (f @ g) off i"
  unfolding object_at_def by (metis append.assoc)

definition pdf_ok :: "nat set \<Rightarrow> PDFEncoder \<Rightarrow> bool" where
  "pdf_ok W e = (\<forall>i \<in> W. i < length (pe_offsets e) \<and> object_at (pe_out e) (pe_offsets e ! i) i)"

text \<open>Drawing on the page leaves the file alone.\<close>

definition drawn :: "PDFEncoder \<Rightarrow> PDFEncoder \<Rightarrow> bool" where
  "drawn e e' =
    (pe_out e' = pe_out e \<and> pe_offsets e' = pe_offsets e \<and> pe_nextObj e' = pe_nextObj e \<and> pe_pageObjs e' = pe_pageObjs e \<and>
     pe_rep e' = pe_rep e \<and> pe_closed e' = pe_closed e)"

lemma drawn_refl [simp]: "drawn e e"
  by (simp add: drawn_def)

lemma drawn_trans: "drawn e1 e2 \<Longrightarrow> drawn e2 e3 \<Longrightarrow> drawn e1 e3"
  by (simp add: drawn_def)

lemma drawn_fold: "(\<And>x e. drawn e (f x e)) \<Longrightarrow> drawn e (fold f xs e)"
  by (induction xs arbitrary: e) (auto intro: drawn_trans)

lemma drawn_steps [simp]:
  "drawn e (draw s e)" "drawn e (down dy e)" "drawn e (textColored x y sz bold r g b s e)" "drawn e (pe_text x y sz bold s e)"
  by (simp_all add: drawn_def draw_def down_def textColored_def pe_text_def)

lemma drawn_cells [simp]: "drawn e (header_cell i e)" "drawn e (body_cell c e)" "drawn e (margin_line dy sz bold s e)"
  by (auto simp: header_cell_def body_cell_def margin_line_def Let_def split_beta intro: drawn_trans [OF drawn_steps(2) drawn_steps(4)])

lemma drawn_footer [simp]: "drawn e (page_footer e)"
  by (simp add: page_footer_def Let_def)

lemma drawn_headers [simp]: "drawn e (writeColumnHeaders e)"
  unfolding writeColumnHeaders_def by (intro drawn_trans [OF _ drawn_steps(2)] drawn_trans [OF _ drawn_fold] drawn_steps drawn_cells)

lemma drawn_beginPage [simp]: "drawn e (beginPage e)"
proof -
  let ?e1 = "e\<lparr>pe_page := [], pe_pageRows := 0, pe_pageNum := pe_pageNum e + 1, pe_openPages := True, pe_y := pageHeight - marginY\<rparr>"
  have start: "drawn e ?e1" by (simp add: drawn_def)
  show ?thesis
    unfolding beginPage_def Let_def
    using start by (auto intro!: drawn_trans [OF _ drawn_headers] drawn_trans [OF _ drawn_steps(2)] drawn_trans [OF _ drawn_cells(3)])
qed

lemma drawn_ok: "drawn e e' \<Longrightarrow> pdf_ok W e \<Longrightarrow> pdf_ok W e'"
  by (simp add: drawn_def pdf_ok_def)

lemma pdf_ok_update [simp]:
  "pdf_ok W (e\<lparr>pe_pageObjs := x\<rparr>) = pdf_ok W e" "pdf_ok W (e\<lparr>pe_page := p\<rparr>) = pdf_ok W e" "pdf_ok W (e\<lparr>pe_nextObj := n\<rparr>) = pdf_ok W e"
  by (simp_all add: pdf_ok_def)

lemma write_ok: "pdf_ok W e \<Longrightarrow> pdf_ok W (pe_write s e)"
  by (auto simp: pdf_ok_def pe_write_def intro: object_at_append)

lemma recordOffset_ok:
  assumes "pdf_ok W e" "num \<notin> W"
  shows "pdf_ok (insert num W) (pe_write (object_tag num @ s) (recordOffset num e))"
proof -
  have "object_at (pe_out e @ object_tag num @ s) (length (pe_out e)) num" by (auto simp: object_at_def)
  moreover have "(pe_offsets e @ replicate (num + 1 - length (pe_offsets e)) 0)[num := n] ! i = pe_offsets e ! i"
    if "i \<in> W" for i n using that assms by (cases "i = num") (auto simp: pdf_ok_def nth_append)
  ultimately show ?thesis using assms by (auto simp: pdf_ok_def pe_write_def recordOffset_def intro: object_at_append)
qed

lemma writeObject_ok: "pdf_ok W e \<Longrightarrow> num \<notin> W \<Longrightarrow> pdf_ok (insert num W) (writeObject num body e)"
  using recordOffset_ok [of W e num "body @ nl @ ''endobj'' @ nl"] by (simp add: writeObject_def object_tag_def)

lemma writeStreamObject_ok: "pdf_ok W e \<Longrightarrow> num \<notin> W \<Longrightarrow> pdf_ok (insert num W) (writeStreamObject num data e)"
  unfolding writeStreamObject_def
  using write_ok [OF write_ok [OF recordOffset_ok [of W e num "''<< /Length '' @ digits (length data) @ '' >>'' @ nl @ ''stream'' @ nl"]]]
  by (simp add: object_tag_def)

lemma writeObject_frame [simp]:
  "pe_nextObj (writeObject num body e) = pe_nextObj e" "pe_pageObjs (writeObject num body e) = pe_pageObjs e"
  "pe_closed (writeObject num body e) = pe_closed e" "pe_rep (writeObject num body e) = pe_rep e"
  "pe_nextObj (writeStreamObject num d e) = pe_nextObj e" "pe_pageObjs (writeStreamObject num d e) = pe_pageObjs e"
  "pe_closed (writeStreamObject num d e) = pe_closed e" "pe_rep (writeStreamObject num d e) = pe_rep e"
  by (simp_all add: writeObject_def writeStreamObject_def pe_write_def recordOffset_def)

text \<open>The objects written so far: the fonts and the pages.\<close>

definition pages_ok :: "PDFEncoder \<Rightarrow> bool" where
  "pages_ok e = (5 \<le> pe_nextObj e \<and> pdf_ok ({1, 2} \<union> {5..<pe_nextObj e}) e)"

lemma drawn_pages: "drawn e e' \<Longrightarrow> pages_ok e \<Longrightarrow> pages_ok e'"
  using drawn_ok [of e e'] by (auto simp: pages_ok_def drawn_def)

lemma flushPage_ok: "pages_ok e \<Longrightarrow> pages_ok (flushPage e)"
proof (cases "pe_openPages e")
  case True
  assume ok: "pages_ok e"
  let ?e1 = "page_footer (e\<lparr>pe_openPages := False\<rparr>)"
  have "drawn e (e\<lparr>pe_openPages := False\<rparr>)" by (simp add: drawn_def)
  then have "drawn e ?e1" using drawn_footer by (rule drawn_trans)
  then have e1: "pages_ok ?e1" "pe_nextObj ?e1 = pe_nextObj e" "pe_pageObjs ?e1 = pe_pageObjs e"
    using drawn_pages [OF _ ok] by (auto simp: drawn_def)
  let ?n = "pe_nextObj e"
  have W: "insert (?n + 1) (insert ?n ({1, 2} \<union> {5..<?n})) = {1, 2} \<union> {5..<?n + 2}" using ok by (auto simp: pages_ok_def)
  have "pdf_ok ({1, 2} \<union> {5..<?n}) (?e1\<lparr>pe_nextObj := ?n + 2\<rparr>)" using e1 by (simp add: pages_ok_def)
  then have "pdf_ok (insert (?n + 1) (insert ?n ({1, 2} \<union> {5..<?n})))
      (writeObject (?n + 1) b (writeStreamObject ?n dt (?e1\<lparr>pe_nextObj := ?n + 2\<rparr>)))" for b dt
    using ok by (intro writeObject_ok writeStreamObject_ok) (auto simp: pages_ok_def)
  then have "pdf_ok ({1, 2} \<union> {5..<?n + 2}) (writeObject (?n + 1) b (writeStreamObject ?n dt (?e1\<lparr>pe_nextObj := ?n + 2\<rparr>)))" for b dt
    unfolding W .
  then have "pages_ok ((writeObject (?n + 1) b (writeStreamObject ?n dt (?e1\<lparr>pe_nextObj := ?n + 2\<rparr>)))\<lparr>pe_pageObjs := ps, pe_page := pg\<rparr>)"
    for b dt ps pg using ok by (simp add: pages_ok_def)
  then show ?thesis using True e1 by (simp only: flushPage_def Let_def if_False simp_thms e1(2))
qed (simp add: flushPage_def)

lemma flushPage_frame [simp]: "pe_rep (flushPage e) = pe_rep e" "pe_closed (flushPage e) = pe_closed e"
proof -
  have "drawn e (page_footer (e\<lparr>pe_openPages := False\<rparr>))"
    by (rule drawn_trans [OF _ drawn_footer]) (simp add: drawn_def)
  then show "pe_rep (flushPage e) = pe_rep e" "pe_closed (flushPage e) = pe_closed e"
    by (simp_all add: flushPage_def Let_def drawn_def)
qed

lemma flushPage_pages: "pe_openPages e \<Longrightarrow> pe_pageObjs (flushPage e) \<noteq> []"
  by (simp add: flushPage_def Let_def)

lemma PDF_Open_ok: "pages_ok (PDF_Open e r)" "pe_rep (PDF_Open e r) = r" "pe_closed (PDF_Open e r) = pe_closed e"
proof -
  let ?e1 = "layoutColumns (e\<lparr>pe_out := [], pe_rep := r, pe_offsets := replicate 5 0, pe_nextObj := 5\<rparr>)"
  let ?e4 = "\<lambda>h a b. writeObject 2 b (writeObject 1 a (pe_write h ?e1))"
  have base: "pe_nextObj ?e1 = 5" "pe_rep ?e1 = r" "pe_closed ?e1 = pe_closed e" by (simp_all add: layoutColumns_def Let_def)
  have "pdf_ok {} (pe_write h ?e1)" for h by (simp add: pdf_ok_def)
  then have "pdf_ok (insert 2 (insert 1 {})) (?e4 h a b)" for h a b by (intro writeObject_ok) auto
  moreover have "insert 2 (insert 1 {}) = {1, 2} \<union> {5..<5 :: nat}" by auto
  ultimately have "pages_ok (?e4 h a b)" for h a b using base by (simp add: pages_ok_def pe_write_def)
  then have p: "pages_ok (beginPage (?e4 h a b))" for h a b using drawn_pages [OF drawn_beginPage] by blast
  have f: "pe_rep (beginPage (?e4 h a b)) = r \<and> pe_closed (beginPage (?e4 h a b)) = pe_closed e" for h a b
    using drawn_beginPage [of "?e4 h a b"] base by (simp add: drawn_def pe_write_def)
  show "pages_ok (PDF_Open e r)" unfolding PDF_Open_def Let_def by (rule p)
  show "pe_rep (PDF_Open e r) = r" "pe_closed (PDF_Open e r) = pe_closed e" unfolding PDF_Open_def Let_def using f by blast+
qed

lemma if_Inr: "(if c then Inl x else Inr y) = Inr z \<Longrightarrow> z = y"
  by (simp split: if_splits)

definition page_break :: "PDFEncoder \<Rightarrow> PDFEncoder" where
  "page_break e = (if pe_y e - rowHeight < marginY + 16 then beginPage (flushPage e) else e)"

definition stripe :: "PDFEncoder \<Rightarrow> PDFEncoder" where
  "stripe e = (if pe_pageRows e mod 2 = 1 then draw (band ''0.949 0.953 0.961'' (pe_y e - rowHeight + 3) rowHeight) e else e)"

definition row_drawn :: "Cell list \<Rightarrow> PDFEncoder \<Rightarrow> PDFEncoder" where
  "row_drawn row e = (let e3 = fold body_cell (enumerate 0 row) e in down rowHeight (e3\<lparr>pe_pageRows := pe_pageRows e3 + 1\<rparr>))"

lemma PDF_Write_steps:
  "PDF_Write e row =
    (if length row \<noteq> length (rp_Columns (pe_rep e)) then Inl (row_mismatch (length row) (length (rp_Columns (pe_rep e))))
     else Inr (row_drawn row (stripe (page_break e))))"
  unfolding PDF_Write_def page_break_def stripe_def row_drawn_def Let_def ..

lemma page_break_ok:
  "pages_ok e \<Longrightarrow> pages_ok (page_break e)" "pe_rep (page_break e) = pe_rep e" "pe_closed (page_break e) = pe_closed e"
  using drawn_pages [OF drawn_beginPage flushPage_ok] drawn_beginPage [of "flushPage e"] by (simp_all add: page_break_def drawn_def)

lemma drawn_row: "drawn e (row_drawn row (stripe e))"
proof -
  have "drawn e (stripe e)" by (simp add: stripe_def)
  moreover have "drawn (stripe e) (fold body_cell (enumerate 0 row) (stripe e))" by (rule drawn_fold) simp
  moreover have "drawn e3 (down rowHeight (e3\<lparr>pe_pageRows := n\<rparr>))" for e3 n by (simp add: drawn_def down_def)
  ultimately show ?thesis unfolding row_drawn_def Let_def by (blast intro: drawn_trans)
qed

lemma PDF_Write_ok:
  assumes "PDF_Write e row = Inr e'" "pages_ok e"
  shows "pages_ok e' \<and> pe_rep e' = pe_rep e \<and> pe_closed e' = pe_closed e"
proof -
  have e': "e' = row_drawn row (stripe (page_break e))" using assms(1) unfolding PDF_Write_steps by (rule if_Inr)
  then show ?thesis
    using drawn_pages [OF drawn_row page_break_ok(1) [OF assms(2)]] drawn_row [of "page_break e" row] page_break_ok(2,3) [of e]
    by (simp add: drawn_def)
qed

text \<open>Closing writes the page tree and the catalogue, so that every number below the next one is an object.\<close>

lemma PDF_Close_ok:
  assumes "pages_ok e" "\<not> pe_closed e"
  obtains c where "PDF_Close e = writeXref c" "pdf_ok {1..<pe_nextObj c} c" "5 \<le> pe_nextObj c"
proof -
  let ?e1 = "flushPage (e\<lparr>pe_closed := True\<rparr>)"
  let ?b = "beginPage ?e1"
  let ?e2 = "if pe_pageObjs ?e1 = [] then flushPage (pe_text marginX (pe_y ?b - 20) bodySize False
      (''No claims matched this report'' @ [CHR 0x27] @ ''s filters.'') ?b) else ?e1"
  have "pages_ok (e\<lparr>pe_closed := True\<rparr>)" using assms(1) by (simp add: pages_ok_def pdf_ok_def)
  then have one: "pages_ok ?e1" by (rule flushPage_ok)
  have "pages_ok (flushPage (pe_text x y sz bd t ?b))" for x y sz bd t
    by (rule flushPage_ok, rule drawn_pages [OF drawn_steps(4)], rule drawn_pages [OF drawn_beginPage], rule one)
  with one have two: "pages_ok ?e2" by simp
  then have "pdf_ok (insert 4 (insert 3 ({1, 2} \<union> {5..<pe_nextObj ?e2}))) (writeObject 4 b (writeObject 3 a ?e2))" for a b
    by (intro writeObject_ok) (auto simp: pages_ok_def)
  moreover have "insert 4 (insert 3 ({1, 2} \<union> {5..<pe_nextObj ?e2})) = {1..<pe_nextObj ?e2}"
    using two by (auto simp: pages_ok_def)
  ultimately have ok: "pdf_ok {1..<pe_nextObj ?e2} (writeObject 4 b (writeObject 3 a ?e2))" for a b by metis
  then have "pdf_ok {1..<pe_nextObj (writeObject 4 b (writeObject 3 a ?e2))} (writeObject 4 b (writeObject 3 a ?e2))" for a b
    by (simp only: writeObject_frame)
  moreover have "\<exists>a b. PDF_Close e = writeXref (writeObject 4 b (writeObject 3 a ?e2))"
    using assms(2) unfolding PDF_Close_def Let_def by (simp only: if_False) blast
  moreover have "5 \<le> pe_nextObj (writeObject 4 b (writeObject 3 a ?e2))" for a b using two by (simp only: writeObject_frame pages_ok_def)
  ultimately show ?thesis using that by blast
qed

section \<open>A whole document\<close>

fun pdf_rows :: "PDFEncoder \<Rightarrow> Cell list list \<Rightarrow> (err, PDFEncoder) res" where
  "pdf_rows e [] = Inr e"
| "pdf_rows e (row # rows) = bind_res (PDF_Write e row) (\<lambda>e'. pdf_rows e' rows)"

definition pdf_document :: "Report \<Rightarrow> Cell list list \<Rightarrow> (err, string) res" where
  "pdf_document r rows = bind_res (pdf_rows (PDF_Open new_pdf r) rows) (\<lambda>e. Inr (pe_out (PDF_Close e)))"

lemma pdf_rows_ok: "pdf_rows e rows = Inr e' \<Longrightarrow> pages_ok e \<Longrightarrow> pages_ok e' \<and> pe_closed e' = pe_closed e"
proof (induction rows arbitrary: e)
  case (Cons row rows)
  from Cons.prems(1) obtain e1 where w: "PDF_Write e row = Inr e1" "pdf_rows e1 rows = Inr e'" by (auto simp: bind_res_Inr)
  then show ?case using Cons.IH PDF_Write_ok [OF w(1) Cons.prems(2)] by auto
qed simp

text \<open>How a reader finds an object: from \<open>startxref\<close> to the table, and from its entry to the file.\<close>

definition xref_header :: "nat \<Rightarrow> string" where
  "xref_header size0 = ''xref'' @ nl @ ''0 '' @ digits size0 @ nl"

definition xref_offset :: "string \<Rightarrow> nat \<Rightarrow> nat \<Rightarrow> nat \<Rightarrow> nat" where
  "xref_offset file start size0 i = undigits (take 10 (drop (start + length (xref_header size0) + 20 * i) file))"

definition pdf_tail :: "nat \<Rightarrow> nat \<Rightarrow> string" where
  "pdf_tail size0 start = ''trailer'' @ nl @ ''<< /Size '' @ digits size0 @ '' /Root 4 0 R >>'' @ nl @ ''startxref'' @ nl @ digits start @ nl @ ''%%EOF'' @ nl"

lemma drop_blocks:
  "\<forall>x \<in> set xs. length (f x) = n \<Longrightarrow> k \<le> length xs \<Longrightarrow> drop (n * k) (concat (map f xs) @ t) = concat (map f (drop k xs)) @ t"
proof (induction xs arbitrary: k)
  case (Cons x xs)
  then show ?case by (cases k) simp_all
qed simp

lemma drop_front: "length c = n \<Longrightarrow> drop (length a + length b + (n + k)) (a @ b @ c @ u) = drop k u"
  by simp

lemma xref_line_length: "off < 10 ^ 10 \<Longrightarrow> length (xref_line off) = 20"
  using digits_length [of off 10] by (simp add: xref_line_def pad0_length nl_def)

lemma xref_line_offset: "off < 10 ^ 10 \<Longrightarrow> undigits (take 10 (xref_line off @ t)) = off"
  using digits_length [of off 10] by (simp add: xref_line_def pad0_length undigits_pad0)

lemma xref_table_lookup:
  assumes "\<forall>j \<in> {1..<size0}. j < length offsets \<and> offsets ! j < 10 ^ 10" "1 \<le> i" "i < size0"
  shows "xref_offset (body @ xref_table offsets size0 @ t) (length body) size0 i = offsets ! i"
proof -
  let ?f = "\<lambda>j. xref_line (if j < length offsets then offsets ! j else 0)"
  have table: "xref_table offsets size0 = xref_header size0 @ (''0000000000 65535 f '' @ nl) @ concat (map ?f [1..<size0])"
    by (simp add: xref_table_def xref_header_def)
  have "drop (length body + length (xref_header size0) + (20 + 20 * (i - 1)))
      (body @ xref_header size0 @ (''0000000000 65535 f '' @ nl) @ (concat (map ?f [1..<size0]) @ t)) =
      drop (20 * (i - 1)) (concat (map ?f [1..<size0]) @ t)" by (rule drop_front) (simp add: nl_def)
  moreover have "20 + 20 * (i - 1) = 20 * i" using assms(2) by simp
  ultimately have "drop (length body + length (xref_header size0) + 20 * i) (body @ xref_table offsets size0 @ t) =
      drop (20 * (i - 1)) (concat (map ?f [1..<size0]) @ t)" unfolding table append.assoc by (simp only:)
  also have "\<dots> = concat (map ?f (drop (i - 1) [1..<size0])) @ t"
    by (rule drop_blocks) (use assms in \<open>auto intro!: xref_line_length\<close>)
  also have "drop (i - 1) [1..<size0] = i # [i + 1..<size0]" using assms(2,3) upt_conv_Cons [of i size0] by (simp only: drop_upt) simp
  finally have entry: "drop (length body + length (xref_header size0) + 20 * i) (body @ xref_table offsets size0 @ t) =
      concat (map ?f (i # [i + 1..<size0])) @ t" .
  have off: "i < length offsets" "offsets ! i < 10 ^ 10" using assms by auto
  then have "concat (map ?f (i # [i + 1..<size0])) @ t = xref_line (offsets ! i) @ (concat (map ?f [i + 1..<size0]) @ t)" by simp
  then show ?thesis unfolding xref_offset_def entry using xref_line_offset [OF off(2)] by (simp only:)
qed

lemma object_at_offset: "object_at f off i \<Longrightarrow> off < length f"
  by (auto simp: object_at_def object_tag_def)

text \<open>
  C24. A reader of an exported PDF finds its objects: the file ends in a cross-reference table and a trailer
  that says where the table starts, and for every object number below its size the offset in the table is
  the place where that object begins.
\<close>

theorem pdf_reader_finds_objects:
  assumes "pdf_document r rows = Inr file"
  shows "\<exists>front offsets size0. 5 \<le> size0 \<and> file = front @ xref_table offsets size0 @ pdf_tail size0 (length front) \<and>
    (\<forall>i \<in> {1..<size0}. object_at file (offsets ! i) i \<and>
      (length file < 10 ^ 10 \<longrightarrow> xref_offset file (length front) size0 i = offsets ! i))"
proof -
  from assms obtain e where e: "pdf_rows (PDF_Open new_pdf r) rows = Inr e" "file = pe_out (PDF_Close e)"
    by (auto simp: pdf_document_def bind_res_Inr)
  with pdf_rows_ok [OF e(1) PDF_Open_ok(1)] have "pages_ok e" "\<not> pe_closed e" by (simp_all add: PDF_Open_ok new_pdf_def)
  then obtain c where c: "PDF_Close e = writeXref c" "pdf_ok {1..<pe_nextObj c} c" "5 \<le> pe_nextObj c" by (rule PDF_Close_ok)
  let ?n = "pe_nextObj c" and ?start = "length (pe_out c)"
  have whole: "file = pe_out c @ xref_table (pe_offsets c) ?n @ pdf_tail ?n ?start"
    using e(2) c(1) by (simp add: writeXref_def Let_def pe_write_def pdf_tail_def)
  have found: "object_at file (pe_offsets c ! i) i" if "i \<in> {1..<?n}" for i
    using c(2) that whole by (auto simp: pdf_ok_def intro!: object_at_append)
  have "xref_offset file ?start ?n i = pe_offsets c ! i" if "i \<in> {1..<?n}" "length file < 10 ^ 10" for i
  proof -
    have "\<forall>j \<in> {1..<?n}. j < length (pe_offsets c) \<and> pe_offsets c ! j < 10 ^ 10"
      using c(2) that(2) whole object_at_offset by (fastforce simp: pdf_ok_def)
    from xref_table_lookup [OF this, of i "pe_out c" "pdf_tail ?n ?start"] that(1) whole show ?thesis by simp
  qed
  with whole c(3) found show ?thesis by blast
qed

definition demo_report :: Report where
  "demo_report = \<lparr>rp_Title = ''Claims'', rp_Subtitle = [], rp_Columns = [\<lparr>cn_Header = ''Amount'', cn_Kind = KindMoney, cn_Width = 0\<rparr>],
     rp_Generated = 0, rp_TenantName = ''Acme''\<rparr>"

theorem pdf_reader_finds_objects_witness:
  "\<exists>file off. pdf_document demo_report [[MoneyCell \<lparr>Minor = 250, Currency = ''EUR''\<rparr>]] = Inr file \<and> object_at file off 4"
proof -
  have "length [MoneyCell \<lparr>Minor = 250, Currency = ''EUR''\<rparr>] = length (rp_Columns (pe_rep (PDF_Open new_pdf demo_report)))"
    by (simp add: PDF_Open_ok demo_report_def)
  then obtain e where "PDF_Write (PDF_Open new_pdf demo_report) [MoneyCell \<lparr>Minor = 250, Currency = ''EUR''\<rparr>] = Inr e"
    unfolding PDF_Write_def by (auto simp: Let_def)
  then have d: "pdf_document demo_report [[MoneyCell \<lparr>Minor = 250, Currency = ''EUR''\<rparr>]] = Inr (pe_out (PDF_Close e))"
    by (simp add: pdf_document_def bind_res_def)
  from pdf_reader_finds_objects [OF d] obtain offsets :: "nat list" and size0 :: nat
    where "5 \<le> size0" "\<forall>i \<in> {1..<size0}. object_at (pe_out (PDF_Close e)) (offsets ! i) i" by blast
  then have "object_at (pe_out (PDF_Close e)) (offsets ! 4) 4" by simp
  with d show ?thesis by blast
qed

end
