(* ===== verification/Report_Props.thy ===== *)
theory Report_Props
  imports Http_Export Export_Pdf_Props Expense_Listing
begin

text \<open>
  What an export delivers. \<open>row_encoder\<close> is the contract of the three formats towards the service; the
  lemmas follow one attempt through the rows, then the attempts of the transaction runner.
\<close>

section \<open>The contract of an encoder\<close>

locale row_encoder =
  fixes opn :: "'e \<Rightarrow> Report \<Rightarrow> 'e \<times> chunk list"
    and wr :: "'e \<Rightarrow> Cell list \<Rightarrow> (err, 'e \<times> chunk list) res"
    and columns :: "'e \<Rightarrow> nat"
  assumes opened: "columns (fst (opn e r)) = length (rp_Columns r)"
    and fits: "length row = columns e \<Longrightarrow> \<exists>e' out. wr e row = Inr (e', out) \<and> columns e' = columns e"
    and mismatched: "length row \<noteq> columns e \<Longrightarrow> wr e row = Inl (row_mismatch (length row) (columns e))"
begin

lemma writes_iff: "(\<exists>e' out. wr e row = Inr (e', out)) \<longleftrightarrow> length row = columns e"
  using fits mismatched by fastforce

lemma keeps_columns: "wr e row = Inr (e', out) \<Longrightarrow> columns e' = columns e"
  using fits [of row e] mismatched [of row e] by (cases "length row = columns e") auto

lemma write_failure: "wr e row = Inl err \<Longrightarrow> err = row_mismatch (length row) (columns e)"
  using fits [of row e] mismatched [of row e] by (cases "length row = columns e") auto

end

definition enc_columns :: "Encoder \<Rightarrow> nat" where
  "enc_columns enc =
    (case enc of CSVEnc n \<Rightarrow> n | XLSXEnc e \<Rightarrow> length (xe_cols e) | PDFEnc e \<Rightarrow> length (rp_Columns (pe_rep e)))"

lemma PDF_Write_rep: "PDF_Write e row = Inr e' \<Longrightarrow> pe_rep e' = pe_rep e"
  unfolding PDF_Write_steps using drawn_row [of "page_break e" row] page_break_ok(2) [of e]
  by (auto simp: drawn_def dest!: if_Inr)

interpretation enc: row_encoder Enc_Open "Enc_Write codec ft" enc_columns
proof
  fix e :: Encoder and r row
  show "enc_columns (fst (Enc_Open e r)) = length (rp_Columns r)"
    by (cases e) (simp_all add: Enc_Open_def enc_columns_def CSV_Open_def XLSX_Open_def Let_def PDF_Open_ok)
  show "length row = enc_columns e \<Longrightarrow> \<exists>e' out. Enc_Write codec ft e row = Inr (e', out) \<and> enc_columns e' = enc_columns e"
  proof (cases e)
    case (PDFEnc p)
    assume "length row = enc_columns e"
    then obtain p' where "PDF_Write p row = Inr p'" using PDFEnc by (auto simp: PDF_Write_def enc_columns_def Let_def)
    then show ?thesis using PDFEnc PDF_Write_rep by (simp add: Enc_Write_def enc_columns_def bind_res_def)
  qed (auto simp: Enc_Write_def enc_columns_def CSV_Write_def XLSX_Write_def Let_def bind_res_def)
  show "length row \<noteq> enc_columns e \<Longrightarrow> Enc_Write codec ft e row = Inl (row_mismatch (length row) (enc_columns e))"
    by (cases e) (auto simp: Enc_Write_def enc_columns_def CSV_Write_def XLSX_Write_def PDF_Write_def bind_res_def)
qed

lemma toCells_columns [simp]: "length (toCells r) = length exportColumns"
  by (simp add: toCells_def exportColumns_def Let_def)

section \<open>One attempt\<close>

text \<open>The rows that go through the stream, how it ends, and the rows it counts.\<close>

lemma sent_simps [simp]:
  "tr_enc (sent w tr) = fst w" "tr_out (sent w tr) = tr_out tr @ snd w" "tr_rows (sent w tr) = tr_rows tr"
  "tr_prepared (sent w tr) = tr_prepared tr"
  by (simp_all add: sent_def split_beta)

lemma stream_Cons:
  assumes "stream_rows codec ft mx fault (r # rows) tr = (res, tr')" "enc_columns (tr_enc tr) = length exportColumns"
  obtains (broken) e where "broken fault = Some e" "res = Inl e" "tr' = tr"
  | (full) "mx \<noteq> Unlimited" "mx \<le> int (tr_rows tr)" "res = Inl (Sentinel ErrExportTooLarge)" "tr' = tr"
  | (step) w where "Enc_Write codec ft (tr_enc tr) (toCells r) = Inr w" "enc_columns (fst w) = length exportColumns"
      "mx = Unlimited \<or> int (tr_rows tr) < mx"
      "stream_rows codec ft mx (map_option (apfst (\<lambda>k. k - 1)) fault) rows (sent w (tr\<lparr>tr_rows := tr_rows tr + 1\<rparr>)) = (res, tr')"
proof -
  from enc.fits [of "toCells r" "tr_enc tr" codec ft] assms(2) obtain e' out
    where w: "Enc_Write codec ft (tr_enc tr) (toCells r) = Inr (e', out)" "enc_columns e' = length exportColumns" by auto
  show ?thesis
  proof (cases "broken fault")
    case None
    show ?thesis
    proof (cases "mx \<noteq> Unlimited \<and> mx \<le> int (tr_rows tr)")
      case True
      with None assms(1) show ?thesis by (intro full) simp_all
    next
      case False
      with None assms(1) w show ?thesis by (intro step [of "(e', out)"]) (simp_all add: Let_def, linarith)
    qed
  next
    case (Some e)
    with assms(1) show ?thesis by (intro broken) auto
  qed
qed

lemma stream_steps:
  "stream_rows codec ft mx fault rows tr = (res, tr') \<Longrightarrow> enc_columns (tr_enc tr) = length exportColumns \<Longrightarrow>
   tr_rows tr' \<le> tr_rows tr + length rows \<and> tr_prepared tr' = tr_prepared tr \<and>
   (res = Inr () \<longrightarrow> tr_rows tr' = tr_rows tr + length rows) \<and>
   (mx \<noteq> Unlimited \<longrightarrow> int (tr_rows tr) \<le> mx \<longrightarrow> int (tr_rows tr') \<le> mx)"
proof (induction rows arbitrary: fault tr)
  case Nil
  then show ?case by (auto split: option.splits)
next
  case (Cons r rows)
  from Cons.prems show ?case
  proof (cases rule: stream_Cons)
    case (step w)
    from Cons.IH [OF step(4)] step(2,3) show ?thesis by auto
  qed auto
qed

text \<open>Without a failure of the connection, only the plan's limit ends a stream early.\<close>

lemma stream_quiet:
  "stream_rows codec ft mx None rows tr = (res, tr') \<Longrightarrow> enc_columns (tr_enc tr) = length exportColumns \<Longrightarrow>
   res = Inr () \<or> res = Inl (Sentinel ErrExportTooLarge) \<and> mx \<noteq> Unlimited \<and> mx < int (tr_rows tr + length rows)"
proof (induction rows arbitrary: tr)
  case Nil
  then show ?case by (simp add: broken_def)
next
  case (Cons r rows)
  from Cons.prems show ?case
  proof (cases rule: stream_Cons)
    case (step w)
    from Cons.IH [of "sent w (tr\<lparr>tr_rows := tr_rows tr + 1\<rparr>)"] step(2,4) show ?thesis by auto
  qed (auto simp: broken_def)
qed

section \<open>CSV\<close>

fun payload_bytes :: "chunk list \<Rightarrow> string" where
  "payload_bytes [] = []"
| "payload_bytes (Bytes s # cs) = s @ payload_bytes cs"
| "payload_bytes (_ # cs) = payload_bytes cs"

lemma payload_bytes_append [simp]: "payload_bytes (a @ b) = payload_bytes a @ payload_bytes b"
  by (induction a rule: payload_bytes.induct) auto

definition csv_rows :: "Codec \<Rightarrow> ExportRow list \<Rightarrow> string list list" where
  "csv_rows codec rows = map (\<lambda>r. map (csvValue codec) (toCells r)) rows"

lemma stream_csv:
  "stream_rows codec ft mx fault rows tr = (Inr (), tr') \<Longrightarrow> tr_enc tr = CSVEnc (length exportColumns) \<Longrightarrow>
   payload_bytes (tr_out tr') = payload_bytes (tr_out tr) @ concat (map csv_line (csv_rows codec rows))"
proof (induction rows arbitrary: fault tr)
  case Nil
  then show ?case by (auto simp: csv_rows_def split: option.splits)
next
  case (Cons r rows)
  have "enc_columns (tr_enc tr) = length exportColumns" using Cons.prems(2) by (simp add: enc_columns_def)
  with Cons.prems(1) show ?case
  proof (cases rule: stream_Cons)
    case (step w)
    then have w: "w = (CSVEnc (length exportColumns), [Bytes (csv_line (map (csvValue codec) (toCells r)))])"
      using Cons.prems(2) by (auto simp: Enc_Write_def CSV_Write_def bind_res_def)
    from Cons.IH [OF step(4)] w show ?thesis by (simp add: csv_rows_def)
  qed (use Cons.prems in \<open>auto simp: enc_columns_def\<close>)
qed

lemma stream_stays_csv:
  "stream_rows codec ft mx fault rows tr = (res, tr') \<Longrightarrow> tr_enc tr = CSVEnc (length exportColumns) \<Longrightarrow>
   tr_enc tr' = CSVEnc (length exportColumns)"
proof (induction rows arbitrary: fault tr)
  case Nil
  then show ?case by (auto split: option.splits)
next
  case (Cons r rows)
  have "enc_columns (tr_enc tr) = length exportColumns" using Cons.prems(2) by (simp add: enc_columns_def)
  with Cons.prems(1) show ?case
  proof (cases rule: stream_Cons)
    case (step w)
    then have "fst w = CSVEnc (length exportColumns)" using Cons.prems(2) by (auto simp: Enc_Write_def CSV_Write_def bind_res_def)
    with Cons.IH [OF step(4)] show ?thesis by simp
  qed (use Cons.prems in \<open>auto simp: enc_columns_def\<close>)
qed

lemma Enc_Open_csv: "Enc_Open (CSVEnc n) r = (CSVEnc (length (rp_Columns r)), [Bytes (utf8_bom @ csv_line (map cn_Header (rp_Columns r)))])"
  by (simp add: Enc_Open_def CSV_Open_def Let_def)

lemma Enc_Close_csv: "Enc_Close (CSVEnc n) = (CSVEnc n, [Bytes []])"
  by (simp add: Enc_Close_def CSV_Close_def)

section \<open>The work of the transaction\<close>

definition export_claims :: "TenantConn \<Rightarrow> Filter \<Rightarrow> db \<Rightarrow> Expense list" where
  "export_claims tc f d = sort_key (\<lambda>r. (e_SpentAt r, e_ID r)) (filter (exported tc f) (expenses d))"

lemma exportQuery_iff:
  "exportQuery tc f d = Inr (rows, d') \<longleftrightarrow> fk_opt Status_Valid (f_Status f) \<and> rows = map (export_row tc d) (export_claims tc f d) \<and> d' = d"
  by (auto simp: exportQuery_def go_result export_claims_def asks_def)

lemma exportQuery_Inl: "exportQuery tc f d = Inl e \<Longrightarrow> e = pg ''22P02'' []"
  by (auto simp: exportQuery_def go_result asks_def)

lemma export_setup_Inr:
  "export_setup now req tc actor d = Inr ((meta, mx, flt), d') \<longleftrightarrow>
    Can actor PermReportExport \<and> narrow actor (xr_Filter req) = Inr flt \<and>
    (\<exists>ent org d1. GetEntitlement tc d = Inr (ent, d1) \<and> Allows ent FeatureStreamingExport \<and> GetTenant tc d1 = Inr (org, d') \<and>
      mx = l_ExportRows (Entitlement_Limits ent) \<and>
      meta = \<lparr>rp_Title = ''Expense claims'', rp_Subtitle = describeFilter flt, rp_Columns = exportColumns,
        rp_Generated = now, rp_TenantName = t_Name org\<rparr>)"
  unfolding export_setup_def go_result by auto

text \<open>An attempt writes nothing, or it opens the report, streams the query and closes.\<close>

lemma export_work_cases:
  assumes "export_work codec ft fault now subject req d tc tr = (res, tr')"
  obtains (refused) e where "Scope_body subject (export_setup now req) tc d = Inl e" "res = Inl e" "tr' = tr"
  | (streamed) meta mx flt d1 tr3 where "Scope_body subject (export_setup now req) tc d = Inr ((meta, mx, flt), d1)"
      "tr' = sent (Enc_Close (tr_enc tr3)) tr3"
      "StreamForExport codec ft fault tc flt d mx (sent (Enc_Open (tr_enc tr) meta) (tr\<lparr>tr_prepared := Some meta\<rparr>)) = (res, tr3)"
proof (cases "Scope_body subject (export_setup now req) tc d")
  case (Inl e)
  with assms show ?thesis by (intro refused) (auto simp: export_work_def)
next
  case (Inr v)
  obtain meta mx flt d1 where v: "v = ((meta, mx, flt), d1)" by (metis prod.exhaust)
  obtain r3 tr3 where q: "StreamForExport codec ft fault tc flt d mx (sent (Enc_Open (tr_enc tr) meta) (tr\<lparr>tr_prepared := Some meta\<rparr>)) = (r3, tr3)" by (rule prod.exhaust)
  with assms Inr v have "res = r3" "tr' = sent (Enc_Close (tr_enc tr3)) tr3" by (simp_all add: export_work_def Let_def)
  with Inr v q show ?thesis by (intro streamed) simp_all
qed

lemma setup_Inr:
  "Scope_body subject (export_setup now req) tc d = Inr ((meta, mx, flt), d') \<longleftrightarrow>
    (\<exists>actor. acts_as d subject tc actor \<and> export_setup now req tc actor d = Inr ((meta, mx, flt), d'))"
  by (rule Scope_body_iff)

lemma setup_columns:
  "Scope_body subject (export_setup now req) tc d = Inr ((meta, mx, flt), d') \<Longrightarrow> rp_Columns meta = exportColumns"
  unfolding setup_Inr export_setup_Inr by auto

lemma StreamForExport_rows:
  assumes "StreamForExport codec ft fault tc flt d mx tr = (res, tr')"
  obtains (invalid) e where "res = Inl e" "\<not> isRetryable e" "tr' = tr"
  | (rows) "fk_opt Status_Valid (f_Status flt)"
      "stream_rows codec ft mx fault (map (export_row tc d) (export_claims tc flt d)) tr = (res, tr')"
proof (cases "exportQuery tc flt d")
  case (Inl e)
  then have "e = pg ''22P02'' []" by (rule exportQuery_Inl)
  with Inl assms show ?thesis by (intro invalid [of "translate e"]) (auto simp: StreamForExport_def translate_def pg_def)
next
  case (Inr v)
  then obtain rows d' where "exportQuery tc flt d = Inr (rows, d')" "v = (rows, d')" by (cases v) auto
  with assms show ?thesis by (intro rows) (auto simp: StreamForExport_def exportQuery_iff)
qed

lemma opened_columns:
  assumes "Scope_body subject (export_setup now req) tc d = Inr ((meta, mx, flt), d')"
  shows "enc_columns (tr_enc (sent (Enc_Open enc meta) tr)) = length exportColumns"
  using enc.opened [of enc meta] setup_columns [OF assms] by simp

text \<open>The headers go out before any byte, and a finished attempt has sent them.\<close>

definition headers_first :: "Transfer \<Rightarrow> bool" where
  "headers_first tr = (tr_prepared tr = None \<longrightarrow> tr_out tr = [] \<and> tr_rows tr = 0)"

lemma work_headers:
  assumes "export_work codec ft fault now subject req d tc tr = (res, tr')" "headers_first tr"
  shows "headers_first tr' \<and> (res = Inr () \<longrightarrow> tr_prepared tr' \<noteq> None)"
  using assms(1)
proof (cases rule: export_work_cases)
  case (streamed meta mx flt d1 tr3)
  from streamed(3) have "tr_prepared tr3 = Some meta"
  proof (cases rule: StreamForExport_rows)
    case rows
    from stream_steps [OF rows(2) opened_columns [OF streamed(1)]] show ?thesis by simp
  qed simp
  with streamed(2) show ?thesis by (simp add: headers_first_def)
qed (use assms(2) in auto)

lemma work_bound:
  assumes "export_work codec ft fault now subject req d tc tr = (res, tr')" "GetEntitlement tc d = Inr (ent, d0)"
    and "l_ExportRows (Entitlement_Limits ent) \<noteq> Unlimited" "int (tr_rows tr) \<le> l_ExportRows (Entitlement_Limits ent)"
  shows "int (tr_rows tr') \<le> l_ExportRows (Entitlement_Limits ent)"
  using assms(1)
proof (cases rule: export_work_cases)
  case (streamed meta mx flt d1 tr3)
  then have mx: "mx = l_ExportRows (Entitlement_Limits ent)" using assms(2) unfolding setup_Inr export_setup_Inr by auto
  from streamed(3) have "int (tr_rows tr3) \<le> mx"
  proof (cases rule: StreamForExport_rows)
    case rows
    from stream_steps [OF rows(2) opened_columns [OF streamed(1)]] assms(3,4) mx show ?thesis by simp
  qed (use assms(4) mx in simp)
  with streamed(2) mx show ?thesis by simp
qed (use assms(4) in simp)

text \<open>With a connection that holds, an attempt that is worth repeating has written nothing.\<close>

lemma work_quiet:
  assumes "export_work codec ft None now subject req d tc tr = (Inl e, tr')" "isRetryable e"
  shows "tr' = tr"
  using assms(1)
proof (cases rule: export_work_cases)
  case (streamed meta mx flt d1 tr3)
  from streamed(3) have "\<not> isRetryable e"
  proof (cases rule: StreamForExport_rows)
    case rows
    from stream_quiet [OF rows(2) opened_columns [OF streamed(1)]] show ?thesis by auto
  qed auto
  with assms(2) show ?thesis by simp
qed auto

definition csv_report :: "Codec \<Rightarrow> TenantConn \<Rightarrow> Filter \<Rightarrow> db \<Rightarrow> string list list" where
  "csv_report codec tc flt d = map cn_Header exportColumns # csv_rows codec (map (export_row tc d) (export_claims tc flt d))"

lemma work_csv:
  assumes "export_work codec ft fault now subject req d tc tr = (Inr (), tr')" "tr_enc tr = CSVEnc n"
  obtains actor flt where "acts_as d subject tc actor" "Can actor PermReportExport" "narrow actor (xr_Filter req) = Inr flt"
    "payload_bytes (tr_out tr') = payload_bytes (tr_out tr) @ utf8_bom @ concat (map csv_line (csv_report codec tc flt d))"
  using assms(1)
proof (cases rule: export_work_cases)
  case (streamed meta mx flt d1 tr3)
  then obtain actor where a: "acts_as d subject tc actor" "Can actor PermReportExport" "narrow actor (xr_Filter req) = Inr flt"
    unfolding setup_Inr export_setup_Inr by auto
  let ?tr2 = "sent (Enc_Open (tr_enc tr) meta) (tr\<lparr>tr_prepared := Some meta\<rparr>)"
  have e: "tr_enc ?tr2 = CSVEnc (length exportColumns)"
    and o: "payload_bytes (tr_out ?tr2) = payload_bytes (tr_out tr) @ utf8_bom @ csv_line (map cn_Header exportColumns)"
    using assms(2) setup_columns [OF streamed(1)] by (simp_all add: Enc_Open_csv)
  from streamed(3) show thesis
  proof (cases rule: StreamForExport_rows)
    case rows
    have "tr_enc tr3 = CSVEnc (length exportColumns)" using stream_stays_csv [OF rows(2) e] .
    with stream_csv [OF rows(2) e] o streamed(2) show thesis
      by (intro that [OF a]) (simp add: Enc_Close_csv csv_report_def)
  qed simp
qed simp

lemma work_stays_csv:
  assumes "export_work codec ft fault now subject req d tc tr = (res, tr')" "\<exists>n. tr_enc tr = CSVEnc n"
  shows "\<exists>n. tr_enc tr' = CSVEnc n"
  using assms(1)
proof (cases rule: export_work_cases)
  case (streamed meta mx flt d1 tr3)
  have e: "tr_enc (sent (Enc_Open (tr_enc tr) meta) (tr\<lparr>tr_prepared := Some meta\<rparr>)) = CSVEnc (length exportColumns)"
    using assms(2) setup_columns [OF streamed(1)] by (auto simp: Enc_Open_csv)
  from streamed(3) have "tr_enc tr3 = CSVEnc (length exportColumns)"
  proof (cases rule: StreamForExport_rows)
    case rows
    from stream_stays_csv [OF rows(2) e] show ?thesis .
  qed (use e in simp)
  with streamed(2) show ?thesis by (simp add: Enc_Close_csv)
qed (use assms(2) in simp)

section \<open>The attempts\<close>

lemma export_loop_keeps:
  assumes "\<And>i tr. I tr \<Longrightarrow> I (snd (work i tr))"
  shows "I tr \<Longrightarrow> I (snd (export_loop n i env wire work tr))"
proof (induction n arbitrary: i tr)
  case (Suc n)
  have "I (snd (export_attempt env wire i (work i) tr))"
    using Suc.prems assms [of tr i] by (auto simp: export_attempt_def split: option.splits prod.splits sum.splits)
  with Suc.IH show ?case by (auto split: prod.splits sum.splits)
qed simp

lemma export_loop_commits:
  "\<forall>j \<ge> i. wi_commit wire j = wi_commit wire' j \<Longrightarrow> export_loop n i env wire work tr = export_loop n i env wire' work tr"
proof (induction n arbitrary: i tr)
  case (Suc n)
  from Suc.prems have "wi_commit wire i = wi_commit wire' i" by simp
  then have "export_attempt env wire i (work i) tr = export_attempt env wire' i (work i) tr"
    by (simp add: export_attempt_def split: option.split prod.split sum.split)
  moreover have "export_loop n (i + 1) env wire work t = export_loop n (i + 1) env wire' work t" for t
    using Suc by (intro Suc.IH) simp
  ultimately show ?case by (simp split: prod.split sum.split)
qed simp

text \<open>A finished export is a finished attempt on whatever the repeated ones had left.\<close>

lemma export_loop_finished:
  assumes "\<And>i tr e tr'. I tr \<Longrightarrow> export_attempt env wire i (work i) tr = (Inl e, tr') \<Longrightarrow> isRetryable e \<Longrightarrow> I tr'"
  shows "export_loop n i env wire work tr = (Inr (), tr') \<Longrightarrow> I tr \<Longrightarrow>
    \<exists>j tr0. I tr0 \<and> work j tr0 = (Inr (), tr') \<and> verify_reset env = None"
proof (induction n arbitrary: i tr)
  case (Suc n)
  obtain r1 tr1 where a: "export_attempt env wire i (work i) tr = (r1, tr1)" by (rule prod.exhaust)
  show ?case
  proof (cases r1)
    case (Inl e)
    with a Suc.prems have "isRetryable e" "export_loop n (i + 1) env wire work tr1 = (Inr (), tr')" by (auto split: if_splits)
    then show ?thesis using Suc.IH assms [OF Suc.prems(2)] a Inl by blast
  next
    case (Inr u)
    with a Suc.prems have "export_attempt env wire i (work i) tr = (Inr (), tr')" by simp
    then have "work i tr = (Inr (), tr') \<and> verify_reset env = None"
      by (auto simp: export_attempt_def split: option.splits prod.splits sum.splits)
    with Suc.prems(2) show ?thesis by blast
  qed
qed simp

section \<open>What an export delivers\<close>

definition start_transfer :: "ExportRequest \<Rightarrow> Transfer" where
  "start_transfer req = \<lparr>tr_out = [], tr_rows = 0, tr_prepared = None, tr_enc = NewEncoder (xr_Format req)\<rparr>"

lemma StreamExport_loop:
  "StreamExport codec ft env wire subject req d =
    (if sub_TenantID subject = nil_uuid
     then (Inl (Wrap ErrNoTenantContext (Text ''the token carried no tenant'')), start_transfer req)
     else export_loop MaxSerializationRetries 1 env wire
       (\<lambda>i. export_work codec ft (wi_stream wire i) (clock env) subject req d (read_conn env subject)) (start_transfer req))"
  by (simp add: StreamExport_def Let_def read_conn_def start_transfer_def)

lemma attempt_retryable:
  assumes "export_attempt env wire i (export_work codec ft (wi_stream wire i) now subject req d tc) tr = (Inl e, tr')" "isRetryable e"
    and "wi_stream wire i = None" "wi_commit wire i = None" "verify_reset env = None"
  shows "tr' = tr"
proof (cases "tx_fault env i")
  case None
  obtain r1 tr1 where w: "export_work codec ft None now subject req d tc tr = (r1, tr1)" by (rule prod.exhaust)
  with None assms have "r1 = Inl e" "tr1 = tr'" by (cases r1; simp add: export_attempt_def)+
  then show ?thesis using work_quiet [OF _ assms(2)] w by simp
qed (use assms(1) in \<open>simp add: export_attempt_def\<close>)


lemma StreamExport_headers:
  assumes "StreamExport codec ft env wire subject req d = (res, tr)"
  shows "headers_first tr \<and> (tr_prepared tr = None \<longrightarrow> isl res)"
proof (cases "sub_TenantID subject = nil_uuid")
  case True
  with assms show ?thesis by (auto simp: StreamExport_loop start_transfer_def headers_first_def)
next
  case False
  let ?w = "\<lambda>i. export_work codec ft (wi_stream wire i) (clock env) subject req d (read_conn env subject)"
  have l: "export_loop MaxSerializationRetries 1 env wire ?w (start_transfer req) = (res, tr)"
    using assms False by (simp add: StreamExport_loop)
  have st: "headers_first (start_transfer req)" by (simp add: headers_first_def start_transfer_def)
  have step: "headers_first (snd (?w i t))" if "headers_first t" for i t
    using work_headers [OF _ that] by (metis prod.collapse)
  have hf: "headers_first tr" using export_loop_keeps [of headers_first ?w, OF step st] l by (metis snd_conv)
  have "tr_prepared tr \<noteq> None" if "res = Inr ()"
  proof -
    have "\<exists>j tr0. headers_first tr0 \<and> ?w j tr0 = (Inr (), tr) \<and> verify_reset env = None"
    proof (rule export_loop_finished)
      show "headers_first t'" if "headers_first t" "export_attempt env wire i (?w i) t = (Inl e, t')" for i t e t'
        using that step [OF that(1), of i] by (auto simp: export_attempt_def split: option.splits prod.splits sum.splits)
      show "export_loop MaxSerializationRetries 1 env wire ?w (start_transfer req) = (Inr (), tr)" using l that by simp
    qed (rule st)
    then show ?thesis using work_headers by blast
  qed
  with hf show ?thesis by (cases res) auto
qed

text \<open>
  Headers go out before the first byte: an export that ends in an error before they are set has sent
  nothing, so that the error can still be an ordinary response, and a finished one has set them.
\<close>

theorem export_headers_first:
  "HandleExport sv ft env wire subject r d \<noteq> Completed [] out \<and>
   (HandleExport sv ft env wire subject r d = Refused reply \<longrightarrow>
     (\<forall>req. export_request (sv_codec sv) r = Inr req \<longrightarrow>
       tr_out (snd (StreamExport (sv_codec sv) ft env wire subject req d)) = []))"
proof (cases "export_request (sv_codec sv) r")
  case (Inl e)
  then show ?thesis by (simp add: HandleExport_def)
next
  case (Inr req)
  obtain res tr where s: "StreamExport (sv_codec sv) ft env wire subject req d = (res, tr)" by (rule prod.exhaust)
  from StreamExport_headers [OF s] have "headers_first tr" "tr_prepared tr = None \<Longrightarrow> isl res" by auto
  with Inr s show ?thesis
    by (auto simp: HandleExport_def headers_first_def setDownloadHeaders_def split: option.splits sum.splits)
qed

lemma export_limit: "- 1 \<le> l_ExportRows (Entitlement_Limits ent)"
  by (cases "EffectivePlan ent") (auto simp: Entitlement_Limits_def Let_def plan_row_def zero_plan_def Unlimited_def)


text \<open>
  C22. An export holds what the list endpoint shows, but only the status, the department and the dates of a
  filter count: the exported claims are those the list shows for the filter without category, submitter,
  amounts and search, and each of them is one the caller may read.
\<close>

theorem export_matches_listing:
  assumes "narrow actor f = Inr flt" "e_TenantID e = tc_tenantID tc" "rls tc (e_TenantID e)"
  shows "narrowToScope actor f = Inr flt \<and>
    (exported tc flt e \<longleftrightarrow> matches ilike (flt\<lparr>f_Category := None, f_SubmitterID := None, f_MinMinor := None,
       f_MaxMinor := None, f_Search := None\<rparr>) e) \<and>
    (exported tc flt e \<longrightarrow> canRead actor e = Inr ())"
proof (intro conjI)
  show "narrowToScope actor f = Inr flt" using assms(1) by (auto simp: narrow_def narrowToScope_def split: if_splits)
  show "exported tc flt e \<longleftrightarrow> matches ilike (flt\<lparr>f_Category := None, f_SubmitterID := None, f_MinMinor := None,
       f_MaxMinor := None, f_Search := None\<rparr>) e"
    using assms(2,3) by (auto simp: exported_def matches_def narg_def)
  show "exported tc flt e \<longrightarrow> canRead actor e = Inr ()"
    using assms(1) by (auto simp: canRead_iff narrow_def exported_def narg_def GovernsDepartment_iff read_own split: if_splits)
qed

text \<open>
  The transaction of an export may be tried again although its work writes to the client: when the
  first commit is refused as a serialization failure, the client is sent the report twice over.
\<close>

theorem retried_export_repeats:
  assumes "StreamExport codec ft env wire subject req d = (Inr (), tr)" "xr_Format req = FormatCSV"
    and quiet: "\<forall>i. wi_stream wire i = None \<and> wi_commit wire i = None" "verify_reset env = None" "tx_fault env 1 = None"
    and "isRetryable e" "\<not> tx_cancelled env 1"
    and "StreamExport codec ft env (wire\<lparr>wi_commit := (wi_commit wire)(1 := Some e)\<rparr>) subject req d = (Inr (), tr2)"
  shows "payload_bytes (tr_out tr2) = payload_bytes (tr_out tr) @ payload_bytes (tr_out tr)"
proof -
  let ?tc = "read_conn env subject"
  let ?w = "export_work codec ft None (clock env) subject req d ?tc"
  let ?wire2 = "wire\<lparr>wi_commit := (wi_commit wire)(1 := Some e)\<rparr>"
  have once: "?w (start_transfer req) = (Inr (), tr)"
  proof -
    have "export_loop MaxSerializationRetries 1 env wire (\<lambda>_. ?w) (start_transfer req) = (Inr (), tr)"
      using assms(1) quiet(1) by (simp add: StreamExport_loop split: if_splits)
    from export_loop_finished [where I = "\<lambda>t. t = start_transfer req", OF _ this]
    show ?thesis using attempt_retryable [of env wire _ codec ft "clock env" subject req d ?tc] quiet by auto
  qed
  have "export_loop MaxSerializationRetries 1 env ?wire2 (\<lambda>_. ?w) (start_transfer req) = (Inr (), tr2)"
    using assms(8) quiet(1) by (simp add: StreamExport_loop split: if_splits)
  moreover have "export_attempt env ?wire2 1 ?w (start_transfer req) = (Inl e, tr)" using once quiet(3) by (simp add: export_attempt_def)
  ultimately have l: "export_loop 2 2 env ?wire2 (\<lambda>_. ?w) tr = (Inr (), tr2)"
    using assms(6,7) by (simp add: MaxSerializationRetries_def numeral_3_eq_3 numeral_2_eq_2)
  have again: "?w tr = (Inr (), tr2)"
  proof -
    have "export_loop 2 2 env wire (\<lambda>_. ?w) tr = (Inr (), tr2)"
      using l export_loop_commits [of 2 ?wire2 wire 2 env "\<lambda>_. ?w" tr] by simp
    from export_loop_finished [where I = "\<lambda>t. t = tr", OF _ this]
    show ?thesis using attempt_retryable [of env wire _ codec ft "clock env" subject req d ?tc] quiet by auto
  qed
  obtain n where "tr_enc tr = CSVEnc n" using work_stays_csv [OF once] assms(2) by (auto simp: start_transfer_def NewEncoder_def)
  from work_csv [OF again this] obtain a2 f2 where a2: "acts_as d subject ?tc a2" "narrow a2 (xr_Filter req) = Inr f2"
    "payload_bytes (tr_out tr2) = payload_bytes (tr_out tr) @ utf8_bom @ concat (map csv_line (csv_report codec ?tc f2 d))" by blast
  have "tr_enc (start_transfer req) = CSVEnc 0" by (simp add: start_transfer_def NewEncoder_def assms(2))
  from work_csv [OF once this] obtain a1 f1 where a1: "acts_as d subject ?tc a1" "narrow a1 (xr_Filter req) = Inr f1"
    "payload_bytes (tr_out tr) = payload_bytes (tr_out (start_transfer req)) @ utf8_bom @ concat (map csv_line (csv_report codec ?tc f1 d))" by blast
  from acts_as_unique [OF a1(1) a2(1)] a1 a2 show ?thesis by (simp add: start_transfer_def)
qed

section \<open>Worked exports\<close>

lemma export_work_succeeds:
  assumes "Scope_body subject (export_setup now req) tc d = Inr ((meta, mx, flt), d1)" "fk_opt Status_Valid (f_Status flt)"
    and "mx = Unlimited \<or> int (tr_rows tr + length (export_claims tc flt d)) \<le> mx"
  shows "\<exists>tr'. export_work codec ft None now subject req d tc tr = (Inr (), tr') \<and>
    tr_rows tr' = tr_rows tr + length (export_claims tc flt d)"
proof -
  let ?tr2 = "sent (Enc_Open (tr_enc tr) meta) (tr\<lparr>tr_prepared := Some meta\<rparr>)"
  obtain res tr3 where s: "stream_rows codec ft mx None (map (export_row tc d) (export_claims tc flt d)) ?tr2 = (res, tr3)"
    by (rule prod.exhaust)
  have c: "enc_columns (tr_enc ?tr2) = length exportColumns" by (rule opened_columns [OF assms(1)])
  have "res = Inr ()" using stream_quiet [OF s c] assms(3) by auto
  with stream_steps [OF s c] s assms(1,2) show ?thesis
    by (simp add: export_work_def StreamForExport_def Let_def exportQuery_iff [THEN iffD2, OF conjI, OF assms(2) conjI, OF refl refl])
qed

definition demo_export :: ExportRequest where
  "demo_export = \<lparr>xr_Format = FormatCSV, xr_Filter = no_filter\<rparr>"

definition demo_wire :: Wire where
  "demo_wire = \<lparr>wi_stream = (\<lambda>_. None), wi_commit = (\<lambda>_. None)\<rparr>"

lemma demo_export_claims:
  "export_claims (read_conn demo_env (demo_subject 6)) no_filter demo_draft_db = [fst demo_filed]"
  by (simp add: export_claims_def demo_draft_db_def exported_def no_filter_def narg_def demo_claim rls_def demo_subject_def)

lemma demo_entitlement: "GetEntitlement (read_conn demo_env (demo_subject 6)) demo_draft_db = Inr (FreeEntitlement, demo_draft_db)"
  by (simp add: GetEntitlement_def Q_GetTenantEntitlement_def demo_draft_db_def demo_defs bind_tx_def try_tx_def asks_def
      lift_res_def one_row_def translate_def ret_def)

lemma demo_export_setup:
  "\<exists>meta. Scope_body (demo_subject 6) (export_setup now demo_export) (read_conn demo_env (demo_subject 6)) demo_draft_db
    = Inr ((meta, 1000, no_filter), demo_draft_db)"
proof -
  let ?tc = "read_conn demo_env (demo_subject 6)" and ?a = "demo_actor 6 RoleOwner"
  have act: "acts_as demo_draft_db (demo_subject 6) ?tc ?a"
    by (rule demo_acts(4)) (simp_all add: demo_draft_db_def demo_subject_def)
  have can: "Can ?a p" for p
    by (cases p) (simp_all add: Can_def Role_Allows_def demo_actor_def Active_def)
  have org: "GetTenant ?tc demo_draft_db = Inr (demo_tenant, demo_draft_db)"
    by (simp add: GetTenant_def Q_GetTenant_def demo_draft_db_def demo_defs bind_tx_def asks_def map_err_def
        lift_res_def one_row_def own_tenant_def rls_def)
  have "\<exists>meta. export_setup now demo_export ?tc ?a demo_draft_db = Inr ((meta, 1000, no_filter), demo_draft_db)"
    unfolding export_setup_Inr using demo_entitlement org can
    by (auto simp: narrow_def demo_export_def Allows_def Entitlement_Limits_def EffectivePlan_def FreeEntitlement_def plan_row_def IsLive_def Let_def)
  then show ?thesis using act unfolding setup_Inr by blast
qed

lemma demo_export_work:
  assumes "tr_rows tr < 1000"
  shows "\<exists>tr'. export_work codec ft None now (demo_subject 6) demo_export demo_draft_db
    (read_conn demo_env (demo_subject 6)) tr = (Inr (), tr') \<and> tr_rows tr' = tr_rows tr + 1"
proof -
  let ?tc = "read_conn demo_env (demo_subject 6)"
  obtain meta where m: "Scope_body (demo_subject 6) (export_setup now demo_export) ?tc demo_draft_db = Inr ((meta, 1000, no_filter), demo_draft_db)"
    using demo_export_setup by blast
  have "fk_opt Status_Valid (f_Status no_filter)" by (simp add: no_filter_def fk_opt_def)
  from export_work_succeeds [OF m this, of tr codec ft] assms show ?thesis by (simp add: demo_export_claims)
qed

lemma demo_subject_tenant: "sub_TenantID (demo_subject i) = 1"
  by (simp add: demo_subject_def)

lemma start_rows [simp]: "tr_rows (start_transfer req) = 0"
  by (simp add: start_transfer_def)

lemma demo_env_quiet: "tx_fault demo_env i = None" "\<not> tx_cancelled demo_env i"
  by (simp_all add: demo_env_def)

lemma demo_export_done:
  "\<exists>tr. StreamExport codec ft demo_env demo_wire (demo_subject 6) demo_export demo_draft_db = (Inr (), tr)"
proof -
  let ?w = "export_work codec ft None (clock demo_env) (demo_subject 6) demo_export demo_draft_db (read_conn demo_env (demo_subject 6))"
  obtain tr where "?w (start_transfer demo_export) = (Inr (), tr)"
    using demo_export_work [of "start_transfer demo_export" codec ft "clock demo_env"] by auto
  then show ?thesis
    by (simp add: StreamExport_loop MaxSerializationRetries_def numeral_3_eq_3 export_attempt_def demo_env_quiet demo_wire_def demo_subject_tenant)
qed


definition demo_export_query :: Request where
  "demo_export_query = demo_request\<lparr>rq_Query := (\<lambda>k. if k = ''format'' then [''csv''] else [])\<rparr>"

lemma demo_export_request: "export_request codec demo_export_query = Inr demo_export"
proof -
  have trim: "TrimSpace ''csv'' = ''csv''" by code_simp
  have "q_filter codec demo_export_query [] = (no_filter, [])"
    by (simp add: q_filter_def optional_def raw_def demo_export_query_def q_status_def q_category_def q_uuid_def q_date_def q_int64_def
        q_search_def no_filter_def)
  then show ?thesis
    by (simp add: export_request_def demo_export_query_def raw_def trim ParseFormat_def bind_res_def Err_def demo_export_def)
qed

theorem export_headers_first_witness:
  "\<forall>sv :: unit Server. \<exists>reply.
    HandleExport sv (\<lambda>_. []) demo_env demo_wire ((demo_subject 6)\<lparr>sub_TenantID := 0\<rparr>) demo_export_query demo_db = Refused reply \<and>
    tr_out (snd (StreamExport (sv_codec sv) (\<lambda>_. []) demo_env demo_wire ((demo_subject 6)\<lparr>sub_TenantID := 0\<rparr>) demo_export demo_db)) = []"
proof
  fix sv :: "unit Server"
  let ?s = "(demo_subject 6)\<lparr>sub_TenantID := 0\<rparr>"
  have "\<exists>reply. HandleExport sv (\<lambda>_. []) demo_env demo_wire ?s demo_export_query demo_db = Refused reply"
    by (simp add: HandleExport_def demo_export_request StreamExport_def)
  then show "\<exists>reply. HandleExport sv (\<lambda>_. []) demo_env demo_wire ?s demo_export_query demo_db = Refused reply \<and>
    tr_out (snd (StreamExport (sv_codec sv) (\<lambda>_. []) demo_env demo_wire ?s demo_export demo_db)) = []"
    using export_headers_first [of sv "\<lambda>_. []" demo_env demo_wire ?s demo_export_query demo_db] demo_export_request by blast
qed


theorem export_matches_listing_witness:
  "\<exists>flt. narrow ((demo_actor 4 RoleManager)\<lparr>a_DepartmentID := Some 2\<rparr>) (no_filter\<lparr>f_Category := Some CategoryMeals\<rparr>) = Inr flt \<and>
    exported (read_conn demo_env (demo_subject 4)) flt ((fst demo_filed)\<lparr>e_DepartmentID := Some 2, e_Category := CategoryTravel\<rparr>) \<and>
    canRead ((demo_actor 4 RoleManager)\<lparr>a_DepartmentID := Some 2\<rparr>) ((fst demo_filed)\<lparr>e_DepartmentID := Some 2, e_Category := CategoryTravel\<rparr>) = Inr ()"
proof -
  let ?a = "(demo_actor 4 RoleManager)\<lparr>a_DepartmentID := Some 2\<rparr>" and ?e = "(fst demo_filed)\<lparr>e_DepartmentID := Some 2, e_Category := CategoryTravel\<rparr>"
  let ?flt = "no_filter\<lparr>f_Category := Some CategoryMeals, f_DepartmentID := Some 2\<rparr>"
  have n: "narrow ?a (no_filter\<lparr>f_Category := Some CategoryMeals\<rparr>) = Inr ?flt"
    by (simp add: narrow_def Can_def Role_Allows_def demo_actor_def Active_def no_filter_def)
  have "matches (\<lambda>_ _. False) (?flt\<lparr>f_Category := None, f_SubmitterID := None, f_MinMinor := None, f_MaxMinor := None, f_Search := None\<rparr>) ?e"
    by (simp add: matches_def no_filter_def narg_def)
  with export_matches_listing [OF n, of ?e "read_conn demo_env (demo_subject 4)" "\<lambda>_ _. False"] n show ?thesis
    by (simp add: demo_claim rls_def demo_subject_def)
qed

theorem retried_export_repeats_witness:
  "\<exists>tr tr2. StreamExport demo_codec (\<lambda>_. []) demo_env demo_wire (demo_subject 6) demo_export demo_draft_db = (Inr (), tr) \<and>
    StreamExport demo_codec (\<lambda>_. []) demo_env (demo_wire\<lparr>wi_commit := (wi_commit demo_wire)(1 := Some (pg ''40001'' []))\<rparr>)
      (demo_subject 6) demo_export demo_draft_db = (Inr (), tr2) \<and>
    payload_bytes (tr_out tr2) = payload_bytes (tr_out tr) @ payload_bytes (tr_out tr)"
proof -
  let ?w = "export_work demo_codec (\<lambda>_. []) None (clock demo_env) (demo_subject 6) demo_export demo_draft_db (read_conn demo_env (demo_subject 6))"
  let ?wire2 = "demo_wire\<lparr>wi_commit := (wi_commit demo_wire)(1 := Some (pg ''40001'' []))\<rparr>"
  obtain tr1 where w1: "?w (start_transfer demo_export) = (Inr (), tr1)" "tr_rows tr1 = 1"
    using demo_export_work [of "start_transfer demo_export" demo_codec "\<lambda>_. []" "clock demo_env"] by auto
  then obtain tr2 where w2: "?w tr1 = (Inr (), tr2)"
    using demo_export_work [of tr1 demo_codec "\<lambda>_. []" "clock demo_env"] by auto
  have "export_attempt demo_env ?wire2 1 ?w (start_transfer demo_export) = (Inl (pg ''40001'' []), tr1)"
    "export_attempt demo_env ?wire2 2 ?w tr1 = (Inr (), tr2)" "isRetryable (pg ''40001'' [])"
    using w1 w2 by (simp_all add: export_attempt_def demo_env_quiet demo_wire_def pg_def)
  then have two: "StreamExport demo_codec (\<lambda>_. []) demo_env ?wire2 (demo_subject 6) demo_export demo_draft_db = (Inr (), tr2)"
    by (simp add: StreamExport_loop MaxSerializationRetries_def numeral_3_eq_3 demo_env_quiet demo_subject_tenant demo_wire_def numeral_2_eq_2)
  obtain tr where one: "StreamExport demo_codec (\<lambda>_. []) demo_env demo_wire (demo_subject 6) demo_export demo_draft_db = (Inr (), tr)"
    using demo_export_done by blast
  have "payload_bytes (tr_out tr2) = payload_bytes (tr_out tr) @ payload_bytes (tr_out tr)"
    by (rule retried_export_repeats [OF one _ _ _ _ _ _ two]) (simp_all add: demo_export_def demo_wire_def demo_env_quiet pg_def)
  with one two show ?thesis by blast
qed

end
