(* ===== verification/Http_Demo.thy ===== *)
theory Http_Demo
  imports Http_Router_Props Report_Props Auth_Demo Attachment_Demo
begin

text \<open>A small server behind the router, on which the theorems about every request are exercised.\<close>

definition demo_json :: Json where
  "demo_json = \<lparr>js_draft = (\<lambda>_. DecodeEOF), js_transition = (\<lambda>_. DecodeEOF), js_department = (\<lambda>_. DecodeEOF), js_budget = (\<lambda>_. DecodeEOF),
     js_vendor = (\<lambda>_. DecodeEOF), js_invite = (\<lambda>_. DecodeEOF), js_member = (\<lambda>_. DecodeEOF), js_upload = (\<lambda>_. DecodeEOF),
     js_confirm = (\<lambda>_. DecodeEOF), js_register = (\<lambda>_. DecodeEOF), js_login = (\<lambda>_. DecodeEOF), js_switch = (\<lambda>_. DecodeEOF),
     js_organisation = (\<lambda>_. DecodeEOF), js_password = (\<lambda>_. DecodeEOF), js_checkout = (\<lambda>_. DecodeEOF), js_portal = (\<lambda>_. DecodeEOF)\<rparr>"

definition demo_server :: "Jwt \<Rightarrow> shelf Server" where
  "demo_server j = \<lparr>sv_codec = demo_codec, sv_upper = (\<lambda>x. x), sv_lower = (\<lambda>x. x), sv_ilike = (\<lambda>_ _. False), sv_net = demo_net,
     sv_json = demo_json, sv_auth = demo_svc\<lparr>as_jwt := j\<rparr>, sv_files = demo_receipts, sv_gateway = None, sv_secureCookies = True,
     sv_trustedProxies = 0, sv_downloads = (tk_Secret demo_tokens, ''tracker''), sv_hmac = (\<lambda>_ _. []), sv_unmarshal = (\<lambda>_. None),
     sv_jsonb = (\<lambda>s. Some s), sv_relay = \<lparr>rl_secret = [], rl_tolerance = DefaultTolerance\<rparr>\<rparr>"

definition demo_router :: RouterConfig where
  "demo_router = \<lparr>rc_APITimeout = 0, rc_ExportTimeout = 0, rc_RelayTimeout = 0,
     rc_CORS = \<lparr>AllowedOrigins = [], AllowedMethods = [], AllowedHeaders = [], ExposedHeaders = [], MaxAgeSeconds = 0\<rparr>,
     rc_TrustedProxies = 0\<rparr>"

text \<open>Routing for paths without parameters.\<close>

definition demo_chi :: chi where
  "demo_chi table m p = (case List.find (\<lambda>(m', p', _). m' = m \<and> p' = p) table of None \<Rightarrow> NotFound | Some (_, _, e) \<Rightarrow> Found e [])"

lemma demo_chi_ok: "chi_ok demo_chi"
  by (auto simp: chi_ok_def demo_chi_def find_Some_iff split: option.splits) (metis nth_mem)

definition demo_world :: "shelf World" where
  "demo_world = \<lparr>wo_db = demo_draft_db, wo_objects = [], wo_authLimit = Some (NewRateLimiter 1 2), wo_writeLimit = None\<rparr>"

definition demo_call :: "string \<Rightarrow> string \<Rightarrow> Request \<Rightarrow> Call" where
  "demo_call m p r = \<lparr>cl_method = m, cl_path = p, cl_request = r, cl_envs = (\<lambda>_. demo_env), cl_fresh = ''id'', cl_reachable = True,
     cl_wire = demo_wire, cl_float = (\<lambda>_. [])\<rparr>"

text \<open>Token libraries that accept everything, nothing, and what they signed.\<close>

definition open_jwt :: Jwt where
  "open_jwt = demo_jwt\<lparr>jwt_parse := (\<lambda>_ _ _ _ _. Inr \<lparr>cl_Subject = ''u'', cl_Issuer = [], cl_Audience = [], cl_IssuedAt = 0, cl_NotBefore = 0,
     cl_ExpiresAt = 0, cl_ID = [], cl_TenantID = ''t'', cl_Email = [], cl_Query = []\<rparr>), jwt_uuid_parse := (\<lambda>_. Some 1)\<rparr>"

definition closed_jwt :: Jwt where
  "closed_jwt = demo_jwt\<lparr>jwt_parse := (\<lambda>_ _ _ _ _. Inl (JwtOther ''no''))\<rparr>"

definition link_jwt :: Jwt where
  "link_jwt = demo_jwt\<lparr>jwt_sign := (\<lambda>s c. Inr (CHR ''t'' # claims_code s c)), jwt_parse := (\<lambda>s i a now tok. jwt_parse demo_jwt s i a now (tl tok))\<rparr>"

lemma link_jwt_ok: "jwt_ok link_jwt" "jwt_sign link_jwt s c = Inr tok \<Longrightarrow> tok \<noteq> []"
  by (auto simp: jwt_ok_def link_jwt_def demo_jwt_def split: if_splits)

theorem get_changes_nothing_witness:
  "snd (NewRouter demo_chi (demo_server open_jwt) demo_router (demo_call ''GET'' ''/api/v1/expenses'' demo_request) demo_world) = demo_world"
  by (rule get_changes_nothing [OF demo_chi_ok]) (simp add: demo_call_def)

lemma demo_route: "demo_chi routes ''GET'' ''/api/v1/me'' = Found EpMe []" "demo_chi routes ''POST'' ''/api/v1/auth/login'' = Found EpLogin []"
  by (simp_all add: demo_chi_def routes_def)


theorem credential_attempts_bounded_witness:
  "of_nat (attempts demo_chi (demo_server closed_jwt) demo_router ''proxy'' demo_world
     (replicate 3 (demo_call ''POST'' ''/api/v1/auth/login'' demo_request))) \<le> (2 :: rat)"
proof -
  have "of_nat (attempts demo_chi (demo_server closed_jwt) demo_router ''proxy'' demo_world
     (replicate 3 (demo_call ''POST'' ''/api/v1/auth/login'' demo_request))) \<le>
     rl_capacity (NewRateLimiter 1 2) + seconds_since (clock demo_env) (clock demo_env) * rl_rate (NewRateLimiter 1 2)"
    by (rule credential_attempts_bounded [OF demo_chi_ok _ rl_ok_New]) (auto simp: demo_world_def demo_call_def)
  then show ?thesis by (simp add: NewRateLimiter_def)
qed

theorem download_link_admits_witness:
  "\<exists>url expires. rs_Body (IssueDownloadToken (demo_server link_jwt) demo_env (demo_subject 6) demo_export_query) = Payload (DownloadTicket url expires) \<and>
    (\<exists>r'. AllowBearerOrDownloadToken demo_net (\<lambda>_. Inl NoRows) (download_parser (demo_server link_jwt) (clock demo_env)) r'
      = (Inr (demo_subject 6) :: reply + Subject))"
proof -
  let ?sv = "demo_server link_jwt"
  obtain url expires where b: "rs_Body (IssueDownloadToken ?sv demo_env (demo_subject 6) demo_export_query) = Payload (DownloadTicket url expires)"
    by (auto simp: IssueDownloadToken_def demo_export_request demo_server_def Download_Issue_def demo_subject_def link_jwt_def bind_res_def writeJSON_def Let_def)
  have parts: "as_jwt (sv_auth ?sv) = link_jwt" "sv_net ?sv = demo_net" by (simp_all add: demo_server_def)
  from download_link_admits [of ?sv demo_env "demo_subject 6" demo_export_query url expires "clock demo_env" "\<lambda>_. Inl NoRows", unfolded parts]
  obtain token where t: "\<forall>r'. bearerToken demo_net r' = None \<and> rq_Query r' DownloadQueryParam = [token] \<longrightarrow>
      (AllowBearerOrDownloadToken demo_net (\<lambda>_. Inl NoRows) (download_parser ?sv (clock demo_env)) r' :: reply + Subject) =
      (if clock demo_env < truncate_to second (clock demo_env + DownloadTokenTTL) \<and>
          nt_encode demo_net ((rq_Query r')(DownloadQueryParam := [])) = nt_encode demo_net ((rq_Query demo_export_query)(DownloadQueryParam := []))
       then Inr \<lparr>sub_UserID = sub_UserID (demo_subject 6), sub_TenantID = sub_TenantID (demo_subject 6), sub_Email = [], sub_TokenID = []\<rparr>
       else Inl (unauthorized ''invalid or expired download link''))"
    using link_jwt_ok b by (auto simp: parts)
  let ?r = "demo_request\<lparr>rq_Query := (\<lambda>_. [token])\<rparr>"
  have "bearerToken demo_net ?r = None" by (simp add: bearerToken_def demo_request_def)
  with t have "AllowBearerOrDownloadToken demo_net (\<lambda>_. Inl NoRows) (download_parser ?sv (clock demo_env)) ?r = (Inr (demo_subject 6) :: reply + Subject)"
    by (simp add: demo_net_def demo_env_def DownloadTokenTTL_def second_def truncate_to_def demo_subject_def)
  with b show ?thesis by blast
qed

lemma demo_server_net: "sv_net (demo_server j) = demo_net"
  by (simp add: demo_server_def)

text \<open>A member whose request meets a database that is gone.\<close>

definition demo_outage :: Call where
  "demo_outage = (demo_call ''GET'' ''/api/v1/me'' (demo_request\<lparr>rq_Header := (\<lambda>k. if k = ''Authorization'' then ''Bearer x'' else [])\<rparr>))
     \<lparr>cl_envs := (\<lambda>_. demo_env\<lparr>tx_fault := (\<lambda>_. Some (Opaque (Text ''dial tcp 10.0.0.7:5432'')))\<rparr>)\<rparr>"

theorem server_errors_are_fixed_texts_witness:
  "\<exists>resp b s. ordinary (fst (NewRouter demo_chi (demo_server open_jwt) demo_router demo_outage demo_world)) = Some resp \<and>
    rs_Status resp = 500 \<and> rs_Body resp = ErrorBody b \<and> eb_Message b = Fixed s"
proof -
  let ?env = "demo_env\<lparr>tx_fault := (\<lambda>_. Some (Opaque (Text ''dial tcp 10.0.0.7:5432'')))\<rparr>"
  let ?r = "RequestID ''id'' (demo_request\<lparr>rq_Header := (\<lambda>k. if k = ''Authorization'' then ''Bearer x'' else [])\<rparr>)"
  have bearer: "bearerToken demo_net ?r = Some ''x''"
  proof -
    have "Cut CHR '' '' ''Bearer x'' = Some (''Bearer'', ''x'')" by code_simp
    moreover have "EqualFold (\<lambda>_ _. False) ''Bearer'' ''bearer''" by code_simp
    moreover have "TrimSpace ''x'' = ''x''" by code_simp
    ultimately show ?thesis by (simp add: bearerToken_def RequestID_def demo_net_def Let_def)
  qed
  have tok: "bearer_parser (demo_server open_jwt) now x = Inr \<lparr>sub_UserID = 1, sub_TenantID = 1, sub_Email = [], sub_TokenID = []\<rparr>" for now x
    by (simp add: bearer_parser_def demo_server_def Token_Parse_def open_jwt_def parse_ids_def bind_res_def)
  have me: "Me ?env \<lparr>sub_UserID = 1, sub_TenantID = 1, sub_Email = [], sub_TokenID = []\<rparr> d = (Inl (Opaque (Text ''dial tcp 10.0.0.7:5432'')), d)" for d
    by (simp add: Me_def Scope_Read_def Scope_run_def WithTenantTx_def runTx_def MaxSerializationRetries_def numeral_3_eq_3 attemptTx_def)
  have "\<exists>resp b. ordinary (fst (NewRouter demo_chi (demo_server open_jwt) demo_router demo_outage demo_world)) = Some resp \<and>
    rs_Status resp = 500 \<and> rs_Body resp = ErrorBody b"
  proof -
    have auth: "(RequireAuth demo_net (bearer_parser (demo_server open_jwt) now) ?r :: reply + Subject) = Inr \<lparr>sub_UserID = 1, sub_TenantID = 1, sub_Email = [], sub_TokenID = []\<rparr>" for now
      using bearer by (simp add: RequireAuth_def tok)
    have "\<exists>resp b. ordinary (fst (serve_group (demo_server open_jwt) demo_router demo_outage ?r EpMe [] demo_world)) = Some resp \<and>
        rs_Status resp = 500 \<and> rs_Body resp = ErrorBody b"
      using auth [of "clock ?env"]
      by (simp add: serve_group_def Let_def demo_server_net demo_outage_def demo_call_def run_on_def member_handler_def on_db_def Handle_Me_def respond_def
          me writeError_def classify_def writeJSON_def)
    moreover have "demo_chi routes (cl_method demo_outage) (cl_path demo_outage) = Found EpMe []"
      by (simp add: demo_outage_def demo_call_def demo_route)
    moreover have "RequestID (cl_fresh demo_outage) (cl_request demo_outage) = ?r" by (simp add: demo_outage_def demo_call_def)
    ultimately show ?thesis
      by (auto simp: NewRouter_def Let_def demo_router_def ordinary_headers)
  qed
  then show ?thesis using server_errors_are_fixed_texts [of demo_chi "demo_server open_jwt" demo_router demo_outage demo_world] by fastforce
qed

end
