(* ===== verification/Spec2Isabelle.thy ===== *)
theory Spec2Isabelle
  imports Served_Demo Expense_Listing Auth_Demo Billing_Demo Org_Demo Worker_Demo Attachment_Demo Http_Demo
begin

text \<open>
  A verification of the back end of the expense tracker: the Go program under \<^verbatim>\<open>src/internal\<close>.
  Paths below are relative to that directory.

  \<^bold>\<open>The program.\<close> Organisations (tenants) file expense claims that are submitted, approved or rejected
  and paid by different members; they keep departments, budgets, recurring vendor subscriptions and receipts;
  they pay for a plan through an external payment gateway that reports back by signed deliveries. An API
  process serves HTTP requests: a middleware chain authenticates and limits them, a handler decodes the
  request and calls one service, the service opens a transaction bound to the caller's organisation, resolves
  the caller's membership and runs repository calls over PostgreSQL, whose row-level policies and constraints
  are a second line of defence. A worker process sends notifications, files recurring charges, alerts on
  budgets and re-applies deliveries a crash left open.

  \<^bold>\<open>Shared theories.\<close> \<open>Prelude\<close>: machine integers at their width, strings as byte lists with the library
  functions the program calls, results. \<open>Errors\<close>: the sentinels, wrapping and \<^verbatim>\<open>errors.Is\<close>, the
  validator. \<open>Encoding\<close>: hex and base64 with their round trips. \<open>Calendar\<close>: civil dates and \<^verbatim>\<open>AddDate\<close>.

  \<^bold>\<open>Domain (\<^verbatim>\<open>domain/\<close>).\<close> \<open>Money\<close>, \<open>Paging\<close>, \<open>Tenant\<close>, \<open>Expense\<close>, \<open>Entitlement\<close> and \<open>Org\<close> follow the
  packages \<^verbatim>\<open>shared\<close>, \<^verbatim>\<open>tenant\<close>, \<^verbatim>\<open>expense\<close>, \<^verbatim>\<open>billing\<close> and \<^verbatim>\<open>org\<close> function by function.
  \<open>Expense_Props\<close> shows of the claim state machine that its moves are the declared edges, that the actions
  offered are exactly those that would succeed, that the ledger of events determines the claim, that a
  paid claim passed four eyes, and that every claim can be settled.

  \<^bold>\<open>Persistence (\<^verbatim>\<open>platform/postgres\<close>, \<^verbatim>\<open>repository/postgres\<close>).\<close> \<open>Database\<close> has the tables as lists of
  rows, the transaction runner with its retries, row-level policies, constraints and their translation to
  errors, and the locale \<open>effect_relation\<close>: a reflexive and transitive relation between the database before
  and after, with one rule per combinator, which the invariants and frame conditions of all services
  interpret. \<open>Tenancy_Repo\<close>, \<open>Expense_Repo\<close>, \<open>Billing_Repo\<close>, \<open>Org_Repo\<close> and \<open>Attachment_Repo\<close> have one
  definition per generated statement and per repository method, with the constraints of the migrations.
  A statement is a function from the database to an error or a value and a new database (\<open>tx\<close>); a call is a
  function from the database to a result and the database it leaves (\<open>act\<close>). What surrounds a call (clock,
  fresh identifiers, faults of each attempt, locks held by others, collation) is the record \<open>Runtime\<close>;
  a call that spans several transactions takes one for each.

  \<^bold>\<open>Services (\<^verbatim>\<open>service/\<close>).\<close> \<open>Scope\<close> binds a transaction to an organisation and resolves the actor.
  \<open>Expense_Service\<close>: \<open>Expense_Service_Props\<close> and \<open>Isolation\<close> show that every reachable database satisfies
  the ledger invariant, that stale writes are refused, and that no call reads or writes another
  organisation's rows; \<open>Expense_Listing\<close> that following the page tokens shows each visible claim once.
  \<open>Auth\<close> and \<open>Auth_Service\<close>: tokens round-trip, a refresh token presented twice ends its family for good, and a
  session needs the password and a usable membership. \<open>Relay\<close>, \<open>Billing_Service\<close>: a delivery is verified exactly
  when its signature is, takes effect at most once, and the newest event decides (an instance of the locale
  \<open>lww_register\<close>). \<open>Org_Service\<close>: plan limits, ownership and budget envelopes are invariants of every
  sequence of calls. \<open>Attachment_Service\<close> over an object store (\<open>Storage\<close>): receipts of a submitted claim are
  fixed and point at stored objects.

  \<^bold>\<open>Worker (\<^verbatim>\<open>worker/\<close>, \<^verbatim>\<open>notify/\<close>).\<close> \<open>Worker\<close> and \<open>Notify\<close>: each charge is filed once, the sweep files what
  is due, and the members who can act on a claim are told.

  \<^bold>\<open>Reports (\<^verbatim>\<open>export/\<close>, \<^verbatim>\<open>service/report_service.go\<close>).\<close> \<open>Runes\<close> reads a string as Go's \<^verbatim>\<open>range\<close> does.
  \<open>Export\<close>, \<open>Export_Xlsx\<close> and \<open>Export_Pdf\<close> have the three writers down to the text they emit, with readers
  against which the escaping of each is proved; \<open>Export_Pdf_Props\<close> that text is cut to its column and that
  the cross-reference table leads to every object. \<open>Report_Service\<close> streams the query through an encoder inside
  a transaction that may be tried again; \<open>Report_Props\<close> states the contract of an encoder as the locale
  \<open>row_encoder\<close>, interpreted on the three formats, and shows what a finished export holds, that headers go out
  first, that the plan's limit binds, and what a repeated attempt sends.

  \<^bold>\<open>HTTP (\<^verbatim>\<open>transport/http\<close>).\<close> \<open>Http\<close> has responses, the mapping of errors to status codes and the reading of
  requests; \<open>Rate_Limit\<close> the token bucket, with the bound it promises; \<open>Http_Middleware\<close> authentication,
  client addresses and CORS; \<open>Http_Handlers\<close>, \<open>Http_Org\<close>, \<open>Http_Accounts\<close> and \<open>Http_Export\<close> the handlers
  (\<^verbatim>\<open>handler/\<close>); \<open>Http_Router\<close> the route table, the groups and the chain of middlewares, up to what one
  request does to the database, the object store and the limits. \<open>Http_Router_Props\<close> shows of every route
  that GET changes nothing, that nothing happens without an accepted token, that server errors carry fixed
  texts, that credential attempts are bounded per address and that a download link admits whom it was made
  for.

  \<^bold>\<open>Demonstrations.\<close> The theories \<open>Demo_World\<close>, \<open>Served_Demo\<close>, \<open>Auth_Demo\<close>, \<open>Billing_Demo\<close>, \<open>Org_Demo\<close>,
  \<open>Worker_Demo\<close>, \<open>Attachment_Demo\<close> and \<open>Http_Demo\<close> run the model on a small organisation and instantiate the theorems
  that have hypotheses.

  \<^bold>\<open>Bounds and loops.\<close> A transaction is tried three times, as in the source, so its loop recurses on the
  attempts left; so does the loop of an export. The recurring sweep need not end: it is a partial function into \<open>option\<close>, one theorem gives
  conditions under which it returns and another a database on which it does not.

  \<^bold>\<open>Idealisations.\<close> The JSON decoder, HMAC, SHA-256, bcrypt, the JWT library, the text of a UUID, RFC 3339
  times and Unicode case folding are parameters; where a theorem relies on them, a named hypothesis says
  what is documented, and a witness instantiates it. Float64 token counts of the rate limiter
  and coordinates of the report writers are rationals; the shortest decimal text of a float and the canonical
  text of a URL query are parameters, and so is the matching of a path against the registered routes (chi).
  The ZIP container of a spreadsheet is kept as the list of its parts. Statements of one transaction run without interleaving; what others do in between shows as the
  \<open>Runtime\<close>'s faults and locks and in the arbitrary database each transaction starts from.

  \<^bold>\<open>Not modelled.\<close> The S3 wire protocol (\<^verbatim>\<open>storage/s3.go\<close>), SMTP and the text of mails (\<^verbatim>\<open>notify/smtp.go\<close>,
  \<^verbatim>\<open>render.go\<close>) and the HTTP client of the gateway (\<^verbatim>\<open>gateway/client.go\<close>) talk to other systems and are
  parameters; panic recovery, the access log, deadlines of contexts, configuration, logging, seed data,
  migrations, process start and the queue library's bookkeeping are left out.
\<close>

section \<open>Properties that span the components\<close>

text \<open>
  C1. Four eyes in the database: in every database the expense service can produce, through any sequence
  of calls by any users of any organisations, a claim whose status is paid has a ledger ending in a
  submission by its submitter, an approval and a payment by three different members, all for the
  amount the row carries.
\<close>

theorem served_paid_four_eyes:
  assumes "served d" and "e \<in> set (expenses d)" and "e_Status e = StatusPaid"
  shows "\<exists>pre s a p approver payer. claim_ledger d e = pre @ [s, a, p] \<and>
    ev_Action s = EventSubmitted \<and> ev_ActorID s = Some (e_SubmitterID e) \<and>
    ev_Action a = EventApproved \<and> ev_ActorID a = Some approver \<and>
    ev_Action p = EventPaid \<and> ev_ActorID p = Some payer \<and>
    distinct [e_SubmitterID e, approver, payer] \<and>
    ev_Amount s = e_Amount e \<and> ev_Amount a = e_Amount e \<and> ev_Amount p = e_Amount e"
proof -
  have "ledger_inv e (claim_ledger d e)"
    using served_inv [OF assms(1)] assms(2) by (simp add: claims_inv_def)
  with assms(3) show ?thesis by (rule ledger_inv_paid [rotated])
qed

theorem served_paid_four_eyes_witness:
  "\<exists>d pre s a p. served d \<and> demo_paid \<in> set (expenses d) \<and> claim_ledger d demo_paid = pre @ [s, a, p] \<and>
    ev_Action a = EventApproved"
proof -
  obtain evs n where s: "served (one_claim demo_paid evs n)" using demo_served by blast
  moreover have m: "demo_paid \<in> set (expenses (one_claim demo_paid evs n))" by (simp add: one_claim_def)
  ultimately show ?thesis using served_paid_four_eyes [OF s m demo_paid_status] by blast
qed

text \<open>
  C3. Another organisation's rows are out of reach: whatever call of the expense service a user makes,
  the rows of every organisation other than the token's, in every table, are as before.
\<close>

theorem foreign_rows_untouched:
  assumes "claim_call subject d d'"
  shows "others (sub_TenantID subject) d' = others (sub_TenantID subject) d"
  using assms by (rule claim_call_frame)

theorem foreign_rows_untouched_witness:
  "\<exists>d'. Service_Delete demo_env (demo_subject 3) 9 demo_draft_db = (Inr (), d') \<and> others 1 d' = others 1 demo_draft_db"
proof -
  obtain d' where d': "Service_Delete demo_env (demo_subject 3) 9 demo_draft_db = (Inr (), d')" using demo_delete by blast
  then have "claim_call (demo_subject 3) demo_draft_db d'" by (metis claim_call.intros(5) snd_conv)
  from foreign_rows_untouched [OF this] d' show ?thesis by (simp add: demo_conn_simps)
qed

end
